(* ===== verification/Fresh_Prelude.thy ===== *)
theory Fresh_Prelude
  imports Main "HOL-Library.Sublist"
begin

text \<open>
  What the component theories share: the collections their automation is declared into, a generic
  rule for invariants of operation sequences, and lemmas on lists and association lists.
\<close>

named_theorems js_run \<open>unfolding rules of the script monad and of the calls it makes\<close>
named_theorems repo_simps \<open>rules of the stored server list\<close>
named_theorems ip_simps \<open>rules of the address prefixes\<close>

section \<open>Sequences of operations\<close>

text \<open>
  A component is a step function on its state.  \<open>runs\<close> applies a sequence of operations; the locale
  \<open>preserved\<close> is the contract "every operation keeps the invariant", from which every reachable
  state satisfies it.
\<close>

fun runs :: "('op \<Rightarrow> 's \<Rightarrow> 's) \<Rightarrow> 'op list \<Rightarrow> 's \<Rightarrow> 's" where
  "runs f [] s = s"
| "runs f (x # xs) s = runs f xs (f x s)"

lemma runs_append: "runs f (xs @ ys) s = runs f ys (runs f xs s)"
  by (induction xs arbitrary: s) auto

locale preserved =
  fixes step :: "'op \<Rightarrow> 's \<Rightarrow> 's" and invar :: "'s \<Rightarrow> bool"
  assumes step_invar: "invar s \<Longrightarrow> invar (step x s)"
begin

lemma runs_invar: "invar s \<Longrightarrow> invar (runs step xs s)"
  by (induction xs arbitrary: s) (auto intro: step_invar)

end

section \<open>Lists\<close>

lemma find_Some_split:
  "find P xs = Some x \<Longrightarrow> \<exists>us vs. xs = us @ x # vs \<and> P x \<and> (\<forall>u \<in> set us. \<not> P u)"
proof (induction xs)
  case Nil
  then show ?case by simp
next
  case (Cons y ys)
  show ?case
  proof (cases "P y")
    case True
    with Cons.prems have "y # ys = [] @ x # ys \<and> P x" by simp
    then show ?thesis by fastforce
  next
    case False
    with Cons obtain us vs where "ys = us @ x # vs" "P x" "\<forall>u \<in> set us. \<not> P u" by auto
    with False have "y # ys = (y # us) @ x # vs \<and> P x \<and> (\<forall>u \<in> set (y # us). \<not> P u)" by simp
    then show ?thesis by blast
  qed
qed

lemma sorted_wrt_split:
  "sorted_wrt R (us @ x # vs) \<Longrightarrow> v \<in> set vs \<Longrightarrow> R x v"
  by (simp add: sorted_wrt_append)

lemma map_of_mem_distinct:
  "distinct (map fst kvs) \<Longrightarrow> (k, v) \<in> set kvs \<Longrightarrow> map_of kvs k = Some v"
  by (rule map_of_is_SomeI)

end
