(* ===== verification/Js_Core.thy ===== *)
theory Js_Core
  imports Fresh_Prelude Complex_Main "HOL-Library.Multiset"
begin

text \<open>
  The part of the JavaScript language and its standard library that the scripts of the repository
  use: strings as sequences of UTF-16 code units with \<open>indexOf\<close>, \<open>trim\<close>, \<open>split\<close>, \<open>replace\<close> and
  \<open>toUpperCase\<close>, the conversion \<open>Number\<close>, the conversion to a string and \<open>sort\<close> of arrays.
\<close>

section \<open>Strings\<close>

type_synonym code_unit = nat
type_synonym jsstring = "code_unit list"

text \<open>A literal of the source that is plain ASCII.\<close>

definition lit :: "string \<Rightarrow> jsstring" where
  "lit s = map of_char s"

subsection \<open>String.prototype.indexOf\<close>

fun index_from :: "'a list \<Rightarrow> 'a list \<Rightarrow> nat \<Rightarrow> nat option" where
  "index_from t [] i = (if t = [] then Some i else None)"
| "index_from t (c # s) i = (if prefix t (c # s) then Some i else index_from t s (Suc i))"

text \<open>The start position is clamped to the string, as the language does; -1 is "not found".\<close>

definition indexOf :: "'a list \<Rightarrow> 'a list \<Rightarrow> int \<Rightarrow> int" where
  "indexOf s t pos =
     (let start = nat (min (max pos 0) (int (length s)))
      in case index_from t (drop start s) start of None \<Rightarrow> - 1 | Some i \<Rightarrow> int i)"

lemma index_from_Some:
  "index_from t s i = Some k \<Longrightarrow> i \<le> k \<and> (\<exists>us vs. s = us @ t @ vs \<and> length us = k - i)"
proof (induction t s i rule: index_from.induct)
  case (1 t i)
  then show ?case by (auto split: if_splits)
next
  case (2 t c s i)
  show ?case
  proof (cases "prefix t (c # s)")
    case True
    with 2 have "k = i" by simp
    moreover from True obtain vs where "c # s = t @ vs" by (auto simp: prefix_def)
    ultimately show ?thesis by (metis append_Nil diff_self_eq_0 list.size(3) order_refl)
  next
    case False
    with 2 obtain us vs where "Suc i \<le> k" "s = us @ t @ vs" "length us = k - Suc i" by auto
    then have "c # s = (c # us) @ t @ vs \<and> length (c # us) = k - i" by simp
    with \<open>Suc i \<le> k\<close> show ?thesis by (metis Suc_leD)
  qed
qed

lemma index_from_None: "index_from t s i = None \<longleftrightarrow> \<not> sublist t s"
proof (induction t s i rule: index_from.induct)
  case (1 t i)
  then show ?case by auto
next
  case (2 t c s i)
  then show ?case by (auto simp: sublist_Cons_right)
qed

lemma indexOf_found: "indexOf s t 0 \<noteq> - 1 \<longleftrightarrow> sublist t s"
proof (cases "index_from t s 0")
  case None
  then have "\<not> sublist t s" by (rule index_from_None [THEN iffD1])
  with None show ?thesis by (simp add: indexOf_def)
next
  case (Some k)
  then have "sublist t s" by (metis index_from_None option.distinct(1))
  with Some show ?thesis by (simp add: indexOf_def)
qed

lemma indexOf_nonneg: "0 \<le> indexOf s t 0 \<longleftrightarrow> sublist t s"
proof -
  have "0 \<le> indexOf s t 0 \<longleftrightarrow> indexOf s t 0 \<noteq> - 1"
    by (simp add: indexOf_def split: option.splits)
  then show ?thesis by (simp add: indexOf_found)
qed


subsection \<open>trim, split and replace\<close>

text \<open>White space and line terminators of the language.\<close>

definition js_space :: "code_unit \<Rightarrow> bool" where
  "js_space c \<longleftrightarrow> c \<in> {9, 10, 11, 12, 13, 32, 160, 5760, 8232, 8233, 8239, 8287, 12288, 65279}
     \<or> (8192 \<le> c \<and> c \<le> 8202)"

definition js_trim :: "jsstring \<Rightarrow> jsstring" where
  "js_trim s = rev (dropWhile js_space (rev (dropWhile js_space s)))"

text \<open>\<open>split(/\n+/)\<close>: the pieces between maximal runs of line feeds.\<close>

function split_lines :: "jsstring \<Rightarrow> jsstring \<Rightarrow> jsstring list" where
  "split_lines acc [] = [rev acc]"
| "split_lines acc (c # s) =
     (if c = 10 then rev acc # split_lines [] (dropWhile (\<lambda>d. d = 10) s)
      else split_lines (c # acc) s)"
  by pat_completeness auto
termination
  by (relation "measure (\<lambda>(acc, s). length s)") (auto simp: less_Suc_eq_le length_dropWhile_le)

text \<open>\<open>replace(/a/g, b)\<close> for single characters.\<close>

definition replace_all :: "code_unit \<Rightarrow> code_unit \<Rightarrow> jsstring \<Rightarrow> jsstring" where
  "replace_all a b s = map (\<lambda>c. if c = a then b else c) s"

lemma split_lines_nonempty: "split_lines acc s \<noteq> []"
  by (induction acc s rule: split_lines.induct) auto

lemma hd_split_lines: "hd (split_lines acc s) = rev acc @ takeWhile (\<lambda>d. d \<noteq> 10) s"
  by (induction acc s rule: split_lines.induct) auto

lemma split_lines_single: "10 \<notin> set s \<Longrightarrow> split_lines acc s = [rev acc @ s]"
  by (induction acc s rule: split_lines.induct) auto

lemma replace_all_removes: "a \<noteq> b \<Longrightarrow> a \<notin> set (replace_all a b s)"
  by (auto simp: replace_all_def)

subsection \<open>String.prototype.toUpperCase\<close>

text \<open>
  The mapping is written out for Basic Latin, Latin-1, the basic Cyrillic block and general
  punctuation, the blocks the tables of the repository use.  Runs of other code units are mapped by
  the parameter \<open>oth\<close>, the language's mapping on the rest of Unicode: the mapping of a code point
  never depends on its neighbours, so a string is mapped run by run.
\<close>

definition upper_known :: "code_unit \<Rightarrow> bool" where
  "upper_known c \<longleftrightarrow> c < 256 \<or> (1024 \<le> c \<and> c < 1120) \<or> (8192 \<le> c \<and> c < 8304)"

definition upper1 :: "code_unit \<Rightarrow> jsstring" where
  "upper1 c =
     (if 97 \<le> c \<and> c \<le> 122 then [c - 32]
      else if c = 181 then [924]
      else if c = 223 then [83, 83]
      else if 224 \<le> c \<and> c \<le> 254 \<and> c \<noteq> 247 then [c - 32]
      else if c = 255 then [376]
      else if 1072 \<le> c \<and> c \<le> 1103 then [c - 32]
      else if 1104 \<le> c \<and> c \<le> 1119 then [c - 80]
      else [c])"

definition upper_flush :: "(jsstring \<Rightarrow> jsstring) \<Rightarrow> jsstring \<Rightarrow> jsstring" where
  "upper_flush oth r = (if r = [] then [] else oth (rev r))"

fun upper_runs :: "(jsstring \<Rightarrow> jsstring) \<Rightarrow> jsstring \<Rightarrow> jsstring \<Rightarrow> jsstring" where
  "upper_runs oth r [] = upper_flush oth r"
| "upper_runs oth r (c # s) =
     (if upper_known c then upper_flush oth r @ upper1 c @ upper_runs oth [] s
      else upper_runs oth (c # r) s)"

definition toUpperCase :: "(jsstring \<Rightarrow> jsstring) \<Rightarrow> jsstring \<Rightarrow> jsstring" where
  "toUpperCase oth s = upper_runs oth [] s"

lemma upper_runs_known:
  "list_all upper_known s \<Longrightarrow> upper_runs oth [] s = concat (map upper1 s)"
  by (induction s) (auto simp: upper_flush_def)

lemma toUpperCase_known:
  "list_all upper_known s \<Longrightarrow> toUpperCase oth s = concat (map upper1 s)"
  by (simp add: toUpperCase_def upper_runs_known)

lemma toUpperCase_append_known:
  assumes "list_all upper_known s"
  shows "toUpperCase oth (s @ t) = toUpperCase oth s @ toUpperCase oth t"
proof -
  have "upper_runs oth [] (s @ t) = concat (map upper1 s) @ upper_runs oth [] t"
    using assms by (induction s) (auto simp: upper_flush_def)
  then show ?thesis by (simp add: toUpperCase_def upper_runs_known assms)
qed

section \<open>Values and arrays\<close>

text \<open>The values the scripts pass where a string is expected, and \<open>"" + v\<close>.\<close>

datatype jsvalue = Undefined | Null | Str jsstring

fun to_string :: "jsvalue \<Rightarrow> jsstring" where
  "to_string Undefined = lit ''undefined''"
| "to_string Null = lit ''null''"
| "to_string (Str s) = s"

fun truthy :: "jsvalue \<Rightarrow> bool" where
  "truthy Undefined = False"
| "truthy Null = False"
| "truthy (Str s) = (s \<noteq> [])"

text \<open>\<open>Array.prototype.sort\<close> with a comparison function: a stable sort.\<close>

fun sort_insert :: "('a \<Rightarrow> 'a \<Rightarrow> int) \<Rightarrow> 'a \<Rightarrow> 'a list \<Rightarrow> 'a list" where
  "sort_insert cmp x [] = [x]"
| "sort_insert cmp x (y # ys) = (if cmp x y \<le> 0 then x # y # ys else y # sort_insert cmp x ys)"

definition js_sort :: "('a \<Rightarrow> 'a \<Rightarrow> int) \<Rightarrow> 'a list \<Rightarrow> 'a list" where
  "js_sort cmp xs = foldr (sort_insert cmp) xs []"

lemma mset_sort_insert [simp]: "mset (sort_insert cmp x ys) = add_mset x (mset ys)"
  by (induction ys) auto

lemma set_sort_insert [simp]: "set (sort_insert cmp x ys) = insert x (set ys)"
  by (induction ys) auto

lemma mset_js_sort: "mset (js_sort cmp xs) = mset xs"
  by (induction xs) (auto simp: js_sort_def)

lemma sorted_sort_insert:
  assumes "\<And>a b. cmp a b \<le> 0 \<longleftrightarrow> R a b" and "\<And>a b c. R a b \<Longrightarrow> R b c \<Longrightarrow> R a c"
    and "\<And>a b. R a b \<or> R b a" and "sorted_wrt R ys"
  shows "sorted_wrt R (sort_insert cmp x ys)"
  using assms(4) by (induction ys) (use assms(1-3) in \<open>auto, blast+\<close>)

lemma sorted_js_sort:
  assumes "\<And>a b. cmp a b \<le> 0 \<longleftrightarrow> R a b" and "\<And>a b c. R a b \<Longrightarrow> R b c \<Longrightarrow> R a c"
    and "\<And>a b. R a b \<or> R b a"
  shows "sorted_wrt R (js_sort cmp xs)"
proof (induction xs)
  case Nil
  then show ?case by (simp add: js_sort_def)
next
  case (Cons x xs)
  then have "sorted_wrt R (sort_insert cmp x (js_sort cmp xs))"
    by (intro sorted_sort_insert) (use assms in blast)+
  then show ?case by (simp add: js_sort_def)
qed

section \<open>Numbers\<close>

text \<open>
  Number values are kept exact: a finite value is a rational, without the rounding of the 64-bit
  format.  The scripts compare numbers with 0 and 2 only.
\<close>

datatype jsnum = NaN | PosInf | NegInf | Fin rat

fun num_ge :: "jsnum \<Rightarrow> rat \<Rightarrow> bool" where
  "num_ge NaN b = False"
| "num_ge PosInf b = True"
| "num_ge NegInf b = False"
| "num_ge (Fin a) b = (b \<le> a)"

fun num_gt :: "jsnum \<Rightarrow> rat \<Rightarrow> bool" where
  "num_gt NaN b = False"
| "num_gt PosInf b = True"
| "num_gt NegInf b = False"
| "num_gt (Fin a) b = (b < a)"

definition is_digit :: "code_unit \<Rightarrow> bool" where
  "is_digit c \<longleftrightarrow> 48 \<le> c \<and> c \<le> 57"

text \<open>Value of a digit in a radix up to 16, if it is one.\<close>

definition digit_value :: "nat \<Rightarrow> code_unit \<Rightarrow> nat option" where
  "digit_value radix c =
     (let v = (if is_digit c then c - 48
               else if 65 \<le> c \<and> c \<le> 70 then c - 55
               else if 97 \<le> c \<and> c \<le> 102 then c - 87 else 16)
      in if v < radix then Some v else None)"

fun digits_value :: "nat \<Rightarrow> nat \<Rightarrow> jsstring \<Rightarrow> nat option" where
  "digits_value radix acc [] = Some acc"
| "digits_value radix acc (c # s) =
     (case digit_value radix c of
        None \<Rightarrow> None
      | Some v \<Rightarrow> digits_value radix (radix * acc + v) s)"

text \<open>The exponent part: empty, or e followed by an optionally signed digit sequence.\<close>

definition exponent_value :: "jsstring \<Rightarrow> int option" where
  "exponent_value s =
     (case s of
        [] \<Rightarrow> Some 0
      | e # r \<Rightarrow>
          if e \<noteq> 69 \<and> e \<noteq> 101 then None
          else (case r of
                  [] \<Rightarrow> None
                | c # ds \<Rightarrow>
                    if c = 45 then (if ds = [] then None
                                    else map_option (\<lambda>n. - int n) (digits_value 10 0 ds))
                    else if c = 43 then (if ds = [] then None else map_option int (digits_value 10 0 ds))
                    else map_option int (digits_value 10 0 r)))"

definition scale10 :: "rat \<Rightarrow> int \<Rightarrow> rat" where
  "scale10 x e = (if 0 \<le> e then x * 10 ^ nat e else x / 10 ^ nat (- e))"

text \<open>Digits with an optional fraction and exponent; at least one digit is needed.\<close>

definition unsigned_decimal :: "jsstring \<Rightarrow> jsnum" where
  "unsigned_decimal s =
     (if s = lit ''Infinity'' then PosInf
      else
        let ip = takeWhile is_digit s; r = dropWhile is_digit s;
            fp = (case r of [] \<Rightarrow> [] | c # q \<Rightarrow> if c = 46 then takeWhile is_digit q else []);
            ex = (case r of [] \<Rightarrow> [] | c # q \<Rightarrow> if c = 46 then dropWhile is_digit q else r)
        in if ip = [] \<and> fp = [] then NaN
           else case (digits_value 10 0 (ip @ fp), exponent_value ex) of
                  (Some m, Some e) \<Rightarrow> Fin (scale10 (of_nat m) (e - int (length fp)))
                | _ \<Rightarrow> NaN)"

fun num_neg :: "jsnum \<Rightarrow> jsnum" where
  "num_neg NaN = NaN"
| "num_neg PosInf = NegInf"
| "num_neg NegInf = PosInf"
| "num_neg (Fin a) = Fin (- a)"

definition radix_literal :: "nat \<Rightarrow> jsstring \<Rightarrow> jsnum" where
  "radix_literal radix s =
     (if s = [] then NaN
      else case digits_value radix 0 s of None \<Rightarrow> NaN | Some n \<Rightarrow> Fin (of_nat n))"

definition Number :: "jsstring \<Rightarrow> jsnum" where
  "Number str =
     (let s = js_trim str
      in if s = [] then Fin 0
         else if prefix (lit ''0x'') s \<or> prefix (lit ''0X'') s then radix_literal 16 (drop 2 s)
         else if prefix (lit ''0o'') s \<or> prefix (lit ''0O'') s then radix_literal 8 (drop 2 s)
         else if prefix (lit ''0b'') s \<or> prefix (lit ''0B'') s then radix_literal 2 (drop 2 s)
         else if hd s = 43 then unsigned_decimal (tl s)
         else if hd s = 45 then num_neg (unsigned_decimal (tl s))
         else unsigned_decimal s)"

text \<open>Decimal digits of a natural number, and that \<open>Number\<close> reads them back.\<close>

function dec :: "nat \<Rightarrow> jsstring" where
  "dec n = (if n < 10 then [48 + n] else dec (n div 10) @ [48 + n mod 10])"
  by pat_completeness auto
termination
  by (relation "measure id") auto

declare dec.simps [simp del]

lemma dec_nonempty: "dec n \<noteq> []"
  by (subst dec.simps) simp

lemma dec_digits: "list_all is_digit (dec n)"
proof (induction n rule: dec.induct)
  case (1 n)
  have "is_digit (48 + k)" if "k < 10" for k using that by (simp add: is_digit_def)
  with 1 show ?case by (subst dec.simps) simp
qed

lemma digits_value_append:
  "digits_value radix a (s @ t) =
     (case digits_value radix a s of None \<Rightarrow> None | Some b \<Rightarrow> digits_value radix b t)"
  by (induction s arbitrary: a) (auto split: option.splits)

lemma digits_value_dec: "digits_value 10 0 (dec n) = Some n"
proof (induction n rule: dec.induct)
  case (1 n)
  show ?case
  proof (cases "n < 10")
    case True
    then show ?thesis
      by (subst dec.simps) (simp add: digit_value_def is_digit_def)
  next
    case False
    with 1 have "digits_value 10 0 (dec (n div 10)) = Some (n div 10)" by simp
    with False show ?thesis
      by (subst dec.simps) (simp add: digits_value_append digit_value_def is_digit_def)
  qed
qed

lemma takeWhile_digits: "list_all is_digit s \<Longrightarrow> takeWhile is_digit s = s"
  by (induction s) auto

lemma dropWhile_digits: "list_all is_digit s \<Longrightarrow> dropWhile is_digit s = []"
  by (induction s) auto

lemma digit_not_space: "is_digit c \<Longrightarrow> \<not> js_space c"
  by (auto simp: is_digit_def js_space_def)

lemma dropWhile_keep: "(\<And>c. c \<in> set s \<Longrightarrow> \<not> P c) \<Longrightarrow> dropWhile P s = s"
  by (cases s) auto

lemma js_trim_keep:
  assumes "\<And>c. c \<in> set s \<Longrightarrow> \<not> js_space c"
  shows "js_trim s = s"
proof -
  have "dropWhile js_space s = s" "dropWhile js_space (rev s) = rev s"
    by (rule dropWhile_keep, simp add: assms)+
  then show ?thesis by (simp add: js_trim_def)
qed

lemma js_trim_digits: "list_all is_digit s \<Longrightarrow> js_trim s = s"
  by (rule js_trim_keep) (auto simp: list_all_iff digit_not_space)

lemma digits_no_radix_prefix:
  "list_all is_digit s \<Longrightarrow> \<not> is_digit b \<Longrightarrow> \<not> prefix [a, b] s"
  by (auto simp: prefix_def)

lemma unsigned_decimal_digits:
  assumes "list_all is_digit s" "s \<noteq> []" "digits_value 10 0 s = Some n"
  shows "unsigned_decimal s = Fin (of_nat n)"
proof -
  have "s \<noteq> lit ''Infinity''"
    using assms(1) by (auto simp: lit_def is_digit_def)
  then show ?thesis
    using assms by (simp add: unsigned_decimal_def takeWhile_digits dropWhile_digits
        exponent_value_def scale10_def)
qed

lemma Number_dec: "Number (dec n) = Fin (of_nat n)"
proof -
  have d: "list_all is_digit (dec n)" by (rule dec_digits)
  then have "is_digit (hd (dec n))" using dec_nonempty by (cases "dec n") auto
  then have hd: "hd (dec n) \<noteq> 43" "hd (dec n) \<noteq> 45" by (auto simp: is_digit_def)
  have "\<not> prefix (lit [CHR ''0'', c]) (dec n)" if "\<not> is_digit (of_char c)" for c
    using digits_no_radix_prefix [OF d that] by (simp add: lit_def)
  then show ?thesis
    using d hd by (simp add: Number_def js_trim_digits dec_nonempty unsigned_decimal_digits
        digits_value_dec is_digit_def)
qed

end
