(* ===== verification/Installer_Host.thy ===== *)
theory Installer_Host
  imports Js_Core
begin

text \<open>
  The two installer scripts run inside the Qt Installer Framework.  This theory has the script
  monad (a computation may throw a JavaScript error or never return) and the host interface: the
  framework, the operating system and the user are the parameter \<open>'w env\<close>, a record of functions
  on an abstract world \<open>'w\<close>.  Every call a script makes for its effect is appended to a trace, so
  the properties speak of what the scripts do and in which order.
\<close>

section \<open>Computations of a script\<close>

datatype js_error = TypeError | SignalError
datatype 'a res = Ok 'a | Throw js_error

text \<open>The state is returned on both kinds of end; \<open>None\<close> is a computation that never returns.\<close>

type_synonym ('s, 'a) js = "'s \<Rightarrow> ('a res \<times> 's) option"

definition ret :: "'a \<Rightarrow> ('s, 'a) js" where
  "ret a s = Some (Ok a, s)"

definition throw :: "js_error \<Rightarrow> ('s, 'a) js" where
  "throw e s = Some (Throw e, s)"

definition bindM :: "('s, 'a) js \<Rightarrow> ('a \<Rightarrow> ('s, 'b) js) \<Rightarrow> ('s, 'b) js" where
  "bindM m f s =
     (case m s of
        None \<Rightarrow> None
      | Some (Ok a, s') \<Rightarrow> f a s'
      | Some (Throw e, s') \<Rightarrow> Some (Throw e, s'))"

definition seqM :: "('s, 'a) js \<Rightarrow> ('s, 'b) js \<Rightarrow> ('s, 'b) js" where
  "seqM m n = bindM m (\<lambda>_. n)"

definition ifM :: "('s \<Rightarrow> bool) \<Rightarrow> ('s, 'a) js \<Rightarrow> ('s, 'a) js \<Rightarrow> ('s, 'a) js" where
  "ifM p m n s = (if p s then m s else n s)"

definition modifyM :: "('s \<Rightarrow> 's) \<Rightarrow> ('s, unit) js" where
  "modifyM f s = Some (Ok (), f s)"

lemma bindM_Some:
  "bindM m f s = Some (r, t) \<longleftrightarrow>
     (\<exists>a u. m s = Some (Ok a, u) \<and> f a u = Some (r, t)) \<or>
     (\<exists>e. m s = Some (Throw e, t) \<and> r = Throw e)"
  by (cases "m s") (auto simp: bindM_def split: res.splits)

lemma seqM_Some:
  "seqM m n s = Some (r, t) \<longleftrightarrow>
     (\<exists>a u. m s = Some (Ok a, u) \<and> n u = Some (r, t)) \<or>
     (\<exists>e. m s = Some (Throw e, t) \<and> r = Throw e)"
  by (simp add: seqM_def bindM_Some)

lemma bindM_Ok: "m s = Some (Ok a, u) \<Longrightarrow> bindM m f s = f a u"
  by (simp add: bindM_def)

lemma seqM_Ok: "m s = Some (Ok a, u) \<Longrightarrow> seqM m n s = n u"
  by (simp add: seqM_def bindM_def)

lemma bindM_Throw: "m s = Some (Throw e, u) \<Longrightarrow> bindM m f s = Some (Throw e, u)"
  by (simp add: bindM_def)

lemmas [js_run] = ret_def throw_def bindM_def seqM_def ifM_def modifyM_def

lemma bindM_mono [partial_function_mono]:
  fixes B :: "('x \<Rightarrow> 'y option) \<Rightarrow> ('s, 'a) js"
  assumes "\<And>s. mono_option (\<lambda>f. B f s)" and "\<And>y s. mono_option (\<lambda>f. C y f s)"
  shows "mono_option (\<lambda>f. bindM (B f) (\<lambda>y. C y f) s)"
proof (rule monotoneI)
  fix f g :: "'x \<Rightarrow> 'y option"
  assume fg: "fun_ord option_ord f g"
  have B: "option_ord (B f s) (B g s)" by (rule monotoneD [OF assms(1)]) (rule fg)
  have C: "option_ord (C y f t) (C y g t)" for y t
    by (rule monotoneD [OF assms(2)]) (rule fg)
  show "option_ord (bindM (B f) (\<lambda>y. C y f) s) (bindM (B g) (\<lambda>y. C y g) s)"
  proof (cases "B f s = None")
    case True
    then show ?thesis by (simp add: bindM_def flat_ord_def)
  next
    case False
    with B have "B g s = B f s" by (auto simp: flat_ord_def)
    with False show ?thesis
      by (auto simp: bindM_def intro: C option.leq_refl split: res.split)
  qed
qed

section \<open>What the scripts can ask for\<close>

datatype button = NextButton | FinishButton | CancelButton | CommitButton

datatype page =
    IntroductionPage | TargetDirectory | ComponentSelection | LicenseCheck | StartMenuSelection
  | StartMenuDirectoryPage | ReadyForInstallation | PerformInstallation | FinishedPage

datatype answer = BtnOk | BtnCancel | BtnRetry | BtnAbort | BtnYes | BtnNo

text \<open>The two message boxes, with their titles.\<close>

datatype question = Information jsstring | Warning jsstring

text \<open>
  Arguments of a started program.  \<open>Frontmost n\<close> is the AppleScript text of
  \<open>raiseInstallerWindow\<close> with the process number \<open>n\<close> written into it.
\<close>

datatype earg = Arg jsstring | Frontmost jsnum

text \<open>Arguments of an installer operation: a string or an array of strings.\<close>

datatype oparg = OStr jsstring | OArr "jsstring list"

datatype call =
    SetValue jsstring jsstring
  | SetDefaultPageVisible page bool
  | ClickButton button
  | SetCancelled
  | AutoAcceptMessageBoxes
  | SetMessageBoxAutomaticAnswer jsstring answer
  | DisconnectBrowse
  | ConnectBrowse
  | SetChildVisible jsstring bool
  | SetLineEditText jsstring
  | ConnectInstallationFinished
  | Ask question answer
  | Execute "jsstring option" "earg list"
  | ExecuteDetached jsstring "earg list" jsstring
  | ConnectComponent jsstring
  | CreateOperations
  | AddOperation "oparg list"
  | AddElevatedOperation "oparg list"
  | GainAdminRights bool
  | DropAdminRights

text \<open>
  The world behind the scripts.  A program that could not be started answers \<open>None\<close> (the framework
  returns an empty array), one that ran answers its output and exit code.  The text of the target
  directory field is \<open>None\<close> when the page does not exist.
\<close>

record 'w env =
  env_value :: "jsstring \<Rightarrow> 'w \<Rightarrow> jsstring"
  env_fileExists :: "jsstring option \<Rightarrow> 'w \<Rightarrow> bool \<times> 'w"
  env_execute :: "jsstring option \<Rightarrow> earg list \<Rightarrow> 'w \<Rightarrow> (jsstring \<times> int) option \<times> 'w"
  env_isInstaller :: "'w \<Rightarrow> bool"
  env_isUpdater :: "'w \<Rightarrow> bool"
  env_isUninstaller :: "'w \<Rightarrow> bool"
  env_ask :: "question \<Rightarrow> 'w \<Rightarrow> answer \<times> 'w"
  env_now :: "'w \<Rightarrow> int \<times> 'w"
  env_targetDirText :: "'w \<Rightarrow> jsstring option"
  env_currentPageWidget :: "'w \<Rightarrow> bool"
  env_findChild :: "jsstring \<Rightarrow> 'w \<Rightarrow> bool"
  env_disconnectBrowse :: "'w \<Rightarrow> bool \<times> 'w"
  env_kernelType :: "'w \<Rightarrow> jsstring"
  env_cpuArchitecture :: "'w \<Rightarrow> jsstring"
  env_findPath :: "jsstring \<Rightarrow> jsstring list \<Rightarrow> 'w \<Rightarrow> jsstring \<times> 'w"
  env_desktopLocation :: "'w \<Rightarrow> jsstring"
  env_success :: "'w \<Rightarrow> bool"
  env_gainAdminRights :: "'w \<Rightarrow> bool \<times> 'w"
  env_perform :: "call \<Rightarrow> 'w \<Rightarrow> 'w"

record 'w host =
  world :: 'w
  trace :: "call list"

section \<open>Calls\<close>

definition emit :: "'w env \<Rightarrow> call \<Rightarrow> (('w, 'z) host_scheme, unit) js" where
  "emit E c s =
     Some (Ok (), s\<lparr>world := env_perform E c (world s), trace := trace s @ [c]\<rparr>)"

definition value_of :: "'w env \<Rightarrow> jsstring \<Rightarrow> ('w, 'z) host_scheme \<Rightarrow> jsstring" where
  "value_of E k s = env_value E k (world s)"

definition fileExists :: "'w env \<Rightarrow> jsstring option \<Rightarrow> (('w, 'z) host_scheme, bool) js" where
  "fileExists E p s =
     (case env_fileExists E p (world s) of (b, w) \<Rightarrow> Some (Ok b, s\<lparr>world := w\<rparr>))"

definition execute ::
    "'w env \<Rightarrow> jsstring option \<Rightarrow> earg list \<Rightarrow> (('w, 'z) host_scheme, (jsstring \<times> int) option) js" where
  "execute E cmd args s =
     (case env_execute E cmd args (world s) of
        (r, w) \<Rightarrow> Some (Ok r, s\<lparr>world := w, trace := trace s @ [Execute cmd args]\<rparr>))"

definition ask :: "'w env \<Rightarrow> question \<Rightarrow> (('w, 'z) host_scheme, answer) js" where
  "ask E q s =
     (case env_ask E q (world s) of
        (a, w) \<Rightarrow> Some (Ok a, s\<lparr>world := w, trace := trace s @ [Ask q a]\<rparr>))"

definition now :: "'w env \<Rightarrow> (('w, 'z) host_scheme, int) js" where
  "now E s = (case env_now E (world s) of (n, w) \<Rightarrow> Some (Ok n, s\<lparr>world := w\<rparr>))"

definition isInstaller :: "'w env \<Rightarrow> ('w, 'z) host_scheme \<Rightarrow> bool" where
  "isInstaller E s = env_isInstaller E (world s)"

definition isUpdater :: "'w env \<Rightarrow> ('w, 'z) host_scheme \<Rightarrow> bool" where
  "isUpdater E s = env_isUpdater E (world s)"

definition isUninstaller :: "'w env \<Rightarrow> ('w, 'z) host_scheme \<Rightarrow> bool" where
  "isUninstaller E s = env_isUninstaller E (world s)"

fun emits :: "'w env \<Rightarrow> call list \<Rightarrow> (('w, 'z) host_scheme, unit) js" where
  "emits E [] = ret ()"
| "emits E (c # cs) = seqM (emit E c) (emits E cs)"

lemmas [js_run] = emit_def isInstaller_def isUpdater_def isUninstaller_def

section \<open>What a computation adds to the trace\<close>

text \<open>
  \<open>adds P m\<close>: wherever \<open>m\<close> ends, normally or with an error, it has only appended calls, and all of
  them satisfy \<open>P\<close>.  Closed under the operators of the monad, so a property of a whole script
  follows from its calls.
\<close>

definition adds :: "(call \<Rightarrow> bool) \<Rightarrow> (('w, 'z) host_scheme, 'a) js \<Rightarrow> bool" where
  "adds P m \<longleftrightarrow> (\<forall>s r t. m s = Some (r, t) \<longrightarrow> (\<exists>cs. trace t = trace s @ cs \<and> list_all P cs))"

named_theorems adds_intros \<open>closure of \<open>adds\<close>\<close>

lemma addsI:
  "(\<And>s r t. m s = Some (r, t) \<Longrightarrow> \<exists>cs. trace t = trace s @ cs \<and> list_all P cs) \<Longrightarrow> adds P m"
  by (simp add: adds_def)

lemma addsD:
  "adds P m \<Longrightarrow> m s = Some (r, t) \<Longrightarrow> \<exists>cs. trace t = trace s @ cs \<and> list_all P cs"
  by (simp add: adds_def)

lemma adds_bindM [adds_intros]:
  assumes m: "adds P m" and f: "\<And>a. adds P (f a)"
  shows "adds P (bindM m f)"
proof (rule addsI)
  fix s r t
  assume "bindM m f s = Some (r, t)"
  then consider a u where "m s = Some (Ok a, u)" "f a u = Some (r, t)"
    | e where "m s = Some (Throw e, t)"
    by (auto simp: bindM_Some)
  then show "\<exists>cs. trace t = trace s @ cs \<and> list_all P cs"
  proof cases
    case 1
    from addsD [OF m 1(1)] addsD [OF f 1(2)] show ?thesis by auto
  next
    case 2
    from addsD [OF m 2] show ?thesis .
  qed
qed

lemma adds_seqM [adds_intros]: "adds P m \<Longrightarrow> adds P n \<Longrightarrow> adds P (seqM m n)"
  by (simp add: seqM_def adds_bindM)

lemma adds_ifM [adds_intros]: "adds P m \<Longrightarrow> adds P n \<Longrightarrow> adds P (ifM p m n)"
  by (auto simp: adds_def ifM_def)

lemma adds_if [adds_intros]: "(b \<Longrightarrow> adds P m) \<Longrightarrow> (\<not> b \<Longrightarrow> adds P n) \<Longrightarrow> adds P (if b then m else n)"
  by simp

lemma adds_case_option [adds_intros]:
  "adds P m \<Longrightarrow> (\<And>x. adds P (f x)) \<Longrightarrow> adds P (case v of None \<Rightarrow> m | Some x \<Rightarrow> f x)"
  by (cases v) auto

lemma adds_case_prod [adds_intros]:
  "(\<And>x y. adds P (f x y)) \<Longrightarrow> adds P (case v of (x, y) \<Rightarrow> f x y)"
  by (cases v) auto

lemma adds_ret [adds_intros]: "adds P (ret a)"
  by (simp add: adds_def ret_def)

lemma adds_throw [adds_intros]: "adds P (throw e)"
  by (simp add: adds_def throw_def)

lemma adds_emit [adds_intros]: "P c \<Longrightarrow> adds P (emit E c)"
  by (auto simp: adds_def emit_def)

lemma adds_fileExists [adds_intros]: "adds P (fileExists E p)"
  by (auto simp: adds_def fileExists_def split: prod.splits)

lemma adds_now [adds_intros]: "adds P (now E)"
  by (auto simp: adds_def now_def split: prod.splits)

lemma adds_execute [adds_intros]: "P (Execute cmd args) \<Longrightarrow> adds P (execute E cmd args)"
  by (auto simp: adds_def execute_def split: prod.splits)

lemma adds_ask [adds_intros]: "(\<And>a. P (Ask q a)) \<Longrightarrow> adds P (ask E q)"
  by (auto simp: adds_def ask_def split: prod.splits)

lemma adds_state_calls [adds_intros]:
  "adds P (\<lambda>s. fileExists E (p s) s)"
  "(\<And>s. P (Execute (cmd s) (args s))) \<Longrightarrow> adds P (\<lambda>s. execute E (cmd s) (args s) s)"
  "(\<And>s a. P (Ask (q s) a)) \<Longrightarrow> adds P (\<lambda>s. ask E (q s) s)"
  by (auto simp: adds_def fileExists_def execute_def ask_def split: prod.splits)

lemma adds_modifyM: "(\<And>s. trace (f s) = trace s) \<Longrightarrow> adds P (modifyM f)"
  by (simp add: adds_def modifyM_def)

lemma adds_emits [adds_intros]: "list_all P cs \<Longrightarrow> adds P (emits E cs)"
  by (induction cs) (auto intro: adds_intros)

lemma adds_weaken: "adds P m \<Longrightarrow> (\<And>c. P c \<Longrightarrow> Q c) \<Longrightarrow> adds Q m"
  by (fastforce simp: adds_def list_all_iff)

lemma emits_run:
  "emits E cs s =
     Some (Ok (), s\<lparr>world := fold (env_perform E) cs (world s), trace := trace s @ cs\<rparr>)"
  by (induction cs arbitrary: s) (auto simp: ret_def seqM_def bindM_def emit_def)

section \<open>The platform tests\<close>

text \<open>
  Both scripts choose by three tests.  The contract they rely on is that at most one of them holds,
  so that the order of the branches does not matter.
\<close>

locale platform =
  fixes win mac lin :: "'s \<Rightarrow> bool"
  assumes win_mac: "win s \<Longrightarrow> \<not> mac s"
    and win_lin: "win s \<Longrightarrow> \<not> lin s"
    and mac_lin: "mac s \<Longrightarrow> \<not> lin s"
begin

lemma branch_mac: "mac s \<Longrightarrow> (if win s then a else if mac s then b else c) = b"
  using win_mac by auto

lemma branch_lin: "lin s \<Longrightarrow> (if win s then a else if mac s then b else if lin s then c else d) = c"
  using win_lin mac_lin by auto

lemma at_most_one: "length (filter (\<lambda>p. p s) [win, mac, lin]) \<le> 1"
  using win_mac win_lin mac_lin by auto

end

end
