(* ===== verification/Component_Script.thy ===== *)
theory Component_Script
  imports Installer_Host
begin

text \<open>
  The component script of the installer, \<open>deploy/installer/qif/componentscript.js\<close>: the operations
  it registers for each platform and the launch of the application when the installer finishes.
  Functions with the same name in both scripts carry the suffix \<open>_c\<close> here.
\<close>

section \<open>Helper functions\<close>

definition appName_c :: "'w env \<Rightarrow> 'w host \<Rightarrow> jsstring" where
  "appName_c E s = value_of E (lit ''Name'') s"

definition serviceName :: "'w env \<Rightarrow> 'w host \<Rightarrow> jsstring" where
  "serviceName E s = appName_c E s @ lit ''-service''"

definition runningOnWindows_c :: "'w env \<Rightarrow> 'w host \<Rightarrow> bool" where
  "runningOnWindows_c E s \<longleftrightarrow> env_kernelType E (world s) = lit ''winnt''"

definition runningOnMacOS_c :: "'w env \<Rightarrow> 'w host \<Rightarrow> bool" where
  "runningOnMacOS_c E s \<longleftrightarrow> env_kernelType E (world s) = lit ''darwin''"

definition runningOnLinux_c :: "'w env \<Rightarrow> 'w host \<Rightarrow> bool" where
  "runningOnLinux_c E s \<longleftrightarrow> env_kernelType E (world s) = lit ''linux''"

definition appExecutableFileName_c :: "'w env \<Rightarrow> 'w host \<Rightarrow> jsstring" where
  "appExecutableFileName_c E s =
     (if runningOnWindows_c E s then appName_c E s @ lit ''.exe'' else appName_c E s)"

definition backslash :: jsstring where
  "backslash = [92]"

definition findPath :: "'w env \<Rightarrow> jsstring \<Rightarrow> jsstring list \<Rightarrow> ('w host, jsstring) js" where
  "findPath E name paths s =
     (case env_findPath E name paths (world s) of (p, w) \<Rightarrow> Some (Ok p, s\<lparr>world := w\<rparr>))"

definition vcRuntimeIsInstalled :: "'w env \<Rightarrow> ('w host, bool) js" where
  "vcRuntimeIsInstalled E =
     bindM
      (\<lambda>s. findPath E (lit ''msvcp140.dll'')
              [value_of E (lit ''RootDir'') s @ backslash @ lit ''Windows'' @ backslash
                 @ lit ''System32'' @ backslash] s)
      (\<lambda>p. ret (length p \<noteq> 0))"

section \<open>Connections and the finished page\<close>

definition Component :: "'w env \<Rightarrow> ('w host, unit) js" where
  "Component E =
     emits E [ConnectComponent (lit ''componentLoaded''),
              ConnectComponent (lit ''installationFinishedPageIsShown''),
              ConnectComponent (lit ''installationFinished'')]"

definition componentLoaded :: "'w env \<Rightarrow> ('w host, unit) js" where
  "componentLoaded E = ret ()"

definition installationFinishedPageIsShown :: "'w env \<Rightarrow> ('w host, unit) js" where
  "installationFinishedPageIsShown E =
     ifM (\<lambda>s. isInstaller E s \<and> env_success E (world s)) (emit E (ClickButton FinishButton)) (ret ())"

section \<open>Operations of the installation\<close>

definition shortcut_args :: "'w env \<Rightarrow> 'w host \<Rightarrow> jsstring \<Rightarrow> oparg list" where
  "shortcut_args E s folder =
     [OStr (lit ''CreateShortcut''),
      OStr (lit ''@TargetDir@/'' @ appExecutableFileName_c E s),
      OStr (folder @ lit ''/'' @ appName_c E s @ lit ''.lnk''),
      OStr (lit ''workingDirectory=@TargetDir@''),
      OStr (lit ''iconPath=@TargetDir@'' @ backslash @ appExecutableFileName_c E s),
      OStr (lit ''iconId=0'')]"

definition vc_redist_args :: "jsstring \<Rightarrow> oparg list" where
  "vc_redist_args exe =
     [OStr (lit ''Execute''), OStr (lit ''@TargetDir@'' @ backslash @ exe),
      OStr (lit ''/install''), OStr (lit ''/quiet''), OStr (lit ''/norestart''),
      OStr (lit ''/log''), OStr (lit ''vc_redist.log'')]"

definition pu_path :: "'w env \<Rightarrow> 'w host \<Rightarrow> jsstring" where
  "pu_path E s = replace_all 47 92 (value_of E (lit ''TargetDir'') s) @ backslash"

definition service_args :: "'w env \<Rightarrow> 'w host \<Rightarrow> oparg list" where
  "service_args E s =
     [OStr (lit ''Execute''),
      OArr [lit ''sc'', lit ''create'', serviceName E s, lit ''binpath='',
            pu_path E s @ serviceName E s @ lit ''.exe'',
            lit ''start='', lit ''auto'', lit ''depend='', lit ''BFE/nsi''],
      OStr (lit ''UNDOEXECUTE''), OStr (lit ''cmd''), OStr (lit ''/c''),
      OStr (pu_path E s @ lit ''post_uninstall.cmd'')]"

definition vc_redist_step :: "'w env \<Rightarrow> ('w host, unit) js" where
  "vc_redist_step E =
     bindM (vcRuntimeIsInstalled E)
      (\<lambda>b. if \<not> b
            then (\<lambda>s. if indexOf (env_cpuArchitecture E (world s)) (lit ''64'') 0 < 0
                       then emit E (AddElevatedOperation (vc_redist_args (lit ''vc_redist.x86.exe''))) s
                       else emit E (AddElevatedOperation (vc_redist_args (lit ''vc_redist.x64.exe''))) s)
            else ret ())"

definition createOperations_windows :: "'w env \<Rightarrow> ('w host, unit) js" where
  "createOperations_windows E =
     seqM (\<lambda>s. emit E (AddOperation (shortcut_args E s (env_desktopLocation E (world s)))) s)
      (seqM (\<lambda>s. emit E (AddElevatedOperation
                          (shortcut_args E s (value_of E (lit ''AllUsersStartMenuProgramsPath'') s))) s)
        (seqM (vc_redist_step E)
          (seqM (\<lambda>s. emit E (AddElevatedOperation (service_args E s)) s)
            (\<lambda>s. emit E (AddElevatedOperation
                    [OStr (lit ''Execute''), OStr (lit ''cmd''), OStr (lit ''/c''),
                     OStr (pu_path E s @ lit ''post_install.cmd'')]) s))))"

definition createOperations :: "'w env \<Rightarrow> ('w host, unit) js" where
  "createOperations E =
     seqM (emit E CreateOperations)
      (ifM (runningOnWindows_c E) (createOperations_windows E)
        (ifM (runningOnMacOS_c E)
          (emit E (AddElevatedOperation
            [OStr (lit ''Execute''), OStr (lit ''@TargetDir@/post_install.sh''),
             OStr (lit ''UNDOEXECUTE''), OStr (lit ''@TargetDir@/post_uninstall.sh'')]))
          (ifM (runningOnLinux_c E)
            (emit E (AddElevatedOperation
              [OStr (lit ''Execute''), OStr (lit ''bash''), OStr (lit ''@TargetDir@/post_install.sh''),
               OStr (lit ''UNDOEXECUTE''), OStr (lit ''bash''),
               OStr (lit ''@TargetDir@/post_uninstall.sh'')]))
            (ret ()))))"

section \<open>Launching the application\<close>

definition gainAdminRights :: "'w env \<Rightarrow> ('w host, bool) js" where
  "gainAdminRights E s =
     (case env_gainAdminRights E (world s) of
        (b, w) \<Rightarrow> Some (Ok b, s\<lparr>world := w, trace := trace s @ [GainAdminRights b]\<rparr>))"

definition start_service :: "'w env \<Rightarrow> ('w host, unit) js" where
  "start_service E =
     seqM (\<lambda>s. execute E (Some (lit ''net'')) [Arg (lit ''start''), Arg (serviceName E s)] s)
      (seqM (\<lambda>s. execute E (Some (lit ''sc''))
                   [Arg (lit ''failure''), Arg (serviceName E s), Arg (lit ''reset=''), Arg (lit ''100''),
                    Arg (lit ''actions=''), Arg (lit ''restart/2000/restart/2000/restart/2000'')] s)
        (ret ()))"

definition launch_command :: "'w env \<Rightarrow> 'w host \<Rightarrow> jsstring" where
  "launch_command E s =
     (if runningOnWindows_c E s then lit ''@TargetDir@/'' @ appExecutableFileName_c E s
      else if runningOnMacOS_c E s
      then lit ''/Applications/'' @ appName_c E s @ lit ''.app/Contents/MacOS/'' @ appName_c E s
      else if runningOnLinux_c E s then lit ''@TargetDir@/client/'' @ appName_c E s
      else [])"

definition installationFinished :: "'w env \<Rightarrow> ('w host, unit) js" where
  "installationFinished E =
     ifM (\<lambda>s. env_success E (world s) \<and> (isInstaller E s \<or> isUpdater E s))
      (bindM (gainAdminRights E)
        (\<lambda>gained.
           if \<not> gained then ret ()
           else (\<lambda>s. let command = launch_command E s
                      in seqM (ifM (runningOnWindows_c E) (start_service E) (ret ()))
                          (seqM (emit E DropAdminRights)
                            (\<lambda>s. emit E (ExecuteDetached command [] (value_of E (lit ''TargetDir'') s)) s)) s)))
      (ret ())"

section \<open>The platform tests\<close>

interpretation component: platform "runningOnWindows_c E" "runningOnMacOS_c E" "runningOnLinux_c E"
  for E :: "'w env"
  by unfold_locales
    (simp_all add: runningOnWindows_c_def runningOnMacOS_c_def runningOnLinux_c_def lit_def)

end
