(* ===== verification/Control_Script.thy ===== *)
theory Control_Script
  imports Installer_Host
begin

text \<open>
  The control script of the installer, \<open>deploy/installer/qif/controlscript.js\<close>: the global
  variables of the script, its helper functions, the constructor \<open>Controller\<close> and the page
  callbacks, in the order of the file.  Console output is left out; a call made inside a logged
  expression (\<open>appInstalled()\<close>) is kept for its effect on the globals.
\<close>

section \<open>Globals\<close>

record 'w ctl = "'w host" +
  requestToQuitFromApp :: bool
  updaterCompleted :: int
  desktopAppProcessRunning :: bool
  appInstalledUninstallerPath :: "jsstring option"
  appInstalledUninstallerPath_x86 :: "jsstring option"

text \<open>The state after the script is loaded; undefined variables are \<open>None\<close>.\<close>

definition script_start :: "'w \<Rightarrow> 'w ctl" where
  "script_start w =
     \<lparr>world = w, trace = [], requestToQuitFromApp = False, updaterCompleted = 0,
      desktopAppProcessRunning = False, appInstalledUninstallerPath = None,
      appInstalledUninstallerPath_x86 = None\<rparr>"

section \<open>Helper functions\<close>

definition appName :: "'w env \<Rightarrow> 'w ctl \<Rightarrow> jsstring" where
  "appName E s = value_of E (lit ''Name'') s"

definition runningOnWindows :: "'w env \<Rightarrow> 'w ctl \<Rightarrow> bool" where
  "runningOnWindows E s \<longleftrightarrow> value_of E (lit ''os'') s = lit ''win''"

definition runningOnMacOS :: "'w env \<Rightarrow> 'w ctl \<Rightarrow> bool" where
  "runningOnMacOS E s \<longleftrightarrow> value_of E (lit ''os'') s = lit ''mac''"

definition runningOnLinux :: "'w env \<Rightarrow> 'w ctl \<Rightarrow> bool" where
  "runningOnLinux E s \<longleftrightarrow>
     value_of E (lit ''os'') s = lit ''linux'' \<or> value_of E (lit ''os'') s = lit ''x11''"

definition appExecutableFileName :: "'w env \<Rightarrow> 'w ctl \<Rightarrow> jsstring" where
  "appExecutableFileName E s =
     (if runningOnWindows E s then appName E s @ lit ''.exe'' else appName E s)"

definition set_uninstaller_paths :: "'w env \<Rightarrow> 'w ctl \<Rightarrow> 'w ctl" where
  "set_uninstaller_paths E s =
     (if runningOnWindows E s then
        s\<lparr>appInstalledUninstallerPath :=
            Some (value_of E (lit ''RootDir'') s @ lit ''Program Files/Fresh VPN/maintenancetool.exe''),
          appInstalledUninstallerPath_x86 :=
            Some (value_of E (lit ''RootDir'') s
                  @ lit ''Program Files (x86)/Fresh VPN/maintenancetool.exe'')\<rparr>
      else if runningOnMacOS E s then
        s\<lparr>appInstalledUninstallerPath :=
            Some (lit ''/Applications/'' @ appName E s
                  @ lit ''.app/maintenancetool.app/Contents/MacOS/maintenancetool'')\<rparr>
      else if runningOnLinux E s then
        s\<lparr>appInstalledUninstallerPath :=
            Some (lit ''/opt/'' @ appName E s @ lit ''/maintenancetool'')\<rparr>
      else s)"

definition appInstalled :: "'w env \<Rightarrow> ('w ctl, bool) js" where
  "appInstalled E =
     seqM (modifyM (set_uninstaller_paths E))
      (bindM (\<lambda>s. fileExists E (appInstalledUninstallerPath s) s)
        (\<lambda>b. if b then ret True
              else (\<lambda>s. fileExists E (appInstalledUninstallerPath_x86 s) s)))"

definition endsWith :: "'a list \<Rightarrow> 'a list \<Rightarrow> bool" where
  "endsWith str suff \<longleftrightarrow> indexOf str suff (int (length str) - int (length suff)) \<noteq> - 1"

text \<open>The busy wait of \<open>sleep\<close>: it ends at the first reading of the clock after the deadline.\<close>

partial_function (option) sleep_until :: "'w env \<Rightarrow> int \<Rightarrow> 'w ctl \<Rightarrow> (unit res \<times> 'w ctl) option" where
  "sleep_until E deadline s =
     bindM (now E) (\<lambda>t s'. if deadline \<ge> t then sleep_until E deadline s' else ret () s') s"

definition sleep :: "'w env \<Rightarrow> int \<Rightarrow> ('w ctl, unit) js" where
  "sleep E milliseconds = bindM (now E) (\<lambda>currentTime. sleep_until E (currentTime + milliseconds))"

definition quoted :: "jsstring \<Rightarrow> jsstring" where
  "quoted s = [39] @ s @ [39]"

text \<open>\<open>Number(result[0])\<close> of an empty result array is NaN.\<close>

definition output_number :: "(jsstring \<times> int) option \<Rightarrow> jsnum" where
  "output_number r = (case r of None \<Rightarrow> NaN | Some (out, code) \<Rightarrow> Number out)"

definition bash :: jsstring where
  "bash = lit ''/bin/bash''"

definition raiseInstallerWindow :: "'w env \<Rightarrow> ('w ctl, unit) js" where
  "raiseInstallerWindow E =
     ifM (\<lambda>s. \<not> runningOnMacOS E s) (ret ())
      (bindM
        (\<lambda>s. execute E (Some bash)
                [Arg (lit ''-c''),
                 Arg (lit ''ps -A | grep -m1 '' @ quoted (appName E s) @ lit '' | awk ''
                      @ quoted (lit ''{print $1}''))] s)
        (\<lambda>r. if num_gt (output_number r) 0
              then seqM (execute E (Some (lit ''osascript'')) [Arg (lit ''-e''), Frontmost (output_number r)])
                     (ret ())
              else ret ()))"

definition checkProcessIsRunning :: "'w env \<Rightarrow> jsstring \<Rightarrow> ('w ctl, bool) js" where
  "checkProcessIsRunning E arg =
     bindM (execute E (Some bash) [Arg (lit ''-c''), Arg arg])
      (\<lambda>r. case r of
              None \<Rightarrow> throw TypeError
            | Some (out, code) \<Rightarrow>
                let lines = split_lines [] (js_trim out)
                in ret (num_ge (Number (hd lines)) 2))"

definition appProcessIsRunning :: "'w env \<Rightarrow> ('w ctl, bool) js" where
  "appProcessIsRunning E =
     ifM (runningOnWindows E)
      (bindM (execute E (Some (lit ''tasklist'')) [])
        (\<lambda>r s. case r of
                 None \<Rightarrow> ret False s
               | Some (out, code) \<Rightarrow>
                   if code = 0 \<and> indexOf out (appExecutableFileName E s) 0 \<noteq> - 1
                   then ret True s else ret False s))
      (\<lambda>s. checkProcessIsRunning E (lit ''pgrep -x '' @ quoted (appName E s)) s)"

definition requestToQuit :: "'w env \<Rightarrow> ('w ctl, unit) js" where
  "requestToQuit E =
     seqM (modifyM (\<lambda>s. s\<lparr>requestToQuitFromApp := True\<rparr>))
      (seqM
        (emits E
          [SetDefaultPageVisible IntroductionPage False,
           SetDefaultPageVisible TargetDirectory False,
           SetDefaultPageVisible ComponentSelection False,
           SetDefaultPageVisible LicenseCheck False,
           SetDefaultPageVisible StartMenuSelection False,
           SetDefaultPageVisible ReadyForInstallation False,
           SetDefaultPageVisible PerformInstallation False,
           SetDefaultPageVisible FinishedPage False,
           ClickButton NextButton, ClickButton FinishButton, ClickButton CancelButton])
        (ifM (runningOnWindows E) (emit E SetCancelled) (ret ())))"

section \<open>Page callbacks\<close>

definition PerformInstallationPageCallback :: "'w env \<Rightarrow> ('w ctl, unit) js" where
  "PerformInstallationPageCallback E = emit E (ClickButton NextButton)"

definition LicenseAgreementPageCallback :: "'w env \<Rightarrow> ('w ctl, unit) js" where
  "LicenseAgreementPageCallback E = emit E (ClickButton NextButton)"

definition FinishedPageCallback :: "'w env \<Rightarrow> ('w ctl, unit) js" where
  "FinishedPageCallback E =
     ifM desktopAppProcessRunning (emit E (ClickButton FinishButton))
      (ifM (isUpdater E)
        (emits E [AutoAcceptMessageBoxes, ClickButton FinishButton])
        (ret ()))"

definition RestartPageCallback :: "'w env \<Rightarrow> ('w ctl, unit) js" where
  "RestartPageCallback E =
     seqM (modifyM (\<lambda>s. s\<lparr>updaterCompleted := 1\<rparr>)) (emit E (ClickButton FinishButton))"

definition StartMenuDirectoryPageCallback :: "'w env \<Rightarrow> ('w ctl, unit) js" where
  "StartMenuDirectoryPageCallback E = emit E (ClickButton NextButton)"

definition ComponentSelectionPageCallback :: "'w env \<Rightarrow> ('w ctl, unit) js" where
  "ComponentSelectionPageCallback E = emit E (ClickButton NextButton)"

definition ReadyForInstallationPageCallback :: "'w env \<Rightarrow> ('w ctl, unit) js" where
  "ReadyForInstallationPageCallback E =
     ifM (isUpdater E) (emit E (ClickButton CommitButton)) (ret ())"

text \<open>Disconnecting a function that is not connected is an error of the script engine.\<close>

definition disconnectBrowse :: "'w env \<Rightarrow> ('w ctl, unit) js" where
  "disconnectBrowse E s =
     (case env_disconnectBrowse E (world s) of
        (b, w) \<Rightarrow>
          let s' = s\<lparr>world := w, trace := trace s @ [DisconnectBrowse]\<rparr>
          in if b then ret () s' else throw SignalError s')"

definition TargetDirectoryPageCallback :: "'w env \<Rightarrow> ('w ctl, unit) js" where
  "TargetDirectoryPageCallback E =
     ifM (\<lambda>s. env_targetDirText E (world s) \<noteq> None)
      (seqM (disconnectBrowse E)
        (seqM (emit E ConnectBrowse) (emit E (ClickButton NextButton))))
      (ret ())"

text \<open>\<open>widget.findChild(name).visible = false\<close>; a missing child is null.\<close>

definition hideChild :: "'w env \<Rightarrow> jsstring \<Rightarrow> ('w ctl, unit) js" where
  "hideChild E name =
     ifM (\<lambda>s. env_findChild E name (world s)) (emit E (SetChildVisible name False)) (throw TypeError)"

definition IntroductionPageCallback :: "'w env \<Rightarrow> ('w ctl, unit) js" where
  "IntroductionPageCallback E s =
     (let widget = env_currentPageWidget E (world s)
      in ifM (\<lambda>s. isUpdater E s \<and> updaterCompleted s = 1)
           (emits E [ClickButton FinishButton, ClickButton CancelButton])
           (seqM
             (ifM (\<lambda>s. isUninstaller E s \<and> widget)
               (seqM (hideChild E (lit ''PackageManagerRadioButton''))
                 (hideChild E (lit ''UpdaterRadioButton'')))
               (ret ()))
             (ifM (isUpdater E) (emit E (ClickButton NextButton)) (ret ()))) s)"

section \<open>Signal handlers\<close>

definition browse_target :: "'w env \<Rightarrow> 'w ctl \<Rightarrow> jsstring \<Rightarrow> jsstring" where
  "browse_target E s targetDir =
     (if endsWith targetDir (appName E s) then targetDir
      else targetDir @ [92] @ appName E s)"

definition onBrowseButtonClicked :: "'w env \<Rightarrow> ('w ctl, unit) js" where
  "onBrowseButtonClicked E s =
     (case env_targetDirText E (world s) of
        None \<Rightarrow> ret () s
      | Some targetDir \<Rightarrow>
          if runningOnWindows E s
          then seqM (emit E (SetValue (lit ''TargetDir'') (browse_target E s targetDir)))
                 (\<lambda>s'. emit E (SetLineEditText (value_of E (lit ''TargetDir'') s')) s') s
          else ret () s)"

definition onNextButtonClicked :: "'w env \<Rightarrow> ('w ctl, unit) js" where
  "onNextButtonClicked E s =
     (case env_targetDirText E (world s) of
        None \<Rightarrow> ret () s
      | Some dir \<Rightarrow> emit E (SetValue (lit ''APP_BUNDLE_TARGET_DIR'') dir) s)"

section \<open>Waiting for the application to be closed\<close>

fun poll_running :: "'w env \<Rightarrow> nat \<Rightarrow> ('w ctl, unit) js" where
  "poll_running E 0 = ret ()"
| "poll_running E (Suc n) =
     bindM (appProcessIsRunning E)
      (\<lambda>b. seqM (modifyM (\<lambda>s. s\<lparr>desktopAppProcessRunning := b\<rparr>))
             (if \<not> b then ret () else poll_running E n))"

text \<open>One round up to the question: the process check, with the 400 polls of an updater.\<close>

definition check_round :: "'w env \<Rightarrow> ('w ctl, bool) js" where
  "check_round E =
     seqM (ifM (isUpdater E) (poll_running E 400) (ret ()))
      (bindM (appProcessIsRunning E)
        (\<lambda>b. seqM (modifyM (\<lambda>s. s\<lparr>desktopAppProcessRunning := b\<rparr>)) (ret b)))"

definition ask_close :: "'w env \<Rightarrow> ('w ctl, answer) js" where
  "ask_close E s = ask E (Warning (appName E s @ lit '' installer'')) s"

partial_function (option) isDesktopAppProcessRunningMessageLoop ::
    "'w env \<Rightarrow> 'w ctl \<Rightarrow> (unit res \<times> 'w ctl) option" where
  "isDesktopAppProcessRunningMessageLoop E s =
     (if requestToQuitFromApp s then ret () s
      else bindM (check_round E)
             (\<lambda>running s1.
                if running
                then bindM (ask_close E)
                       (\<lambda>result s2.
                          if result = BtnRetry then isDesktopAppProcessRunningMessageLoop E s2
                          else modifyM (\<lambda>s. s\<lparr>requestToQuitFromApp := True\<rparr>) s2) s1
                else ret () s1) s)"

section \<open>The controller\<close>

text \<open>At most 300 rounds of 100 ms, until the old uninstaller is gone.\<close>

fun wait_uninstalled :: "'w env \<Rightarrow> nat \<Rightarrow> ('w ctl, unit) js" where
  "wait_uninstalled E 0 = ret ()"
| "wait_uninstalled E (Suc n) =
     seqM (sleep E 100)
      (bindM (\<lambda>s. fileExists E (appInstalledUninstallerPath s) s)
        (\<lambda>b. if \<not> b then ret () else wait_uninstalled E n))"

text \<open>
  The two conditional runs of the old uninstallers; the result of the second run replaces that of
  the first, and no run at all leaves the empty array.
\<close>

definition run_uninstallers :: "'w env \<Rightarrow> ('w ctl, (jsstring \<times> int) option) js" where
  "run_uninstallers E =
     bindM (\<lambda>s. fileExists E (appInstalledUninstallerPath_x86 s) s)
      (\<lambda>b1. bindM (if b1 then (\<lambda>s. execute E (appInstalledUninstallerPath_x86 s) [] s) else ret None)
        (\<lambda>r1. bindM (\<lambda>s. fileExists E (appInstalledUninstallerPath s) s)
          (\<lambda>b2. if b2 then (\<lambda>s. execute E (appInstalledUninstallerPath s) [] s) else ret r1)))"

text \<open>False when the constructor returns early because the uninstaller failed.\<close>

definition remove_old_installation :: "'w env \<Rightarrow> ('w ctl, bool) js" where
  "remove_old_installation E =
     bindM (appInstalled E)
      (\<lambda>i. if \<not> i then ret True
            else bindM (run_uninstallers E)
              (\<lambda>r. if map_option snd r \<noteq> Some 0
                    then seqM (emit E SetCancelled) (ret False)
                    else seqM (wait_uninstalled E 300) (ret True)))"

definition replace_old_installation :: "'w env \<Rightarrow> ('w ctl, unit) js" where
  "replace_old_installation E =
     bindM (appInstalled E)
      (\<lambda>i. if \<not> i then ret ()
            else bindM (\<lambda>s. ask E (Information (appName E s)) s)
              (\<lambda>a. if a = BtnOk
                    then bindM (remove_old_installation E)
                           (\<lambda>go. if go then raiseInstallerWindow E else ret ())
                    else emit E SetCancelled))"

definition controller_install :: "'w env \<Rightarrow> ('w ctl, unit) js" where
  "controller_install E =
     seqM (emits E
            [SetDefaultPageVisible ComponentSelection False,
             SetDefaultPageVisible TargetDirectory False,
             SetDefaultPageVisible StartMenuDirectoryPage False,
             SetDefaultPageVisible LicenseCheck False])
      (seqM (isDesktopAppProcessRunningMessageLoop E)
        (ifM requestToQuitFromApp (requestToQuit E)
          (seqM
            (ifM (runningOnMacOS E)
              (emit E (SetMessageBoxAutomaticAnswer (lit ''OverwriteTargetDirectory'') BtnYes))
              (ret ()))
            (replace_old_installation E))))"

definition controller_uninstall :: "'w env \<Rightarrow> ('w ctl, unit) js" where
  "controller_uninstall E =
     seqM (isDesktopAppProcessRunningMessageLoop E)
      (ifM requestToQuitFromApp (requestToQuit E) (ret ()))"

definition controller_update :: "'w env \<Rightarrow> ('w ctl, unit) js" where
  "controller_update E =
     emits E [SetMessageBoxAutomaticAnswer (lit ''cancelInstallation'') BtnNo,
              ConnectInstallationFinished]"

definition Controller :: "'w env \<Rightarrow> ('w ctl, unit) js" where
  "Controller E =
     seqM (ifM (\<lambda>s. isInstaller E s \<or> isUpdater E s)
            (seqM (appInstalled E) (ret ())) (ret ()))
      (seqM (ifM (runningOnWindows E) (emit E (SetValue (lit ''AllUsers'') (lit ''true''))) (ret ()))
        (ifM (isInstaller E) (controller_install E)
          (ifM (isUninstaller E) (controller_uninstall E)
            (ifM (isUpdater E) (controller_update E) (ret ())))))"

section \<open>The platform tests\<close>

interpretation control: platform "runningOnWindows E" "runningOnMacOS E" "runningOnLinux E"
  for E :: "'w env"
  by unfold_locales
    (auto simp: runningOnWindows_def runningOnMacOS_def runningOnLinux_def lit_def)

end
