(* ===== verification/Control_Facts.thy ===== *)
theory Control_Facts
  imports Control_Script
begin

text \<open>
  The properties of the control script: string helpers, the process check, the question loop and
  the busy wait with their termination, and the order of the calls the constructor makes.
\<close>

section \<open>Totality\<close>

text \<open>\<open>returns m\<close>: \<open>m\<close> ends from every state, normally or with an error.\<close>

definition returns :: "('s, 'a) js \<Rightarrow> bool" where
  "returns m \<longleftrightarrow> (\<forall>s. m s \<noteq> None)"

named_theorems returns_intros \<open>closure of \<open>returns\<close>\<close>

lemma returns_bindM [returns_intros]:
  "returns m \<Longrightarrow> (\<And>a. returns (f a)) \<Longrightarrow> returns (bindM m f)"
  by (fastforce simp: returns_def bindM_def split: option.splits res.splits)

lemma returns_seqM [returns_intros]: "returns m \<Longrightarrow> returns n \<Longrightarrow> returns (seqM m n)"
  by (simp add: seqM_def returns_bindM)

lemma returns_ifM [returns_intros]: "returns m \<Longrightarrow> returns n \<Longrightarrow> returns (ifM p m n)"
  by (simp add: returns_def ifM_def)

lemma returns_if [returns_intros]: "returns m \<Longrightarrow> returns n \<Longrightarrow> returns (if b then m else n)"
  by simp

lemma returns_basic [returns_intros]:
  "returns (ret a)" "returns (throw e)" "returns (modifyM f)"
  by (simp_all add: returns_def ret_def throw_def modifyM_def)

lemma returns_calls [returns_intros]:
  "returns (emit E c)" "returns (emits E cs)" "returns (fileExists E p)" "returns (execute E cmd args)"
  "returns (ask E q)" "returns (now E)"
  by (simp_all add: returns_def emit_def emits_run fileExists_def execute_def ask_def now_def
      split: prod.splits)

lemma returns_state_calls [returns_intros]:
  "returns (\<lambda>s. fileExists E (p s) s)" "returns (\<lambda>s. execute E (cmd s) (args s) s)"
  "returns (\<lambda>s. ask E (q s) s)"
  by (simp_all add: returns_def fileExists_def execute_def ask_def split: prod.splits)

lemma returns_appInstalled [returns_intros]: "returns (appInstalled E)"
  unfolding appInstalled_def by (intro returns_intros)

lemma returns_checkProcessIsRunning: "checkProcessIsRunning E arg s \<noteq> None"
  by (auto simp: checkProcessIsRunning_def bindM_def execute_def ret_def throw_def Let_def
      split: option.splits prod.splits)

lemma returns_appProcessIsRunning [returns_intros]: "returns (appProcessIsRunning E)"
  using returns_checkProcessIsRunning
  by (auto simp: returns_def appProcessIsRunning_def ifM_def bindM_def execute_def ret_def
      split: option.splits prod.splits)

lemma returns_poll_running [returns_intros]: "returns (poll_running E n)"
  by (induction n) (auto intro!: returns_intros)

lemma returns_check_round [returns_intros]: "returns (check_round E)"
  unfolding check_round_def by (intro returns_intros)

lemma returns_requestToQuit [returns_intros]: "returns (requestToQuit E)"
  unfolding requestToQuit_def by (intro returns_intros)

lemma returns_raiseInstallerWindow [returns_intros]: "returns (raiseInstallerWindow E)"
  unfolding raiseInstallerWindow_def by (intro returns_intros)

lemma returns_run_uninstallers [returns_intros]: "returns (run_uninstallers E)"
  unfolding run_uninstallers_def by (intro returns_intros)

section \<open>String helpers\<close>

lemma suffix_drop_iff: "suffix t s \<longleftrightarrow> length t \<le> length s \<and> drop (length s - length t) s = t"
proof
  assume "suffix t s"
  then show "length t \<le> length s \<and> drop (length s - length t) s = t" by (auto elim!: suffixE)
next
  assume "length t \<le> length s \<and> drop (length s - length t) s = t"
  then show "suffix t s" using suffix_drop [of "length s - length t" s] by simp
qed

lemma sublist_same_length: "length t = length s \<Longrightarrow> sublist t s \<longleftrightarrow> t = s"
  by (auto simp: sublist_def intro: exI [of _ "[]"])

lemma endsWith_iff: "endsWith str suff \<longleftrightarrow> suffix suff str"
proof (cases "length suff \<le> length str")
  case True
  let ?n = "length str - length suff"
  have "endsWith str suff \<longleftrightarrow> index_from suff (drop ?n str) ?n \<noteq> None"
    using True by (auto simp: endsWith_def indexOf_def of_nat_diff nat_diff_distrib Let_def
        simp flip: of_nat_diff split: option.splits)
  also have "\<dots> \<longleftrightarrow> sublist suff (drop ?n str)"
    by (metis index_from_None)
  also have "\<dots> \<longleftrightarrow> suff = drop ?n str"
    using True by (simp add: sublist_same_length)
  finally show ?thesis using True by (auto simp: suffix_drop_iff)
next
  case False
  then have "\<not> sublist suff str" by (auto dest: sublist_length_le)
  moreover have "endsWith str suff \<longleftrightarrow> indexOf str suff 0 \<noteq> - 1"
    using False by (simp add: endsWith_def indexOf_def)
  moreover have "\<not> suffix suff str" using False by (auto dest: suffix_length_le)
  ultimately show ?thesis by (simp add: indexOf_found)
qed

text \<open>
  The script's own \<open>endsWith\<close>, written with \<open>indexOf\<close> and a start position that can be
  negative, decides exactly whether one string is a suffix of the other.
\<close>

theorem endsWith_suffix: "endsWith str suff \<longleftrightarrow> suffix suff str"
  by (rule endsWith_iff)

section \<open>Browsing for a target directory\<close>

lemma browse_target_props:
  "suffix (appName E s) (browse_target E s d)"
  "browse_target E s (browse_target E s d) = browse_target E s d"
  "browse_target E s d = d \<or> browse_target E s d = d @ [92] @ appName E s"
proof -
  have "suffix n (d @ 92 # n)" for n :: jsstring
    unfolding suffix_def by (rule exI [of _ "d @ [92]"]) simp
  then show "suffix (appName E s) (browse_target E s d)"
    "browse_target E s (browse_target E s d) = browse_target E s d"
    by (simp_all add: browse_target_def endsWith_iff)
qed (simp add: browse_target_def)

text \<open>
  On Windows, for every text of the directory field, the handler stores a target directory that
  ends with the application's name, is the chosen directory or its subdirectory of that name, and is
  what the field shows afterwards.  The framework's law used: reading a value just written returns it.
\<close>

theorem browse_sets_app_directory:
  assumes "runningOnWindows E s" and "env_targetDirText E (world s) = Some dir"
    and "\<And>k v w. env_value E k (env_perform E (SetValue k v) w) = v"
  shows "\<exists>d t. onBrowseButtonClicked E s = Some (Ok (), t)
           \<and> trace t = trace s @ [SetValue (lit ''TargetDir'') d, SetLineEditText d]
           \<and> suffix (appName E s) d \<and> (d = dir \<or> d = dir @ [92] @ appName E s)"
proof -
  let ?d = "browse_target E s dir"
  have "\<exists>t. onBrowseButtonClicked E s = Some (Ok (), t)
           \<and> trace t = trace s @ [SetValue (lit ''TargetDir'') ?d, SetLineEditText ?d]"
    using assms by (simp add: onBrowseButtonClicked_def js_run value_of_def)
  then show ?thesis using browse_target_props by blast
qed

section \<open>The process check\<close>

lemma js_trim_first_line:
  assumes "p \<noteq> []" "\<And>c. c \<in> set p \<Longrightarrow> \<not> js_space c"
  shows "takeWhile (\<lambda>d. d \<noteq> 10) (js_trim (p @ 10 # rest)) = p"
proof -
  let ?q = "dropWhile js_space (rev rest)"
  have sp: "js_space 10" by (simp add: js_space_def)
  have p10: "takeWhile (\<lambda>d. d \<noteq> 10) (p @ xs) = p @ takeWhile (\<lambda>d. d \<noteq> 10) xs" for xs
    by (rule takeWhile_append2) (use assms(2) sp in blast)
  have l: "dropWhile js_space (p @ 10 # rest) = p @ 10 # rest"
    using assms by (cases p) auto
  have k: "dropWhile js_space (rev p) = rev p"
    by (rule dropWhile_keep) (simp add: assms(2))
  have r: "dropWhile js_space (rev rest @ 10 # rev p) = (if ?q = [] then rev p else ?q @ 10 # rev p)"
    using k sp by (simp add: dropWhile_append dropWhile_eq_Nil_conv)
  show ?thesis using l r p10 p10 [of "[]"] by (simp add: js_trim_def)
qed

lemma dec_no_space: "c \<in> set (dec n) \<Longrightarrow> \<not> js_space c"
  using dec_digits [of n] by (auto simp: list_all_iff digit_not_space)

text \<open>
  Outside Windows, when \<open>pgrep\<close> prints the process number \<open>pid\<close> on its first line, the
  application counts as running exactly for numbers from 2 on; the exit code and further lines do
  not matter, nothing but the one command is run and no global changes.
\<close>

theorem unix_process_check:
  assumes "\<not> runningOnWindows E s"
    and "env_execute E (Some bash) [Arg (lit ''-c''), Arg (lit ''pgrep -x '' @ quoted (appName E s))]
           (world s) = (Some (dec pid @ 10 # rest, code), w)"
  shows "appProcessIsRunning E s =
    Some (Ok (2 \<le> pid), s\<lparr>world := w,
      trace := trace s @ [Execute (Some bash)
        [Arg (lit ''-c''), Arg (lit ''pgrep -x '' @ quoted (appName E s))]]\<rparr>)"
proof -
  have "hd (split_lines [] (js_trim (dec pid @ 10 # rest))) = dec pid"
    using dec_no_space dec_nonempty by (simp add: hd_split_lines js_trim_first_line)
  then show ?thesis
    using assms by (simp add: appProcessIsRunning_def checkProcessIsRunning_def bindM_def
        execute_def Number_dec ifM_def ret_def Let_def)
qed

text \<open>
  The check throws a type error exactly when it runs outside Windows and the shell could not be
  started; on Windows a failed \<open>tasklist\<close> means "not running".
\<close>

theorem process_check_error:
  "(\<exists>t. appProcessIsRunning E s = Some (Throw TypeError, t)) \<longleftrightarrow>
     \<not> runningOnWindows E s \<and>
     fst (env_execute E (Some bash)
            [Arg (lit ''-c''), Arg (lit ''pgrep -x '' @ quoted (appName E s))] (world s)) = None"
  by (auto simp: appProcessIsRunning_def checkProcessIsRunning_def bindM_def execute_def
      ifM_def ret_def throw_def Let_def split: option.splits prod.splits)

section \<open>The busy wait\<close>

text \<open>The successive readings of the clock from a world on.\<close>

fun reading :: "'w env \<Rightarrow> nat \<Rightarrow> 'w \<Rightarrow> int \<times> 'w" where
  "reading E 0 w = env_now E w"
| "reading E (Suc n) w = reading E n (snd (env_now E w))"

definition clock_advances :: "'w env \<Rightarrow> bool" where
  "clock_advances E \<longleftrightarrow> (\<forall>w d. \<exists>n. d < fst (reading E n w))"

lemma sleep_until_reading:
  assumes "d < fst (reading E n (world s))" "\<forall>k < n. fst (reading E k (world s)) \<le> d"
  shows "sleep_until E d s = Some (Ok (), s\<lparr>world := snd (reading E n (world s))\<rparr>)"
  using assms
proof (induction n arbitrary: s)
  case 0
  then show ?case
    by (subst sleep_until.simps) (auto simp: bindM_def now_def ret_def split: prod.splits)
next
  case (Suc n)
  obtain t w where tw: "env_now E (world s) = (t, w)" by fastforce
  with Suc.prems(2) [rule_format, of 0] have "t \<le> d" by simp
  moreover have "sleep_until E d (s\<lparr>world := w\<rparr>) =
      Some (Ok (), (s\<lparr>world := w\<rparr>)\<lparr>world := snd (reading E n w)\<rparr>)"
  proof -
    have "d < fst (reading E n (world (s\<lparr>world := w\<rparr>)))" using Suc.prems(1) tw by simp
    moreover have "\<forall>k < n. fst (reading E k (world (s\<lparr>world := w\<rparr>))) \<le> d"
      using Suc.prems(2) [rule_format, of "Suc k" for k] tw by simp
    ultimately show ?thesis using Suc.IH [of "s\<lparr>world := w\<rparr>"] by simp
  qed
  ultimately show ?case
    using tw by (subst sleep_until.simps) (simp add: bindM_def now_def)
qed

lemma sleep_run:
  assumes "clock_advances E"
  shows "\<exists>n. sleep E ms s = Some (Ok (), s\<lparr>world := snd (reading E (Suc n) (world s))\<rparr>)
           \<and> fst (reading E 0 (world s)) + ms < fst (reading E (Suc n) (world s))
           \<and> (\<forall>k < n. fst (reading E (Suc k) (world s)) \<le> fst (reading E 0 (world s)) + ms)"
proof -
  obtain t w where tw: "env_now E (world s) = (t, w)" by fastforce
  let ?P = "\<lambda>n. t + ms < fst (reading E n w)"
  have "\<exists>n. ?P n" using assms by (simp add: clock_advances_def)
  then obtain n where n: "?P n" "\<forall>k < n. \<not> ?P k" using exists_least_iff [of ?P] by blast
  then have "sleep_until E (t + ms) (s\<lparr>world := w\<rparr>) =
      Some (Ok (), s\<lparr>world := snd (reading E n w)\<rparr>)"
    using sleep_until_reading [of "t + ms" E n "s\<lparr>world := w\<rparr>"] by (simp add: not_less)
  then have "sleep E ms s = Some (Ok (), s\<lparr>world := snd (reading E (Suc n) (world s))\<rparr>)"
    using tw by (simp add: sleep_def bindM_def now_def)
  with n tw show ?thesis by (intro exI [of _ n]) (simp add: not_less)
qed

text \<open>
  With a clock whose readings are not bounded, \<open>sleep\<close> returns; it returns at the first
  reading more than the given time after its first one, and changes neither a global nor the trace.
\<close>

theorem sleep_waits:
  assumes "clock_advances E"
  shows "\<exists>n. sleep E ms s = Some (Ok (), s\<lparr>world := snd (reading E (Suc n) (world s))\<rparr>)
           \<and> fst (reading E 0 (world s)) + ms < fst (reading E (Suc n) (world s))
           \<and> (\<forall>k < n. fst (reading E (Suc k) (world s)) \<le> fst (reading E 0 (world s)) + ms)"
  using assms by (rule sleep_run)

lemma returns_sleep:
  assumes "clock_advances E"
  shows "returns (sleep E ms)"
  unfolding returns_def
proof
  fix s
  from sleep_run [OF assms, of ms s] show "sleep E ms s \<noteq> None" by auto
qed

lemma returns_wait_uninstalled: "clock_advances E \<Longrightarrow> returns (wait_uninstalled E n)"
  by (induction n) (auto intro!: returns_intros returns_sleep)

section \<open>The question loop\<close>

lemma check_round_running:
  "check_round E s = Some (Ok b, t) \<Longrightarrow> desktopAppProcessRunning t = b"
  by (auto simp: check_round_def seqM_Some bindM_Some modifyM_def ret_def)

lemma ask_close_run:
  "ask_close E s = Some (r, t) \<longleftrightarrow>
     (\<exists>a w. env_ask E (Warning (appName E s @ lit '' installer'')) (world s) = (a, w) \<and> r = Ok a
        \<and> t = s\<lparr>world := w, trace := trace s @ [Ask (Warning (appName E s @ lit '' installer'')) a]\<rparr>)"
  by (auto simp: ask_close_def ask_def split: prod.splits)

text \<open>
  Whenever the question loop returns normally, the last check found the application closed or a
  request to quit is recorded; so the installer never goes on while the application runs unless it
  is about to quit.
\<close>

theorem message_loop_post:
  assumes ret: "isDesktopAppProcessRunningMessageLoop E s = Some (Ok (), t)"
  shows "requestToQuitFromApp t \<or> \<not> desktopAppProcessRunning t"
proof -
  let ?P = "\<lambda>(E :: 'a env) (s :: 'a ctl) (y :: unit res \<times> 'a ctl).
    fst y = Ok () \<longrightarrow> requestToQuitFromApp (snd y) \<or> \<not> desktopAppProcessRunning (snd y)"
  have "?P E s (Ok (), t)"
  proof (rule isDesktopAppProcessRunningMessageLoop.raw_induct [where P = ?P, OF _ ret])
    fix f and E :: "'a env" and s :: "'a ctl" and y
    assume IH: "\<And>E s y. f E s = Some y \<Longrightarrow> ?P E s y"
      and eq: "(if requestToQuitFromApp s then Installer_Host.ret () s
          else bindM (check_round E)
            (\<lambda>running s1. if running
               then bindM (ask_close E) (\<lambda>result s2. if result = BtnRetry then f E s2
                  else modifyM (\<lambda>s. s\<lparr>requestToQuitFromApp := True\<rparr>) s2) s1
               else Installer_Host.ret () s1) s) = Some y"
    obtain r t where y: "y = (r, t)" by fastforce
    have IH': "f E s = Some (Ok (), t) \<Longrightarrow> requestToQuitFromApp t \<or> \<not> desktopAppProcessRunning t"
      for s using IH [of E s "(Ok (), t)"] by simp
    show "?P E s y"
      using eq unfolding y
      by (auto simp: ret_def modifyM_def bindM_Some split: if_splits
          dest: check_round_running dest!: IH')
  qed
  then show ?thesis by simp
qed

text \<open>
  The loop has no bound of its own: it goes on as long as the application runs and the user answers
  Retry.  \<open>retries_end\<close> says that this happens finitely often, by a measure on the states.
\<close>

definition retries_end :: "'w env \<Rightarrow> ('w ctl \<Rightarrow> nat) \<Rightarrow> bool" where
  "retries_end E m \<longleftrightarrow>
     (\<forall>s s1 s2. check_round E s = Some (Ok True, s1) \<longrightarrow> ask_close E s1 = Some (Ok BtnRetry, s2)
        \<longrightarrow> m s2 < m s)"

lemma message_loop_returns:
  assumes "retries_end E m"
  shows "isDesktopAppProcessRunningMessageLoop E s \<noteq> None"
proof (induction "m s" arbitrary: s rule: less_induct)
  case less
  obtain r s1 where c: "check_round E s = Some (r, s1)"
    using returns_check_round [of E] by (fastforce simp: returns_def)
  obtain r' s2 where a: "ask_close E s1 = Some (r', s2)"
    by (cases "ask_close E s1") (auto simp: ask_close_def ask_def split: prod.splits)
  have "isDesktopAppProcessRunningMessageLoop E s2 \<noteq> None" if "r = Ok True" "r' = Ok BtnRetry"
    using less assms c a that by (auto simp: retries_end_def)
  then show ?case
    using c a
    by (subst isDesktopAppProcessRunningMessageLoop.simps)
      (auto simp: bindM_def ret_def modifyM_def split: res.splits)
qed

text \<open>
  C10: the constructor of the control script returns from every state, whatever mode and system it
  runs on, when the clock advances and the user does not answer Retry for ever.
\<close>

theorem Controller_returns:
  assumes "clock_advances E" and "retries_end E m"
  shows "\<exists>r t. Controller E s = Some (r, t)"
proof -
  have loop: "returns (isDesktopAppProcessRunningMessageLoop E)"
    using message_loop_returns [OF assms(2)] by (simp add: returns_def)
  note wait = returns_wait_uninstalled [OF assms(1)]
  have "returns (Controller E)"
    unfolding Controller_def controller_install_def controller_uninstall_def controller_update_def
      replace_old_installation_def remove_old_installation_def
    by (intro returns_intros loop wait)
  then show ?thesis by (auto simp: returns_def)
qed

section \<open>Consent before uninstalling\<close>

text \<open>
  An old uninstaller is started by path without arguments; \<open>tasklist\<close> is the only other program
  started that way.  \<open>consented\<close> goes through a trace and allows such a start only after the
  information box was answered with OK.
\<close>

definition runs_uninstaller :: "call \<Rightarrow> bool" where
  "runs_uninstaller c \<longleftrightarrow> (\<exists>p. c = Execute p [] \<and> p \<noteq> Some (lit ''tasklist''))"

fun consented :: "bool \<Rightarrow> call list \<Rightarrow> bool" where
  "consented ok [] = True"
| "consented ok (c # cs) =
     ((runs_uninstaller c \<longrightarrow> ok) \<and> consented (ok \<or> (\<exists>q. c = Ask (Information q) BtnOk)) cs)"

lemma consented_True: "consented True cs"
  by (induction cs) auto

lemma consented_mono: "consented False cs \<Longrightarrow> consented ok cs"
  by (cases ok) (auto simp: consented_True)

text \<open>Calls that neither start an old uninstaller nor ask for consent.\<close>

definition quiet_call :: "call \<Rightarrow> bool" where
  "quiet_call c \<longleftrightarrow> \<not> runs_uninstaller c \<and> (\<forall>q a. c \<noteq> Ask (Information q) a)"

abbreviation quiet :: "('w ctl, 'a) js \<Rightarrow> bool" where
  "quiet m \<equiv> adds quiet_call m"

lemma consented_prepend:
  "list_all quiet_call us \<Longrightarrow> consented False vs \<Longrightarrow> consented ok (us @ vs)"
  by (induction us arbitrary: ok) (auto simp: consented_mono quiet_call_def)

lemma consented_quiet: "list_all quiet_call us \<Longrightarrow> consented ok us"
  using consented_prepend [of us "[]"] by simp

lemma quiet_simps [simp]:
  "quiet_call (Ask (Warning q) a)" "quiet_call (Execute p (x # xs))"
  "quiet_call (Execute (Some (lit ''tasklist'')) [])"
  "quiet_call (ClickButton b)" "quiet_call SetCancelled"
  "quiet_call (SetDefaultPageVisible pg v)" "quiet_call (SetValue k v')"
  "quiet_call (SetMessageBoxAutomaticAnswer k a)" "quiet_call ConnectInstallationFinished"
  by (simp_all add: quiet_call_def runs_uninstaller_def)

lemma quiet_appInstalled: "quiet (appInstalled E)"
  unfolding appInstalled_def
  by (intro adds_intros adds_modifyM) (simp add: set_uninstaller_paths_def)

lemma quiet_appProcessIsRunning: "quiet (appProcessIsRunning E)"
proof (rule addsI)
  fix s r t
  assume "appProcessIsRunning E s = Some (r, t)"
  then show "\<exists>cs. trace t = trace s @ cs \<and> list_all quiet_call cs"
    by (auto simp: appProcessIsRunning_def checkProcessIsRunning_def ifM_def bindM_def execute_def
        ret_def throw_def Let_def split: if_splits option.splits prod.splits)
qed

lemma quiet_poll_running: "quiet (poll_running E n)"
  by (induction n) (auto intro!: adds_intros adds_modifyM quiet_appProcessIsRunning)

lemma quiet_check_round: "quiet (check_round E)"
  unfolding check_round_def
  by (intro adds_intros adds_modifyM quiet_appProcessIsRunning quiet_poll_running) simp

lemma quiet_ask_close: "quiet (ask_close E)"
  by (auto intro!: addsI simp: ask_close_run)

lemma quiet_message_loop: "quiet (isDesktopAppProcessRunningMessageLoop E)"
proof (rule addsI)
  fix s :: "'a ctl" and r t
  assume ret: "isDesktopAppProcessRunningMessageLoop E s = Some (r, t)"
  let ?P = "\<lambda>(E :: 'a env) (s :: 'a ctl) (y :: unit res \<times> 'a ctl).
    \<exists>cs. trace (snd y) = trace s @ cs \<and> list_all quiet_call cs"
  have "?P E s (r, t)"
  proof (rule isDesktopAppProcessRunningMessageLoop.raw_induct [where P = ?P, OF _ ret])
    fix f and E :: "'a env" and s :: "'a ctl" and y
    assume IH: "\<And>E s y. f E s = Some y \<Longrightarrow> ?P E s y"
      and eq: "(if requestToQuitFromApp s then Installer_Host.ret () s
          else bindM (check_round E)
            (\<lambda>running s1. if running
               then bindM (ask_close E) (\<lambda>result s2. if result = BtnRetry then f E s2
                  else modifyM (\<lambda>s. s\<lparr>requestToQuitFromApp := True\<rparr>) s2) s1
               else Installer_Host.ret () s1) s) = Some y"
    have f: "quiet (f E)" for E using IH by (fastforce intro: addsI)
    let ?body = "ifM requestToQuitFromApp (Installer_Host.ret ())
        (bindM (check_round E) (\<lambda>running. ifM (\<lambda>_. running)
          (bindM (ask_close E) (\<lambda>result. ifM (\<lambda>_. result = BtnRetry) (f E)
             (modifyM (\<lambda>s. s\<lparr>requestToQuitFromApp := True\<rparr>)))) (Installer_Host.ret ())))"
    have "quiet ?body"
      by (intro adds_intros adds_modifyM quiet_check_round quiet_ask_close f) simp
    moreover have "?body s = Some (fst y, snd y)"
      using eq by (simp add: ifM_def [abs_def])
    ultimately show "?P E s y" by (rule addsD)
  qed
  then show "\<exists>cs. trace t = trace s @ cs \<and> list_all quiet_call cs" by simp
qed

lemma adds_sleep_until: "adds P (sleep_until E d)"
proof (rule addsI)
  fix s :: "'a ctl" and r t
  assume ret: "sleep_until E d s = Some (r, t)"
  let ?P = "\<lambda>(E :: 'a env) (d :: int) (s :: 'a ctl) (y :: unit res \<times> 'a ctl).
    trace (snd y) = trace s"
  have "?P E d s (r, t)"
  proof (rule sleep_until.raw_induct [where P = ?P, OF _ ret])
    fix f and E :: "'a env" and d and s :: "'a ctl" and y
    assume IH: "\<And>E d s y. f E d s = Some y \<Longrightarrow> ?P E d s y"
      and eq: "bindM (now E) (\<lambda>t s'. if d \<ge> t then f E d s' else Installer_Host.ret () s') s = Some y"
    from eq show "?P E d s y"
      by (auto simp: bindM_def now_def ret_def split: prod.splits if_splits dest!: IH)
  qed
  then show "\<exists>cs. trace t = trace s @ cs \<and> list_all P cs" by simp
qed

lemma adds_wait_uninstalled: "adds P (wait_uninstalled E n)"
  by (induction n) (auto simp: sleep_def intro!: adds_intros adds_sleep_until)

abbreviation no_question :: "call \<Rightarrow> bool" where
  "no_question c \<equiv> (\<forall>q a. c \<noteq> Ask q a)"

lemma adds_appInstalled: "adds P (appInstalled E)"
  unfolding appInstalled_def
  by (intro adds_intros adds_modifyM) (simp add: set_uninstaller_paths_def)

lemma no_question_remove: "adds no_question (remove_old_installation E)"
  unfolding remove_old_installation_def run_uninstallers_def
  by (intro adds_intros adds_appInstalled adds_wait_uninstalled) simp_all

lemma no_question_raise: "adds no_question (raiseInstallerWindow E)"
  unfolding raiseInstallerWindow_def by (intro adds_intros) simp_all

lemma no_question_continue:
  "adds no_question (bindM (remove_old_installation E)
     (\<lambda>go. if go then raiseInstallerWindow E else ret ()))"
  by (intro adds_intros no_question_remove no_question_raise)

text \<open>
  The ways through the handling of an old installation: nothing to do, declined, or accepted; and
  computations that make quiet calls and then at most one pass through it.
\<close>

definition old_install_calls :: "call list \<Rightarrow> bool" where
  "old_install_calls vs \<longleftrightarrow>
     vs = [] \<or> (\<exists>q a. a \<noteq> BtnOk \<and> vs = [Ask (Information q) a, SetCancelled])
     \<or> (\<exists>q cs. vs = Ask (Information q) BtnOk # cs \<and> list_all no_question cs)"

definition shaped :: "('w ctl, 'a) js \<Rightarrow> bool" where
  "shaped m \<longleftrightarrow> (\<forall>s r t. m s = Some (r, t) \<longrightarrow>
     (\<exists>us vs. trace t = trace s @ us @ vs \<and> list_all quiet_call us \<and> old_install_calls vs))"

lemma shapedD:
  "shaped m \<Longrightarrow> m s = Some (r, t) \<Longrightarrow>
     \<exists>us vs. trace t = trace s @ us @ vs \<and> list_all quiet_call us \<and> old_install_calls vs"
  by (simp add: shaped_def)

lemma shaped_quiet: "quiet m \<Longrightarrow> shaped m"
  unfolding shaped_def old_install_calls_def by (metis addsD append_Nil2)

lemma shaped_seqM:
  assumes m: "quiet m" and n: "shaped n"
  shows "shaped (seqM m n)"
  unfolding shaped_def
proof (intro allI impI)
  fix s r t
  assume "seqM m n s = Some (r, t)"
  then consider a u where "m s = Some (Ok a, u)" "n u = Some (r, t)"
    | e where "m s = Some (Throw e, t)"
    by (auto simp: seqM_Some)
  then show "\<exists>us vs. trace t = trace s @ us @ vs \<and> list_all quiet_call us \<and> old_install_calls vs"
  proof cases
    case 1
    obtain us where "trace u = trace s @ us" "list_all quiet_call us"
      using addsD [OF m 1(1)] by blast
    moreover obtain us' vs where "trace t = trace u @ us' @ vs" "list_all quiet_call us'"
        "old_install_calls vs"
      using shapedD [OF n 1(2)] by blast
    ultimately show ?thesis by (intro exI [of _ "us @ us'"] exI [of _ vs]) simp
  next
    case 2
    with shaped_quiet [OF m] show ?thesis by (rule shapedD)
  qed
qed

lemma shaped_ifM: "shaped m \<Longrightarrow> shaped n \<Longrightarrow> shaped (ifM p m n)"
  by (auto simp: shaped_def ifM_def)

lemma appInstalled_Ok: "\<exists>i u. appInstalled E s = Some (Ok i, u) \<and> trace u = trace s"
proof -
  obtain r u where ru: "appInstalled E s = Some (r, u)"
    using returns_appInstalled [of E] by (fastforce simp: returns_def)
  then have "trace u = trace s"
    using addsD [OF adds_appInstalled [of "\<lambda>_. False"] ru] by (auto simp: list_all_iff)
  moreover have "\<exists>i. r = Ok i"
    using ru by (auto simp: appInstalled_def seqM_def bindM_def modifyM_def fileExists_def ret_def
        split: if_splits prod.splits)
  ultimately show ?thesis using ru by blast
qed

lemma shaped_replace_old: "shaped (replace_old_installation E)"
  unfolding shaped_def
proof (intro allI impI)
  fix s r t
  assume asm: "replace_old_installation E s = Some (r, t)"
  let ?go = "bindM (remove_old_installation E) (\<lambda>go. if go then raiseInstallerWindow E else ret ())"
  obtain i u where i: "appInstalled E s = Some (Ok i, u)" and tu: "trace u = trace s"
    using appInstalled_Ok [of E s] by blast
  obtain a w where a: "env_ask E (Information (appName E u)) (world u) = (a, w)" by fastforce
  let ?v = "u\<lparr>world := w, trace := trace u @ [Ask (Information (appName E u)) a]\<rparr>"
  have q: "bindM (\<lambda>s. ask E (Information (appName E s)) s) f u = f a ?v" for f
    using a by (simp add: bindM_def ask_def)
  have "Some (r, t) = (if \<not> i then ret () u else if a = BtnOk then ?go ?v else emit E SetCancelled ?v)"
    unfolding asm [symmetric] replace_old_installation_def bindM_Ok [of "appInstalled E", OF i]
    by (simp add: q)
  then consider "trace t = trace s" | "a \<noteq> BtnOk" "emit E SetCancelled ?v = Some (r, t)"
    | "a = BtnOk" "?go ?v = Some (r, t)"
    using tu by (auto simp: ret_def split: if_splits)
  then have "\<exists>vs. trace t = trace s @ vs \<and> old_install_calls vs"
  proof cases
    case 1
    then show ?thesis by (simp add: old_install_calls_def)
  next
    case 2
    then show ?thesis using tu by (auto simp: emit_def old_install_calls_def)
  next
    case 3
    from addsD [OF no_question_continue 3(2)] 3(1) tu show ?thesis
      by (auto simp: old_install_calls_def)
  qed
  then show "\<exists>us vs. trace t = trace s @ us @ vs \<and> list_all quiet_call us \<and> old_install_calls vs"
    by (metis append_Nil list.pred_inject(1))
qed

lemma quiet_requestToQuit: "quiet (requestToQuit E)"
  unfolding requestToQuit_def by (intro adds_intros adds_modifyM) simp_all

lemma shaped_Controller: "shaped (Controller E)"
proof -
  have "shaped (controller_install E)"
    unfolding controller_install_def
    by (intro shaped_seqM shaped_ifM shaped_quiet [OF quiet_requestToQuit] shaped_replace_old
        adds_intros quiet_message_loop) simp_all
  moreover have "shaped (controller_uninstall E)"
    unfolding controller_uninstall_def
    by (intro shaped_quiet adds_intros quiet_requestToQuit quiet_message_loop)
  moreover have "shaped (controller_update E)"
    unfolding controller_update_def by (intro shaped_quiet adds_intros) simp
  moreover have "shaped (ret ())" by (intro shaped_quiet adds_intros)
  ultimately show ?thesis
    unfolding Controller_def
    by (intro shaped_seqM shaped_ifM adds_intros quiet_appInstalled) simp_all
qed

text \<open>
  C1: in every run of the control script's constructor, an uninstaller of an old installation is
  started only after the user has answered the question about removing it with OK.
\<close>

theorem uninstall_only_after_consent:
  assumes "Controller E (script_start w) = Some (r, t)"
  shows "consented False (trace t)"
proof -
  obtain us vs where t: "trace t = us @ vs" "list_all quiet_call us" "old_install_calls vs"
    using shapedD [OF shaped_Controller assms] by (auto simp: script_start_def)
  from t(3) have "consented False vs"
    by (auto simp: old_install_calls_def consented_True runs_uninstaller_def)
  with t show ?thesis by (simp add: consented_prepend)
qed

text \<open>
  C19: if the user declines, the installation is cancelled at once: the refusal and the cancellation
  are the last two calls of the run, and no uninstaller has been started.
\<close>

theorem decline_cancels:
  assumes "Controller E (script_start w) = Some (r, t)"
    and "Ask (Information q) a \<in> set (trace t)" and "a \<noteq> BtnOk"
  shows "\<exists>us. trace t = us @ [Ask (Information q) a, SetCancelled]
           \<and> (\<forall>c \<in> set (trace t). \<not> runs_uninstaller c)"
proof -
  obtain us vs where t: "trace t = us @ vs" "list_all quiet_call us" "old_install_calls vs"
    using shapedD [OF shaped_Controller assms(1)] by (auto simp: script_start_def)
  then have "Ask (Information q) a \<in> set vs"
    using assms(2) by (auto simp: list_all_iff quiet_call_def)
  then have "vs = [Ask (Information q) a, SetCancelled]"
    using t(3) assms(3) by (fastforce simp: old_install_calls_def list_all_iff)
  with t show ?thesis by (auto simp: list_all_iff quiet_call_def runs_uninstaller_def)
qed

section \<open>Quitting while the application runs\<close>

text \<open>\<open>keeps g m\<close>: \<open>m\<close> leaves the part \<open>g\<close> of the state as it was.\<close>

definition keeps :: "('s \<Rightarrow> 'b) \<Rightarrow> ('s, 'a) js \<Rightarrow> bool" where
  "keeps g m \<longleftrightarrow> (\<forall>s r t. m s = Some (r, t) \<longrightarrow> g t = g s)"

named_theorems keeps_intros \<open>closure of \<open>keeps\<close>\<close>

lemma keepsD: "keeps g m \<Longrightarrow> m s = Some (r, t) \<Longrightarrow> g t = g s"
  by (simp add: keeps_def)

lemma keeps_bindM [keeps_intros]:
  "keeps g m \<Longrightarrow> (\<And>a. keeps g (f a)) \<Longrightarrow> keeps g (bindM m f)"
  by (auto simp: keeps_def bindM_Some)

lemma keeps_seqM [keeps_intros]: "keeps g m \<Longrightarrow> keeps g n \<Longrightarrow> keeps g (seqM m n)"
  by (simp add: seqM_def keeps_bindM)

lemma keeps_ifM [keeps_intros]: "keeps g m \<Longrightarrow> keeps g n \<Longrightarrow> keeps g (ifM p m n)"
  by (auto simp: keeps_def ifM_def)

lemma keeps_if [keeps_intros]: "keeps g m \<Longrightarrow> keeps g n \<Longrightarrow> keeps g (if b then m else n)"
  by simp

lemma keeps_basic [keeps_intros]: "keeps g (ret a)" "keeps g (throw e)"
  by (simp_all add: keeps_def ret_def throw_def)

lemma keeps_modifyM: "(\<And>s. g (f s) = g s) \<Longrightarrow> keeps g (modifyM f)"
  by (simp add: keeps_def modifyM_def)

abbreviation keeps_quit :: "('w ctl, 'a) js \<Rightarrow> bool" where
  "keeps_quit m \<equiv> keeps requestToQuitFromApp m"

text \<open>Calls to the host keep every part of the state beside the world and the trace.\<close>

lemma keeps_calls:
  fixes g :: "'w ctl \<Rightarrow> 'b"
  assumes "\<And>s w. g (s\<lparr>world := w\<rparr>) = g s" "\<And>s cs. g (s\<lparr>trace := cs\<rparr>) = g s"
  shows "keeps g (emit E c)" "keeps g (emits E cs)" "keeps g (now E)"
    "keeps g (fileExists E p)" "keeps g (execute E cmd args)"
    "keeps g (\<lambda>s. fileExists E (p' s) s)" "keeps g (\<lambda>s. execute E (cmd' s) (args' s) s)"
    "keeps g (\<lambda>s. ask E (q s) s)"
  using assms
  by (auto simp: keeps_def emit_def emits_run now_def fileExists_def execute_def ask_def
      split: prod.splits)

lemma keeps_quit_calls [keeps_intros]:
  "keeps_quit (emit E c)" "keeps_quit (emits E cs)" "keeps_quit (now E)"
  "keeps_quit (fileExists E p)" "keeps_quit (execute E cmd args)"
  "keeps_quit (\<lambda>s. fileExists E (p' s) s)" "keeps_quit (\<lambda>s. execute E (cmd' s) (args' s) s)"
  "keeps_quit (\<lambda>s. ask E (q s) s)"
  by (simp_all add: keeps_calls)

lemma keeps_completed_calls [keeps_intros]:
  "keeps (updaterCompleted :: 'w ctl \<Rightarrow> int) (emit E c)"
  "keeps (updaterCompleted :: 'w ctl \<Rightarrow> int) (emits E cs)"
  by (simp_all add: keeps_calls)

lemma keeps_quit_sleep: "keeps_quit (sleep E ms)"
proof -
  have "keeps_quit (sleep_until E d)" for d
    unfolding keeps_def
  proof (intro allI impI)
    fix s :: "'a ctl" and r t
    assume ret: "sleep_until E d s = Some (r, t)"
    let ?P = "\<lambda>(E :: 'a env) (d :: int) (s :: 'a ctl) (y :: unit res \<times> 'a ctl).
      requestToQuitFromApp (snd y) = requestToQuitFromApp s"
    have "?P E d s (r, t)"
    proof (rule sleep_until.raw_induct [where P = ?P, OF _ ret])
      fix f and E :: "'a env" and d and s :: "'a ctl" and y
      assume IH: "\<And>E d s y. f E d s = Some y \<Longrightarrow> ?P E d s y"
        and "bindM (now E) (\<lambda>t s'. if d \<ge> t then f E d s' else Installer_Host.ret () s') s = Some y"
      then show "?P E d s y"
        by (auto simp: bindM_def now_def ret_def split: prod.splits if_splits dest!: IH)
    qed
    then show "requestToQuitFromApp t = requestToQuitFromApp s" by simp
  qed
  then show ?thesis unfolding sleep_def by (intro keeps_intros)
qed

lemma keeps_quit_wait: "keeps_quit (wait_uninstalled E n)"
  by (induction n) (auto intro!: keeps_intros keeps_quit_sleep)

lemma keeps_quit_appInstalled: "keeps_quit (appInstalled E)"
  unfolding appInstalled_def
  by (intro keeps_intros keeps_modifyM) (simp add: set_uninstaller_paths_def)

lemma keeps_quit_replace_old: "keeps_quit (replace_old_installation E)"
  unfolding replace_old_installation_def remove_old_installation_def run_uninstallers_def
    raiseInstallerWindow_def
  by (intro keeps_intros keeps_quit_appInstalled keeps_quit_wait)

definition quit_calls :: "call list" where
  "quit_calls =
     map (\<lambda>p. SetDefaultPageVisible p False)
       [IntroductionPage, TargetDirectory, ComponentSelection, LicenseCheck, StartMenuSelection,
        ReadyForInstallation, PerformInstallation, FinishedPage]
     @ [ClickButton NextButton, ClickButton FinishButton, ClickButton CancelButton]"

lemma requestToQuit_trace:
  "requestToQuit E s = Some (r, t) \<Longrightarrow>
     trace t = trace s @ quit_calls \<or> trace t = trace s @ quit_calls @ [SetCancelled]"
  by (auto simp: requestToQuit_def quit_calls_def seqM_def bindM_def modifyM_def emits_run ifM_def
      emit_def ret_def split: if_splits)

definition ends_quitting :: "call list \<Rightarrow> bool" where
  "ends_quitting cs \<longleftrightarrow>
     list_all quiet_call cs \<and> (\<exists>us. cs = us @ quit_calls \<or> cs = us @ quit_calls @ [SetCancelled])"

lemma ends_quitting_calls: "ends_quitting quit_calls" "ends_quitting (quit_calls @ [SetCancelled])"
  unfolding ends_quitting_def by (intro conjI exI [of _ "[]"], simp_all add: quit_calls_def)+

lemma ends_quitting_prepend:
  "list_all quiet_call us \<Longrightarrow> ends_quitting cs \<Longrightarrow> ends_quitting (us @ cs)"
  unfolding ends_quitting_def list_all_append by (metis append.assoc)

definition quitting :: "('w ctl, unit) js \<Rightarrow> bool" where
  "quitting m \<longleftrightarrow> (\<forall>s t. \<not> requestToQuitFromApp s \<longrightarrow> m s = Some (Ok (), t) \<longrightarrow>
     requestToQuitFromApp t \<longrightarrow> (\<exists>cs. trace t = trace s @ cs \<and> ends_quitting cs))"

lemma quittingD:
  "quitting m \<Longrightarrow> \<not> requestToQuitFromApp s \<Longrightarrow> m s = Some (Ok (), t) \<Longrightarrow> requestToQuitFromApp t \<Longrightarrow>
     \<exists>cs. trace t = trace s @ cs \<and> ends_quitting cs"
  by (simp add: quitting_def)

lemma quitting_keeps: "keeps_quit m \<Longrightarrow> quitting m"
  by (auto simp: quitting_def keeps_def)

lemma quitting_ifM: "quitting m \<Longrightarrow> quitting n \<Longrightarrow> quitting (ifM p m n)"
  by (auto simp: quitting_def ifM_def)

lemma quitting_seqM:
  assumes m: "quiet m" "keeps_quit m" and n: "quitting n"
  shows "quitting (seqM m n)"
  unfolding quitting_def
proof (intro allI impI)
  fix s t
  assume s: "\<not> requestToQuitFromApp s" and "seqM m n s = Some (Ok (), t)"
    and t: "requestToQuitFromApp t"
  then obtain a u where u: "m s = Some (Ok a, u)" "n u = Some (Ok (), t)"
    by (auto simp: seqM_Some)
  obtain us where us: "trace u = trace s @ us" "list_all quiet_call us"
    using addsD [OF m(1) u(1)] by blast
  have "\<not> requestToQuitFromApp u" using keepsD [OF m(2) u(1)] s by simp
  then obtain cs where "trace t = trace u @ cs" "ends_quitting cs"
    using quittingD [OF n _ u(2) t] by blast
  with us show "\<exists>cs. trace t = trace s @ cs \<and> ends_quitting cs"
    by (intro exI [of _ "us @ cs"]) (simp add: ends_quitting_prepend)
qed

lemma quitting_loop:
  assumes "keeps_quit n"
  shows "quitting (seqM (isDesktopAppProcessRunningMessageLoop E)
           (ifM requestToQuitFromApp (requestToQuit E) n))"
  unfolding quitting_def
proof (intro allI impI)
  fix s t
  assume "seqM (isDesktopAppProcessRunningMessageLoop E)
      (ifM requestToQuitFromApp (requestToQuit E) n) s = Some (Ok (), t)"
    and t: "requestToQuitFromApp t"
  then obtain u where u: "isDesktopAppProcessRunningMessageLoop E s = Some (Ok (), u)"
      and n: "(if requestToQuitFromApp u then requestToQuit E u else n u) = Some (Ok (), t)"
    by (auto simp: seqM_Some ifM_def)
  have "requestToQuitFromApp u" using n t keepsD [OF assms] by (auto split: if_splits)
  with n have q: "requestToQuit E u = Some (Ok (), t)" by simp
  obtain us where us: "trace u = trace s @ us" "list_all quiet_call us"
    using addsD [OF quiet_message_loop u] by blast
  obtain cs where "trace t = trace u @ cs" "ends_quitting cs"
    using requestToQuit_trace [OF q] ends_quitting_calls by blast
  with us show "\<exists>cs. trace t = trace s @ cs \<and> ends_quitting cs"
    by (intro exI [of _ "us @ cs"]) (simp add: ends_quitting_prepend)
qed

text \<open>
  When the run ends with a request to quit (the application was active and the user did not
  answer Retry), the script hides every page, clicks Next, Finish and Cancel in this order as its
  last calls, followed at most by the cancellation, and no old uninstaller was started.
\<close>

theorem abort_quits:
  assumes "Controller E (script_start w) = Some (Ok (), t)" and "requestToQuitFromApp t"
  shows "(\<exists>us. trace t = us @ quit_calls \<or> trace t = us @ quit_calls @ [SetCancelled])
           \<and> (\<forall>c \<in> set (trace t). \<not> runs_uninstaller c)"
proof -
  have "quitting (controller_install E)"
    unfolding controller_install_def
    by (intro quitting_seqM quitting_loop adds_intros keeps_intros keeps_quit_replace_old) simp
  moreover have "quitting (controller_uninstall E)"
    unfolding controller_uninstall_def by (intro quitting_loop keeps_intros)
  moreover have "quitting (controller_update E)" "quitting (ret ())"
    unfolding controller_update_def by (intro quitting_keeps keeps_intros)+
  ultimately have "quitting (Controller E)"
    unfolding Controller_def
    by (intro quitting_seqM quitting_ifM adds_intros keeps_intros quiet_appInstalled
        keeps_quit_appInstalled) simp_all
  from quittingD [OF this _ assms] have "ends_quitting (trace t)"
    by (auto simp: script_start_def)
  then show ?thesis by (auto simp: ends_quitting_def list_all_iff quiet_call_def)
qed

section \<open>Page callbacks\<close>

datatype callback =
    CbPerformInstallation | CbLicenseAgreement | CbFinished | CbRestart | CbStartMenuDirectory
  | CbComponentSelection | CbReadyForInstallation | CbTargetDirectory | CbIntroduction
  | CbBrowse | CbNext

fun run_callback :: "'w env \<Rightarrow> callback \<Rightarrow> ('w ctl, unit) js" where
  "run_callback E CbPerformInstallation = PerformInstallationPageCallback E"
| "run_callback E CbLicenseAgreement = LicenseAgreementPageCallback E"
| "run_callback E CbFinished = FinishedPageCallback E"
| "run_callback E CbRestart = RestartPageCallback E"
| "run_callback E CbStartMenuDirectory = StartMenuDirectoryPageCallback E"
| "run_callback E CbComponentSelection = ComponentSelectionPageCallback E"
| "run_callback E CbReadyForInstallation = ReadyForInstallationPageCallback E"
| "run_callback E CbTargetDirectory = TargetDirectoryPageCallback E"
| "run_callback E CbIntroduction = IntroductionPageCallback E"
| "run_callback E CbBrowse = onBrowseButtonClicked E"
| "run_callback E CbNext = onNextButtonClicked E"

text \<open>The state after a callback; a thrown error ends the callback, not the installer.\<close>

definition callback_step :: "'w env \<Rightarrow> callback \<Rightarrow> 'w ctl \<Rightarrow> 'w ctl" where
  "callback_step E cb s = (case run_callback E cb s of None \<Rightarrow> s | Some (r, t) \<Rightarrow> t)"

fun gui_call :: "call \<Rightarrow> bool" where
  "gui_call (ClickButton b) = True"
| "gui_call AutoAcceptMessageBoxes = True"
| "gui_call DisconnectBrowse = True"
| "gui_call ConnectBrowse = True"
| "gui_call (SetChildVisible n v) = True"
| "gui_call (SetLineEditText d) = True"
| "gui_call (SetValue k v) = (k = lit ''TargetDir'' \<or> k = lit ''APP_BUNDLE_TARGET_DIR'')"
| "gui_call c = False"

lemmas callback_defs =
  PerformInstallationPageCallback_def LicenseAgreementPageCallback_def FinishedPageCallback_def
  RestartPageCallback_def StartMenuDirectoryPageCallback_def ComponentSelectionPageCallback_def
  ReadyForInstallationPageCallback_def TargetDirectoryPageCallback_def IntroductionPageCallback_def
  onBrowseButtonClicked_def onNextButtonClicked_def hideChild_def disconnectBrowse_def

lemma gui_disconnectBrowse: "adds gui_call (disconnectBrowse E)"
  by (auto intro!: addsI simp: disconnectBrowse_def ret_def throw_def Let_def
      split: prod.splits if_splits)

lemma gui_IntroductionPageCallback: "adds gui_call (IntroductionPageCallback E)"
proof -
  have "adds gui_call
    (ifM (\<lambda>s. isUpdater E s \<and> updaterCompleted s = 1)
       (emits E [ClickButton FinishButton, ClickButton CancelButton])
       (seqM (ifM (\<lambda>s. isUninstaller E s \<and> widget)
               (seqM (hideChild E (lit ''PackageManagerRadioButton''))
                 (hideChild E (lit ''UpdaterRadioButton''))) (ret ()))
             (ifM (isUpdater E) (emit E (ClickButton NextButton)) (ret ()))))" for widget
    unfolding hideChild_def by (intro adds_intros) simp_all
  then show ?thesis by (simp add: adds_def IntroductionPageCallback_def Let_def)
qed

lemma gui_handlers:
  "adds gui_call (onBrowseButtonClicked E)" "adds gui_call (onNextButtonClicked E)"
  by (auto intro!: addsI simp: onBrowseButtonClicked_def onNextButtonClicked_def seqM_def bindM_def
      emit_def ret_def split: option.splits if_splits)

lemma gui_run_callback: "adds gui_call (run_callback E cb)"
proof (cases cb)
  case CbTargetDirectory
  show ?thesis
    unfolding CbTargetDirectory run_callback.simps TargetDirectoryPageCallback_def
    by (intro adds_intros gui_disconnectBrowse) simp_all
qed (auto simp: callback_defs
      intro!: adds_intros adds_modifyM gui_IntroductionPageCallback gui_handlers)

lemma completed_run_callback:
  assumes "run_callback E cb s = Some (r, t)"
  shows "updaterCompleted t = (if cb = CbRestart then 1 else updaterCompleted s)"
proof -
  have intro: "keeps updaterCompleted
    (ifM (\<lambda>s. isUpdater E s \<and> updaterCompleted s = 1)
       (emits E [ClickButton FinishButton, ClickButton CancelButton])
       (seqM (ifM (\<lambda>s. isUninstaller E s \<and> widget)
               (seqM (hideChild E (lit ''PackageManagerRadioButton''))
                 (hideChild E (lit ''UpdaterRadioButton''))) (ret ()))
             (ifM (isUpdater E) (emit E (ClickButton NextButton)) (ret ()))))" for widget
    unfolding hideChild_def by (intro keeps_intros)
  have handlers: "keeps updaterCompleted (onBrowseButtonClicked E)"
      "keeps updaterCompleted (onNextButtonClicked E)" "keeps updaterCompleted (disconnectBrowse E)"
    by (auto simp: keeps_def onBrowseButtonClicked_def onNextButtonClicked_def disconnectBrowse_def
        seqM_def bindM_def emit_def ret_def throw_def Let_def
        split: option.splits if_splits prod.splits)
  have "keeps updaterCompleted (run_callback E cb)" if "cb \<noteq> CbRestart"
  proof (cases cb)
    case CbIntroduction
    then show ?thesis using intro by (simp add: keeps_def IntroductionPageCallback_def Let_def)
  next
    case CbTargetDirectory
    show ?thesis
      unfolding CbTargetDirectory run_callback.simps TargetDirectoryPageCallback_def
      by (intro keeps_intros handlers)
  qed (use that handlers in \<open>auto simp: callback_defs intro!: keeps_intros\<close>)
  then show ?thesis
    using assms keepsD [of updaterCompleted "run_callback E cb" s r t]
    by (cases "cb = CbRestart") (auto simp: RestartPageCallback_def seqM_def bindM_def modifyM_def emit_def)
qed

interpretation restart: preserved "callback_step E" "\<lambda>s. updaterCompleted s = 1" for E :: "'w env"
  by unfold_locales (auto simp: callback_step_def completed_run_callback split: option.splits)

text \<open>
  Once the restart page was shown in an updater, any later introduction page clicks Finish and
  then Cancel, whatever callbacks ran in between.
\<close>

theorem updater_finishes_after_restart:
  assumes "\<And>w. env_isUpdater E w"
  shows "\<exists>u. IntroductionPageCallback E (runs (callback_step E) (CbRestart # cbs) s) = Some (Ok (), u)
           \<and> trace u = trace (runs (callback_step E) (CbRestart # cbs) s)
               @ [ClickButton FinishButton, ClickButton CancelButton]"
proof -
  have "updaterCompleted (callback_step E CbRestart s) = 1"
    by (simp add: callback_step_def RestartPageCallback_def js_run)
  then have "updaterCompleted (runs (callback_step E) (CbRestart # cbs) s) = 1"
    by (simp add: restart.runs_invar)
  with assms show ?thesis
    by (simp add: IntroductionPageCallback_def Let_def js_run)
qed

text \<open>
  No sequence of page callbacks and signal handlers starts a program, asks a question, cancels
  the installation or writes a value other than the two target directories; they only act on the
  pages and buttons of the wizard.
\<close>

theorem callbacks_only_gui:
  "\<exists>cs. trace (runs (callback_step E) cbs s) = trace s @ cs \<and> list_all gui_call cs"
proof (induction cbs arbitrary: s)
  case Nil
  show ?case by simp
next
  case (Cons cb cbs)
  have "\<exists>cs. trace (callback_step E cb s) = trace s @ cs \<and> list_all gui_call cs"
  proof (cases "run_callback E cb s")
    case None
    then show ?thesis by (simp add: callback_step_def)
  next
    case (Some y)
    with addsD [OF gui_run_callback, of E cb s "fst y" "snd y"] show ?thesis
      by (cases y) (simp add: callback_step_def)
  qed
  then obtain cs where "trace (callback_step E cb s) = trace s @ cs" "list_all gui_call cs" by blast
  moreover obtain ds where "trace (runs (callback_step E) cbs (callback_step E cb s)) =
      trace (callback_step E cb s) @ ds" "list_all gui_call ds"
    using Cons.IH by blast
  ultimately show ?case by (intro exI [of _ "cs @ ds"]) simp
qed

end
