(* ===== verification/Control_Witness.thy ===== *)
theory Control_Witness
  imports Control_Facts
begin

text \<open>
  A simulated host for the scripts: a Windows or Linux machine with a clock that moves one second
  per reading, an application that stays active for a number of questions, an old installation that
  its uninstaller removes, and a user with a fixed answer to the question about it.  The witnesses
  of the properties of the control script run on it.
\<close>

record sim =
  sim_clock :: int
  sim_active :: nat
  sim_installed :: bool
  sim_answer :: answer
  sim_dir :: "jsstring option"
  sim_values :: "(jsstring \<times> jsstring) list"

definition sim_value :: "jsstring \<Rightarrow> sim \<Rightarrow> jsstring" where
  "sim_value k w = (case map_of (sim_values w) k of None \<Rightarrow> [] | Some v \<Rightarrow> v)"

definition sim_uninstaller :: "jsstring" where
  "sim_uninstaller = lit ''C:/Program Files/Fresh VPN/maintenancetool.exe''"

definition sim_exe :: jsstring where
  "sim_exe = lit ''FreshVPN.exe''"

definition sim_execute :: "jsstring option \<Rightarrow> earg list \<Rightarrow> sim \<Rightarrow> (jsstring \<times> int) option \<times> sim" where
  "sim_execute cmd args w =
     (if cmd = Some sim_uninstaller then (Some ([], 0), w\<lparr>sim_installed := False\<rparr>)
      else if cmd = Some (lit ''tasklist'')
      then (Some (if 0 < sim_active w then sim_exe else [], 0), w)
      else (Some (if 0 < sim_active w then dec 77 @ [10] else [], 0), w))"

definition sim_ask :: "question \<Rightarrow> sim \<Rightarrow> answer \<times> sim" where
  "sim_ask q w =
     (case q of
        Information title \<Rightarrow> (sim_answer w, w)
      | Warning title \<Rightarrow> (if 1 < sim_active w then BtnRetry else BtnAbort,
                           w\<lparr>sim_active := sim_active w - 1\<rparr>))"

fun sim_perform :: "call \<Rightarrow> sim \<Rightarrow> sim" where
  "sim_perform (SetValue k v) w = w\<lparr>sim_values := (k, v) # sim_values w\<rparr>"
| "sim_perform c w = w"

definition sim_env :: "sim env" where
  "sim_env =
     \<lparr>env_value = sim_value,
      env_fileExists = (\<lambda>p w. (sim_installed w \<and> p = Some sim_uninstaller, w)),
      env_execute = sim_execute,
      env_isInstaller = (\<lambda>w. True), env_isUpdater = (\<lambda>w. False), env_isUninstaller = (\<lambda>w. False),
      env_ask = sim_ask,
      env_now = (\<lambda>w. (sim_clock w, w\<lparr>sim_clock := sim_clock w + 1000\<rparr>)),
      env_targetDirText = sim_dir,
      env_currentPageWidget = (\<lambda>w. True), env_findChild = (\<lambda>n w. True),
      env_disconnectBrowse = (\<lambda>w. (True, w)),
      env_kernelType = (\<lambda>w. if sim_value (lit ''os'') w = lit ''win'' then lit ''winnt'' else lit ''linux''),
      env_cpuArchitecture = (\<lambda>w. lit ''x86_64''),
      env_findPath = (\<lambda>n ps w. ([], w)),
      env_desktopLocation = (\<lambda>w. lit ''C:/Users/Public/Desktop''),
      env_success = (\<lambda>w. True),
      env_gainAdminRights = (\<lambda>w. (True, w)),
      env_perform = sim_perform\<rparr>"

definition sim_machine :: "string \<Rightarrow> nat \<Rightarrow> bool \<Rightarrow> answer \<Rightarrow> sim" where
  "sim_machine os active installed ans =
     \<lparr>sim_clock = 0, sim_active = active, sim_installed = installed, sim_answer = ans,
      sim_dir = Some (lit ''D:''),
      sim_values = [(lit ''Name'', lit ''FreshVPN''), (lit ''os'', lit os), (lit ''RootDir'', lit ''C:/'')]\<rparr>"

declare sleep_until.simps [code] isDesktopAppProcessRunningMessageLoop.simps [code]
declare emits_run [code]

abbreviation sim_start :: "string \<Rightarrow> nat \<Rightarrow> bool \<Rightarrow> answer \<Rightarrow> sim ctl" where
  "sim_start os active installed ans \<equiv> script_start (sim_machine os active installed ans)"

section \<open>Laws of the simulated host\<close>

lemma sim_set_get: "env_value sim_env k (env_perform sim_env (SetValue k v) w) = v"
  by (simp add: sim_env_def sim_value_def)

lemma sim_reading: "fst (reading sim_env n w) = sim_clock w + 1000 * int n"
  by (induction n arbitrary: w) (auto simp: sim_env_def)

lemma sim_clock_advances: "clock_advances sim_env"
proof -
  have "d < fst (reading sim_env (nat (\<bar>d\<bar> + \<bar>sim_clock w\<bar> + 1)) w)" for d w
    by (simp add: sim_reading)
  then show ?thesis unfolding clock_advances_def by blast
qed

lemma sim_names:
  "sim_uninstaller \<noteq> lit ''tasklist''" "sim_uninstaller \<noteq> bash"
  by (simp_all add: sim_uninstaller_def bash_def lit_def)

lemma sim_check:
  assumes "appProcessIsRunning sim_env s = Some (Ok True, t)"
  shows "world t = world s \<and> 0 < sim_active (world s)"
proof -
  have "Number (hd (split_lines [] (js_trim []))) = Fin 0" by code_simp
  moreover have "indexOf [] (x @ lit ''.exe'') 0 = - 1" for x
    by (simp add: indexOf_def lit_def)
  ultimately show ?thesis
    using assms sim_names
    by (auto simp: appProcessIsRunning_def checkProcessIsRunning_def ifM_def bindM_def execute_def
        sim_env_def sim_execute_def ret_def Let_def appExecutableFileName_def runningOnWindows_def
        value_of_def split: if_splits)
qed

lemma sim_retries_end: "retries_end sim_env (\<lambda>s. sim_active (world s))"
  unfolding retries_end_def
proof (intro allI impI)
  fix s s1 s2
  assume c: "check_round sim_env s = Some (Ok True, s1)"
    and a: "ask_close sim_env s1 = Some (Ok BtnRetry, s2)"
  have "\<not> isUpdater sim_env s" for s :: "sim ctl" by (simp add: isUpdater_def sim_env_def)
  with c obtain t where "appProcessIsRunning sim_env s = Some (Ok True, t)"
      "s1 = t\<lparr>desktopAppProcessRunning := True\<rparr>"
    by (auto simp: check_round_def seqM_Some bindM_Some ifM_def ret_def modifyM_def)
  with sim_check have "world s1 = world s" "0 < sim_active (world s)" by auto
  moreover have "sim_active (world s2) = sim_active (world s1) - 1"
    using a by (auto simp: ask_close_run sim_env_def sim_ask_def)
  ultimately show "sim_active (world s2) < sim_active (world s)" by simp
qed

section \<open>Witnesses\<close>

theorem browse_sets_app_directory_witness:
  "\<exists>d t. onBrowseButtonClicked sim_env (sim_start ''win'' 0 False BtnOk) = Some (Ok (), t)
     \<and> trace t = [] @ [SetValue (lit ''TargetDir'') d, SetLineEditText d]
     \<and> suffix (lit ''FreshVPN'') d \<and> (d = lit ''D:'' \<or> d = lit ''D:'' @ [92] @ lit ''FreshVPN'')"
proof -
  let ?s = "sim_start ''win'' 0 False BtnOk"
  have h: "runningOnWindows sim_env ?s" "env_targetDirText sim_env (world ?s) = Some (lit ''D:'')"
    "trace ?s = []" "appName sim_env ?s = lit ''FreshVPN''"
    by code_simp+
  show ?thesis
    using browse_sets_app_directory [OF h(1) h(2)] sim_set_get by (simp only: h)
qed

theorem unix_process_check_witness:
  "map_option fst (appProcessIsRunning sim_env (sim_start ''linux'' 2 False BtnOk)) = Some (Ok True)"
proof -
  let ?s = "sim_start ''linux'' 2 False BtnOk"
  have h: "\<not> runningOnWindows sim_env ?s" by code_simp
  have e: "env_execute sim_env (Some bash) [Arg (lit ''-c''),
      Arg (lit ''pgrep -x '' @ quoted (appName sim_env ?s))] (world ?s) =
      (Some (dec 77 @ 10 # [], 0), world ?s)"
    using sim_names by (simp add: sim_env_def sim_execute_def bash_def lit_def script_start_def sim_machine_def)
  show ?thesis unfolding unix_process_check [OF h e] by simp
qed

theorem sleep_waits_witness:
  "clock_advances sim_env \<and> (\<exists>n. sleep sim_env 100 (sim_start ''win'' 0 False BtnOk) =
     Some (Ok (), (sim_start ''win'' 0 False BtnOk)\<lparr>world :=
       snd (reading sim_env (Suc n) (world (sim_start ''win'' 0 False BtnOk)))\<rparr>))"
  using sleep_waits [OF sim_clock_advances, of 100 "sim_start ''win'' 0 False BtnOk"]
    sim_clock_advances by blast

theorem message_loop_post_witness:
  "\<exists>t. isDesktopAppProcessRunningMessageLoop sim_env (sim_start ''win'' 3 True BtnOk) = Some (Ok (), t)
     \<and> (requestToQuitFromApp t \<or> \<not> desktopAppProcessRunning t)"
proof -
  have "map_option fst (isDesktopAppProcessRunningMessageLoop sim_env (sim_start ''win'' 3 True BtnOk))
      = Some (Ok ())"
    by code_simp
  then obtain t where "isDesktopAppProcessRunningMessageLoop sim_env (sim_start ''win'' 3 True BtnOk) =
      Some (Ok (), t)"
    by auto
  with message_loop_post [OF this] show ?thesis by blast
qed

theorem Controller_returns_witness:
  "\<exists>r t. Controller sim_env (sim_start ''win'' 3 True BtnOk) = Some (r, t)"
  using Controller_returns [OF sim_clock_advances sim_retries_end] .

theorem uninstall_only_after_consent_witness:
  "\<exists>r t. Controller sim_env (sim_start ''win'' 0 True BtnOk) = Some (r, t)
     \<and> Execute (Some sim_uninstaller) [] \<in> set (trace t) \<and> consented False (trace t)"
proof -
  have "map_option (\<lambda>(r, t). List.member (trace t) (Execute (Some sim_uninstaller) []))
      (Controller sim_env (sim_start ''win'' 0 True BtnOk)) = Some True"
    by code_simp
  then obtain r t where "Controller sim_env (sim_start ''win'' 0 True BtnOk) = Some (r, t)"
      "Execute (Some sim_uninstaller) [] \<in> set (trace t)"
    by auto
  with uninstall_only_after_consent [OF this(1)] show ?thesis by blast
qed

theorem decline_cancels_witness:
  "\<exists>r t us. Controller sim_env (sim_start ''win'' 0 True BtnCancel) = Some (r, t)
     \<and> trace t = us @ [Ask (Information (lit ''FreshVPN'')) BtnCancel, SetCancelled]"
proof -
  have "map_option (\<lambda>(r, t). List.member (trace t) (Ask (Information (lit ''FreshVPN'')) BtnCancel))
      (Controller sim_env (sim_start ''win'' 0 True BtnCancel)) = Some True"
    by code_simp
  then obtain r t where "Controller sim_env (sim_start ''win'' 0 True BtnCancel) = Some (r, t)"
      "Ask (Information (lit ''FreshVPN'')) BtnCancel \<in> set (trace t)"
    by auto
  with decline_cancels [OF this] show ?thesis by blast
qed

theorem abort_quits_witness:
  "\<exists>t. Controller sim_env (sim_start ''win'' 3 True BtnOk) = Some (Ok (), t)
     \<and> (\<exists>us. trace t = us @ quit_calls \<or> trace t = us @ quit_calls @ [SetCancelled])"
proof -
  have "map_option (\<lambda>(r, t). (r, requestToQuitFromApp t))
      (Controller sim_env (sim_start ''win'' 3 True BtnOk)) = Some (Ok (), True)"
    by code_simp
  then obtain t where "Controller sim_env (sim_start ''win'' 3 True BtnOk) = Some (Ok (), t)"
      "requestToQuitFromApp t"
    by auto
  with abort_quits [OF this] show ?thesis by blast
qed

theorem updater_finishes_after_restart_witness:
  "let E = sim_env\<lparr>env_isUpdater := (\<lambda>w. True)\<rparr>;
       s = runs (callback_step E) [CbRestart, CbFinished, CbTargetDirectory] (sim_start ''win'' 0 True BtnOk)
   in \<exists>u. IntroductionPageCallback E s = Some (Ok (), u)
        \<and> trace u = trace s @ [ClickButton FinishButton, ClickButton CancelButton]"
proof -
  have "env_isUpdater (sim_env\<lparr>env_isUpdater := (\<lambda>w. True)\<rparr>) w" for w by simp
  from updater_finishes_after_restart [OF this] show ?thesis unfolding Let_def .
qed

end
