(* ===== verification/Component_Facts.thy ===== *)
theory Component_Facts
  imports Component_Script Control_Witness
begin

text \<open>
  Properties of the component script: the registered operations on each platform and the rights
  under which the application is launched, with witnesses on the simulated host.
\<close>

section \<open>Administrator rights\<close>

text \<open>
  Goes through a trace with the current level of rights: a successful request raises it, dropping
  lowers it, services may only be touched while it is raised and the application may only be
  launched while it is not.  The result is the level at the end.
\<close>

fun rights_after :: "bool \<Rightarrow> call list \<Rightarrow> bool option" where
  "rights_after lv [] = Some lv"
| "rights_after lv (c # cs) =
     (case c of
        GainAdminRights b \<Rightarrow> rights_after (lv \<or> b) cs
      | DropAdminRights \<Rightarrow> rights_after False cs
      | Execute p args \<Rightarrow> if lv then rights_after lv cs else None
      | ExecuteDetached cmd args dir \<Rightarrow> if lv then None else rights_after lv cs
      | _ \<Rightarrow> rights_after lv cs)"

text \<open>
  C6: whenever the finish handler returns it has dropped the rights it gained; programs that need
  administrator rights ran only while it held them, and the application is launched without them.
  It is launched exactly when the installation or update succeeded and the rights were granted.
\<close>

theorem launched_without_admin_rights:
  assumes "installationFinished E s = Some (r, t)"
  shows "\<exists>cs. trace t = trace s @ cs \<and> rights_after False cs = Some False
     \<and> ((\<exists>cmd a d. ExecuteDetached cmd a d \<in> set cs) \<longleftrightarrow>
          env_success E (world s) \<and> (isInstaller E s \<or> isUpdater E s)
          \<and> fst (env_gainAdminRights E (world s)))"
proof -
  let ?go = "env_success E (world s) \<and> (isInstaller E s \<or> isUpdater E s)"
  consider "trace t = trace s" "\<not> ?go"
    | "trace t = trace s @ [GainAdminRights False]" "\<not> fst (env_gainAdminRights E (world s))"
    | c cmd d where
        "trace t = trace s @ GainAdminRights True # c @ [DropAdminRights, ExecuteDetached cmd [] d]"
        "c = [] \<or> (\<exists>p a q b. c = [Execute p a, Execute q b])"
        "?go" "fst (env_gainAdminRights E (world s))"
    using assms
    by (auto simp: installationFinished_def ifM_def bindM_def seqM_def gainAdminRights_def emit_def
        ret_def Let_def start_service_def execute_def split: if_splits prod.splits)
  then show ?thesis
  proof cases
    case 1
    then show ?thesis by auto
  next
    case 2
    then show ?thesis by (intro exI [of _ "[GainAdminRights False]"]) simp
  next
    case 3
    then show ?thesis by auto
  qed
qed

theorem launched_without_admin_rights_witness:
  "\<exists>r t cs. installationFinished sim_env \<lparr>world = sim_machine ''win'' 0 False BtnOk, trace = []\<rparr> = Some (r, t)
     \<and> trace t = cs \<and> rights_after False cs = Some False
     \<and> (\<exists>cmd a d. ExecuteDetached cmd a d \<in> set cs)"
proof -
  let ?s = "\<lparr>world = sim_machine ''win'' 0 False BtnOk, trace = []\<rparr> :: sim host"
  have "map_option fst (installationFinished sim_env ?s) = Some (Ok ())" by code_simp
  then obtain r t where "installationFinished sim_env ?s = Some (r, t)" by auto
  moreover have "env_success sim_env (world ?s)" "isInstaller sim_env ?s"
      "fst (env_gainAdminRights sim_env (world ?s))"
    by (simp_all add: sim_env_def isInstaller_def)
  ultimately show ?thesis
    using launched_without_admin_rights [of sim_env ?s r t] by auto
qed

section \<open>Operations\<close>

text \<open>Registering operations changes neither the platform nor the values of the framework.\<close>

definition steady :: "'w env \<Rightarrow> bool" where
  "steady E \<longleftrightarrow>
     (\<forall>w w'. env_kernelType E w = env_kernelType E w' \<and> env_cpuArchitecture E w = env_cpuArchitecture E w'
        \<and> env_desktopLocation E w = env_desktopLocation E w' \<and> (\<forall>k. env_value E k w = env_value E k w')
        \<and> (\<forall>n ps. fst (env_findPath E n ps w) = fst (env_findPath E n ps w')))"

lemma steady_world:
  assumes "steady E" and "s' = s\<lparr>world := w, trace := tr\<rparr>"
  shows "value_of E k s' = value_of E k s" "runningOnWindows_c E s' = runningOnWindows_c E s"
    "runningOnMacOS_c E s' = runningOnMacOS_c E s" "runningOnLinux_c E s' = runningOnLinux_c E s"
    "env_cpuArchitecture E (world s') = env_cpuArchitecture E (world s)"
    "env_desktopLocation E (world s') = env_desktopLocation E (world s)"
    "fst (env_findPath E n ps (world s')) = fst (env_findPath E n ps (world s))"
    "appName_c E s' = appName_c E s" "serviceName E s' = serviceName E s" "pu_path E s' = pu_path E s"
    "service_args E s' = service_args E s" "shortcut_args E s' d = shortcut_args E s d"
proof -
  have k: "env_kernelType E w = env_kernelType E (world s)" "env_value E key w = env_value E key (world s)"
      "env_cpuArchitecture E w = env_cpuArchitecture E (world s)"
      "env_desktopLocation E w = env_desktopLocation E (world s)"
      "fst (env_findPath E n ps w) = fst (env_findPath E n ps (world s))" for key
    using assms(1) unfolding steady_def by blast+
  show v: "value_of E key s' = value_of E key s" for key
    using assms(2) by (simp add: value_of_def k)
  show "runningOnWindows_c E s' = runningOnWindows_c E s"
    "runningOnMacOS_c E s' = runningOnMacOS_c E s" "runningOnLinux_c E s' = runningOnLinux_c E s"
    "env_cpuArchitecture E (world s') = env_cpuArchitecture E (world s)"
    "env_desktopLocation E (world s') = env_desktopLocation E (world s)"
    "fst (env_findPath E n ps (world s')) = fst (env_findPath E n ps (world s))"
    using assms(2)
    by (simp_all add: runningOnWindows_c_def runningOnMacOS_c_def runningOnLinux_c_def k)
  then show "appName_c E s' = appName_c E s" "serviceName E s' = serviceName E s"
    "pu_path E s' = pu_path E s" "service_args E s' = service_args E s"
    "shortcut_args E s' d = shortcut_args E s d"
    by (simp_all add: appName_c_def serviceName_def pu_path_def service_args_def shortcut_args_def
        appExecutableFileName_c_def v)
qed

lemmas steady_simps = steady_world [OF _ refl]

text \<open>Where the script looks for the runtime library.\<close>

definition vc_runtime_path :: "'w env \<Rightarrow> 'w host \<Rightarrow> jsstring" where
  "vc_runtime_path E s =
     fst (env_findPath E (lit ''msvcp140.dll'')
            [value_of E (lit ''RootDir'') s @ backslash @ lit ''Windows'' @ backslash
               @ lit ''System32'' @ backslash] (world s))"

lemma vcRuntimeIsInstalled_run:
  "\<exists>w. vcRuntimeIsInstalled E s = Some (Ok (vc_runtime_path E s \<noteq> []), s\<lparr>world := w\<rparr>)"
  by (auto simp: vcRuntimeIsInstalled_def vc_runtime_path_def bindM_def findPath_def ret_def
      split: prod.splits)

lemma vc_redist_step_run:
  assumes "steady E"
  shows "\<exists>w. vc_redist_step E s = Some (Ok (), s\<lparr>world := w, trace := trace s @
    (if vc_runtime_path E s \<noteq> [] then []
     else [AddElevatedOperation (vc_redist_args
             (if sublist (lit ''64'') (env_cpuArchitecture E (world s))
              then lit ''vc_redist.x64.exe'' else lit ''vc_redist.x86.exe''))])\<rparr>)"
proof -
  obtain w where w: "vcRuntimeIsInstalled E s = Some (Ok (vc_runtime_path E s \<noteq> []), s\<lparr>world := w\<rparr>)"
    using vcRuntimeIsInstalled_run [of E s] by (elim exE) simp
  have arch: "env_cpuArchitecture E w = env_cpuArchitecture E (world s)"
    using assms unfolding steady_def by blast
  show ?thesis
    unfolding vc_redist_step_def bindM_Ok [of "vcRuntimeIsInstalled E", OF w]
    using indexOf_nonneg [of "env_cpuArchitecture E (world s)" "lit ''64''"]
    by (auto simp: emit_def ret_def arch not_less)
qed

definition windows_calls :: "'w env \<Rightarrow> 'w host \<Rightarrow> call list" where
  "windows_calls E s =
    [CreateOperations,
     AddOperation (shortcut_args E s (env_desktopLocation E (world s))),
     AddElevatedOperation (shortcut_args E s (value_of E (lit ''AllUsersStartMenuProgramsPath'') s))]
    @ (if vc_runtime_path E s \<noteq> [] then []
       else [AddElevatedOperation (vc_redist_args
               (if sublist (lit ''64'') (env_cpuArchitecture E (world s))
                then lit ''vc_redist.x64.exe'' else lit ''vc_redist.x86.exe''))])
    @ [AddElevatedOperation (service_args E s),
       AddElevatedOperation [OStr (lit ''Execute''), OStr (lit ''cmd''), OStr (lit ''/c''),
                             OStr (pu_path E s @ lit ''post_install.cmd'')]]"

lemma windows_operations_run:
  assumes st: "steady E" and win: "runningOnWindows_c E s"
  shows "\<exists>t. createOperations E s = Some (Ok (), t) \<and> trace t = trace s @
    windows_calls E s"
proof -
  have find: "fst (env_findPath E n ps w) = fst (env_findPath E n ps (world s))" for n ps w
    using st unfolding steady_def by blast
  have path: "vc_runtime_path E (s\<lparr>world := w, trace := tr\<rparr>) = vc_runtime_path E s" for w tr
    using st find [of _ _ w] by (simp add: vc_runtime_path_def steady_simps(1))
  obtain A D where arch: "env_cpuArchitecture E w = A" "env_desktopLocation E w = D" for w
    using st unfolding steady_def by metis
  define s3 where "s3 = (let c1 = CreateOperations;
      c2 = AddOperation (shortcut_args E s (env_desktopLocation E (world s)));
      c3 = AddElevatedOperation (shortcut_args E s (value_of E (lit ''AllUsersStartMenuProgramsPath'') s))
    in s\<lparr>world := env_perform E c3 (env_perform E c2 (env_perform E c1 (world s))),
         trace := trace s @ [c1, c2, c3]\<rparr>)"
  have run: "createOperations E s = seqM (vc_redist_step E)
      (seqM (\<lambda>s. emit E (AddElevatedOperation (service_args E s)) s)
        (\<lambda>s. emit E (AddElevatedOperation
              [OStr (lit ''Execute''), OStr (lit ''cmd''), OStr (lit ''/c''),
               OStr (pu_path E s @ lit ''post_install.cmd'')]) s)) s3"
    using win st
    by (simp add: createOperations_def createOperations_windows_def seqM_def bindM_def emit_def ifM_def
        s3_def Let_def steady_simps arch)
  have eqs: "vc_runtime_path E s3 = vc_runtime_path E s"
      "env_cpuArchitecture E (world s3) = env_cpuArchitecture E (world s)"
    by (simp_all add: s3_def Let_def path arch)
  obtain w where v: "vc_redist_step E s3 = Some (Ok (), s3\<lparr>world := w, trace := trace s3 @
      (if vc_runtime_path E s \<noteq> [] then []
       else [AddElevatedOperation (vc_redist_args
               (if sublist (lit ''64'') (env_cpuArchitecture E (world s))
                then lit ''vc_redist.x64.exe'' else lit ''vc_redist.x86.exe''))])\<rparr>)"
    using vc_redist_step_run [OF st, of s3] unfolding eqs by (elim exE) simp
  show ?thesis
    unfolding run seqM_Ok [of "vc_redist_step E", OF v]
    using st by (simp add: windows_calls_def seqM_def bindM_def emit_def s3_def Let_def steady_simps)
qed


definition op_mentions :: "string \<Rightarrow> call \<Rightarrow> bool" where
  "op_mentions str c \<longleftrightarrow>
     (case c of AddElevatedOperation args \<Rightarrow>
        list_ex (\<lambda>a. case a of OStr x \<Rightarrow> suffix (lit str) x | OArr xs \<Rightarrow> False) args | _ \<Rightarrow> False)"

lemma unix_operations:
  assumes "steady E"
  shows "runningOnMacOS_c E s \<Longrightarrow> \<exists>t. createOperations E s = Some (Ok (), t) \<and> trace t = trace s @
      [CreateOperations, AddElevatedOperation
        [OStr (lit ''Execute''), OStr (lit ''@TargetDir@/post_install.sh''),
         OStr (lit ''UNDOEXECUTE''), OStr (lit ''@TargetDir@/post_uninstall.sh'')]]"
    and "runningOnLinux_c E s \<Longrightarrow> \<exists>t. createOperations E s = Some (Ok (), t) \<and> trace t = trace s @
      [CreateOperations, AddElevatedOperation
        [OStr (lit ''Execute''), OStr (lit ''bash''), OStr (lit ''@TargetDir@/post_install.sh''),
         OStr (lit ''UNDOEXECUTE''), OStr (lit ''bash''), OStr (lit ''@TargetDir@/post_uninstall.sh'')]]"
proof -
  have ops: "createOperations E s =
      (if runningOnWindows_c E s then createOperations_windows E
       else if runningOnMacOS_c E s
       then emit E (AddElevatedOperation
         [OStr (lit ''Execute''), OStr (lit ''@TargetDir@/post_install.sh''),
          OStr (lit ''UNDOEXECUTE''), OStr (lit ''@TargetDir@/post_uninstall.sh'')])
       else if runningOnLinux_c E s
       then emit E (AddElevatedOperation
         [OStr (lit ''Execute''), OStr (lit ''bash''), OStr (lit ''@TargetDir@/post_install.sh''),
          OStr (lit ''UNDOEXECUTE''), OStr (lit ''bash''), OStr (lit ''@TargetDir@/post_uninstall.sh'')])
       else ret ())
      (s\<lparr>world := env_perform E CreateOperations (world s), trace := trace s @ [CreateOperations]\<rparr>)"
    using assms by (simp add: createOperations_def seqM_def bindM_def emit_def ifM_def steady_simps)
  show "\<exists>t. createOperations E s = Some (Ok (), t) \<and> trace t = trace s @
      [CreateOperations, AddElevatedOperation
        [OStr (lit ''Execute''), OStr (lit ''@TargetDir@/post_install.sh''),
         OStr (lit ''UNDOEXECUTE''), OStr (lit ''@TargetDir@/post_uninstall.sh'')]]"
    if "runningOnMacOS_c E s"
    unfolding ops component.branch_mac [OF that] by (simp add: emit_def)
  show "\<exists>t. createOperations E s = Some (Ok (), t) \<and> trace t = trace s @
      [CreateOperations, AddElevatedOperation
        [OStr (lit ''Execute''), OStr (lit ''bash''), OStr (lit ''@TargetDir@/post_install.sh''),
         OStr (lit ''UNDOEXECUTE''), OStr (lit ''bash''), OStr (lit ''@TargetDir@/post_uninstall.sh'')]]"
    if "runningOnLinux_c E s"
    unfolding ops component.branch_lin [OF that] by (simp add: emit_def)
qed

text \<open>The last operation runs the post-install script and some operation undoes with its counterpart.\<close>

definition registers_post :: "call list \<Rightarrow> bool" where
  "registers_post cs \<longleftrightarrow>
     list_ex (\<lambda>ext. op_mentions (''post_install'' @ ext) (last cs)
        \<and> list_ex (\<lambda>c. op_mentions ''UNDOEXECUTE'' c \<and> op_mentions (''post_uninstall'' @ ext) c) cs)
       [''.cmd'', ''.sh'']"

lemma registers_post_windows: "registers_post (windows_calls E s)"
proof -
  let ?sv = "AddElevatedOperation (service_args E s)"
  have suf: "suffix x (p @ x)" for x p :: jsstring by (auto simp: suffix_def)
  have "op_mentions ''UNDOEXECUTE'' ?sv" "op_mentions ''post_uninstall.cmd'' ?sv"
    by (simp_all add: op_mentions_def service_args_def suf)
  moreover have "?sv \<in> set (windows_calls E s)" by (simp add: windows_calls_def)
  moreover have "op_mentions ''post_install.cmd'' (last (windows_calls E s))"
    by (simp add: windows_calls_def op_mentions_def suf)
  ultimately show ?thesis by (auto simp: registers_post_def list_ex_iff)
qed

text \<open>
  On every supported platform the last registered operation runs the post-install script, and
  an elevated operation registers the post-uninstall script as its undo.
\<close>

theorem post_scripts_registered:
  assumes st: "steady E"
    and os: "runningOnWindows_c E s \<or> runningOnMacOS_c E s \<or> runningOnLinux_c E s"
  shows "\<exists>t cs. createOperations E s = Some (Ok (), t) \<and> trace t = trace s @ cs \<and> registers_post cs"
proof -
  have "registers_post
      [CreateOperations, AddElevatedOperation
        [OStr (lit ''Execute''), OStr (lit ''@TargetDir@/post_install.sh''),
         OStr (lit ''UNDOEXECUTE''), OStr (lit ''@TargetDir@/post_uninstall.sh'')]]"
    "registers_post
      [CreateOperations, AddElevatedOperation
        [OStr (lit ''Execute''), OStr (lit ''bash''), OStr (lit ''@TargetDir@/post_install.sh''),
         OStr (lit ''UNDOEXECUTE''), OStr (lit ''bash''), OStr (lit ''@TargetDir@/post_uninstall.sh'')]]"
    by code_simp+
  with os windows_operations_run [OF st] registers_post_windows unix_operations [OF st]
  show ?thesis by metis
qed

section \<open>Witnesses\<close>

lemma sim_steady:
  "steady (sim_env\<lparr>env_value := (\<lambda>k w. lit ''C:/Fresh''), env_kernelType := (\<lambda>w. lit ''winnt'')\<rparr>)"
  by (simp add: steady_def sim_env_def)


theorem post_scripts_registered_witness:
  "let E = sim_env\<lparr>env_value := (\<lambda>k w. lit ''C:/Fresh''), env_kernelType := (\<lambda>w. lit ''winnt'')\<rparr>;
       s = \<lparr>world = sim_machine ''win'' 0 False BtnOk, trace = []\<rparr>
   in \<exists>t cs. createOperations E s = Some (Ok (), t) \<and> trace t = trace s @ cs \<and> registers_post cs"
proof -
  let ?E = "sim_env\<lparr>env_value := (\<lambda>k w. lit ''C:/Fresh''), env_kernelType := (\<lambda>w. lit ''winnt'')\<rparr>"
  let ?s = "\<lparr>world = sim_machine ''win'' 0 False BtnOk, trace = []\<rparr> :: sim host"
  have "runningOnWindows_c ?E ?s" by (simp add: runningOnWindows_c_def)
  with post_scripts_registered [OF sim_steady, of ?s] show ?thesis unfolding Let_def by blast
qed

end
