(* ===== verification/Country_Names.thy ===== *)
theory Country_Names
  imports Js_Core
begin

text \<open>
  The country tables of the user interface, client/ui/qml/Components/countrynames.js: the English
  and Russian names by two-letter code, the name shown for a code, and the recognition of a country
  in a server's free-text name.  The parameter \<open>oth\<close> is the language's upper-case mapping outside
  the blocks written out in \<open>upper1\<close>; nothing below depends on it.
\<close>

section \<open>The tables\<close>

text \<open>An object literal is the list of its properties in the order in which they are written.\<close>

type_synonym table = "(jsstring \<times> jsstring) list"

definition EN :: "table" where
  "EN = [
    (lit ''AD'', lit ''Andorra''),
    (lit ''AE'', lit ''United Arab Emirates''),
    (lit ''AF'', lit ''Afghanistan''),
    (lit ''AG'', lit ''Antigua & Barbuda''),
    (lit ''AI'', lit ''Anguilla''),
    (lit ''AL'', lit ''Albania''),
    (lit ''AM'', lit ''Armenia''),
    (lit ''AO'', lit ''Angola''),
    (lit ''AR'', lit ''Argentina''),
    (lit ''AS'', lit ''American Samoa''),
    (lit ''AT'', lit ''Austria''),
    (lit ''AU'', lit ''Australia''),
    (lit ''AW'', lit ''Aruba''),
    (lit ''AX'', [197] @ lit ''land Islands''),
    (lit ''AZ'', lit ''Azerbaijan''),
    (lit ''BA'', lit ''Bosnia & Herzegovina''),
    (lit ''BB'', lit ''Barbados''),
    (lit ''BD'', lit ''Bangladesh''),
    (lit ''BE'', lit ''Belgium''),
    (lit ''BF'', lit ''Burkina Faso''),
    (lit ''BG'', lit ''Bulgaria''),
    (lit ''BH'', lit ''Bahrain''),
    (lit ''BI'', lit ''Burundi''),
    (lit ''BJ'', lit ''Benin''),
    (lit ''BL'', lit ''St. Barth'' @ [233] @ lit ''lemy''),
    (lit ''BM'', lit ''Bermuda''),
    (lit ''BN'', lit ''Brunei''),
    (lit ''BO'', lit ''Bolivia''),
    (lit ''BQ'', lit ''Bonaire, Sint Eustatius and Saba''),
    (lit ''BR'', lit ''Brazil''),
    (lit ''BS'', lit ''Bahamas''),
    (lit ''BT'', lit ''Bhutan''),
    (lit ''BW'', lit ''Botswana''),
    (lit ''BY'', lit ''Belarus''),
    (lit ''BZ'', lit ''Belize''),
    (lit ''CA'', lit ''Canada''),
    (lit ''CC'', lit ''Cocos (Keeling) Islands''),
    (lit ''CD'', lit ''Congo (DRC)''),
    (lit ''CF'', lit ''Central African Republic''),
    (lit ''CG'', lit ''Congo''),
    (lit ''CH'', lit ''Switzerland''),
    (lit ''CI'', lit ''C'' @ [244] @ lit ''te d'' @ [8217] @ lit ''Ivoire''),
    (lit ''CK'', lit ''Cook Islands''),
    (lit ''CL'', lit ''Chile''),
    (lit ''CM'', lit ''Cameroon''),
    (lit ''CN'', lit ''China''),
    (lit ''CO'', lit ''Colombia''),
    (lit ''CR'', lit ''Costa Rica''),
    (lit ''CU'', lit ''Cuba''),
    (lit ''CV'', lit ''Cabo Verde''),
    (lit ''CW'', lit ''Cura'' @ [231] @ lit ''ao''),
    (lit ''CX'', lit ''Christmas Island''),
    (lit ''CY'', lit ''Cyprus''),
    (lit ''CZ'', lit ''Czechia''),
    (lit ''DE'', lit ''Germany''),
    (lit ''DJ'', lit ''Djibouti''),
    (lit ''DK'', lit ''Denmark''),
    (lit ''DM'', lit ''Dominica''),
    (lit ''DO'', lit ''Dominican Republic''),
    (lit ''DZ'', lit ''Algeria''),
    (lit ''EC'', lit ''Ecuador''),
    (lit ''EE'', lit ''Estonia''),
    (lit ''EG'', lit ''Egypt''),
    (lit ''ER'', lit ''Eritrea''),
    (lit ''ES'', lit ''Spain''),
    (lit ''ET'', lit ''Ethiopia''),
    (lit ''FI'', lit ''Finland''),
    (lit ''FJ'', lit ''Fiji''),
    (lit ''FK'', lit ''Falkland Islands''),
    (lit ''FM'', lit ''Micronesia''),
    (lit ''FO'', lit ''Faroe Islands''),
    (lit ''FR'', lit ''France''),
    (lit ''GA'', lit ''Gabon''),
    (lit ''GB'', lit ''United Kingdom''),
    (lit ''GD'', lit ''Grenada''),
    (lit ''GE'', lit ''Georgia''),
    (lit ''GF'', lit ''French Guiana''),
    (lit ''GG'', lit ''Guernsey''),
    (lit ''GH'', lit ''Ghana''),
    (lit ''GI'', lit ''Gibraltar''),
    (lit ''GL'', lit ''Greenland''),
    (lit ''GM'', lit ''Gambia''),
    (lit ''GN'', lit ''Guinea''),
    (lit ''GP'', lit ''Guadeloupe''),
    (lit ''GQ'', lit ''Equatorial Guinea''),
    (lit ''GR'', lit ''Greece''),
    (lit ''GT'', lit ''Guatemala''),
    (lit ''GU'', lit ''Guam''),
    (lit ''GW'', lit ''Guinea-Bissau''),
    (lit ''GY'', lit ''Guyana''),
    (lit ''HK'', lit ''Hong Kong''),
    (lit ''HN'', lit ''Honduras''),
    (lit ''HR'', lit ''Croatia''),
    (lit ''HT'', lit ''Haiti''),
    (lit ''HU'', lit ''Hungary''),
    (lit ''ID'', lit ''Indonesia''),
    (lit ''IE'', lit ''Ireland''),
    (lit ''IL'', lit ''Israel''),
    (lit ''IM'', lit ''Isle of Man''),
    (lit ''IN'', lit ''India''),
    (lit ''IO'', lit ''British Indian Ocean Territory''),
    (lit ''IQ'', lit ''Iraq''),
    (lit ''IR'', lit ''Iran''),
    (lit ''IS'', lit ''Iceland''),
    (lit ''IT'', lit ''Italy''),
    (lit ''JE'', lit ''Jersey''),
    (lit ''JM'', lit ''Jamaica''),
    (lit ''JO'', lit ''Jordan''),
    (lit ''JP'', lit ''Japan''),
    (lit ''KE'', lit ''Kenya''),
    (lit ''KG'', lit ''Kyrgyzstan''),
    (lit ''KH'', lit ''Cambodia''),
    (lit ''KI'', lit ''Kiribati''),
    (lit ''KM'', lit ''Comoros''),
    (lit ''KN'', lit ''St. Kitts & Nevis''),
    (lit ''KP'', lit ''North Korea''),
    (lit ''KR'', lit ''South Korea''),
    (lit ''KW'', lit ''Kuwait''),
    (lit ''KY'', lit ''Cayman Islands''),
    (lit ''KZ'', lit ''Kazakhstan''),
    (lit ''LA'', lit ''Laos''),
    (lit ''LB'', lit ''Lebanon''),
    (lit ''LC'', lit ''St. Lucia''),
    (lit ''LI'', lit ''Liechtenstein''),
    (lit ''LK'', lit ''Sri Lanka''),
    (lit ''LR'', lit ''Liberia''),
    (lit ''LS'', lit ''Lesotho''),
    (lit ''LT'', lit ''Lithuania''),
    (lit ''LU'', lit ''Luxembourg''),
    (lit ''LV'', lit ''Latvia''),
    (lit ''LY'', lit ''Libya''),
    (lit ''MA'', lit ''Morocco''),
    (lit ''MC'', lit ''Monaco''),
    (lit ''MD'', lit ''Moldova''),
    (lit ''ME'', lit ''Montenegro''),
    (lit ''MF'', lit ''St. Martin''),
    (lit ''MG'', lit ''Madagascar''),
    (lit ''MH'', lit ''Marshall Islands''),
    (lit ''MK'', lit ''North Macedonia''),
    (lit ''ML'', lit ''Mali''),
    (lit ''MM'', lit ''Myanmar''),
    (lit ''MN'', lit ''Mongolia''),
    (lit ''MO'', lit ''Macau''),
    (lit ''MP'', lit ''Northern Mariana Islands''),
    (lit ''MQ'', lit ''Martinique''),
    (lit ''MR'', lit ''Mauritania''),
    (lit ''MS'', lit ''Montserrat''),
    (lit ''MT'', lit ''Malta''),
    (lit ''MU'', lit ''Mauritius''),
    (lit ''MV'', lit ''Maldives''),
    (lit ''MW'', lit ''Malawi''),
    (lit ''MX'', lit ''Mexico''),
    (lit ''MY'', lit ''Malaysia''),
    (lit ''MZ'', lit ''Mozambique''),
    (lit ''NA'', lit ''Namibia''),
    (lit ''NC'', lit ''New Caledonia''),
    (lit ''NE'', lit ''Niger''),
    (lit ''NF'', lit ''Norfolk Island''),
    (lit ''NG'', lit ''Nigeria''),
    (lit ''NI'', lit ''Nicaragua''),
    (lit ''NL'', lit ''Netherlands''),
    (lit ''NO'', lit ''Norway''),
    (lit ''NP'', lit ''Nepal''),
    (lit ''NR'', lit ''Nauru''),
    (lit ''NU'', lit ''Niue''),
    (lit ''NZ'', lit ''New Zealand''),
    (lit ''OM'', lit ''Oman''),
    (lit ''PA'', lit ''Panama''),
    (lit ''PE'', lit ''Peru''),
    (lit ''PF'', lit ''French Polynesia''),
    (lit ''PG'', lit ''Papua New Guinea''),
    (lit ''PH'', lit ''Philippines''),
    (lit ''PK'', lit ''Pakistan''),
    (lit ''PL'', lit ''Poland''),
    (lit ''PM'', lit ''St. Pierre & Miquelon''),
    (lit ''PN'', lit ''Pitcairn Islands''),
    (lit ''PR'', lit ''Puerto Rico''),
    (lit ''PS'', lit ''Palestinian Authority''),
    (lit ''PT'', lit ''Portugal''),
    (lit ''PW'', lit ''Palau''),
    (lit ''PY'', lit ''Paraguay''),
    (lit ''QA'', lit ''Qatar''),
    (lit ''RE'', lit ''R'' @ [233] @ lit ''union''),
    (lit ''RO'', lit ''Romania''),
    (lit ''RS'', lit ''Serbia''),
    (lit ''RU'', lit ''Russia''),
    (lit ''RW'', lit ''Rwanda''),
    (lit ''SA'', lit ''Saudi Arabia''),
    (lit ''SB'', lit ''Solomon Islands''),
    (lit ''SC'', lit ''Seychelles''),
    (lit ''SD'', lit ''Sudan''),
    (lit ''SE'', lit ''Sweden''),
    (lit ''SG'', lit ''Singapore''),
    (lit ''SH'', lit ''St Helena, Ascension, Tristan da Cunha''),
    (lit ''SI'', lit ''Slovenia''),
    (lit ''SJ'', lit ''Svalbard & Jan Mayen''),
    (lit ''SK'', lit ''Slovakia''),
    (lit ''SL'', lit ''Sierra Leone''),
    (lit ''SM'', lit ''San Marino''),
    (lit ''SN'', lit ''Senegal''),
    (lit ''SO'', lit ''Somalia''),
    (lit ''SR'', lit ''Suriname''),
    (lit ''SS'', lit ''South Sudan''),
    (lit ''ST'', lit ''S'' @ [227] @ lit ''o Tom'' @ [233] @ lit '' & Pr'' @ [237] @ lit ''ncipe''),
    (lit ''SV'', lit ''El Salvador''),
    (lit ''SX'', lit ''Sint Maarten''),
    (lit ''SY'', lit ''Syria''),
    (lit ''SZ'', lit ''Eswatini''),
    (lit ''TC'', lit ''Turks & Caicos Islands''),
    (lit ''TD'', lit ''Chad''),
    (lit ''TG'', lit ''Togo''),
    (lit ''TH'', lit ''Thailand''),
    (lit ''TJ'', lit ''Tajikistan''),
    (lit ''TK'', lit ''Tokelau''),
    (lit ''TL'', lit ''Timor-Leste''),
    (lit ''TM'', lit ''Turkmenistan''),
    (lit ''TN'', lit ''Tunisia''),
    (lit ''TO'', lit ''Tonga''),
    (lit ''TR'', lit ''Turkey''),
    (lit ''TT'', lit ''Trinidad & Tobago''),
    (lit ''TV'', lit ''Tuvalu''),
    (lit ''TW'', lit ''Taiwan''),
    (lit ''TZ'', lit ''Tanzania''),
    (lit ''UA'', lit ''Ukraine''),
    (lit ''UG'', lit ''Uganda''),
    (lit ''UM'', lit ''U.S. Outlying Islands''),
    (lit ''US'', lit ''United States''),
    (lit ''UY'', lit ''Uruguay''),
    (lit ''UZ'', lit ''Uzbekistan''),
    (lit ''VA'', lit ''Vatican City''),
    (lit ''VC'', lit ''St. Vincent & Grenadines''),
    (lit ''VE'', lit ''Venezuela''),
    (lit ''VG'', lit ''British Virgin Islands''),
    (lit ''VI'', lit ''U.S. Virgin Islands''),
    (lit ''VN'', lit ''Vietnam''),
    (lit ''VU'', lit ''Vanuatu''),
    (lit ''WF'', lit ''Wallis & Futuna''),
    (lit ''WS'', lit ''Samoa''),
    (lit ''XK'', lit ''Kosovo''),
    (lit ''YE'', lit ''Yemen''),
    (lit ''YT'', lit ''Mayotte''),
    (lit ''ZA'', lit ''South Africa''),
    (lit ''ZM'', lit ''Zambia''),
    (lit ''ZW'', lit ''Zimbabwe'')]"

section \<open>Names for a code\<close>

text \<open>
  Property lookup.  The looked-up keys are upper case, so no property of the object's prototype,
  all of whose names have lower-case letters, is found.
\<close>

definition en :: "(jsstring \<Rightarrow> jsstring) \<Rightarrow> jsvalue \<Rightarrow> jsstring" where
  "en oth code =
     (let cc = toUpperCase oth (to_string code)
      in case map_of EN cc of
           None \<Rightarrow> []
         | Some n \<Rightarrow> if n \<noteq> [] then n else [])"

definition localName :: "(jsstring \<Rightarrow> jsstring) \<Rightarrow> jsvalue \<Rightarrow> jsvalue \<Rightarrow> bool \<Rightarrow> jsstring" where
  "localName oth code fallback isEng =
     (let e = en oth code
      in if isEng \<and> e \<noteq> [] then e
         else if truthy fallback then to_string fallback else [])"

definition RU :: "table" where
  "RU = [
    (lit ''FI'', [1060, 1080, 1085, 1083, 1103, 1085, 1076, 1080, 1103]),
    (lit ''DE'', [1043, 1077, 1088, 1084, 1072, 1085, 1080, 1103]),
    (lit ''NL'', [1053, 1080, 1076, 1077, 1088, 1083, 1072, 1085, 1076, 1099]),
    (lit ''SE'', [1064, 1074, 1077, 1094, 1080, 1103]),
    (lit ''FR'', [1060, 1088, 1072, 1085, 1094, 1080, 1103]),
    (lit ''GB'', [1042, 1077, 1083, 1080, 1082, 1086, 1073, 1088, 1080, 1090, 1072, 1085, 1080, 1103]),
    (lit ''US'', [1057, 1064, 1040]),
    (lit ''PL'', [1055, 1086, 1083, 1100, 1096, 1072]),
    (lit ''LT'', [1051, 1080, 1090, 1074, 1072]),
    (lit ''LV'', [1051, 1072, 1090, 1074, 1080, 1103]),
    (lit ''EE'', [1069, 1089, 1090, 1086, 1085, 1080, 1103]),
    (lit ''CH'', [1064, 1074, 1077, 1081, 1094, 1072, 1088, 1080, 1103]),
    (lit ''AT'', [1040, 1074, 1089, 1090, 1088, 1080, 1103]),
    (lit ''ES'', [1048, 1089, 1087, 1072, 1085, 1080, 1103]),
    (lit ''IT'', [1048, 1090, 1072, 1083, 1080, 1103]),
    (lit ''NO'', [1053, 1086, 1088, 1074, 1077, 1075, 1080, 1103]),
    (lit ''DK'', [1044, 1072, 1085, 1080, 1103]),
    (lit ''CZ'', [1063, 1077, 1093, 1080, 1103]),
    (lit ''RO'', [1056, 1091, 1084, 1099, 1085, 1080, 1103]),
    (lit ''BG'', [1041, 1086, 1083, 1075, 1072, 1088, 1080, 1103]),
    (lit ''TR'', [1058, 1091, 1088, 1094, 1080, 1103]),
    (lit ''UA'', [1059, 1082, 1088, 1072, 1080, 1085, 1072]),
    (lit ''KZ'', [1050, 1072, 1079, 1072, 1093, 1089, 1090, 1072, 1085]),
    (lit ''AM'', [1040, 1088, 1084, 1077, 1085, 1080, 1103]),
    (lit ''GE'', [1043, 1088, 1091, 1079, 1080, 1103]),
    (lit ''RS'', [1057, 1077, 1088, 1073, 1080, 1103]),
    (lit ''MD'', [1052, 1086, 1083, 1076, 1086, 1074, 1072]),
    (lit ''HU'', [1042, 1077, 1085, 1075, 1088, 1080, 1103]),
    (lit ''IE'', [1048, 1088, 1083, 1072, 1085, 1076, 1080, 1103]),
    (lit ''PT'', [1055, 1086, 1088, 1090, 1091, 1075, 1072, 1083, 1080, 1103]),
    (lit ''BE'', [1041, 1077, 1083, 1100, 1075, 1080, 1103]),
    (lit ''LU'', [1051, 1102, 1082, 1089, 1077, 1084, 1073, 1091, 1088, 1075]),
    (lit ''JP'', [1071, 1087, 1086, 1085, 1080, 1103]),
    (lit ''SG'', [1057, 1080, 1085, 1075, 1072, 1087, 1091, 1088]),
    (lit ''HK'', [1043, 1086, 1085, 1082, 1086, 1085, 1075]),
    (lit ''CA'', [1050, 1072, 1085, 1072, 1076, 1072]),
    (lit ''AE'', [1054, 1040, 1069]),
    (lit ''IL'', [1048, 1079, 1088, 1072, 1080, 1083, 1100]),
    (lit ''IN'', [1048, 1085, 1076, 1080, 1103]),
    (lit ''AU'', [1040, 1074, 1089, 1090, 1088, 1072, 1083, 1080, 1103]),
    (lit ''ZA'', [1070, 1040, 1056]),
    (lit ''BR'', [1041, 1088, 1072, 1079, 1080, 1083, 1080, 1103]),
    (lit ''KR'', [1070, 1078, 1085, 1072, 1103] @ lit '' '' @ [1050, 1086, 1088, 1077, 1103]),
    (lit ''CY'', [1050, 1080, 1087, 1088]),
    (lit ''MT'', [1052, 1072, 1083, 1100, 1090, 1072]),
    (lit ''IS'', [1048, 1089, 1083, 1072, 1085, 1076, 1080, 1103]),
    (lit ''RU'', [1056, 1086, 1089, 1089, 1080, 1103])]"

section \<open>The name index\<close>

fun index_entries :: "(jsstring \<Rightarrow> jsstring) \<Rightarrow> table \<Rightarrow> (jsstring \<times> jsstring) list" where
  "index_entries oth [] = []"
| "index_entries oth ((code, r) # rest) =
     (if r \<noteq> [] then [(toUpperCase oth r, code)] else [])
     @ (case map_of EN code of
          None \<Rightarrow> []
        | Some e \<Rightarrow> if e \<noteq> [] then [(toUpperCase oth e, code)] else [])
     @ index_entries oth rest"

definition compare_length :: "jsstring \<times> jsstring \<Rightarrow> jsstring \<times> jsstring \<Rightarrow> int" where
  "compare_length a b = int (length (fst b)) - int (length (fst a))"

definition buildNameIndex :: "(jsstring \<Rightarrow> jsstring) \<Rightarrow> (jsstring \<times> jsstring) list" where
  "buildNameIndex oth = js_sort compare_length (index_entries oth RU)"

fun first_match :: "jsstring \<Rightarrow> (jsstring \<times> jsstring) list \<Rightarrow> jsstring" where
  "first_match n [] = []"
| "first_match n (entry # rest) = (if 0 \<le> indexOf n (fst entry) 0 then snd entry else first_match n rest)"

text \<open>The global \<open>_nameIndex\<close>: \<open>None\<close> is \<open>null\<close>, the value the script starts with.\<close>

type_synonym name_cache = "(jsstring \<times> jsstring) list option"

definition codeFromName ::
    "(jsstring \<Rightarrow> jsstring) \<Rightarrow> jsvalue \<Rightarrow> name_cache \<Rightarrow> jsstring \<times> name_cache" where
  "codeFromName oth name cache =
     (let n = toUpperCase oth (to_string name)
      in if length n = 0 then ([], cache)
         else let index = (case cache of None \<Rightarrow> buildNameIndex oth | Some xs \<Rightarrow> xs)
              in (first_match n index, Some index))"

end
