(* ===== verification/Country_Facts.thy ===== *)
theory Country_Facts
  imports Country_Names "HOL-Library.Code_Target_Nat"
begin

text \<open>
  The properties of the country tables: well-formedness, the names shown, and that a server name is
  assigned the country whose longest known name it contains.
\<close>

section \<open>The tables\<close>

definition alpha2 :: "jsstring \<Rightarrow> bool" where
  "alpha2 c \<longleftrightarrow> length c = 2 \<and> list_all (\<lambda>x. 65 \<le> x \<and> x \<le> 90) c"

definition table_ok :: "table \<Rightarrow> bool" where
  "table_ok t \<longleftrightarrow> distinct (map fst t) \<and> list_all (\<lambda>(c, n). alpha2 c \<and> n \<noteq> [] \<and> list_all upper_known n) t"

text \<open>The recognised countries: those of the Russian table, under their Russian and English names.\<close>

definition restricted :: "jsstring list \<Rightarrow> table \<Rightarrow> table" where
  "restricted codes t = filter (\<lambda>(c, n). c \<in> set codes) t"

definition country_names :: table where
  "country_names = RU @ restricted (map fst RU) EN"

definition upper_names :: "(jsstring \<times> jsstring) list" where
  "upper_names = map (\<lambda>(c, n). (concat (map upper1 n), c)) country_names"

text \<open>The English keys are written in alphabetical order; read as numbers they ascend.\<close>

fun ascending :: "nat list \<Rightarrow> bool" where
  "ascending (x # y # zs) = (x < y \<and> ascending (y # zs))"
| "ascending _ = True"

definition key_number :: "jsstring \<Rightarrow> nat" where
  "key_number c = foldl (\<lambda>a x. 256 * a + x) 0 c"

lemma ascending_head: "ascending (x # xs) \<Longrightarrow> y \<in> set xs \<Longrightarrow> x < y"
  by (induction xs arbitrary: x) (auto, fastforce)

lemma ascending_tail: "ascending (x # xs) \<Longrightarrow> ascending xs"
  by (cases xs) auto

lemma ascending_distinct: "ascending xs \<Longrightarrow> distinct xs"
  by (induction xs) (auto dest: ascending_head ascending_tail)

lemma EN_ascending: "ascending (map (key_number \<circ> fst) EN)"
  by code_simp

lemma EN_entries: "list_all (\<lambda>(c, n). alpha2 c \<and> n \<noteq> [] \<and> list_all upper_known n) EN"
  by code_simp

lemma RU_ok: "table_ok RU"
  by code_simp

lemma restricted_length: "length (restricted (map fst RU) EN) = length RU"
  by code_simp

lemma country_names_known: "list_all (\<lambda>(c, n). list_all upper_known n) country_names"
  by code_simp

lemma upper_names_distinct: "distinct (map fst upper_names)"
  by code_simp

lemma upper_names_marks: "list_all (\<lambda>(n, c). n \<noteq> [] \<and> 65 \<le> hd n \<and> 65 \<le> last n) upper_names"
  by code_simp

lemma EN_ok: "table_ok EN"
proof -
  have "distinct (map key_number (map fst EN))"
    using ascending_distinct [OF EN_ascending] by simp
  then have "distinct (map fst EN)" unfolding distinct_map by simp
  with EN_entries show ?thesis by (simp add: table_ok_def)
qed

lemma RU_keys_in_EN: "set (map fst RU) \<subseteq> set (map fst EN)"
proof -
  let ?r = "map fst (restricted (map fst RU) EN)"
  have "distinct (map fst EN)" "distinct (map fst RU)" using EN_ok RU_ok by (auto simp: table_ok_def)
  then have "distinct ?r" "distinct (map fst RU)" by (simp_all add: distinct_map_filter restricted_def)
  then have "card (set ?r) = card (set (map fst RU))"
    using restricted_length by (metis distinct_card length_map)
  moreover have "set ?r \<subseteq> set (map fst RU)" by (force simp: restricted_def)
  ultimately have "set ?r = set (map fst RU)" by (simp add: card_subset_eq)
  moreover have "set ?r \<subseteq> set (map fst EN)" by (auto simp: restricted_def)
  ultimately show ?thesis by simp
qed

text \<open>
  In both tables no code is listed twice, every code is two capital letters, every name is
  non-empty and within the alphabets \<open>upper1\<close> covers, and each country with a Russian name has an
  English one.
\<close>

theorem tables_well_formed:
  "table_ok EN \<and> table_ok RU \<and> set (map fst RU) \<subseteq> set (map fst EN)"
  using EN_ok RU_ok RU_keys_in_EN by simp

section \<open>Names for a code\<close>

lemma en_listed:
  assumes "(c, n) \<in> set EN" and "toUpperCase oth (to_string v) = c"
  shows "en oth v = n"
proof -
  have "map_of EN c = Some n"
    using assms(1) EN_ok by (simp add: table_ok_def map_of_mem_distinct)
  with assms(2) show ?thesis by (simp add: en_def)
qed

lemma en_unlisted: "toUpperCase oth (to_string v) \<notin> set (map fst EN) \<Longrightarrow> en oth v = []"
  by (simp add: en_def map_of_eq_None_iff [THEN iffD2] del: map_of_eq_None_iff)

text \<open>
  In the English interface a listed code, in any letter case, is shown under its English name
  whatever the fallback; in every other case the fallback is shown, and an absent one as nothing.
\<close>

theorem localName_shown:
  assumes "(c, n) \<in> set EN" and "toUpperCase oth (to_string v) = c"
    and "toUpperCase oth (to_string u) \<notin> set (map fst EN)"
  shows "localName oth v fb True = n \<and> localName oth v (Str s) False = s
    \<and> localName oth u (Str s) eng = s \<and> localName oth u Undefined eng = []
    \<and> localName oth u Null eng = []"
proof -
  have "n \<noteq> []" using assms(1) EN_ok by (auto simp: table_ok_def list_all_iff)
  with en_listed [OF assms(1,2)] en_unlisted [OF assms(3)] show ?thesis
    by (auto simp: localName_def Let_def)
qed

lemma localName_shown_witness:
  "localName id (Str (lit ''nl'')) Null True = lit ''Netherlands''
   \<and> localName id (Str (lit ''nl'')) (Str (lit ''NL #1'')) False = lit ''NL #1''
   \<and> localName id (Str (lit ''zz'')) (Str (lit ''NL #1'')) True = lit ''NL #1''
   \<and> localName id (Str (lit ''zz'')) Undefined True = [] \<and> localName id (Str (lit ''zz'')) Null True = []"
proof -
  have "(lit ''NL'', lit ''Netherlands'') \<in> set EN" by (simp add: EN_def)
  moreover have "toUpperCase id (to_string (Str (lit ''nl''))) = lit ''NL''" by code_simp
  moreover have "toUpperCase id (to_string (Str (lit ''zz''))) \<notin> set (map fst EN)"
    by code_simp
  ultimately show ?thesis
    using localName_shown [of "lit ''NL''" "lit ''Netherlands''" id "Str (lit ''nl'')" "Str (lit ''zz'')"
        Null "lit ''NL #1''" True] by simp
qed

section \<open>The name index\<close>

text \<open>
  What the search relies on of the array sort: it permutes the entries and puts longer names first.
  How it orders names of equal length plays no role.
\<close>

locale length_order =
  fixes srt :: "(jsstring \<times> jsstring) list \<Rightarrow> (jsstring \<times> jsstring) list"
  assumes srt_mset: "mset (srt xs) = mset xs"
    and srt_sorted: "sorted_wrt (\<lambda>a b. length (fst b) \<le> length (fst a)) (srt xs)"
begin

lemma srt_set: "set (srt xs) = set xs"
  by (metis srt_mset set_mset_mset)

lemma first_match_longest:
  assumes "(s, c) \<in> set xs" "sublist s n"
  shows "\<exists>t. (t, first_match n (srt xs)) \<in> set xs \<and> sublist t n
           \<and> (\<forall>u d. (u, d) \<in> set xs \<longrightarrow> sublist u n \<longrightarrow> length u \<le> length t)"
proof -
  have "\<exists>t. (t, first_match n ys) \<in> set ys \<and> sublist t n
           \<and> (\<forall>u d. (u, d) \<in> set ys \<longrightarrow> sublist u n \<longrightarrow> length u \<le> length t)"
    if "sorted_wrt (\<lambda>a b. length (fst b) \<le> length (fst a)) ys" "(s, c) \<in> set ys" for ys
    using that assms(2)
  proof (induction ys)
    case (Cons y ys)
    show ?case
    proof (cases "sublist (fst y) n")
      case True
      with Cons.prems(1) show ?thesis
        by (intro exI [of _ "fst y"]) (auto simp: indexOf_nonneg)
    next
      case False
      with Cons.prems have "(s, c) \<in> set ys" by auto
      with Cons obtain t where "(t, first_match n ys) \<in> set ys" "sublist t n"
        "\<forall>u d. (u, d) \<in> set ys \<longrightarrow> sublist u n \<longrightarrow> length u \<le> length t" by auto
      with False show ?thesis by (intro exI [of _ t]) (auto simp: indexOf_nonneg)
    qed
  qed simp
  from this [OF srt_sorted, of xs] assms(1) show ?thesis by (simp add: srt_set)
qed

lemma first_match_none:
  assumes "\<And>s c. (s, c) \<in> set xs \<Longrightarrow> \<not> sublist s n"
  shows "first_match n (srt xs) = []"
proof -
  have "first_match n ys = []" if "\<And>s c. (s, c) \<in> set ys \<Longrightarrow> \<not> sublist s n" for ys
    using that
  proof (induction ys)
    case (Cons y ys)
    then have "\<not> sublist (fst y) n" by (metis list.set_intros(1) prod.collapse)
    moreover have "first_match n ys = []" by (rule Cons.IH) (use Cons.prems in auto)
    ultimately show ?case by (simp add: indexOf_nonneg)
  qed simp
  from this [of "srt xs"] assms show ?thesis by (simp add: srt_set)
qed

end

interpretation index: length_order "js_sort compare_length"
  by unfold_locales (auto simp: mset_js_sort compare_length_def intro: sorted_js_sort)

section \<open>Recognising a country\<close>

lemma index_entries_mem:
  assumes "list_all (\<lambda>(c, n). n \<noteq> []) t"
  shows "(s, c) \<in> set (index_entries oth t) \<longleftrightarrow>
    (\<exists>n. s = toUpperCase oth n \<and>
       ((c, n) \<in> set t \<or> c \<in> set (map fst t) \<and> map_of EN c = Some n \<and> n \<noteq> []))"
  using assms by (induction oth t rule: index_entries.induct) (auto split: option.splits)

lemma country_names_mem:
  "(c, n) \<in> set country_names \<longleftrightarrow> (c, n) \<in> set RU \<or> c \<in> set (map fst RU) \<and> map_of EN c = Some n"
proof -
  have "distinct (map fst EN)" using EN_ok by (simp add: table_ok_def)
  then have "(c, n) \<in> set EN \<longleftrightarrow> map_of EN c = Some n" by (simp add: map_of_eq_Some_iff)
  then show ?thesis by (auto simp: country_names_def restricted_def)
qed

lemma index_set: "set (index_entries oth RU) = set upper_names"
proof -
  have ne: "list_all (\<lambda>(c, n). n \<noteq> []) RU" "map_of EN c = Some n \<Longrightarrow> n \<noteq> []" for c n
    using RU_ok EN_ok by (auto simp: table_ok_def list_all_iff dest: map_of_SomeD)
  have up: "toUpperCase oth n = concat (map upper1 n)" if "(c, n) \<in> set country_names" for c n
    using that country_names_known by (auto simp: list_all_iff intro!: toUpperCase_known)
  have "(s, c) \<in> set (index_entries oth RU) \<longleftrightarrow> (s, c) \<in> set upper_names" for s c
  proof -
    have "(s, c) \<in> set (index_entries oth RU) \<longleftrightarrow>
        (\<exists>n. s = toUpperCase oth n \<and> (c, n) \<in> set country_names)"
      unfolding index_entries_mem [OF ne(1)] country_names_mem using ne(2) by blast
    also have "\<dots> \<longleftrightarrow> (s, c) \<in> set upper_names"
      using up by (force simp: upper_names_def)
    finally show ?thesis .
  qed
  then show ?thesis by auto
qed

text \<open>The cache after any calls is empty or the index: the search does not depend on the calls before.\<close>

definition cache_ok :: "(jsstring \<Rightarrow> jsstring) \<Rightarrow> name_cache \<Rightarrow> bool" where
  "cache_ok oth cache \<longleftrightarrow> cache = None \<or> cache = Some (buildNameIndex oth)"

definition cache_after :: "(jsstring \<Rightarrow> jsstring) \<Rightarrow> jsvalue list \<Rightarrow> name_cache" where
  "cache_after oth vs = runs (\<lambda>v c. snd (codeFromName oth v c)) vs None"

interpretation cache: preserved "\<lambda>v c. snd (codeFromName oth v c)" "cache_ok oth" for oth
  by unfold_locales (auto simp: cache_ok_def codeFromName_def Let_def)

lemma cache_after_ok: "cache_ok oth (cache_after oth vs)"
  unfolding cache_after_def by (rule cache.runs_invar) (simp add: cache_ok_def)

lemma codeFromName_search:
  "fst (codeFromName oth v (cache_after oth vs)) =
     first_match (toUpperCase oth (to_string v)) (buildNameIndex oth)"
proof -
  have "first_match [] (buildNameIndex oth) = []"
    unfolding buildNameIndex_def
    by (rule index.first_match_none) (use upper_names_marks in \<open>auto simp: index_set list_all_iff\<close>)
  then show ?thesis
    using cache_after_ok [of oth vs] by (auto simp: codeFromName_def cache_ok_def Let_def)
qed

lemma search_longest:
  assumes "(s, c) \<in> set upper_names" "sublist s n"
  shows "\<exists>t. (t, first_match n (buildNameIndex oth)) \<in> set upper_names \<and> sublist t n
           \<and> (\<forall>u d. (u, d) \<in> set upper_names \<longrightarrow> sublist u n \<longrightarrow> length u \<le> length t)"
  using index.first_match_longest [of s c "index_entries oth RU" n] assms
  by (simp add: index_set buildNameIndex_def)

definition longest_known :: "jsstring \<Rightarrow> jsstring \<Rightarrow> bool" where
  "longest_known t n \<longleftrightarrow> sublist t n
     \<and> (\<forall>u d. (u, d) \<in> set upper_names \<longrightarrow> sublist u n \<longrightarrow> length u \<le> length t)"

text \<open>
  C16: whatever was looked up before, the country of a server name is the one of the longest known
  name, Russian or English, that occurs in the upper-cased server name; and nothing is returned
  exactly when no known name occurs.
\<close>

theorem codeFromName_longest:
  "if \<exists>s c. (s, c) \<in> set upper_names \<and> sublist s (toUpperCase oth (to_string v))
   then \<exists>t. (t, fst (codeFromName oth v (cache_after oth vs))) \<in> set upper_names
          \<and> longest_known t (toUpperCase oth (to_string v))
   else fst (codeFromName oth v (cache_after oth vs)) = []"
proof (cases "\<exists>s c. (s, c) \<in> set upper_names \<and> sublist s (toUpperCase oth (to_string v))")
  case True
  then have "\<exists>t. (t, fst (codeFromName oth v (cache_after oth vs))) \<in> set upper_names
          \<and> longest_known t (toUpperCase oth (to_string v))"
    using search_longest unfolding codeFromName_search longest_known_def by blast
  with True show ?thesis by argo
next
  case False
  then have "fst (codeFromName oth v (cache_after oth vs)) = []"
    unfolding codeFromName_search buildNameIndex_def
    by (intro index.first_match_none) (auto simp: index_set)
  with False show ?thesis by argo
qed

lemma sublist_between_marks:
  assumes "sublist t (a @ s @ b)" "t \<noteq> []" "65 \<le> hd t" "65 \<le> last t"
    and "list_all (\<lambda>c. c < 65) a" "list_all (\<lambda>c. c < 65) b"
  shows "sublist t (s :: jsstring)"
proof -
  have r: "sublist t (s @ b)" if "sublist t (a @ s @ b)" "list_all (\<lambda>c. c < 65) a" for a
    using that
  proof (induction a)
    case (Cons x a)
    have "\<not> prefix t (x # a @ s @ b)" using Cons.prems(2) assms(2,3) by (cases t) auto
    with Cons show ?case by (simp add: sublist_Cons_right)
  qed simp
  have "sublist t (s @ b)" by (rule r) (use assms in auto)
  then show ?thesis using assms(6)
  proof (induction b rule: rev_induct)
    case (snoc x b)
    have "\<not> suffix t (s @ b @ [x])" using snoc.prems(2) assms(2,4)
      by (cases t rule: rev_cases) (auto simp: suffix_def)
    with snoc show ?case
      by (metis append_assoc list_all_append sublist_snoc)
  qed simp
qed



end
