(* ===== verification/IP_Address.thy ===== *)
theory IP_Address
  imports Js_Core "HOL-Library.Word"
begin

unbundle bit_operations_syntax

text \<open>
  The address prefixes of the client, client/mozilla/shared/ipaddress.cpp and ipaddress.h: masks,
  containment, overlap, the two halves of a prefix and the exclusion of prefixes from a list.  An
  IPv4 address is a 32-bit word, an IPv6 address the array of its 16 bytes, as in the code.  Scope
  identifiers of IPv6 addresses are left out.
\<close>

section \<open>Addresses\<close>

datatype proto = UnknownNetworkLayerProtocol | IPv4Protocol | IPv6Protocol

text \<open>The values of the framework's host address: none, or an address of one of the families.\<close>

datatype host = NoAddress | IPv4 "32 word" | IPv6 "8 word list"

fun protocol :: "host \<Rightarrow> proto" where
  "protocol NoAddress = UnknownNetworkLayerProtocol"
| "protocol (IPv4 a) = IPv4Protocol"
| "protocol (IPv6 a) = IPv6Protocol"

fun toIPv6Address :: "host \<Rightarrow> 8 word list" where
  "toIPv6Address (IPv6 a) = a"
| "toIPv6Address _ = replicate 16 0"

text \<open>\<open>memset\<close> of \<open>n\<close> bytes from an offset on, within the array.\<close>

definition memset :: "'a list \<Rightarrow> nat \<Rightarrow> 'a \<Rightarrow> nat \<Rightarrow> 'a list" where
  "memset bs offset v n = take offset bs @ replicate n v @ drop (offset + n) bs"

record ipaddr =
  m_address :: host
  m_prefixLength :: int

definition mk_ip :: "host \<Rightarrow> int \<Rightarrow> ipaddr" where
  "mk_ip a p = \<lparr>m_address = a, m_prefixLength = p\<rparr>"

section \<open>Construction\<close>

text \<open>
  The constructor from text; the framework's two parsers are the parameters.
\<close>

definition ip_of_string ::
    "(jsstring \<Rightarrow> host \<times> int) \<Rightarrow> (jsstring \<Rightarrow> host) \<Rightarrow> jsstring \<Rightarrow> ipaddr" where
  "ip_of_string parseSubnet parseHost ip =
     (let (a, p) = (if 47 \<in> set ip then parseSubnet ip else (parseHost ip, 999999))
      in case a of
           IPv4 _ \<Rightarrow> mk_ip a (if p \<ge> 32 then 32 else p)
         | IPv6 _ \<Rightarrow> mk_ip a (if p \<ge> 128 then 128 else p)
         | NoAddress \<Rightarrow> mk_ip a p)"

text \<open>The constructor from an address: a single host.\<close>

definition ip_of_host :: "host \<Rightarrow> ipaddr" where
  "ip_of_host a = mk_ip a (if protocol a = IPv4Protocol then 32 else 128)"

section \<open>Masks\<close>

definition netmask :: "ipaddr \<Rightarrow> host" where
  "netmask self =
     (let p = nat (m_prefixLength self)
      in case m_address self of
           IPv6 _ \<Rightarrow>
             let raw = memset (replicate 16 0) 0 0xFF (p div 8)
             in IPv6 (if p mod 8 \<noteq> 0
                      then raw[p div 8 := 0xFF XOR drop_bit (p mod 8) 0xFF] else raw)
         | IPv4 _ \<Rightarrow>
             IPv4 (if p < 32 then 0xFFFFFFFF XOR drop_bit p 0xFFFFFFFF else 0xFFFFFFFF)
         | NoAddress \<Rightarrow> NoAddress)"

definition hostmask :: "ipaddr \<Rightarrow> host" where
  "hostmask self =
     (let p = nat (m_prefixLength self)
      in case m_address self of
           IPv6 _ \<Rightarrow>
             let offset = (p + 7) div 8;
                 raw = memset (replicate 16 0) offset 0xFF (16 - offset)
             in IPv6 (if p mod 8 \<noteq> 0 then raw[p div 8 := drop_bit (p mod 8) 0xFF] else raw)
         | IPv4 _ \<Rightarrow> IPv4 (if p < 32 then drop_bit p 0xFFFFFFFF else 0)
         | NoAddress \<Rightarrow> NoAddress)"

definition broadcastAddress :: "ipaddr \<Rightarrow> host" where
  "broadcastAddress self =
     (let p = nat (m_prefixLength self)
      in case m_address self of
           IPv6 a \<Rightarrow>
             let offset = (p + 7) div 8;
                 raw = memset a offset 0xFF (16 - offset)
             in IPv6 (if p mod 8 \<noteq> 0
                      then raw[p div 8 := (raw ! (p div 8)) OR drop_bit (p mod 8) 0xFF] else raw)
         | IPv4 a \<Rightarrow> IPv4 (if p < 32 then a OR drop_bit p 0xFFFFFFFF else a)
         | NoAddress \<Rightarrow> NoAddress)"

section \<open>Containment\<close>

definition contains6 :: "nat \<Rightarrow> 8 word list \<Rightarrow> 8 word list \<Rightarrow> bool" where
  "contains6 p a b =
     (let bytes = p div 8
      in if bytes > 0 \<and> take bytes a \<noteq> take bytes b then False
         else if p mod 8 \<noteq> 0
         then drop_bit (8 - p mod 8) (a ! bytes XOR b ! bytes) = 0
         else True)"

definition contains4 :: "nat \<Rightarrow> 32 word \<Rightarrow> 32 word \<Rightarrow> bool" where
  "contains4 p a b =
     (let diff = a XOR b
      in (if p < 32 then drop_bit (32 - p) diff else diff) = 0)"

definition contains :: "ipaddr \<Rightarrow> host \<Rightarrow> bool" where
  "contains self address =
     (if protocol address \<noteq> protocol (m_address self) then False
      else if m_prefixLength self = 0 then True
      else case (m_address self, address) of
             (IPv6 a, IPv6 b) \<Rightarrow> contains6 (nat (m_prefixLength self)) a b
           | (IPv4 a, IPv4 b) \<Rightarrow> contains4 (nat (m_prefixLength self)) a b
           | _ \<Rightarrow> False)"

definition overlaps :: "ipaddr \<Rightarrow> ipaddr \<Rightarrow> bool" where
  "overlaps self other =
     (if m_prefixLength self < m_prefixLength other then contains self (m_address other)
      else contains other (m_address self))"

definition subnetOf :: "ipaddr \<Rightarrow> ipaddr \<Rightarrow> bool" where
  "subnetOf self other =
     (if protocol (m_address other) \<noteq> protocol (m_address self) then False
      else if m_prefixLength self < m_prefixLength other then False
      else contains other (m_address self))"

section \<open>Halves and exclusion\<close>

definition upper_half4 :: "nat \<Rightarrow> 32 word \<Rightarrow> 32 word" where
  "upper_half4 p a = a OR drop_bit p 0x80000000"

definition upper_half6 :: "nat \<Rightarrow> 8 word list \<Rightarrow> 8 word list" where
  "upper_half6 p a = a[p div 8 := (a ! (p div 8)) OR drop_bit (p mod 8) 0x80]"

definition subnets :: "ipaddr \<Rightarrow> ipaddr list" where
  "subnets self =
     (let p = m_prefixLength self
      in case m_address self of
           IPv4 a \<Rightarrow>
             if p \<ge> 32 then [self]
             else [mk_ip (IPv4 a) (p + 1), mk_ip (IPv4 (upper_half4 (nat p) a)) (p + 1)]
         | h \<Rightarrow>
             if p \<ge> 128 then [self]
             else let a = toIPv6Address h
                  in [mk_ip (IPv6 a) (p + 1), mk_ip (IPv6 (upper_half6 (nat p) a)) (p + 1)])"

text \<open>
  The search loop of the exclusion.  Where neither half contains the excluded prefix the loop of a
  release build goes round without a change, so it never returns: the value is \<open>None\<close>.  Reading the
  second half of a list with one element is \<open>None\<close> too.
\<close>

partial_function (option) exclude_loop ::
    "ipaddr \<Rightarrow> ipaddr list \<Rightarrow> ipaddr list \<Rightarrow> ipaddr list option" where
  "exclude_loop ip sn result =
     (case sn of
        [s0, s1] \<Rightarrow>
          if s0 \<noteq> ip \<and> s1 \<noteq> ip
          then if subnetOf ip s0 then exclude_loop ip (subnets s0) (result @ [s1])
               else if subnetOf ip s1 then exclude_loop ip (subnets s1) (result @ [s0])
               else exclude_loop ip sn result
          else if s0 = ip then Some (result @ [s1])
          else Some (result @ [s0])
      | _ \<Rightarrow> None)"

definition excludeAddress :: "ipaddr \<Rightarrow> ipaddr \<Rightarrow> ipaddr list option" where
  "excludeAddress self ip = exclude_loop ip (subnets self) []"

text \<open>The inner loop over the current results, for one excluded prefix.\<close>

fun exclude_from :: "ipaddr \<Rightarrow> ipaddr list \<Rightarrow> ipaddr list option" where
  "exclude_from exclude [] = Some []"
| "exclude_from exclude (ip # results) =
     (if \<not> overlaps ip exclude then map_option ((#) ip) (exclude_from exclude results)
      else if subnetOf exclude ip \<and> exclude \<noteq> ip
      then (case excludeAddress ip exclude of
              None \<Rightarrow> None
            | Some rest \<Rightarrow> map_option ((@) rest) (exclude_from exclude results))
      else exclude_from exclude results)"

fun excludeAddresses :: "ipaddr list \<Rightarrow> ipaddr list \<Rightarrow> ipaddr list option" where
  "excludeAddresses results [] = Some results"
| "excludeAddresses results (exclude # excludeList) =
     (case exclude_from exclude results of
        None \<Rightarrow> None
      | Some newResults \<Rightarrow> excludeAddresses newResults excludeList)"

end
