(* ===== verification/IP_Bits.thy ===== *)
theory IP_Bits
  imports IP_Address
begin

unbundle bit_operations_syntax

text \<open>
  Addresses as sequences of bits, most significant bit first: the word and byte operations of the
  prefixes are operations on the first bits.
\<close>

section \<open>Bits of a word\<close>

definition word_bits :: "'a::len word \<Rightarrow> bool list" where
  "word_bits w = map (\<lambda>i. bit w (LENGTH('a) - 1 - i)) [0..<LENGTH('a)]"

lemma length_word_bits [simp, ip_simps]: "length (word_bits (w :: 'a::len word)) = LENGTH('a)"
  by (simp add: word_bits_def)

lemma nth_word_bits: "i < LENGTH('a) \<Longrightarrow> word_bits (w :: 'a::len word) ! i = bit w (LENGTH('a) - 1 - i)"
  by (simp add: word_bits_def)

lemma word_bits_inject [simp]: "word_bits v = word_bits w \<longleftrightarrow> v = w"
proof
  assume eq: "word_bits v = word_bits w"
  show "v = w"
  proof (rule bit_word_eqI)
    fix n assume "n < LENGTH('a)"
    then show "bit v n = bit w n"
      using arg_cong [OF eq, of "\<lambda>xs. xs ! (LENGTH('a) - 1 - n)"] by (simp add: nth_word_bits)
  qed
qed simp

lemma take_eq_iff_nth:
  assumes "length xs = length ys" "p \<le> length xs"
  shows "take p xs = take p ys \<longleftrightarrow> (\<forall>i < p. xs ! i = ys ! i)"
  using assms by (auto simp: list_eq_iff_nth_eq)

lemma drop_bit_xor_zero_iff:
  fixes a b :: "'a::len word"
  assumes "p \<le> LENGTH('a)"
  shows "drop_bit (LENGTH('a) - p) (a XOR b) = 0 \<longleftrightarrow> take p (word_bits a) = take p (word_bits b)"
proof -
  let ?L = "LENGTH('a)"
  have "drop_bit (?L - p) (a XOR b) = 0 \<longleftrightarrow> (\<forall>n. n < p \<longrightarrow> bit a (n + (?L - p)) = bit b (n + (?L - p)))"
  proof
    assume z: "drop_bit (?L - p) (a XOR b) = 0"
    have "bit (drop_bit (?L - p) (a XOR b)) n \<longleftrightarrow> bit (a XOR b) (n + (?L - p))" for n
      by (simp add: bit_drop_bit_eq bit_xor_iff add.commute)
    with z have "\<not> bit (a XOR b) (n + (?L - p))" for n by (metis bit_0_eq bot_apply bot_bool_def)
    then show "\<forall>n. n < p \<longrightarrow> bit a (n + (?L - p)) = bit b (n + (?L - p))"
      by (simp add: bit_xor_iff)
  next
    assume H: "\<forall>n. n < p \<longrightarrow> bit a (n + (?L - p)) = bit b (n + (?L - p))"
    have "\<not> bit (a XOR b) (n + (?L - p))" for n
    proof (cases "n < p")
      case True
      with H show ?thesis by (simp add: bit_xor_iff)
    next
      case False
      then have "?L \<le> n + (?L - p)" using assms by simp
      then show ?thesis using bit_imp_le_length not_le by blast
    qed
    then show "drop_bit (?L - p) (a XOR b) = 0"
      by (intro bit_word_eqI) (simp add: bit_drop_bit_eq bit_xor_iff add.commute)
  qed
  also have "\<dots> \<longleftrightarrow> (\<forall>i < p. word_bits a ! i = word_bits b ! i)"
  proof
    assume H: "\<forall>n. n < p \<longrightarrow> bit a (n + (?L - p)) = bit b (n + (?L - p))"
    show "\<forall>i < p. word_bits a ! i = word_bits b ! i"
    proof (intro allI impI)
      fix i assume i: "i < p"
      have "p - 1 - i + (?L - p) = ?L - 1 - i" using i assms by linarith
      with H [rule_format, of "p - 1 - i"] i assms show "word_bits a ! i = word_bits b ! i"
        by (simp add: nth_word_bits)
    qed
  next
    assume H: "\<forall>i < p. word_bits a ! i = word_bits b ! i"
    show "\<forall>n. n < p \<longrightarrow> bit a (n + (?L - p)) = bit b (n + (?L - p))"
    proof (intro allI impI)
      fix n assume n: "n < p"
      have "?L - 1 - (p - 1 - n) = n + (?L - p)" using n assms by linarith
      with H [rule_format, of "p - 1 - n"] n assms show "bit a (n + (?L - p)) = bit b (n + (?L - p))"
        by (simp add: nth_word_bits)
    qed
  qed
  also have "\<dots> \<longleftrightarrow> take p (word_bits a) = take p (word_bits b)"
    using assms by (simp add: take_eq_iff_nth)
  finally show ?thesis .
qed

lemma word_bits_eqI:
  fixes v :: "'a::len word"
  assumes "length xs = LENGTH('a)" "\<And>i. i < LENGTH('a) \<Longrightarrow> bit v (LENGTH('a) - 1 - i) = xs ! i"
  shows "word_bits v = xs"
  using assms by (auto simp: list_eq_iff_nth_eq nth_word_bits)

lemma word_bits_set_bit:
  fixes a :: "'a::len word"
  assumes "p < LENGTH('a)"
  shows "word_bits (a OR drop_bit p (push_bit (LENGTH('a) - 1) 1)) = (word_bits a)[p := True]"
  using assms by (intro word_bits_eqI) (auto simp: bit_simps nth_list_update nth_word_bits)

lemma word_bits_drop_mask:
  "word_bits (drop_bit p (- 1) :: 'a::len word) =
     replicate (min p LENGTH('a)) False @ replicate (LENGTH('a) - p) True"
  by (intro word_bits_eqI) (auto simp: bit_simps nth_append)

lemma word_bits_not:  "word_bits (NOT (a :: 'a::len word)) = map Not (word_bits a)"
  by (intro word_bits_eqI) (auto simp: bit_simps nth_word_bits)

lemma word_bits_and:
  "word_bits ((a :: 'a::len word) AND b) = map2 (\<and>) (word_bits a) (word_bits b)"
  by (intro word_bits_eqI) (auto simp: bit_simps nth_word_bits)

lemma word_bits_or:
  "word_bits ((a :: 'a::len word) OR b) = map2 (\<or>) (word_bits a) (word_bits b)"
  by (intro word_bits_eqI) (auto simp: bit_simps nth_word_bits)

section \<open>Bits of a byte array\<close>

definition bytes_bits :: "8 word list \<Rightarrow> bool list" where
  "bytes_bits bs = concat (map word_bits bs)"

lemma length_blocks:
  "(\<And>x. x \<in> set xs \<Longrightarrow> length (f x) = k) \<Longrightarrow> length (concat (map f xs)) = k * length xs"
  by (induction xs) auto

lemma take_blocks:
  assumes "\<And>x. length (f x) = k" "q < length xs" "r \<le> k"
  shows "take (k * q + r) (concat (map f xs)) = concat (map f (take q xs)) @ take r (f (xs ! q))"
  using assms(2)
proof (induction xs arbitrary: q)
  case (Cons x xs)
  show ?case
  proof (cases q)
    case 0
    with assms show ?thesis by simp
  next
    case (Suc j)
    then have "k * q + r = k + (k * j + r)" by simp
    with Suc Cons assms(1) show ?thesis by simp
  qed
qed simp

lemma update_blocks:
  assumes "\<And>x. length (f x) = k" "q < length xs" "r < k" "f y = (f (xs ! q))[r := v]"
  shows "concat (map f (xs[q := y])) = (concat (map f xs))[k * q + r := v]"
  using assms(2,4)
proof (induction xs arbitrary: q)
  case (Cons x xs)
  show ?case
  proof (cases q)
    case 0
    with assms Cons.prems show ?thesis by (simp add: list_update_append)
  next
    case (Suc j)
    then have "k * q + r = k + (k * j + r)" by simp
    with Suc Cons assms(1) show ?thesis by (simp add: list_update_append)
  qed
qed simp

lemma inj_blocks:
  assumes "\<And>x. length (f x) = k" "inj f" "length xs = length ys"
  shows "concat (map f xs) = concat (map f ys) \<longleftrightarrow> xs = ys"
  using assms(3) by (induction xs ys rule: list_induct2) (auto simp: assms(1) inj_eq [OF assms(2)])

lemma inj_word_bits: "inj word_bits"
  by (simp add: inj_def)

lemma length_bytes_bits [simp]: "length (bytes_bits bs) = 8 * length bs"
  by (simp add: bytes_bits_def length_blocks [where k = 8])

lemma bytes_bits_inject: "length a = length b \<Longrightarrow> bytes_bits a = bytes_bits b \<longleftrightarrow> a = b"
  unfolding bytes_bits_def by (rule inj_blocks [OF _ inj_word_bits]) simp_all

lemma take_bytes_bits:
  assumes "p < 8 * length a"
  shows "take p (bytes_bits a) = bytes_bits (take (p div 8) a) @ take (p mod 8) (word_bits (a ! (p div 8)))"
  unfolding bytes_bits_def
  using take_blocks [where f = "word_bits :: 8 word \<Rightarrow> _" and k = 8 and q = "p div 8" and xs = a and r = "p mod 8"]
    assms by (simp add: mult.commute)

section \<open>The two address families\<close>

text \<open>
  What the prefixes rely on of a family: a bit sequence of fixed length that determines the address,
  containment as agreement on the first bits, and the address with one bit set.
\<close>

locale address_family =
  fixes width :: nat and valid :: "'a \<Rightarrow> bool" and bits :: "'a \<Rightarrow> bool list"
    and agree :: "nat \<Rightarrow> 'a \<Rightarrow> 'a \<Rightarrow> bool" and upper_half :: "nat \<Rightarrow> 'a \<Rightarrow> 'a"
  assumes length_bits: "valid a \<Longrightarrow> length (bits a) = width"
    and bits_inject: "valid a \<Longrightarrow> valid b \<Longrightarrow> bits a = bits b \<Longrightarrow> a = b"
    and agree_take: "valid a \<Longrightarrow> valid b \<Longrightarrow> p \<le> width \<Longrightarrow>
           agree p a b \<longleftrightarrow> take p (bits a) = take p (bits b)"
    and bits_upper_half: "valid a \<Longrightarrow> p < width \<Longrightarrow> bits (upper_half p a) = (bits a)[p := True]"
    and valid_upper_half: "valid a \<Longrightarrow> p < width \<Longrightarrow> valid (upper_half p a)"
begin

lemma agree_prefix:
  assumes "valid a" "valid b" "p \<le> width"
  shows "agree p a b \<longleftrightarrow> prefix (take p (bits a)) (bits b)"
proof -
  have "length (take p (bits a)) = p" using assms by (simp add: length_bits)
  then show ?thesis using agree_take [OF assms] by (metis append_eq_conv_conj prefix_def take_is_prefix)
qed

text \<open>An address whose bit \<open>p\<close> is clear splits the prefix of length \<open>p\<close> into two.\<close>

lemma take_halves:
  assumes "valid a" "p < width" "\<not> bits a ! p"
  shows "take (Suc p) (bits a) = take p (bits a) @ [False]"
    and "take (Suc p) (bits (upper_half p a)) = take p (bits a) @ [True]"
  using assms by (simp_all add: length_bits bits_upper_half take_Suc_conv_app_nth take_update_cancel)

lemma drop_halves:
  assumes "valid a" "p < width"
  shows "drop (Suc p) (bits (upper_half p a)) = drop (Suc p) (bits a)"
  using assms by (simp add: bits_upper_half drop_update_cancel)

end

interpretation v4: address_family 32 "\<lambda>a. True" word_bits contains4 upper_half4
proof unfold_locales
  fix a b :: "32 word" and p :: nat
  show "contains4 p a b \<longleftrightarrow> take p (word_bits a) = take p (word_bits b)" if "p \<le> 32"
    using that drop_bit_xor_zero_iff [of p a b] by (cases "p = 32") (simp_all add: contains4_def)
  show "word_bits (upper_half4 p a) = (word_bits a)[p := True]" if "p < 32"
    using that word_bits_set_bit [of p a] by (simp add: upper_half4_def push_bit_eq_mult)
qed simp_all

interpretation v6: address_family 128 "\<lambda>a. length a = 16" bytes_bits contains6 upper_half6
proof unfold_locales
  fix a b :: "8 word list" and p :: nat
  assume a: "length a = 16" and p: "p < 128"
  then show "bytes_bits (upper_half6 p a) = (bytes_bits a)[p := True]"
    using word_bits_set_bit [of "p mod 8" "a ! (p div 8)"]
      update_blocks [where f = "word_bits :: 8 word \<Rightarrow> _" and k = 8 and q = "p div 8" and xs = a
        and r = "p mod 8" and v = True and y = "(a ! (p div 8)) OR drop_bit (p mod 8) 0x80"]
    by (simp add: upper_half6_def bytes_bits_def push_bit_eq_mult mult.commute)
next
  fix a b :: "8 word list" and p :: nat
  assume ab: "length a = 16" "length b = 16" and "p \<le> 128"
  then consider "p = 128" | "p < 128" by linarith
  then show "contains6 p a b \<longleftrightarrow> take p (bytes_bits a) = take p (bytes_bits b)"
  proof cases
    case 1
    with ab show ?thesis by (simp add: contains6_def bytes_bits_inject)
  next
    case 2
    let ?q = "p div 8" and ?r = "p mod 8"
    have "take p (bytes_bits a) = take p (bytes_bits b) \<longleftrightarrow>
        take ?q a = take ?q b \<and> take ?r (word_bits (a ! ?q)) = take ?r (word_bits (b ! ?q))"
      using ab 2 by (simp add: take_bytes_bits bytes_bits_inject)
    also have "\<dots> \<longleftrightarrow> contains6 p a b"
    proof -
      have "contains6 p a b \<longleftrightarrow> take ?q a = take ?q b
          \<and> (?r = 0 \<or> drop_bit (8 - ?r) (a ! ?q XOR b ! ?q) = 0)"
        unfolding contains6_def Let_def by (cases "?q = 0"; cases "?r = 0") (auto simp del: div_eq_0_iff)
      moreover have "drop_bit (8 - ?r) (a ! ?q XOR b ! ?q) = 0 \<longleftrightarrow>
          take ?r (word_bits (a ! ?q)) = take ?r (word_bits (b ! ?q))"
        using drop_bit_xor_zero_iff [of ?r "a ! ?q" "b ! ?q"] by (simp del: drop_bit_xor)
      ultimately show ?thesis by (cases "?r = 0") simp_all
    qed
    finally show ?thesis by simp
  qed
qed (simp_all add: upper_half6_def bytes_bits_inject)

end
