(* ===== verification/IP_Facts.thy ===== *)
theory IP_Facts
  imports IP_Bits
begin

unbundle bit_operations_syntax

text \<open>
  The properties of the address prefixes.  A prefix stands for the set \<open>addrs\<close> of the addresses it
  contains; \<open>net\<close> is its sequence of fixed bits.  The operations are characterised on \<open>net\<close>, and
  exclusion is shown to compute set difference.
\<close>

section \<open>Prefixes as bit sequences\<close>

fun addr_bits :: "host \<Rightarrow> bool list" where
  "addr_bits (IPv4 a) = word_bits a"
| "addr_bits (IPv6 a) = bytes_bits a"
| "addr_bits NoAddress = []"

fun width :: "host \<Rightarrow> nat" where
  "width (IPv4 a) = 32"
| "width (IPv6 a) = 128"
| "width NoAddress = 0"

fun valid_host :: "host \<Rightarrow> bool" where
  "valid_host (IPv4 a) = True"
| "valid_host (IPv6 a) = (length a = 16)"
| "valid_host NoAddress = False"

text \<open>A well-formed prefix, and a canonical one: all bits after the prefix are clear.\<close>

definition wf_ip :: "ipaddr \<Rightarrow> bool" where
  "wf_ip ip \<longleftrightarrow> valid_host (m_address ip) \<and> 0 \<le> m_prefixLength ip
     \<and> m_prefixLength ip \<le> int (width (m_address ip))"

definition net :: "ipaddr \<Rightarrow> bool list" where
  "net ip = take (nat (m_prefixLength ip)) (addr_bits (m_address ip))"

definition canonical :: "ipaddr \<Rightarrow> bool" where
  "canonical ip \<longleftrightarrow> wf_ip ip \<and> drop (nat (m_prefixLength ip)) (addr_bits (m_address ip))
     = replicate (width (m_address ip) - nat (m_prefixLength ip)) False"

definition addrs :: "ipaddr \<Rightarrow> host set" where
  "addrs ip = {x. valid_host x \<and> contains ip x}"

abbreviation "proto_of ip \<equiv> protocol (m_address ip)"

lemma mk_ip_simps [simp]: "m_address (mk_ip a p) = a" "m_prefixLength (mk_ip a p) = p"
  by (simp_all add: mk_ip_def)

lemma ip_eqI: "m_address x = m_address y \<Longrightarrow> m_prefixLength x = m_prefixLength y \<Longrightarrow> x = (y :: ipaddr)"
  by simp

lemma canonical_wf: "canonical ip \<Longrightarrow> wf_ip ip"
  by (simp add: canonical_def)

lemma wf_ipD:
  "wf_ip ip \<Longrightarrow> valid_host (m_address ip) \<and> 0 \<le> m_prefixLength ip
     \<and> nat (m_prefixLength ip) \<le> width (m_address ip)"
  by (auto simp: wf_ip_def)

lemma length_addr_bits: "valid_host a \<Longrightarrow> length (addr_bits a) = width a"
  by (cases a) auto

lemma width_protocol: "protocol a = protocol b \<Longrightarrow> width a = width b"
  by (cases a; cases b) auto

lemma addr_bits_inject:
  assumes "protocol a = protocol b" "valid_host a" "valid_host b" "addr_bits a = addr_bits b"
  shows "a = b"
  using assms by (cases a; cases b) (auto simp: bytes_bits_inject)

lemma length_net: "wf_ip ip \<Longrightarrow> length (net ip) = nat (m_prefixLength ip)"
  by (auto simp: net_def wf_ip_def length_addr_bits)

lemma contains_iff:
  assumes "wf_ip ip" "valid_host x"
  shows "contains ip x \<longleftrightarrow> protocol x = proto_of ip \<and> prefix (net ip) (addr_bits x)"
proof (cases "m_prefixLength ip = 0")
  case True
  then show ?thesis by (auto simp: contains_def net_def)
next
  case False
  with assms show ?thesis
    using v4.agree_prefix [where p = "nat (m_prefixLength ip)"]
      v6.agree_prefix [where p = "nat (m_prefixLength ip)"]
    by (cases "m_address ip"; cases x) (auto simp: contains_def wf_ip_def net_def)
qed

lemma net_prefix_addr: "prefix (net ip) (addr_bits (m_address ip))"
  by (simp add: net_def take_is_prefix)

lemma prefix_comparable: "prefix xs zs \<Longrightarrow> prefix ys zs \<Longrightarrow> length xs \<le> length ys \<Longrightarrow> prefix xs ys"
  by (metis prefix_length_prefix)

lemma contains_net:
  assumes "wf_ip a" "wf_ip b" "m_prefixLength a \<le> m_prefixLength b"
  shows "contains a (m_address b) \<longleftrightarrow> proto_of b = proto_of a \<and> prefix (net a) (net b)"
proof -
  have "prefix (net a) (addr_bits (m_address b)) \<longleftrightarrow> prefix (net a) (net b)"
    using net_prefix_addr [of b] assms prefix_comparable [of "net a" _ "net b"]
    by (auto simp: length_net intro: prefix_order.trans)
  then show ?thesis using assms wf_ipD [of b] by (simp add: contains_iff)
qed

lemma subnetOf_iff:
  assumes "wf_ip a" "wf_ip b"
  shows "subnetOf a b \<longleftrightarrow> proto_of b = proto_of a \<and> prefix (net b) (net a)"
proof (cases "m_prefixLength a < m_prefixLength b")
  case True
  with assms have "length (net a) < length (net b)" by (auto simp: length_net wf_ip_def)
  with True show ?thesis by (auto simp: subnetOf_def dest: prefix_length_le)
next
  case False
  with assms show ?thesis by (auto simp: subnetOf_def contains_net)
qed

lemma overlaps_iff:
  assumes "wf_ip a" "wf_ip b"
  shows "overlaps a b \<longleftrightarrow> proto_of a = proto_of b \<and> (prefix (net a) (net b) \<or> prefix (net b) (net a))"
proof -
  have "prefix (net a) (net b)" if "prefix (net b) (net a)" "length (net a) \<le> length (net b)" for a b
    using that by (auto simp: prefix_def)
  then show ?thesis
    using assms by (auto simp: overlaps_def contains_net length_net)
qed

lemma addrs_iff: "wf_ip ip \<Longrightarrow> x \<in> addrs ip \<longleftrightarrow>
    valid_host x \<and> protocol x = proto_of ip \<and> prefix (net ip) (addr_bits x)"
  by (auto simp: addrs_def contains_iff)

lemma canonical_inject:
  assumes "canonical a" "canonical b" "proto_of a = proto_of b" "net a = net b"
  shows "a = b"
proof (rule ip_eqI)
  have wf: "wf_ip a" "wf_ip b" using assms by (auto dest: canonical_wf)
  have "nat (m_prefixLength a) = nat (m_prefixLength b)" using wf assms(4) length_net by metis
  then show p: "m_prefixLength a = m_prefixLength b" using wf by (auto simp: wf_ip_def)
  have "addr_bits (m_address x) = net x @ replicate (width (m_address x) - nat (m_prefixLength x)) False"
    if "canonical x" for x
    using that append_take_drop_id [of "nat (m_prefixLength x)" "addr_bits (m_address x)"]
    unfolding canonical_def net_def by argo
  then show "m_address a = m_address b"
    using assms p wf width_protocol [OF assms(3)] by (intro addr_bits_inject) (auto simp: wf_ip_def)
qed

section \<open>Overlap\<close>

lemma overlaps_addrs:
  assumes "wf_ip a" "wf_ip b"
  shows "overlaps a b \<longleftrightarrow> addrs a \<inter> addrs b \<noteq> {}"
proof
  assume "overlaps a b"
  then have p: "proto_of a = proto_of b" and "prefix (net a) (net b) \<or> prefix (net b) (net a)"
    using assms by (auto simp: overlaps_iff)
  then have "m_address b \<in> addrs a \<inter> addrs b \<or> m_address a \<in> addrs a \<inter> addrs b"
    using assms net_prefix_addr wf_ipD by (auto simp: addrs_iff intro: prefix_order.trans)
  then show "addrs a \<inter> addrs b \<noteq> {}" by blast
next
  assume "addrs a \<inter> addrs b \<noteq> {}"
  then obtain x where x: "protocol x = proto_of a" "protocol x = proto_of b"
    "prefix (net a) (addr_bits x)" "prefix (net b) (addr_bits x)"
    using assms by (auto simp: addrs_iff)
  then show "overlaps a b" using assms prefix_same_cases [OF x(3,4)] by (auto simp: overlaps_iff)
qed

text \<open>
  \<open>overlaps\<close> decides whether two prefixes have an address in common, for prefixes of equal and
  of different families and in both orders of their lengths.
\<close>

theorem overlaps_common_address:
  assumes "wf_ip a" "wf_ip b"
  shows "overlaps a b \<longleftrightarrow> addrs a \<inter> addrs b \<noteq> {}"
  using assms by (rule overlaps_addrs)

section \<open>The two halves\<close>

lemma drop_clear:
  assumes "drop p xs = replicate n False" "0 < n"
  shows "p < length xs" "\<not> xs ! p" "drop (Suc p) xs = replicate (n - 1) False"
proof -
  show "p < length xs" using assms by (metis drop_all length_replicate list.size(3) not_le less_irrefl)
  then have "drop p xs = xs ! p # drop (Suc p) xs" by (rule Cons_nth_drop_Suc [symmetric])
  with assms show "\<not> xs ! p" "drop (Suc p) xs = replicate (n - 1) False" by (cases n; simp)+
qed

lemma subnets_canonical:
  assumes "canonical ip" "nat (m_prefixLength ip) < width (m_address ip)"
  obtains s0 s1 where "subnets ip = [s0, s1]" "canonical s0" "canonical s1"
    "proto_of s0 = proto_of ip" "proto_of s1 = proto_of ip"
    "net s0 = net ip @ [False]" "net s1 = net ip @ [True]"
proof -
  define p where "p = nat (m_prefixLength ip)"
  have ip: "m_prefixLength ip = int p" using assms(1) by (auto simp: p_def canonical_def wf_ip_def)
  have Suc: "nat (1 + int p) = Suc p" "int p + 1 \<le> int n \<longleftrightarrow> p < n" for n by auto
  have clear: "\<not> addr_bits (m_address ip) ! p"
    "drop (Suc p) (addr_bits (m_address ip)) = replicate (width (m_address ip) - Suc p) False"
    using drop_clear [of p "addr_bits (m_address ip)" "width (m_address ip) - p"] assms
    by (auto simp: canonical_def p_def)
  show thesis
  proof (cases "m_address ip")
    case (IPv4 a)
    with assms(2) have p: "p < 32" by (simp add: p_def)
    show thesis
    proof
      show "subnets ip = [mk_ip (IPv4 a) (int p + 1), mk_ip (IPv4 (upper_half4 p a)) (int p + 1)]"
        using IPv4 p ip by (simp add: subnets_def Let_def)
    qed (use IPv4 p ip clear v4.take_halves [of p a] v4.drop_halves [of p a] in
        \<open>auto simp: canonical_def wf_ip_def net_def Suc add.commute\<close>)
  next
    case (IPv6 a)
    with assms(2) have p: "p < 128" by (simp add: p_def)
    have a: "length a = 16" using IPv6 assms(1) by (auto simp: canonical_def wf_ip_def)
    show thesis
    proof
      show "subnets ip = [mk_ip (IPv6 a) (int p + 1), mk_ip (IPv6 (upper_half6 p a)) (int p + 1)]"
        using IPv6 p ip by (simp add: subnets_def Let_def)
    qed (use IPv6 p ip clear a v6.take_halves [of a p] v6.drop_halves [of a p] v6.valid_upper_half [of a p] in
        \<open>auto simp: canonical_def wf_ip_def net_def Suc add.commute\<close>)
  next
    case NoAddress
    with assms(2) show thesis by simp
  qed
qed

section \<open>Excluding one prefix\<close>

text \<open>
  \<open>remainder n ex rs\<close>: the prefixes \<open>rs\<close> partition what the bits \<open>n\<close> cover without \<open>ex\<close>, one prefix
  per bit by which \<open>ex\<close> is longer than \<open>n\<close>.
\<close>

definition remainder :: "bool list \<Rightarrow> ipaddr \<Rightarrow> ipaddr list \<Rightarrow> bool" where
  "remainder n ex rs \<longleftrightarrow>
     (\<forall>r \<in> set rs. canonical r \<and> proto_of r = proto_of ex \<and> prefix n (net r))
     \<and> sorted_wrt (\<lambda>a b. net a \<parallel> net b) rs
     \<and> length rs = length (net ex) - length n
     \<and> (\<forall>xs. length (net ex) \<le> length xs \<longrightarrow>
           (\<exists>r \<in> set rs. prefix (net r) xs) \<longleftrightarrow> prefix n xs \<and> \<not> prefix (net ex) xs)"

lemma prefix_snoc_cases:
  assumes "prefix n xs" "length n < length xs"
  obtains b where "prefix (n @ [b]) xs"
  using assms by (metis Cons_prefix_Cons append.right_neutral append_assoc append_eq_Cons_conv list.exhaust
      nat_less_le prefixE prefixI same_append_eq)

lemma prefix_snoc_bool: "prefix (n @ [b]) xs \<Longrightarrow> prefix (n @ [c]) xs \<Longrightarrow> b = (c :: 'a)"
  by (auto simp: prefix_def)

lemma prefix_halves:
  assumes "length n < length xs"
  shows "prefix n xs \<longleftrightarrow> prefix (n @ [b]) xs \<or> prefix (n @ [\<not> b]) xs"
proof
  assume "prefix n xs"
  then obtain c where "prefix (n @ [c]) xs" using assms by (rule prefix_snoc_cases)
  then show "prefix (n @ [b]) xs \<or> prefix (n @ [\<not> b]) xs" by (cases b; cases c) simp_all
qed (auto dest: append_prefixD)

lemma prefix_half_other: "prefix (n @ [b]) xs \<Longrightarrow> \<not> prefix (n @ [\<not> b]) xs"
  using prefix_snoc_bool by (metis (full_types))

lemma remainder_last:
  assumes "canonical s" "proto_of s = proto_of ex" "net s = n @ [\<not> b]" "net ex = n @ [b]"
  shows "remainder n ex [s]"
proof -
  have "prefix (n @ [\<not> b]) xs \<longleftrightarrow> prefix n xs \<and> \<not> prefix (n @ [b]) xs" if "length n < length xs" for xs
    using prefix_halves [OF that, of b] prefix_half_other [of n b xs] by blast
  then show ?thesis using assms by (auto simp: remainder_def)
qed

lemma remainder_step:
  assumes s: "canonical s" "proto_of s = proto_of ex" "net s = n @ [\<not> b]"
    and ex: "prefix (n @ [b]) (net ex)" "length (n @ [b]) < length (net ex)"
    and rs: "remainder (n @ [b]) ex rs"
  shows "remainder n ex (s # rs)"
proof -
  have cover: "(\<exists>r \<in> set (s # rs). prefix (net r) xs) \<longleftrightarrow> prefix n xs \<and> \<not> prefix (net ex) xs"
    if "length (net ex) \<le> length xs" for xs
  proof -
    have "(\<exists>r \<in> set (s # rs). prefix (net r) xs) \<longleftrightarrow>
        prefix (n @ [\<not> b]) xs \<or> prefix (n @ [b]) xs \<and> \<not> prefix (net ex) xs"
      using rs that by (simp add: remainder_def s)
    also have "\<dots> \<longleftrightarrow> prefix n xs \<and> \<not> prefix (net ex) xs"
    proof -
      have "length n < length xs" using ex(2) that by simp
      moreover have "prefix (net ex) xs \<Longrightarrow> prefix (n @ [b]) xs" by (rule prefix_order.trans [OF ex(1)])
      ultimately show ?thesis using prefix_halves [of n xs b] prefix_half_other [of n b xs] by blast
    qed
    finally show ?thesis .
  qed
  have "net s \<parallel> net r" if "r \<in> set rs" for r
  proof -
    have "prefix (n @ [b]) (net r)" using rs that by (auto simp: remainder_def)
    then show ?thesis unfolding s(3) by (auto simp: prefix_def)
  qed
  moreover have "prefix n (net r)" if "r \<in> set (s # rs)" for r
    using rs that s(3) append_prefixD by (fastforce simp: remainder_def)
  moreover have "length (s # rs) = length (net ex) - length n" using rs ex(2) by (simp add: remainder_def)
  moreover have "sorted_wrt (\<lambda>a b. net a \<parallel> net b) rs" using rs by (simp add: remainder_def)
  moreover have "canonical r \<and> proto_of r = proto_of ex" if "r \<in> set (s # rs)" for r
    using rs that s by (auto simp: remainder_def)
  ultimately show ?thesis using cover unfolding remainder_def sorted_wrt.simps by blast
qed

lemma exclude_loop_run:
  assumes "canonical s0" "canonical s1" "proto_of s0 = proto_of ex" "proto_of s1 = proto_of ex"
    and "net s0 = n @ [False]" "net s1 = n @ [True]"
    and "canonical ex" "strict_prefix n (net ex)"
  shows "\<exists>rs. exclude_loop ex [s0, s1] res = Some (res @ rs) \<and> remainder n ex rs"
  using assms
proof (induction "length (net ex) - length n" arbitrary: n s0 s1 res rule: less_induct)
  case less
  define t where "t b = (if b then s1 else s0)" for b
  have t: "canonical (t b)" "proto_of (t b) = proto_of ex" "net (t b) = n @ [b]" for b
    using less.prems by (auto simp: t_def)
  have "length n < length (net ex)" using less.prems(8) by (rule prefix_length_less)
  then obtain b where b: "prefix (n @ [b]) (net ex)"
    using less.prems(8) prefix_snoc_cases strict_prefix_def by metis
  show ?case
  proof (cases "net ex = n @ [b]")
    case True
    with t less.prems(7) have "t b = ex" by (intro canonical_inject) auto
    moreover have "t (\<not> b) \<noteq> ex" using t True by (metis append1_eq_conv)
    ultimately have "exclude_loop ex [s0, s1] res = Some (res @ [t (\<not> b)])"
      by (subst exclude_loop.simps) (cases b; simp add: t_def)
    moreover have "remainder n ex [t (\<not> b)]" by (rule remainder_last [OF t True])
    ultimately show ?thesis by blast
  next
    case False
    then have strict: "strict_prefix (n @ [b]) (net ex)" using b by (simp add: strict_prefix_def)
    then have len: "length (n @ [b]) < length (net ex)" by (rule prefix_length_less)
    then have ne: "t c \<noteq> ex" for c using t by (metis length_append_singleton less_irrefl)
    have wf: "wf_ip ex" "wf_ip (t c)" for c using less.prems(7) t by (auto dest: canonical_wf)
    have sub: "subnetOf ex (t c) \<longleftrightarrow> c = b" for c
      using b prefix_snoc_bool wf t by (fastforce simp: subnetOf_iff)
    have "nat (m_prefixLength (t b)) < width (m_address (t b))"
    proof -
      have "length (net ex) \<le> width (m_address ex)" using wf length_net wf_ipD by metis
      then show ?thesis
        using len t wf length_net width_protocol [of "m_address (t b)" "m_address ex"] by (metis order_less_le_trans)
    qed
    then obtain u0 u1 where u: "subnets (t b) = [u0, u1]" "canonical u0" "canonical u1"
      "proto_of u0 = proto_of ex" "proto_of u1 = proto_of ex"
      "net u0 = (n @ [b]) @ [False]" "net u1 = (n @ [b]) @ [True]"
      using subnets_canonical [OF t(1)] t by metis
    have "exclude_loop ex [s0, s1] res = exclude_loop ex [u0, u1] (res @ [t (\<not> b)])"
      using ne [of False] ne [of True] sub [of False] sub [of True] u(1)
      by (subst exclude_loop.simps) (cases b; simp add: t_def)
    moreover obtain rs where "exclude_loop ex [u0, u1] (res @ [t (\<not> b)]) = Some ((res @ [t (\<not> b)]) @ rs)"
      and "remainder (n @ [b]) ex rs"
    proof -
      have "length (net ex) - length (n @ [b]) < length (net ex) - length n" using len by simp
      from less.hyps [OF this u(2-7) less.prems(7) strict, of "res @ [t (\<not> b)]"] that
      show thesis by blast
    qed
    moreover have "remainder n ex (t (\<not> b) # rs)"
      using remainder_step [OF t b len] calculation by blast
    ultimately show ?thesis by (intro exI [of _ "t (\<not> b) # rs"]) simp
  qed
qed

lemma excludeAddress_run:
  assumes "canonical ip" "canonical ex" "subnetOf ex ip" "ex \<noteq> ip"
  obtains rs where "excludeAddress ip ex = Some rs" "remainder (net ip) ex rs"
proof -
  have wf: "wf_ip ip" "wf_ip ex" using assms by (auto dest: canonical_wf)
  with assms have p: "proto_of ex = proto_of ip" "prefix (net ip) (net ex)" by (auto simp: subnetOf_iff)
  with assms have strict: "strict_prefix (net ip) (net ex)"
    by (metis canonical_inject strict_prefix_def)
  then have "nat (m_prefixLength ip) < width (m_address ip)"
    using prefix_length_less [OF strict] wf length_net wf_ipD width_protocol [OF p(1)]
    by (metis order_less_le_trans)
  then obtain s0 s1 where "subnets ip = [s0, s1]" "canonical s0" "canonical s1"
    "proto_of s0 = proto_of ip" "proto_of s1 = proto_of ip"
    "net s0 = net ip @ [False]" "net s1 = net ip @ [True]"
    using subnets_canonical [OF assms(1)] by metis
  with exclude_loop_run [of s0 s1 ex "net ip" "[]"] assms(2) p strict that show thesis
    by (auto simp: excludeAddress_def)
qed

lemma remainder_addrs:
  assumes "remainder (net ip) ex rs" "canonical ip" "canonical ex" "proto_of ex = proto_of ip"
  shows "(\<Union>r \<in> set rs. addrs r) = addrs ip - addrs ex"
    and "sorted_wrt (\<lambda>a b. addrs a \<inter> addrs b = {}) rs"
proof -
  have rs: "wf_ip r" "proto_of r = proto_of ip" if "r \<in> set rs" for r
    using assms that by (auto simp: remainder_def canonical_wf)
  have wf: "wf_ip ip" "wf_ip ex" using assms by (auto dest: canonical_wf)
  have "x \<in> (\<Union>r \<in> set rs. addrs r) \<longleftrightarrow> x \<in> addrs ip - addrs ex" for x
  proof (cases "valid_host x \<and> protocol x = proto_of ip")
    case True
    then have "length (net ex) \<le> length (addr_bits x)"
      using wf_ipD [OF wf(2)] assms(4) width_protocol [of x "m_address ex"]
      by (simp add: length_net [OF wf(2)] length_addr_bits)
    then have "(\<exists>r \<in> set rs. prefix (net r) (addr_bits x)) \<longleftrightarrow>
        prefix (net ip) (addr_bits x) \<and> \<not> prefix (net ex) (addr_bits x)"
      using assms(1) by (simp add: remainder_def)
    then show ?thesis using True rs wf assms(4) by (auto simp: addrs_iff)
  next
    case False
    then show ?thesis using rs wf by (auto simp: addrs_iff)
  qed
  then show "(\<Union>r \<in> set rs. addrs r) = addrs ip - addrs ex" by blast
  have par: "sorted_wrt (\<lambda>a b. net a \<parallel> net b) rs" using assms(1) by (simp add: remainder_def)
  show "sorted_wrt (\<lambda>a b. addrs a \<inter> addrs b = {}) rs"
  proof (rule sorted_wrt_mono_rel [OF _ par])
    fix a b assume "a \<in> set rs" "b \<in> set rs" "net a \<parallel> net b"
    then have "wf_ip a" "wf_ip b" "\<not> overlaps a b" using rs by (auto simp: overlaps_iff)
    then show "addrs a \<inter> addrs b = {}" by (simp add: overlaps_addrs)
  qed
qed

text \<open>
  Excluding one canonical prefix from a larger one returns; the result covers exactly the
  addresses of the larger prefix that are not in the excluded one, its members are canonical, have
  no address in common, and there is one for each bit by which the prefix lengths differ.
\<close>

theorem excludeAddress_difference:
  assumes "canonical ip" "canonical ex" "subnetOf ex ip" "ex \<noteq> ip"
  shows "\<exists>rs. excludeAddress ip ex = Some rs \<and> (\<Union>r \<in> set rs. addrs r) = addrs ip - addrs ex
    \<and> list_all canonical rs \<and> sorted_wrt (\<lambda>a b. addrs a \<inter> addrs b = {}) rs
    \<and> int (length rs) = m_prefixLength ex - m_prefixLength ip"
proof -
  obtain rs where rs: "excludeAddress ip ex = Some rs" "remainder (net ip) ex rs"
    using assms by (rule excludeAddress_run)
  have wf: "wf_ip ip" "wf_ip ex" using assms by (auto dest: canonical_wf)
  with assms have p: "proto_of ex = proto_of ip" "prefix (net ip) (net ex)" by (auto simp: subnetOf_iff)
  have "int (length rs) = m_prefixLength ex - m_prefixLength ip"
    using rs(2) prefix_length_le [OF p(2)] wf by (auto simp: remainder_def length_net wf_ip_def)
  with rs remainder_addrs [OF rs(2) assms(1,2) p(1)] show ?thesis
    by (auto simp: remainder_def list_all_iff)
qed

section \<open>Excluding a list of prefixes\<close>

definition disjoint_prefixes :: "ipaddr list \<Rightarrow> bool" where
  "disjoint_prefixes rs \<longleftrightarrow> list_all canonical rs \<and> sorted_wrt (\<lambda>a b. addrs a \<inter> addrs b = {}) rs"

lemma subset_exclude:
  assumes "canonical ip" "canonical ex" "overlaps ip ex" "\<not> (subnetOf ex ip \<and> ex \<noteq> ip)"
  shows "addrs ip \<subseteq> addrs ex"
proof -
  have wf: "wf_ip ip" "wf_ip ex" using assms by (auto dest: canonical_wf)
  with assms have "proto_of ip = proto_of ex" "prefix (net ex) (net ip)"
    by (auto simp: overlaps_iff subnetOf_iff)
  then show ?thesis using wf by (auto simp: addrs_iff intro: prefix_order.trans)
qed

lemma exclude_from_run:
  assumes "canonical ex" "disjoint_prefixes ips"
  shows "\<exists>rs. exclude_from ex ips = Some rs \<and> disjoint_prefixes rs
    \<and> (\<Union>r \<in> set rs. addrs r) = (\<Union>i \<in> set ips. addrs i) - addrs ex"
  using assms(2)
proof (induction ips)
  case (Cons ip ips)
  then have ip: "canonical ip" "\<forall>i \<in> set ips. addrs ip \<inter> addrs i = {}" and "disjoint_prefixes ips"
    by (auto simp: disjoint_prefixes_def)
  with Cons.IH obtain rs where rs: "exclude_from ex ips = Some rs" "disjoint_prefixes rs"
    "(\<Union>r \<in> set rs. addrs r) = (\<Union>i \<in> set ips. addrs i) - addrs ex" by auto
  have "\<exists>ts. exclude_from ex (ip # ips) = Some (ts @ rs) \<and> disjoint_prefixes ts
      \<and> (\<Union>t \<in> set ts. addrs t) = addrs ip - addrs ex"
  proof (cases "overlaps ip ex")
    case False
    then have "addrs ip \<inter> addrs ex = {}" using ip assms(1) by (simp add: overlaps_addrs canonical_wf)
    with False rs ip show ?thesis by (intro exI [of _ "[ip]"]) (auto simp: disjoint_prefixes_def)
  next
    case True
    show ?thesis
    proof (cases "subnetOf ex ip \<and> ex \<noteq> ip")
      case False
      with True subset_exclude [OF ip(1) assms(1)] rs show ?thesis
        by (intro exI [of _ "[]"]) (auto simp: disjoint_prefixes_def)
    next
      case sub: True
      then obtain ts where ts: "excludeAddress ip ex = Some ts" "remainder (net ip) ex ts"
        using excludeAddress_run [OF ip(1) assms(1)] by metis
      have "proto_of ex = proto_of ip"
        using sub ip(1) assms(1) by (auto simp: subnetOf_iff canonical_wf)
      from remainder_addrs [OF ts(2) ip(1) assms(1) this] ts rs sub True show ?thesis
        by (intro exI [of _ ts]) (auto simp: disjoint_prefixes_def remainder_def list_all_iff)
    qed
  qed
  then obtain ts where ts: "exclude_from ex (ip # ips) = Some (ts @ rs)" "disjoint_prefixes ts"
    "(\<Union>t \<in> set ts. addrs t) = addrs ip - addrs ex" by blast
  have "addrs t \<inter> addrs r = {}" if "t \<in> set ts" "r \<in> set rs" for t r
    using that ts(3) rs(3) ip(2) by blast
  with ts rs have "disjoint_prefixes (ts @ rs)"
    by (auto simp: disjoint_prefixes_def sorted_wrt_append)
  moreover have "(\<Union>r \<in> set (ts @ rs). addrs r) = (\<Union>i \<in> set (ip # ips). addrs i) - addrs ex"
    using ts(3) rs(3) by auto
  ultimately show ?case using ts(1) by blast
qed (simp add: disjoint_prefixes_def)

text \<open>
  C7: excluding a list of canonical prefixes from a list of canonical, pairwise disjoint ones always
  returns; the result covers exactly the source addresses that no excluded prefix contains, and is
  again canonical and pairwise disjoint.
\<close>

theorem excludeAddresses_difference:
  assumes "disjoint_prefixes sources" "list_all canonical excludes"
  shows "\<exists>rs. excludeAddresses sources excludes = Some rs \<and> disjoint_prefixes rs
    \<and> (\<Union>r \<in> set rs. addrs r) = (\<Union>s \<in> set sources. addrs s) - (\<Union>e \<in> set excludes. addrs e)"
  using assms
proof (induction excludes arbitrary: sources)
  case (Cons ex excludes)
  obtain rs where rs: "exclude_from ex sources = Some rs" "disjoint_prefixes rs"
    "(\<Union>r \<in> set rs. addrs r) = (\<Union>i \<in> set sources. addrs i) - addrs ex"
    using exclude_from_run [of ex sources] Cons.prems by auto
  with Cons.IH [of rs] Cons.prems(2) show ?case by (auto simp: Diff_eq)
qed simp

end
