(* ===== verification/IP_Masks.thy ===== *)
theory IP_Masks
  imports IP_Facts
begin

unbundle bit_operations_syntax

text \<open>
  The masks and the broadcast address of a prefix, bit by bit, and prefixes whose address has bits
  set after the prefix.
\<close>

section \<open>Masks\<close>

lemma all_ones: "(0xFF :: 8 word) = - 1" "(0xFFFFFFFF :: 32 word) = - 1"
  by simp_all

lemma bytes_bits_append: "bytes_bits (xs @ ys) = bytes_bits xs @ bytes_bits ys"
  by (simp add: bytes_bits_def)

lemma bytes_bits_Cons: "bytes_bits (x # xs) = word_bits x @ bytes_bits xs"
  by (simp add: bytes_bits_def)

lemma word_bits_ones: "word_bits (- 1 :: 'a::len word) = replicate LENGTH('a) True"
  by (intro word_bits_eqI) (auto simp: bit_simps)

lemma word_bits_zero: "word_bits (0 :: 'a::len word) = replicate LENGTH('a) False"
  by (intro word_bits_eqI) auto

lemma bytes_bits_replicate:
  "bytes_bits (replicate n (- 1)) = replicate (8 * n) True"
  "bytes_bits (replicate n 0) = replicate (8 * n) False"
  by (induction n) (auto simp: bytes_bits_def word_bits_ones word_bits_zero replicate_add)

lemma word_bits_netmask:
  "p \<le> LENGTH('a) \<Longrightarrow> word_bits (- 1 XOR drop_bit p (- 1) :: 'a::len word) =
     replicate p True @ replicate (LENGTH('a) - p) False"
  by (intro word_bits_eqI) (auto simp: bit_simps nth_append)

lemma word_bits_hostmask:
  "p \<le> LENGTH('a) \<Longrightarrow> word_bits (drop_bit p (- 1) :: 'a::len word) =
     replicate p False @ replicate (LENGTH('a) - p) True"
  by (intro word_bits_eqI) (auto simp: bit_simps nth_append)

lemma word_bits_broadcast:
  "p \<le> LENGTH('a) \<Longrightarrow> word_bits ((a :: 'a::len word) OR drop_bit p (- 1)) =
     take p (word_bits a) @ replicate (LENGTH('a) - p) True"
  by (intro word_bits_eqI) (auto simp: bit_simps nth_append nth_word_bits)

text \<open>The position of a prefix length in the byte array.\<close>

lemma byte_position:
  assumes "p \<le> 128"
  obtains (whole) q where "p = 8 * q" "p div 8 = q" "p mod 8 = 0" "(p + 7) div 8 = q" "q \<le> 16"
  | (inner) q r where "p = 8 * q + r" "0 < r" "r < 8" "p div 8 = q" "p mod 8 = r"
      "(p + 7) div 8 = Suc q" "q < 16"
proof -
  define q r where "q = p div 8" and "r = p mod 8"
  have p: "p = 8 * q + r" "r < 8" by (simp_all add: q_def r_def)
  have qr: "p div 8 = q" "p mod 8 = r" by (simp_all add: q_def r_def)
  show thesis
  proof (cases "r = 0")
    case True
    have "(p + 7) div 8 = q" by (rule div_nat_eqI) (use p True in simp_all)
    moreover have "q \<le> 16" "p = 8 * q" using p True assms by simp_all
    ultimately show thesis using whole [of q] True qr by metis
  next
    case False
    have "(p + 7) div 8 = Suc q" by (rule div_nat_eqI) (use p False in simp_all)
    moreover have "q < 16" "0 < r" using p False assms by simp_all
    ultimately show thesis using inner [of q r] p qr by blast
  qed
qed

lemma block_update:
  assumes "q < n"
  shows "(replicate q x @ replicate (n - q) y)[q := z] = replicate q x @ z # replicate (n - Suc q) y"
proof -
  have "replicate (n - q) y = y # replicate (n - Suc q) y"
    using assms by (simp add: Suc_diff_Suc flip: replicate_Suc)
  then show ?thesis by (simp add: list_update_append)
qed

lemma bytes_netmask:
  assumes "p \<le> 128"
  shows "addr_bits (netmask (mk_ip (IPv6 a) (int p))) = replicate p True @ replicate (128 - p) False"
  using assms
proof (cases rule: byte_position)
  case (whole q)
  have "netmask (mk_ip (IPv6 a) (int p)) = IPv6 (replicate q (- 1) @ replicate (16 - q) 0)"
    using whole(2-5) by (simp add: netmask_def memset_def all_ones Let_def)
  then show ?thesis
    using whole by (simp add: bytes_bits_append bytes_bits_replicate diff_mult_distrib2)
next
  case (inner q r)
  have "netmask (mk_ip (IPv6 a) (int p)) =
      IPv6 (replicate q (- 1) @ (- 1 XOR drop_bit r (- 1)) # replicate (15 - q) 0)"
    using inner(2-7) block_update [of q 16 "- 1 :: 8 word" 0]
    by (simp add: netmask_def memset_def all_ones Let_def)
  then have "addr_bits (netmask (mk_ip (IPv6 a) (int p))) =
      (replicate (8 * q) True @ replicate r True) @ replicate (8 - r) False @ replicate (8 * (15 - q)) False"
    using inner word_bits_netmask [of r, where 'a = 8]
    by (simp add: bytes_bits_append bytes_bits_Cons bytes_bits_replicate)
  also have "\<dots> = replicate p True @ replicate (128 - p) False"
    using inner unfolding replicate_add [symmetric] by simp
  finally show ?thesis .
qed

lemma bytes_hostmask:
  assumes "p \<le> 128"
  shows "addr_bits (hostmask (mk_ip (IPv6 a) (int p))) = replicate p False @ replicate (128 - p) True"
  using assms
proof (cases rule: byte_position)
  case (whole q)
  have "hostmask (mk_ip (IPv6 a) (int p)) = IPv6 (replicate q 0 @ replicate (16 - q) (- 1))"
    using whole(2-5) by (simp add: hostmask_def memset_def all_ones Let_def min_def)
  then show ?thesis
    using whole by (simp add: bytes_bits_append bytes_bits_replicate diff_mult_distrib2)
next
  case (inner q r)
  have "replicate (Suc q) 0 @ replicate (15 - q) (- 1 :: 8 word) = replicate q 0 @ 0 # replicate (15 - q) (- 1)"
    by (simp add: replicate_append_same flip: append_Cons)
  then have "hostmask (mk_ip (IPv6 a) (int p)) =
      IPv6 (replicate q 0 @ drop_bit r (- 1) # replicate (15 - q) (- 1))"
    using inner(2-7) by (simp add: hostmask_def memset_def all_ones Let_def list_update_append min_def)
  then have "addr_bits (hostmask (mk_ip (IPv6 a) (int p))) =
      (replicate (8 * q) False @ replicate r False) @ replicate (8 - r) True @ replicate (8 * (15 - q)) True"
    using inner word_bits_hostmask [of r, where 'a = 8]
    by (simp add: bytes_bits_append bytes_bits_Cons bytes_bits_replicate)
  also have "\<dots> = replicate p False @ replicate (128 - p) True"
    using inner unfolding replicate_add [symmetric] by simp
  finally show ?thesis .
qed

lemma bytes_broadcast:
  assumes "p \<le> 128" "length a = 16"
  shows "addr_bits (broadcastAddress (mk_ip (IPv6 a) (int p))) =
    take p (bytes_bits a) @ replicate (128 - p) True"
  using assms(1)
proof (cases rule: byte_position)
  case (whole q)
  have "broadcastAddress (mk_ip (IPv6 a) (int p)) = IPv6 (take q a @ replicate (16 - q) (- 1))"
    using whole(2-5) assms by (simp add: broadcastAddress_def memset_def all_ones Let_def)
  moreover have "take p (bytes_bits a) = bytes_bits (take q a)"
    using whole assms by (cases "q = 16") (simp_all add: take_bytes_bits)
  ultimately show ?thesis
    using whole by (simp add: bytes_bits_append bytes_bits_replicate diff_mult_distrib2)
next
  case (inner q r)
  have "take (Suc q) a = take q a @ [a ! q]" using inner assms by (simp add: take_Suc_conv_app_nth)
  then have "broadcastAddress (mk_ip (IPv6 a) (int p)) =
      IPv6 (take q a @ (a ! q OR drop_bit r (- 1)) # replicate (15 - q) (- 1))"
    using inner(2-7) assms
    by (simp add: broadcastAddress_def memset_def all_ones Let_def list_update_append nth_append)
  then have "addr_bits (broadcastAddress (mk_ip (IPv6 a) (int p))) =
      (bytes_bits (take q a) @ take r (word_bits (a ! q))) @ replicate (8 - r) True @ replicate (8 * (15 - q)) True"
    using inner word_bits_broadcast [of r "a ! q"]
    by (simp add: bytes_bits_append bytes_bits_Cons bytes_bits_replicate)
  also have "\<dots> = take p (bytes_bits a) @ replicate (128 - p) True"
  proof -
    have "p < 8 * length a" "8 - r + 8 * (15 - q) = 128 - p"
      using inner(1,2,3,7) assms(2) by linarith+
    with take_bytes_bits [of p a] inner(4,5) show ?thesis by (simp flip: replicate_add)
  qed
  finally show ?thesis .
qed

lemma masks_by_bits_aux:
  assumes "wf_ip ip"
  defines "p \<equiv> nat (m_prefixLength ip)" and "h \<equiv> width (m_address ip) - nat (m_prefixLength ip)"
  shows "addr_bits (netmask ip) = replicate p True @ replicate h False
    \<and> addr_bits (hostmask ip) = replicate p False @ replicate h True
    \<and> addr_bits (broadcastAddress ip) = net ip @ replicate h True"
proof -
  have ip: "ip = mk_ip (m_address ip) (int p)" using assms by (simp add: p_def wf_ip_def mk_ip_def)
  show ?thesis
  proof (cases "m_address ip")
    case (IPv4 a)
    then have p: "p \<le> 32" "h = 32 - p" using assms by (auto simp: wf_ip_def)
    show ?thesis
      unfolding p(2) using p(1) IPv4 word_bits_netmask [of p, where 'a = 32] word_bits_hostmask [of p, where 'a = 32]
        word_bits_broadcast [of p a]
      by (cases "p = 32") (simp_all add: netmask_def hostmask_def broadcastAddress_def net_def all_ones
          word_bits_ones word_bits_zero flip: p_def)
  next
    case (IPv6 a)
    then have p: "p \<le> 128" "h = 128 - p" "length a = 16" using assms by (auto simp: wf_ip_def)
    show ?thesis
      unfolding p(2) using bytes_netmask [OF p(1), of a] bytes_hostmask [OF p(1), of a]
        bytes_broadcast [OF p(1,3)] ip IPv6 by (simp add: net_def flip: p_def)
  next
    case NoAddress
    with assms show ?thesis by (simp add: wf_ip_def)
  qed
qed

text \<open>
  For every well-formed prefix of either family, the network mask has exactly the bits of the
  prefix set, the host mask exactly the others, and the broadcast address is the prefix followed by
  set bits only.
\<close>

theorem masks_by_bits:
  assumes "wf_ip ip"
  defines "p \<equiv> nat (m_prefixLength ip)" and "h \<equiv> width (m_address ip) - nat (m_prefixLength ip)"
  shows "addr_bits (netmask ip) = replicate p True @ replicate h False
    \<and> addr_bits (hostmask ip) = replicate p False @ replicate h True
    \<and> addr_bits (broadcastAddress ip) = net ip @ replicate h True"
  using masks_by_bits_aux [OF assms(1)] by (simp add: p_def h_def)

section \<open>Containment of prefixes\<close>

lemma prefix_fork:
  assumes "prefix xs (ys @ replicate n False)" "prefix xs (ys @ replicate n True)"
  shows "prefix xs ys"
proof (rule ccontr)
  assume no: "\<not> prefix xs ys"
  then obtain us where us: "xs = ys @ us" "prefix us (replicate n False)"
    using assms(1) by (auto simp: prefix_append)
  with no have "us \<noteq> []" by auto
  moreover have "prefix us (replicate n True)" using assms(2) us(1) by simp
  ultimately show False using us(2) by (cases us; cases n) auto
qed

lemma broadcast_valid: "wf_ip ip \<Longrightarrow> valid_host (broadcastAddress ip) \<and> protocol (broadcastAddress ip) = proto_of ip"
  by (cases "m_address ip") (auto simp: broadcastAddress_def wf_ip_def memset_def Let_def)

lemma net_extends:
  assumes a: "canonical a" and b: "wf_ip b" and sub: "addrs a \<subseteq> addrs b"
  shows "proto_of b = proto_of a \<and> prefix (net b) (net a)"
proof -
  have wf: "wf_ip a" using a by (rule canonical_wf)
  let ?w = "width (m_address a)" and ?p = "nat (m_prefixLength a)"
  have low: "addr_bits (m_address a) = net a @ replicate (?w - ?p) False"
    using a append_take_drop_id [of ?p "addr_bits (m_address a)"] unfolding canonical_def net_def by argo
  have high: "addr_bits (broadcastAddress a) = net a @ replicate (?w - ?p) True"
    using masks_by_bits_aux [OF wf] by simp
  have "m_address a \<in> addrs a" "broadcastAddress a \<in> addrs a"
    using wf wf_ipD [OF wf] net_prefix_addr [of a] broadcast_valid [OF wf] high by (simp_all add: addrs_iff)
  with sub have "m_address a \<in> addrs b" "broadcastAddress a \<in> addrs b" by auto
  then have pre: "prefix (net b) (net a @ replicate (?w - ?p) False)"
    "prefix (net b) (net a @ replicate (?w - ?p) True)" and "proto_of b = proto_of a"
    using b low high by (auto simp: addrs_iff)
  moreover have "prefix (net b) (net a)"
    using pre prefix_fork by blast
  ultimately show ?thesis by simp
qed

text \<open>
  For a canonical prefix \<open>subnetOf\<close> decides whether all its addresses belong to the other prefix.
\<close>

theorem subnetOf_subset:
  assumes "canonical a" "wf_ip b"
  shows "subnetOf a b \<longleftrightarrow> addrs a \<subseteq> addrs b"
proof
  assume "subnetOf a b"
  with assms canonical_wf have "proto_of b = proto_of a" "prefix (net b) (net a)" "wf_ip a"
    by (auto simp: subnetOf_iff)
  with assms(2) show "addrs a \<subseteq> addrs b" by (auto simp: addrs_iff intro: prefix_order.trans)
next
  assume "addrs a \<subseteq> addrs b"
  with assms have "proto_of b = proto_of a \<and> prefix (net b) (net a)" by (rule net_extends)
  with assms show "subnetOf a b" by (simp add: subnetOf_iff canonical_wf)
qed

section \<open>Prefixes with host bits\<close>

text \<open>
  A state of the exclusion loop from which it makes no progress: both halves are longer than the
  excluded prefix.
\<close>

lemma exclude_loop_stuck:
  assumes "m_prefixLength ex < m_prefixLength s0" "m_prefixLength ex < m_prefixLength s1"
  shows "exclude_loop ex [s0, s1] res = None"
proof (cases "exclude_loop ex [s0, s1] res")
  case (Some y)
  let ?P = "\<lambda>ex sn (res :: ipaddr list) (y :: ipaddr list). \<forall>s0 s1. sn = [s0, s1] \<longrightarrow>
    m_prefixLength ex < m_prefixLength s0 \<longrightarrow> \<not> m_prefixLength ex < m_prefixLength s1"
  have "?P ex [s0, s1] res y"
  proof (rule exclude_loop.raw_induct [where P = ?P, OF _ Some])
    fix f and ex :: ipaddr and sn res y
    assume IH: "\<And>ex sn res y. f ex sn res = Some y \<Longrightarrow> ?P ex sn res y"
      and eq: "(case sn of [s0, s1] \<Rightarrow>
          if s0 \<noteq> ex \<and> s1 \<noteq> ex
          then if subnetOf ex s0 then f ex (subnets s0) (res @ [s1])
               else if subnetOf ex s1 then f ex (subnets s1) (res @ [s0])
               else f ex sn res
          else if s0 = ex then Some (res @ [s1]) else Some (res @ [s0])
        | _ \<Rightarrow> None) = Some y"
    show "?P ex sn res y"
    proof (intro allI impI notI)
      fix s0 s1 assume sn: "sn = [s0, s1]"
        and len: "m_prefixLength ex < m_prefixLength s0" "m_prefixLength ex < m_prefixLength s1"
      then have "s0 \<noteq> ex" "s1 \<noteq> ex" "\<not> subnetOf ex s0" "\<not> subnetOf ex s1"
        by (auto simp: subnetOf_def)
      with eq sn have "f ex [s0, s1] res = Some y" by simp
      with IH len show False by blast
    qed
  qed
  with assms show ?thesis by simp
qed

lemma exclude_loop_descend:
  assumes "wf_ip ex" "canonical s0" "canonical s1" "proto_of s0 = proto_of ex" "proto_of s1 = proto_of ex"
    and "net s0 = n @ [False]" "net s1 = n @ [True]" "prefix (n @ [b]) (net ex)" "s0 \<noteq> ex" "s1 \<noteq> ex"
  shows "exclude_loop ex [s0, s1] res =
    exclude_loop ex (subnets (if b then s1 else s0)) (res @ [if b then s0 else s1])"
proof -
  have "prefix (n @ [c]) (net ex) \<longleftrightarrow> c = b" for c
    using assms(8) prefix_snoc_bool [of n c "net ex" b] by auto
  then have "subnetOf ex s0 \<longleftrightarrow> \<not> b" "subnetOf ex s1 \<longleftrightarrow> b"
    using assms(1-7) by (simp_all add: subnetOf_iff canonical_wf)
  with assms(9,10) show ?thesis by (subst exclude_loop.simps) simp
qed

lemma halves_longer:
  assumes "canonical t" "wf_ip ex" "nat (m_prefixLength t) < width (m_address t)"
    and "length (net ex) \<le> length (net t)"
  shows "exclude_loop ex (subnets t) res = None"
proof -
  obtain u0 u1 where u: "subnets t = [u0, u1]" "canonical u0" "canonical u1"
    "net u0 = net t @ [False]" "net u1 = net t @ [True]"
    using subnets_canonical [OF assms(1,3)] by metis
  have "m_prefixLength ex < m_prefixLength u" if "canonical u" "length (net u) = Suc (length (net t))" for u
    using that(2) length_net [OF canonical_wf [OF that(1)]] length_net [OF assms(2)] assms(4) by simp
  with u show ?thesis by (simp add: exclude_loop_stuck)
qed

lemma full_length_canonical:
  assumes "wf_ip ip" "\<not> canonical ip"
  shows "nat (m_prefixLength ip) < width (m_address ip)"
proof (rule ccontr)
  assume "\<not> nat (m_prefixLength ip) < width (m_address ip)"
  with assms(1) have "canonical ip" by (simp add: canonical_def wf_ip_def length_addr_bits)
  with assms(2) show False by simp
qed

lemma exclude_loop_host_bits:
  assumes "canonical s0" "canonical s1" "proto_of s0 = proto_of ex" "proto_of s1 = proto_of ex"
    and "net s0 = n @ [False]" "net s1 = n @ [True]"
    and "wf_ip ex" "\<not> canonical ex" "strict_prefix n (net ex)"
  shows "exclude_loop ex [s0, s1] res = None"
  using assms
proof (induction "length (net ex) - length n" arbitrary: n s0 s1 res rule: less_induct)
  case less
  have ne: "s0 \<noteq> ex" "s1 \<noteq> ex" using less.prems by auto
  obtain b where b: "prefix (n @ [b]) (net ex)"
    using less.prems(9) prefix_length_less prefix_snoc_cases strict_prefix_def by metis
  define t where "t = (if b then s1 else s0)"
  have t: "canonical t" "proto_of t = proto_of ex" "net t = n @ [b]"
    using less.prems by (auto simp: t_def)
  have wt: "width (m_address t) = width (m_address ex)" using t(2) by (rule width_protocol)
  have room: "nat (m_prefixLength t) < width (m_address t)"
    using prefix_length_le [OF b] t full_length_canonical [OF less.prems(7,8)] wt less.prems(7)
    by (metis canonical_wf length_net order_le_less_trans)
  have step: "exclude_loop ex [s0, s1] res = exclude_loop ex (subnets t) (res @ [if b then s0 else s1])"
    unfolding t_def by (rule exclude_loop_descend [OF less.prems(7,1-6) b ne])
  show ?case
  proof (cases "net ex = n @ [b]")
    case True
    with t room less.prems(7) show ?thesis unfolding step by (intro halves_longer) auto
  next
    case False
    then have strict: "strict_prefix (n @ [b]) (net ex)" using b by (simp add: strict_prefix_def)
    obtain u0 u1 where u: "subnets t = [u0, u1]" "canonical u0" "canonical u1"
      "proto_of u0 = proto_of ex" "proto_of u1 = proto_of ex"
      "net u0 = (n @ [b]) @ [False]" "net u1 = (n @ [b]) @ [True]"
      using subnets_canonical [OF t(1) room] t by metis
    have "length (net ex) - length (n @ [b]) < length (net ex) - length n"
      using prefix_length_less [OF strict] by simp
    from less.hyps [OF this u(2-7) less.prems(7,8) strict] u(1) step show ?thesis by simp
  qed
qed

text \<open>
  C31: the exclusion of a prefix inside another canonical one returns exactly if the excluded prefix
  has no bit set after its length; otherwise its loop, whose last branch is asserted to be
  unreachable, never ends.
\<close>

theorem excludeAddress_returns_iff:
  assumes "canonical ip" "wf_ip ex" "subnetOf ex ip" "ex \<noteq> ip"
  shows "excludeAddress ip ex \<noteq> None \<longleftrightarrow> canonical ex"
proof
  assume "canonical ex"
  then show "excludeAddress ip ex \<noteq> None" using excludeAddress_run assms by (metis option.distinct(1))
next
  assume some: "excludeAddress ip ex \<noteq> None"
  show "canonical ex"
  proof (rule ccontr)
    assume no: "\<not> canonical ex"
    have p: "proto_of ex = proto_of ip" "prefix (net ip) (net ex)"
      using assms by (auto simp: subnetOf_iff canonical_wf)
    have room: "nat (m_prefixLength ip) < width (m_address ip)"
      using prefix_length_le [OF p(2)] full_length_canonical [OF assms(2) no] width_protocol [OF p(1)]
        assms(1,2) by (metis canonical_wf length_net order_le_less_trans)
    show False
    proof (cases "net ex = net ip")
      case True
      with halves_longer [OF assms(1,2) room] some show False by (simp add: excludeAddress_def)
    next
      case False
      with p have strict: "strict_prefix (net ip) (net ex)" by (simp add: strict_prefix_def)
      obtain s0 s1 where s: "subnets ip = [s0, s1]" "canonical s0" "canonical s1"
        "proto_of s0 = proto_of ex" "proto_of s1 = proto_of ex"
        "net s0 = net ip @ [False]" "net s1 = net ip @ [True]"
        using subnets_canonical [OF assms(1) room] p(1) by metis
      from exclude_loop_host_bits [OF s(2-7) assms(2) no strict] s(1) some show False
        by (simp add: excludeAddress_def)
    qed
  qed
qed

section \<open>Construction\<close>

lemma addrs_single:
  assumes "wf_ip ip" "m_prefixLength ip = int (width (m_address ip))"
  shows "addrs ip = {m_address ip}"
proof -
  have valid: "valid_host (m_address ip)" using assms(1) by (simp add: wf_ip_def)
  then have net: "net ip = addr_bits (m_address ip)" using assms(2) by (simp add: net_def length_addr_bits)
  have "x = m_address ip" if x: "valid_host x" "protocol x = proto_of ip" "prefix (net ip) (addr_bits x)" for x
  proof (rule addr_bits_inject [OF x(2,1) valid])
    have "length (addr_bits x) = length (addr_bits (m_address ip))"
      using x(1,2) valid width_protocol by (metis length_addr_bits)
    with x(3) net show "addr_bits x = addr_bits (m_address ip)" by (auto simp: prefix_def)
  qed
  then show ?thesis using assms(1) valid net by (auto simp: addrs_iff)
qed

text \<open>
  What the constructor relies on of the framework's parsers: an address they return is complete, and
  a parsed subnet has a length that is not negative.
\<close>

definition parsers_ok :: "(jsstring \<Rightarrow> host \<times> int) \<Rightarrow> (jsstring \<Rightarrow> host) \<Rightarrow> bool" where
  "parsers_ok parseSubnet parseHost \<longleftrightarrow>
     (\<forall>t. fst (parseSubnet t) \<noteq> NoAddress \<longrightarrow> valid_host (fst (parseSubnet t)) \<and> 0 \<le> snd (parseSubnet t))
     \<and> (\<forall>t. parseHost t \<noteq> NoAddress \<longrightarrow> valid_host (parseHost t))"

text \<open>
  Every prefix constructed from text is well-formed unless the text has no address; the length
  is cut to the width of the family, and a text without a slash gives the single address.
\<close>

theorem ip_of_string_wf:
  assumes "parsers_ok parseSubnet parseHost"
    and "m_address (ip_of_string parseSubnet parseHost t) \<noteq> NoAddress"
  shows "wf_ip (ip_of_string parseSubnet parseHost t)
    \<and> (47 \<in> set t \<or> addrs (ip_of_string parseSubnet parseHost t) = {parseHost t})"
proof -
  let ?ip = "ip_of_string parseSubnet parseHost t"
  define a p where "a = (if 47 \<in> set t then fst (parseSubnet t) else parseHost t)"
    and "p = (if 47 \<in> set t then snd (parseSubnet t) else 999999)"
  have pair: "(if 47 \<in> set t then parseSubnet t else (parseHost t, 999999)) = (a, p)"
    by (simp add: a_def p_def)
  have ip: "?ip = mk_ip a (if a = NoAddress then p else min p (int (width a)))"
    unfolding ip_of_string_def pair by (cases a) simp_all
  with assms(2) have "a \<noteq> NoAddress" by auto
  with assms(1) have "valid_host a" "0 \<le> p" by (auto simp: parsers_ok_def a_def p_def)
  with ip \<open>a \<noteq> NoAddress\<close> have wf: "wf_ip ?ip" by (simp add: wf_ip_def)
  have "addrs ?ip = {parseHost t}" if "47 \<notin> set t"
  proof -
    have a: "m_address ?ip = parseHost t" "m_prefixLength ?ip = int (width (parseHost t))"
      "valid_host (parseHost t)"
    proof -
      have ap: "a = parseHost t" "p = 999999" using that by (simp_all add: a_def p_def)
      have "int (width a) \<le> p" unfolding ap(2) by (cases a) simp_all
      then show "m_address ?ip = parseHost t" "m_prefixLength ?ip = int (width (parseHost t))"
        "valid_host (parseHost t)"
        using ip \<open>a \<noteq> NoAddress\<close> \<open>valid_host a\<close> unfolding ap(1) by simp_all
    qed
    with addrs_single [OF wf] show ?thesis by simp
  qed
  with wf show ?thesis by blast
qed

end
