(* ===== verification/IP_Witness.thy ===== *)
theory IP_Witness
  imports IP_Masks
begin

text \<open>The theorems on prefixes applied to 10.0.0.0/8, 10.1.0.0/16 and an IPv6 prefix.\<close>

definition ten :: ipaddr where
  "ten = mk_ip (IPv4 0x0A000000) 8"

definition ten_one :: ipaddr where
  "ten_one = mk_ip (IPv4 0x0A010000) 16"

text \<open>The address 10.1.0.1 with length 16: a bit is set after the prefix.\<close>

definition ten_one_host :: ipaddr where
  "ten_one_host = mk_ip (IPv4 0x0A010001) 16"

definition doc6 :: ipaddr where
  "doc6 = mk_ip (IPv6 ([0x20, 0x01, 0x0D, 0xB8] @ replicate 12 0)) 36"

lemma example_prefixes:
  "canonical ten" "canonical ten_one" "wf_ip ten_one_host" "\<not> canonical ten_one_host" "wf_ip doc6"
  "subnetOf ten_one ten" "subnetOf ten_one_host ten" "overlaps ten ten_one" "ten_one \<noteq> ten" "ten_one_host \<noteq> ten"
  by code_simp+

lemma overlaps_common_address_witness: "addrs ten \<inter> addrs ten_one \<noteq> {}"
  using overlaps_common_address [of ten ten_one] example_prefixes by (simp add: canonical_wf)

lemma excludeAddress_difference_witness:
  "\<exists>rs. excludeAddress ten ten_one = Some rs \<and> (\<Union>r \<in> set rs. addrs r) = addrs ten - addrs ten_one
    \<and> list_all canonical rs \<and> sorted_wrt (\<lambda>a b. addrs a \<inter> addrs b = {}) rs \<and> int (length rs) = 8"
  using excludeAddress_difference [of ten ten_one] example_prefixes by (simp add: ten_def ten_one_def)

lemma excludeAddresses_difference_witness:
  "\<exists>rs. excludeAddresses [ten] [ten_one] = Some rs \<and> disjoint_prefixes rs
    \<and> (\<Union>r \<in> set rs. addrs r) = addrs ten - addrs ten_one"
  using excludeAddresses_difference [of "[ten]" "[ten_one]"] example_prefixes
  by (simp add: disjoint_prefixes_def)

lemma masks_by_bits_witness:
  "addr_bits (netmask doc6) = replicate 36 True @ replicate 92 False
   \<and> addr_bits (hostmask doc6) = replicate 36 False @ replicate 92 True
   \<and> addr_bits (broadcastAddress doc6) = net doc6 @ replicate 92 True"
proof -
  have "nat (m_prefixLength doc6) = 36" "width (m_address doc6) = 128" by (simp_all add: doc6_def)
  then show ?thesis using masks_by_bits [of doc6] example_prefixes(5) by simp
qed

lemma subnetOf_subset_witness: "addrs ten_one \<subseteq> addrs ten"
  using subnetOf_subset [of ten_one ten] example_prefixes by (simp add: canonical_wf)

lemma excludeAddress_returns_iff_witness: "excludeAddress ten ten_one_host = None"
  using excludeAddress_returns_iff [of ten ten_one_host] example_prefixes by simp

text \<open>Parsers that know one text each.\<close>

definition sample_subnet :: "jsstring \<Rightarrow> host \<times> int" where
  "sample_subnet t = (if t = lit ''10.0.0.0/8'' then (IPv4 0x0A000000, 8) else (NoAddress, - 1))"

definition sample_host :: "jsstring \<Rightarrow> host" where
  "sample_host t = (if t = lit ''10.0.0.1'' then IPv4 0x0A000001 else NoAddress)"

lemma ip_of_string_wf_witness:
  "wf_ip (ip_of_string sample_subnet sample_host (lit ''10.0.0.1''))
   \<and> addrs (ip_of_string sample_subnet sample_host (lit ''10.0.0.1'')) = {IPv4 0x0A000001}"
proof -
  have "parsers_ok sample_subnet sample_host"
    by (simp add: parsers_ok_def sample_subnet_def sample_host_def)
  moreover have "m_address (ip_of_string sample_subnet sample_host (lit ''10.0.0.1'')) \<noteq> NoAddress"
    by (simp add: ip_of_string_def sample_host_def lit_def)
  moreover have "47 \<notin> set (lit ''10.0.0.1'')" by (simp add: lit_def)
  ultimately show ?thesis
    using ip_of_string_wf [of sample_subnet sample_host "lit ''10.0.0.1''"] by (simp add: sample_host_def)
qed

end
