(* ===== verification/Qt_Json.thy ===== *)
theory Qt_Json
  imports Js_Core "HOL-Library.AList"
begin

text \<open>
  The JSON values and the strings of the framework: objects with their entries in the order of the
  keys, the conversions of a value, and strings that may be null.
\<close>

section \<open>JSON values\<close>

type_synonym qstring = jsstring

datatype json = JNull | JBool bool | JDouble rat | JString qstring | JArray "json list"
  | JObject "(qstring \<times> json) list"

text \<open>An object, its entries in the order of their keys; the conversions of the framework.\<close>

type_synonym obj = "(qstring \<times> json) list"

definition json_value :: "obj \<Rightarrow> qstring \<Rightarrow> json" where
  "json_value j k = (case map_of j k of None \<Rightarrow> JNull | Some v \<Rightarrow> v)"

definition has_key :: "obj \<Rightarrow> qstring \<Rightarrow> bool" where
  "has_key j k \<longleftrightarrow> map_of j k \<noteq> None"

text \<open>
  Inserting an entry keeps the keys in order and replaces an entry with the same key.  The maps of
  the framework that are not JSON are such lists too.
\<close>

fun insert_key :: "qstring \<Rightarrow> 'v \<Rightarrow> (qstring \<times> 'v) list \<Rightarrow> (qstring \<times> 'v) list" where
  "insert_key k v [] = [(k, v)]"
| "insert_key k v ((k', v') # j) =
     (if k = k' then (k, v) # j
      else if ord_class.lexordp k k' then (k, v) # (k', v') # j
      else (k', v') # insert_key k v j)"

fun as_string :: "json \<Rightarrow> qstring" where
  "as_string (JString s) = s"
| "as_string _ = []"

fun as_bool :: "json \<Rightarrow> bool" where
  "as_bool (JBool b) = b"
| "as_bool _ = False"

fun as_array :: "json \<Rightarrow> json list" where
  "as_array (JArray xs) = xs"
| "as_array _ = []"

fun as_object :: "json \<Rightarrow> obj" where
  "as_object (JObject j) = j"
| "as_object _ = []"

text \<open>A number is read as an integer only if it is one and fits 32 bits; everything else is 0.\<close>

fun as_int :: "json \<Rightarrow> int" where
  "as_int (JDouble r) =
     (let i = \<lfloor>r\<rfloor> in if of_int i = r \<and> - (2 ^ 31) \<le> i \<and> i < 2 ^ 31 then i else 0)"
| "as_int _ = 0"

section \<open>Null strings\<close>

text \<open>
  A string of the framework may be null; as text it is then empty.  The conversion of a value that
  is not a string, and of an absent one, gives the null string.
\<close>

type_synonym qstr = "qstring option"

definition content :: "qstr \<Rightarrow> qstring" where
  "content s = (case s of None \<Rightarrow> [] | Some t \<Rightarrow> t)"

definition string_at :: "obj \<Rightarrow> qstring \<Rightarrow> qstr" where
  "string_at j k = (case map_of j k of Some (JString s) \<Rightarrow> Some s | _ \<Rightarrow> None)"

text \<open>An absent value is not the null value.\<close>

definition is_null_at :: "obj \<Rightarrow> qstring \<Rightarrow> bool" where
  "is_null_at j k \<longleftrightarrow> map_of j k = Some JNull"

text \<open>Inserting an absent value removes the key; in an array it becomes null.\<close>

definition insert_value :: "qstring \<Rightarrow> json option \<Rightarrow> obj \<Rightarrow> obj" where
  "insert_value k v j = (case v of None \<Rightarrow> AList.delete k j | Some w \<Rightarrow> insert_key k w j)"

definition array_value :: "json option \<Rightarrow> json" where
  "array_value v = (case v of None \<Rightarrow> JNull | Some w \<Rightarrow> w)"

lemma map_of_insert_key [simp]: "map_of (insert_key k v j) = (map_of j)(k \<mapsto> v)"
  by (induction k v j rule: insert_key.induct) (auto simp: fun_eq_iff)

lemma delete_insert_key: "AList.delete k (insert_key k v j) = AList.delete k j"
  by (induction k v j rule: insert_key.induct) auto

lemma map_of_insert_value [simp]: "map_of (insert_value k v j) = (map_of j)(k := v)"
  by (cases v) (simp_all add: insert_value_def delete_conv')

lemma content_simps [simp]: "content None = []" "content (Some s) = s"
  by (simp_all add: content_def)

lemma as_string_content: "as_string (json_value j k) = content (string_at j k)"
  by (auto simp: json_value_def string_at_def split: option.splits json.splits)

end
