(* ===== verification/Server_Config.thy ===== *)
theory Server_Config
  imports Qt_Json
begin

text \<open>
  Server configurations as JSON objects and their kinds: client/core/utils/serverConfigUtils.cpp,
  with the credentials test of client/core/models/selfhosted/selfHostedAdminServerConfig.cpp and the
  names the configuration models derive for display.  Strings are sequences of UTF-16 code units.
\<close>

section \<open>Kinds of configurations\<close>

datatype config_type = AmneziaFreeV2 | AmneziaFreeV3 | AmneziaPremiumV1 | AmneziaPremiumV2
  | SelfHosted | ExternalPremium | SelfHostedAdmin | SelfHostedUser | Native | Invalid

text \<open>The numbers of the enumeration.\<close>

fun config_number :: "config_type \<Rightarrow> nat" where
  "config_number AmneziaFreeV2 = 0"
| "config_number AmneziaFreeV3 = 1"
| "config_number AmneziaPremiumV1 = 2"
| "config_number AmneziaPremiumV2 = 3"
| "config_number SelfHosted = 4"
| "config_number ExternalPremium = 5"
| "config_number SelfHostedAdmin = 8"
| "config_number SelfHostedUser = 9"
| "config_number Native = 10"
| "config_number Invalid = 11"

text \<open>The two endpoint addresses are fixed when the client is built.\<close>

record endpoints =
  FREE_V2_ENDPOINT :: qstring
  PREM_V1_ENDPOINT :: qstring

definition hasThirdPartyConfig :: "obj \<Rightarrow> bool" where
  "hasThirdPartyConfig j =
     list_ex (\<lambda>val. list_ex (\<lambda>(key, value).
         key \<noteq> lit ''container''
         \<and> has_key (as_object value) (lit ''isThirdPartyConfig'')
         \<and> as_bool (json_value (as_object value) (lit ''isThirdPartyConfig''))) (as_object val))
       (as_array (json_value j (lit ''containers'')))"

definition hasCredentials :: "obj \<Rightarrow> bool" where
  "hasCredentials j \<longleftrightarrow>
     as_string (json_value j (lit ''userName'')) \<noteq> []
     \<and> as_string (json_value j (lit ''password'')) \<noteq> []
     \<and> as_int (json_value j (lit ''port'')) > 0"

definition isServerFromApi :: "obj \<Rightarrow> bool" where
  "isServerFromApi j \<longleftrightarrow> as_int (json_value j (lit ''config_version'')) \<in> {1, 2}"

text \<open>The case of the gateway, which the Telegram case falls through to.\<close>

definition gatewayType :: "obj \<Rightarrow> config_type option" where
  "gatewayType j =
     (let serviceType = as_string (json_value (as_object (json_value j (lit ''api_config''))) (lit ''service_type''))
      in if serviceType = lit ''amnezia-premium'' then Some AmneziaPremiumV2
         else if serviceType = lit ''amnezia-free'' then Some AmneziaFreeV3
         else if serviceType = lit ''external-premium'' then Some ExternalPremium
         else None)"

definition configTypeFromJson :: "'e endpoints_scheme \<Rightarrow> obj \<Rightarrow> config_type" where
  "configTypeFromJson E j =
     (let version = as_int (json_value j (lit ''config_version''));
          endpoint = as_string (json_value j (lit ''api_endpoint''));
          api = (if version = 1
                 then if sublist (PREM_V1_ENDPOINT E) endpoint then Some AmneziaPremiumV1
                      else if sublist (FREE_V2_ENDPOINT E) endpoint then Some AmneziaFreeV2
                      else gatewayType j
                 else if version = 2 then gatewayType j
                 else None)
      in case api of
           Some t \<Rightarrow> t
         | None \<Rightarrow> if hasThirdPartyConfig j then Native
                   else if hasCredentials j then SelfHostedAdmin else SelfHostedUser)"

definition isLegacyApiSubscription :: "config_type \<Rightarrow> bool" where
  "isLegacyApiSubscription t \<longleftrightarrow> t = AmneziaPremiumV1 \<or> t = AmneziaFreeV2"

definition isApiV2Subscription :: "config_type \<Rightarrow> bool" where
  "isApiV2Subscription t \<longleftrightarrow> t = AmneziaPremiumV2 \<or> t = AmneziaFreeV3 \<or> t = ExternalPremium"

section \<open>Names for display\<close>

text \<open>The display names the parsers of the self-hosted and of the two API configurations derive.\<close>

definition selfHostedDisplayName :: "obj \<Rightarrow> qstring" where
  "selfHostedDisplayName j =
     (let description = as_string (json_value j (lit ''description''))
      in if description = [] then as_string (json_value j (lit ''hostName'')) else description)"

definition apiV2DisplayName :: "obj \<Rightarrow> qstring" where
  "apiV2DisplayName j =
     (let name = as_string (json_value j (lit ''name''))
      in if name = [] then as_string (json_value j (lit ''description'')) else name)"

definition legacyApiDisplayName :: "obj \<Rightarrow> qstring" where
  "legacyApiDisplayName j = as_string (json_value j (lit ''description''))"

section \<open>Every object has a kind\<close>

lemma gatewayType_api: "gatewayType j = Some t \<Longrightarrow> isApiV2Subscription t"
  by (auto simp: gatewayType_def isApiV2Subscription_def Let_def split: if_splits)

text \<open>The possible answers, one line per kind.\<close>

lemma configType_cases:
  "isApiV2Subscription (configTypeFromJson E j) \<or> isLegacyApiSubscription (configTypeFromJson E j)
   \<or> configTypeFromJson E j \<in> {Native, SelfHostedAdmin, SelfHostedUser}"
  using gatewayType_api [of j]
  by (auto simp: configTypeFromJson_def isLegacyApiSubscription_def Let_def split: option.splits if_splits)

lemma configType_valid: "configTypeFromJson E j \<noteq> Invalid" "configTypeFromJson E j \<noteq> SelfHosted"
  using configType_cases [of E j] by (auto simp: isApiV2Subscription_def isLegacyApiSubscription_def)

end
