(* ===== verification/Servers_Repository.thy ===== *)
theory Servers_Repository
  imports Server_Config
begin

text \<open>
  The stored list of servers, client/core/repositories/secureServersRepository.cpp: the servers by
  identifier, their order, the default server, and what is written to the settings.  The settings
  are three keys; JSON text and fresh identifiers come from the framework and are parameters.
\<close>

section \<open>State\<close>

text \<open>
  What the framework provides: the text of a JSON array and back, the empty text, and identifiers.
  The type \<open>'b\<close> is that of byte arrays.
\<close>

record 'b repo_env = endpoints +
  toJson :: "json list \<Rightarrow> 'b"
  fromJson :: "'b \<Rightarrow> json list"
  emptyText :: 'b
  createUuid :: "nat \<Rightarrow> qstring"

text \<open>The signals of the class.\<close>

datatype signal = ServerAdded qstring | ServerEdited qstring | ServerRemoved qstring int
  | DefaultServerChanged qstring

text \<open>
  The members, the values stored under the keys Servers/serversList, Servers/defaultServerId and
  Servers/defaultServerIndex, the number of identifiers created and the signals emitted so far.
\<close>

record 'b repo =
  m_serverJsonById :: "qstring \<Rightarrow> obj option"
  m_orderedServerIds :: "qstring list"
  m_defaultServerId :: qstring
  st_serversList :: "'b option"
  st_defaultServerId :: "qstring option"
  st_defaultServerIndex :: "int option"
  uuids :: nat
  signals :: "signal list"

definition emit_signal :: "signal \<Rightarrow> 'b repo \<Rightarrow> 'b repo" where
  "emit_signal x r = r\<lparr>signals := signals r @ [x]\<rparr>"

section \<open>Identifiers\<close>

text \<open>White space of the framework's strings.\<close>

definition qt_space :: "code_unit \<Rightarrow> bool" where
  "qt_space c \<longleftrightarrow> (9 \<le> c \<and> c \<le> 13) \<or> c \<in> {32, 133, 160, 5760, 8232, 8233, 8239, 8287, 12288}
     \<or> (8192 \<le> c \<and> c \<le> 8202)"

definition trimmed :: "qstring \<Rightarrow> qstring" where
  "trimmed s = rev (dropWhile qt_space (rev (dropWhile qt_space s)))"

abbreviation idKey :: qstring where
  "idKey \<equiv> lit ''storageServerId''"

definition readStorageServerId :: "obj \<Rightarrow> qstring" where
  "readStorageServerId j = trimmed (as_string (json_value j idKey))"

definition withoutStorageServerId :: "obj \<Rightarrow> obj" where
  "withoutStorageServerId j = AList.delete idKey j"

definition embedStorageServerId :: "qstring \<Rightarrow> obj \<Rightarrow> obj" where
  "embedStorageServerId i j = insert_key idKey (JString i) j"

definition normalizedOrGeneratedServerId :: "'b repo_env \<Rightarrow> qstring \<Rightarrow> 'b repo \<Rightarrow> qstring \<times> 'b repo" where
  "normalizedOrGeneratedServerId E candidate r =
     (let t = trimmed candidate
      in if t \<noteq> [] \<and> m_serverJsonById r t = None then (t, r)
         else (createUuid E (uuids r), r\<lparr>uuids := Suc (uuids r)\<rparr>))"

section \<open>Queries\<close>

fun index_of :: "'a \<Rightarrow> 'a list \<Rightarrow> int" where
  "index_of x [] = - 1"
| "index_of x (y # ys) = (if x = y then 0 else if index_of x ys < 0 then - 1 else index_of x ys + 1)"

definition indexOfServerId :: "'b repo \<Rightarrow> qstring \<Rightarrow> int" where
  "indexOfServerId r i = index_of i (m_orderedServerIds r)"

definition defaultServerIndex :: "'b repo \<Rightarrow> int" where
  "defaultServerIndex r =
     (if m_orderedServerIds r = [] then 0
      else let idx = index_of (m_defaultServerId r) (m_orderedServerIds r) in if idx \<ge> 0 then idx else 0)"

definition serverIdAt :: "'b repo \<Rightarrow> int \<Rightarrow> qstring" where
  "serverIdAt r index =
     (if index < 0 \<or> index \<ge> int (length (m_orderedServerIds r)) then []
      else m_orderedServerIds r ! nat index)"

definition serverKind :: "'b repo_env \<Rightarrow> 'b repo \<Rightarrow> qstring \<Rightarrow> config_type" where
  "serverKind E r i =
     (case m_serverJsonById r i of
        None \<Rightarrow> Invalid
      | Some j \<Rightarrow> configTypeFromJson E (withoutStorageServerId j))"

definition storedServerDisplayName :: "'b repo_env \<Rightarrow> 'b repo \<Rightarrow> qstring \<Rightarrow> qstring" where
  "storedServerDisplayName E r i =
     (case m_serverJsonById r i of
        None \<Rightarrow> []
      | Some j \<Rightarrow>
          let o' = withoutStorageServerId j; t = configTypeFromJson E o'
          in if t = SelfHostedAdmin \<or> t = SelfHostedUser \<or> t = Native then selfHostedDisplayName o'
             else if isApiV2Subscription t then apiV2DisplayName o'
             else if isLegacyApiSubscription t then legacyApiDisplayName o'
             else [])"

text \<open>The loop over the candidate names, from the number \<open>i\<close> on.\<close>

definition candidateName :: "nat \<Rightarrow> qstring" where
  "candidateName i = lit ''Server '' @ dec i"

partial_function (option) free_name :: "qstring list \<Rightarrow> nat \<Rightarrow> qstring option" where
  "free_name used i =
     (if candidateName i \<in> set used then free_name used (Suc i) else Some (candidateName i))"

definition nextAvailableServerName :: "'b repo_env \<Rightarrow> 'b repo \<Rightarrow> qstring option" where
  "nextAvailableServerName E r =
     free_name (filter (\<lambda>n. n \<noteq> []) (map (storedServerDisplayName E r) (m_orderedServerIds r))) 1"

section \<open>Storage\<close>

definition clearServerStateMaps :: "'b repo \<Rightarrow> 'b repo" where
  "clearServerStateMaps r = r\<lparr>m_serverJsonById := Map.empty, m_orderedServerIds := []\<rparr>"

definition persistDefaultServerFields :: "'b repo \<Rightarrow> 'b repo" where
  "persistDefaultServerFields r =
     (let d = (if m_orderedServerIds r = [] then []
               else if m_defaultServerId r \<notin> set (m_orderedServerIds r) then hd (m_orderedServerIds r)
               else m_defaultServerId r)
      in r\<lparr>m_defaultServerId := d, st_defaultServerId := Some d\<rparr>)"

definition updateDefaultServerFromStorage :: "'b repo \<Rightarrow> 'b repo" where
  "updateDefaultServerFromStorage r =
     (let storedId = (case st_defaultServerId r of None \<Rightarrow> [] | Some i \<Rightarrow> i);
          storedIndex = (case st_defaultServerIndex r of None \<Rightarrow> 0 | Some k \<Rightarrow> k)
      in r\<lparr>m_defaultServerId :=
             (if storedId \<noteq> [] \<and> m_serverJsonById r storedId \<noteq> None then storedId
              else if storedIndex \<ge> 0 \<and> storedIndex < int (length (m_orderedServerIds r))
              then m_orderedServerIds r ! nat storedIndex
              else if m_orderedServerIds r \<noteq> [] then hd (m_orderedServerIds r)
              else [])\<rparr>)"

definition hostKey :: "config_type \<Rightarrow> qstring \<Rightarrow> qstring" where
  "hostKey kind host = dec (config_number kind) @ lit ''|'' @ host"

definition hostOf :: "obj \<Rightarrow> qstring" where
  "hostOf j = trimmed (as_string (json_value j (lit ''hostName'')))"

text \<open>The loop over the stored array; \<open>seen\<close> are the host keys met so far.\<close>

fun load_entries :: "'b repo_env \<Rightarrow> json list \<Rightarrow> qstring list \<Rightarrow> 'b repo \<Rightarrow> 'b repo" where
  "load_entries E [] seen r = r"
| "load_entries E (v # vs) seen r =
     (let j = as_object v;
          (serverId, r1) = normalizedOrGeneratedServerId E (readStorageServerId j) r;
          stripped = withoutStorageServerId j;
          kind = configTypeFromJson E stripped;
          host = hostOf stripped
      in if m_serverJsonById r1 serverId \<noteq> None \<or> kind = Invalid then load_entries E vs seen r1
         else if host \<noteq> [] \<and> hostKey kind host \<in> set seen then load_entries E vs seen r1
         else load_entries E vs (if host \<noteq> [] then hostKey kind host # seen else seen)
                (r1\<lparr>m_serverJsonById := (m_serverJsonById r1)(serverId \<mapsto> embedStorageServerId serverId stripped),
                    m_orderedServerIds := m_orderedServerIds r1 @ [serverId]\<rparr>))"

definition loadFromStorage :: "'b repo_env \<Rightarrow> 'b repo \<Rightarrow> 'b repo" where
  "loadFromStorage E r =
     updateDefaultServerFromStorage
       (load_entries E (fromJson E (case st_serversList r of None \<Rightarrow> emptyText E | Some b \<Rightarrow> b)) []
         (clearServerStateMaps r))"

definition syncToStorage :: "'b repo_env \<Rightarrow> 'b repo \<Rightarrow> 'b repo" where
  "syncToStorage E r =
     persistDefaultServerFields
       (r\<lparr>st_serversList := Some (toJson E
            (map JObject (List.map_filter (m_serverJsonById r) (m_orderedServerIds r))))\<rparr>)"

definition repository :: "'b repo_env \<Rightarrow> 'b repo \<Rightarrow> 'b repo" where
  "repository E r = persistDefaultServerFields (loadFromStorage E r)"

definition invalidateCache :: "'b repo_env \<Rightarrow> 'b repo \<Rightarrow> 'b repo" where
  "invalidateCache E r = loadFromStorage E r"

definition clearServers :: "'b repo_env \<Rightarrow> 'b repo \<Rightarrow> 'b repo" where
  "clearServers E r = syncToStorage E ((clearServerStateMaps r)\<lparr>m_defaultServerId := []\<rparr>)"

section \<open>Changes\<close>

definition addServer :: "'b repo_env \<Rightarrow> qstring \<Rightarrow> obj \<Rightarrow> config_type \<Rightarrow> 'b repo \<Rightarrow> qstring \<times> 'b repo" where
  "addServer E serverId serverJson kind r =
     (let (i, r1) = normalizedOrGeneratedServerId E serverId r
      in if m_serverJsonById r1 i \<noteq> None \<or> kind = Invalid then (i, r1)
         else let stripped = withoutStorageServerId serverJson
              in if configTypeFromJson E stripped \<noteq> kind then (i, r1)
                 else (i, emit_signal (ServerAdded i) (syncToStorage E
                        (r1\<lparr>m_serverJsonById := (m_serverJsonById r1)(i \<mapsto> embedStorageServerId i stripped),
                            m_orderedServerIds := m_orderedServerIds r1 @ [i],
                            m_defaultServerId := (if m_defaultServerId r1 = [] then i else m_defaultServerId r1)\<rparr>))))"

definition editServer :: "'b repo_env \<Rightarrow> qstring \<Rightarrow> obj \<Rightarrow> config_type \<Rightarrow> 'b repo \<Rightarrow> 'b repo" where
  "editServer E serverId serverJson kind r =
     (if indexOfServerId r serverId < 0 \<or> kind = Invalid then r
      else case m_serverJsonById r serverId of
             None \<Rightarrow> r
           | Some oldJson \<Rightarrow>
               let oldKind = configTypeFromJson E (withoutStorageServerId oldJson);
                   r1 = r\<lparr>m_serverJsonById := (m_serverJsonById r)(serverId := None)\<rparr>;
                   strippedNew = withoutStorageServerId serverJson
               in if configTypeFromJson E strippedNew \<noteq> kind
                  then let strippedOld = withoutStorageServerId oldJson
                       in if oldKind \<noteq> Invalid \<and> configTypeFromJson E strippedOld = oldKind
                          then r1\<lparr>m_serverJsonById := (m_serverJsonById r1)(serverId \<mapsto> embedStorageServerId serverId strippedOld)\<rparr>
                          else r1
                  else emit_signal (ServerEdited serverId) (syncToStorage E
                         (r1\<lparr>m_serverJsonById := (m_serverJsonById r1)(serverId \<mapsto> embedStorageServerId serverId strippedNew)\<rparr>)))"

definition remove_at :: "nat \<Rightarrow> 'a list \<Rightarrow> 'a list" where
  "remove_at k xs = take k xs @ drop (Suc k) xs"

definition removeServer :: "'b repo_env \<Rightarrow> qstring \<Rightarrow> 'b repo \<Rightarrow> 'b repo" where
  "removeServer E serverId r =
     (let removedIndex = indexOfServerId r serverId
      in if removedIndex < 0 then r
         else if m_serverJsonById r serverId = None then r
         else let previousDefaultId = m_defaultServerId r;
                  previousDefaultIndex = defaultServerIndex r;
                  ids = remove_at (nat removedIndex) (m_orderedServerIds r);
                  d = (if ids = [] then []
                       else if previousDefaultId = serverId
                       then ids ! nat (min removedIndex (int (length ids) - 1))
                       else if previousDefaultId \<notin> set ids then hd ids
                       else previousDefaultId);
                  r1 = r\<lparr>m_serverJsonById := (m_serverJsonById r)(serverId := None),
                         m_orderedServerIds := ids, m_defaultServerId := d\<rparr>;
                  r2 = (if previousDefaultId \<noteq> d \<or> previousDefaultIndex \<noteq> defaultServerIndex r1
                        then emit_signal (DefaultServerChanged d) r1 else r1)
              in emit_signal (ServerRemoved serverId removedIndex) (syncToStorage E r2))"

definition setDefaultServer :: "qstring \<Rightarrow> 'b repo \<Rightarrow> 'b repo" where
  "setDefaultServer serverId r =
     (if m_orderedServerIds r = [] then r
      else if m_serverJsonById r serverId = None then r
      else if indexOfServerId r serverId < 0 then r
      else if m_defaultServerId r = serverId then r
      else let r1 = persistDefaultServerFields (r\<lparr>m_defaultServerId := serverId\<rparr>)
           in emit_signal (DefaultServerChanged (m_defaultServerId r1)) r1)"

end
