(* ===== verification/Repository_Facts.thy ===== *)
theory Repository_Facts
  imports Servers_Repository
begin

text \<open>
  The properties of the stored list of servers: the invariant of every sequence of operations, the
  refinement of a list of named objects with a default, the agreement with the settings and the
  round trip through them, and the names offered for new servers.
\<close>

section \<open>Lists and strings\<close>

lemma dropWhile_idem: "dropWhile P (dropWhile P xs) = dropWhile P xs"
  by (induction xs) auto

lemma trimmed_idem [simp]: "trimmed (trimmed s) = trimmed s"
proof -
  let ?t = "dropWhile qt_space s"
  have hd: "u = [] \<or> \<not> qt_space (hd u) \<Longrightarrow> dropWhile qt_space u = u" for u
    by (cases u) auto
  obtain v where v: "rev ?t = v @ dropWhile qt_space (rev ?t)"
    by (metis takeWhile_dropWhile_id)
  then have "?t = rev (dropWhile qt_space (rev ?t)) @ rev v" by (metis rev_append rev_rev_ident)
  then have "trimmed s = [] \<or> hd (trimmed s) = hd ?t \<and> ?t \<noteq> []"
    unfolding trimmed_def by (metis append_is_Nil_conv hd_append)
  moreover have "?t \<noteq> [] \<Longrightarrow> \<not> qt_space (hd ?t)" by (rule hd_dropWhile)
  ultimately have "trimmed s = [] \<or> \<not> qt_space (hd (trimmed s))" by metis
  then have "dropWhile qt_space (trimmed s) = trimmed s" by (rule hd)
  then show ?thesis unfolding trimmed_def [of "trimmed s"] by (simp add: trimmed_def dropWhile_idem)
qed

lemma index_of_range: "- 1 \<le> index_of x xs \<and> index_of x xs < int (length xs)"
  by (induction xs) auto

lemma index_of_neg [repo_simps]: "index_of x xs < 0 \<longleftrightarrow> x \<notin> set xs"
  by (induction xs) auto

lemma nth_index_of: "x \<in> set xs \<Longrightarrow> xs ! nat (index_of x xs) = x"
proof (induction xs)
  case (Cons y ys)
  then show ?case using index_of_neg [of x ys] by (auto simp: nat_add_distrib)
qed simp

lemma remove_at_index:
  assumes "distinct xs" "x \<in> set xs"
  shows "remove_at (nat (index_of x xs)) xs = filter (\<lambda>y. y \<noteq> x) xs"
  using assms
proof (induction xs)
  case (Cons y ys)
  show ?case
  proof (cases "x = y")
    case True
    with Cons.prems have "filter (\<lambda>z. z \<noteq> x) ys = ys" by (simp add: filter_id_conv) blast
    with True show ?thesis by (simp add: remove_at_def)
  next
    case False
    then have "0 \<le> index_of x ys" using Cons.prems index_of_neg [of x ys] by auto
    with False Cons show ?thesis by (simp add: remove_at_def nat_add_distrib)
  qed
qed simp

section \<open>The identifier in an object\<close>

lemma strip_no_id [simp]: "idKey \<notin> fst ` set (withoutStorageServerId j)"
  by (auto simp: withoutStorageServerId_def AList.delete_eq)

lemma strip_keep: "idKey \<notin> fst ` set j \<Longrightarrow> withoutStorageServerId j = j"
  by (simp add: withoutStorageServerId_def delete_id)

lemma strip_embed [repo_simps]:
  "idKey \<notin> fst ` set j \<Longrightarrow> withoutStorageServerId (embedStorageServerId i j) = j"
  by (simp add: withoutStorageServerId_def embedStorageServerId_def delete_insert_key delete_id)

lemma read_embed [repo_simps]: "readStorageServerId (embedStorageServerId i j) = trimmed i"
  by (simp add: readStorageServerId_def embedStorageServerId_def json_value_def)

section \<open>The invariant\<close>

text \<open>
  Identifiers are trimmed, not empty and not listed twice; exactly they have an object, which carries
  the identifier; the default server is listed, and none if there is no server.
\<close>

definition id_ok :: "qstring \<Rightarrow> bool" where
  "id_ok i \<longleftrightarrow> i \<noteq> [] \<and> trimmed i = i"

definition default_ok :: "'b repo \<Rightarrow> bool" where
  "default_ok r \<longleftrightarrow> (if m_orderedServerIds r = [] then m_defaultServerId r = []
     else m_defaultServerId r \<in> set (m_orderedServerIds r))"

definition maps_ok :: "'b repo \<Rightarrow> bool" where
  "maps_ok r \<longleftrightarrow> distinct (m_orderedServerIds r)
     \<and> dom (m_serverJsonById r) = set (m_orderedServerIds r)
     \<and> (\<forall>i \<in> set (m_orderedServerIds r). id_ok i)
     \<and> (\<forall>i j. m_serverJsonById r i = Some j \<longrightarrow>
           (\<exists>s. j = embedStorageServerId i s \<and> idKey \<notin> fst ` set s))"

definition repo_ok :: "'b repo \<Rightarrow> bool" where
  "repo_ok r \<longleftrightarrow> maps_ok r \<and> default_ok r"

text \<open>What is used of fresh identifiers: they are not empty and have no white space at their ends.\<close>

definition uuid_ok :: "'b repo_env \<Rightarrow> bool" where
  "uuid_ok E \<longleftrightarrow> (\<forall>n. id_ok (createUuid E n))"

datatype repo_op = Add qstring obj config_type | Edit qstring obj config_type | Remove qstring
  | SetDefault qstring | Clear | Reload

fun repo_step :: "'b repo_env \<Rightarrow> repo_op \<Rightarrow> 'b repo \<Rightarrow> 'b repo" where
  "repo_step E (Add i j k) r = snd (addServer E i j k r)"
| "repo_step E (Edit i j k) r = editServer E i j k r"
| "repo_step E (Remove i) r = removeServer E i r"
| "repo_step E (SetDefault i) r = setDefaultServer i r"
| "repo_step E Clear r = clearServers E r"
| "repo_step E Reload r = invalidateCache E r"

lemma maps_ok_cong [repo_simps]:
  "maps_ok (emit_signal x r) = maps_ok r" "maps_ok (persistDefaultServerFields r) = maps_ok r"
  "maps_ok (syncToStorage E r) = maps_ok r" "maps_ok (updateDefaultServerFromStorage r) = maps_ok r"
  "maps_ok (r\<lparr>uuids := n\<rparr>) = maps_ok r" "maps_ok (r\<lparr>m_defaultServerId := d\<rparr>) = maps_ok r"
  by (simp_all add: maps_ok_def emit_signal_def persistDefaultServerFields_def syncToStorage_def
      updateDefaultServerFromStorage_def Let_def)

lemma default_persist [simp]: "default_ok (persistDefaultServerFields r)"
  by (simp add: default_ok_def persistDefaultServerFields_def Let_def)

lemma default_cong [repo_simps]: "default_ok (emit_signal x r) = default_ok r"
  "default_ok (r\<lparr>uuids := n\<rparr>) = default_ok r" "default_ok (r\<lparr>m_serverJsonById := f\<rparr>) = default_ok r"
  by (simp_all add: default_ok_def emit_signal_def)

lemma default_sync [simp]: "default_ok (syncToStorage E r)"
  by (simp add: syncToStorage_def)

lemma default_update: "maps_ok r \<Longrightarrow> default_ok (updateDefaultServerFromStorage r)"
  by (auto simp: default_ok_def updateDefaultServerFromStorage_def maps_ok_def Let_def)

lemma maps_ok_insert:
  assumes "maps_ok r" "m_serverJsonById r i = None" "id_ok i" "idKey \<notin> fst ` set s"
  shows "maps_ok (r\<lparr>m_serverJsonById := (m_serverJsonById r)(i \<mapsto> embedStorageServerId i s),
      m_orderedServerIds := m_orderedServerIds r @ [i]\<rparr>)"
  using assms by (auto simp: maps_ok_def)

lemma maps_ok_replace:
  assumes "maps_ok r" "m_serverJsonById r i = Some j" "idKey \<notin> fst ` set s"
  shows "maps_ok (r\<lparr>m_serverJsonById := (m_serverJsonById r)(i \<mapsto> embedStorageServerId i s)\<rparr>)"
  using assms by (auto simp: maps_ok_def)

lemma maps_ok_remove:
  assumes "maps_ok r"
  shows "maps_ok (r\<lparr>m_serverJsonById := (m_serverJsonById r)(i := None),
      m_orderedServerIds := filter (\<lambda>k. k \<noteq> i) (m_orderedServerIds r)\<rparr>)"
  using assms by (auto simp: maps_ok_def)

lemma normalized_id:
  assumes "uuid_ok E" "normalizedOrGeneratedServerId E c r = (i, r1)"
  shows "id_ok i" "\<exists>n. r1 = r\<lparr>uuids := n\<rparr>"
proof -
  show "id_ok i"
    using assms by (auto simp: normalizedOrGeneratedServerId_def uuid_ok_def id_ok_def Let_def split: if_splits)
  show "\<exists>n. r1 = r\<lparr>uuids := n\<rparr>"
  proof (cases "r1 = r")
    case True
    then have "r1 = r\<lparr>uuids := uuids r\<rparr>" by simp
    then show ?thesis ..
  qed (use assms(2) in \<open>auto simp: normalizedOrGeneratedServerId_def Let_def split: if_splits\<close>)
qed

lemma load_entries_ok: "uuid_ok E \<Longrightarrow> maps_ok r \<Longrightarrow> maps_ok (load_entries E vs seen r)"
proof (induction E vs seen r rule: load_entries.induct)
  case (2 E v vs seen r)
  obtain i r1 where i: "normalizedOrGeneratedServerId E (readStorageServerId (as_object v)) r = (i, r1)"
    by fastforce
  note n = normalized_id [OF "2.prems"(1) i]
  have ok: "id_ok i" "maps_ok r1" using n "2.prems"(2) by (auto simp: repo_simps)
  from 2 i ok show ?case by (auto simp: Let_def maps_ok_insert)
qed simp

lemma load_ok: "uuid_ok E \<Longrightarrow> repo_ok (loadFromStorage E r)"
proof -
  assume E: "uuid_ok E"
  have "maps_ok (clearServerStateMaps r)" by (simp add: maps_ok_def clearServerStateMaps_def)
  with E show ?thesis
    by (simp add: repo_ok_def loadFromStorage_def repo_simps load_entries_ok default_update)
qed

lemma add_ok:
  assumes "uuid_ok E" "repo_ok r"
  shows "repo_ok (snd (addServer E c j k r))"
proof -
  obtain i r1 where i: "normalizedOrGeneratedServerId E c r = (i, r1)" by fastforce
  have "id_ok i" "repo_ok r1"
    using normalized_id [OF assms(1) i] assms(2) by (auto simp: repo_ok_def repo_simps)
  then show ?thesis
    using i maps_ok_insert [of r1 i "withoutStorageServerId j"]
    by (auto simp: addServer_def repo_ok_def repo_simps Let_def)
qed

lemma edit_ok:
  assumes "repo_ok r"
  shows "repo_ok (editServer E i j k r)"
proof (cases "m_serverJsonById r i")
  case (Some old)
  have "maps_ok r" "default_ok r" using assms by (auto simp: repo_ok_def)
  with maps_ok_replace [OF this(1) Some] Some configType_valid(1) show ?thesis
    by (auto simp: editServer_def repo_ok_def repo_simps Let_def)
qed (use assms in \<open>simp add: editServer_def\<close>)

lemma remove_ok: "repo_ok r \<Longrightarrow> repo_ok (removeServer E i r)"
proof -
  assume r: "repo_ok r"
  then have m: "maps_ok r" "distinct (m_orderedServerIds r)" by (auto simp: repo_ok_def maps_ok_def)
  show ?thesis
  proof (cases "i \<in> set (m_orderedServerIds r)")
    case True
    with remove_at_index [OF m(2)] maps_ok_remove [OF m(1), of i] r show ?thesis
      by (auto simp: removeServer_def indexOfServerId_def Let_def repo_ok_def repo_simps)
  qed (use r in \<open>simp add: removeServer_def indexOfServerId_def repo_simps\<close>)
qed

lemma set_default_ok: "repo_ok r \<Longrightarrow> repo_ok (setDefaultServer i r)"
  by (simp add: setDefaultServer_def repo_ok_def repo_simps Let_def)

lemma clear_ok: "repo_ok (clearServers E r)"
  by (simp add: clearServers_def repo_ok_def repo_simps) (simp add: maps_ok_def clearServerStateMaps_def)

interpretation repo: preserved "repo_step E" "\<lambda>r. uuid_ok E \<longrightarrow> repo_ok r" for E :: "'b repo_env"
proof
  fix r :: "'b repo" and x
  assume "uuid_ok E \<longrightarrow> repo_ok r"
  then show "uuid_ok E \<longrightarrow> repo_ok (repo_step E x r)"
    by (cases x) (simp_all add: add_ok edit_ok remove_ok set_default_ok clear_ok load_ok invalidateCache_def)
qed

lemma repository_ok: "uuid_ok E \<Longrightarrow> repo_ok (repository E r)"
  using load_ok [of E r] by (simp add: repository_def repo_ok_def repo_simps)

text \<open>
  C8: whatever is in the settings, after construction and any sequence of additions, edits, removals,
  default changes, clearings and reloads, the list has no duplicate identifier, exactly the listed
  identifiers have an object, each carrying its identifier, and the default server is in the list.
\<close>

theorem repository_invariant:
  assumes "uuid_ok E"
  shows "repo_ok (runs (repo_step E) ops (repository E r))"
  using assms repository_ok [OF assms, of r] repo.runs_invar [of E "repository E r" ops] by simp

section \<open>Refinement\<close>

text \<open>
  The contract: a list of objects under distinct names and the name of the default one.
\<close>

type_synonym server_list = "(qstring \<times> obj) list \<times> qstring"

definition abs_repo :: "'b repo \<Rightarrow> server_list" where
  "abs_repo r = (map (\<lambda>i. (i, the (m_serverJsonById r i))) (m_orderedServerIds r), m_defaultServerId r)"

definition named :: "server_list \<Rightarrow> qstring list" where
  "named l = map fst (fst l)"

definition spec_add :: "qstring \<Rightarrow> obj \<Rightarrow> server_list \<Rightarrow> server_list" where
  "spec_add i s l = (fst l @ [(i, embedStorageServerId i s)], if fst l = [] then i else snd l)"

definition spec_edit :: "qstring \<Rightarrow> obj \<Rightarrow> server_list \<Rightarrow> server_list" where
  "spec_edit i s l = (map (\<lambda>(k, j). if k = i then (k, embedStorageServerId i s) else (k, j)) (fst l), snd l)"

text \<open>The default moves to the server that takes the place of a removed one, or to the last one.\<close>

definition spec_remove :: "qstring \<Rightarrow> server_list \<Rightarrow> server_list" where
  "spec_remove i l =
     (let rest = filter (\<lambda>(k, j). k \<noteq> i) (fst l); n = length (takeWhile (\<lambda>k. k \<noteq> i) (named l))
      in (rest, if snd l \<noteq> i then snd l else if rest = [] then []
                else if n < length rest then fst (rest ! n) else fst (last rest)))"

text \<open>\<open>i\<close> is the identifier an addition is given.\<close>

fun spec_step :: "'b repo_env \<Rightarrow> qstring \<Rightarrow> repo_op \<Rightarrow> server_list \<Rightarrow> server_list" where
  "spec_step E i (Add c j k) l =
     (if i \<notin> set (named l) \<and> configTypeFromJson E (withoutStorageServerId j) = k
      then spec_add i (withoutStorageServerId j) l else l)"
| "spec_step E i (Edit n j k) l =
     (if n \<in> set (named l) \<and> configTypeFromJson E (withoutStorageServerId j) = k
      then spec_edit n (withoutStorageServerId j) l else l)"
| "spec_step E i (Remove n) l = (if n \<in> set (named l) then spec_remove n l else l)"
| "spec_step E i (SetDefault n) l = (if n \<in> set (named l) then (fst l, n) else l)"
| "spec_step E i Clear l = ([], [])"
| "spec_step E i Reload l = l"

fun id_for :: "'b repo_env \<Rightarrow> repo_op \<Rightarrow> 'b repo \<Rightarrow> qstring" where
  "id_for E (Add c j k) r = fst (normalizedOrGeneratedServerId E c r)"
| "id_for E _ r = []"

lemma named_abs [simp]: "named (abs_repo r) = m_orderedServerIds r"
  by (simp add: named_def abs_repo_def comp_def)

lemma abs_cong [repo_simps]:
  "abs_repo (emit_signal x r) = abs_repo r" "abs_repo (r\<lparr>uuids := n\<rparr>) = abs_repo r"
  by (simp_all add: abs_repo_def emit_signal_def)

lemma abs_persist: "default_ok r \<Longrightarrow> abs_repo (persistDefaultServerFields r) = abs_repo r"
  by (auto simp: abs_repo_def persistDefaultServerFields_def default_ok_def Let_def)

lemma abs_sync: "default_ok r \<Longrightarrow> abs_repo (syncToStorage E r) = abs_repo r"
  unfolding syncToStorage_def by (subst abs_persist) (auto simp: abs_repo_def default_ok_def)

lemma repo_okD:
  assumes "repo_ok r"
  shows "distinct (m_orderedServerIds r)" "dom (m_serverJsonById r) = set (m_orderedServerIds r)"
    "m_serverJsonById r i = None \<longleftrightarrow> i \<notin> set (m_orderedServerIds r)" "[] \<notin> set (m_orderedServerIds r)"
    "m_defaultServerId r = [] \<longleftrightarrow> m_orderedServerIds r = []" "default_ok r"
  using assms by (auto simp: repo_ok_def maps_ok_def default_ok_def id_ok_def split: if_splits)

lemma add_refines:
  assumes "uuid_ok E" "repo_ok r"
  shows "abs_repo (snd (addServer E c j k r)) = spec_step E (fst (normalizedOrGeneratedServerId E c r)) (Add c j k) (abs_repo r)"
proof -
  obtain i r1 where i: "normalizedOrGeneratedServerId E c r = (i, r1)" by fastforce
  obtain n where r1: "r1 = r\<lparr>uuids := n\<rparr>" using normalized_id [OF assms(1) i] by blast
  note d = repo_okD [OF assms(2)]
  show ?thesis
  proof (cases "i \<notin> set (m_orderedServerIds r) \<and> configTypeFromJson E (withoutStorageServerId j) = k")
    case True
    let ?r = "r1\<lparr>m_serverJsonById := (m_serverJsonById r1)(i \<mapsto> embedStorageServerId i (withoutStorageServerId j)),
      m_orderedServerIds := m_orderedServerIds r1 @ [i],
      m_defaultServerId := (if m_defaultServerId r1 = [] then i else m_defaultServerId r1)\<rparr>"
    have "default_ok ?r" using d(5,6) by (auto simp: r1 default_ok_def)
    moreover have "abs_repo ?r = spec_add i (withoutStorageServerId j) (abs_repo r)"
      using True d(5) by (auto simp: r1 abs_repo_def spec_add_def)
    moreover have "m_serverJsonById r1 i = None" using True d(3) by (simp add: r1)
    ultimately show ?thesis
      using True i configType_valid(1) by (auto simp: addServer_def Let_def abs_sync repo_simps)
  next
    case False
    then show ?thesis
      using i d(3) [of i] configType_valid(1) by (auto simp: addServer_def Let_def r1 repo_simps)
  qed
qed

lemma edit_refines:
  assumes "repo_ok r"
  shows "abs_repo (editServer E i j k r) = spec_step E n (Edit i j k) (abs_repo r)"
proof (cases "m_serverJsonById r i")
  case None
  with repo_okD(3) [OF assms] have "i \<notin> set (m_orderedServerIds r)" by simp
  with None show ?thesis by (simp add: editServer_def)
next
  case (Some old)
  note d = repo_okD [OF assms]
  have i: "i \<in> set (m_orderedServerIds r)" using Some d(3) by (metis option.distinct(1))
  obtain s where s: "old = embedStorageServerId i s" "idKey \<notin> fst ` set s"
    using assms Some unfolding repo_ok_def maps_ok_def by blast
  show ?thesis
  proof (cases "configTypeFromJson E (withoutStorageServerId j) = k")
    case True
    let ?r = "r\<lparr>m_serverJsonById := (m_serverJsonById r)(i \<mapsto> embedStorageServerId i (withoutStorageServerId j))\<rparr>"
    have "abs_repo ?r = spec_edit i (withoutStorageServerId j) (abs_repo r)"
      by (auto simp: abs_repo_def spec_edit_def)
    moreover have "default_ok ?r" using d(6) by (simp add: repo_simps)
    ultimately show ?thesis
      using True Some i configType_valid(1)
      by (auto simp: editServer_def Let_def abs_sync repo_simps indexOfServerId_def)
  next
    case False
    have "r\<lparr>m_serverJsonById := (m_serverJsonById r)(i \<mapsto> old)\<rparr> = r"
      using Some by (simp add: map_upd_triv)
    with False Some i s configType_valid(1) show ?thesis
      by (auto simp: editServer_def Let_def repo_simps)
  qed
qed

lemma index_of_takeWhile: "x \<in> set xs \<Longrightarrow> index_of x xs = int (length (takeWhile (\<lambda>y. y \<noteq> x) xs))"
proof (induction xs)
  case (Cons y ys)
  then show ?case using index_of_neg [of x ys] by auto
qed simp

text \<open>The removal once its guards are passed.\<close>

lemma remove_run:
  assumes r: "repo_ok r" and i: "i \<in> set (m_orderedServerIds r)"
  defines "ids \<equiv> filter (\<lambda>k. k \<noteq> i) (m_orderedServerIds r)"
    and "n \<equiv> length (takeWhile (\<lambda>k. k \<noteq> i) (m_orderedServerIds r))"
  defines "d \<equiv> (if m_defaultServerId r \<noteq> i then m_defaultServerId r else if ids = [] then []
      else if n < length ids then ids ! n else last ids)"
  defines "r1 \<equiv> r\<lparr>m_serverJsonById := (m_serverJsonById r)(i := None), m_orderedServerIds := ids,
      m_defaultServerId := d\<rparr>"
  shows "removeServer E i r = emit_signal (ServerRemoved i (int n)) (syncToStorage E
      (if m_defaultServerId r \<noteq> d \<or> defaultServerIndex r \<noteq> defaultServerIndex r1
       then emit_signal (DefaultServerChanged d) r1 else r1))"
    and "default_ok r1"
proof -
  note k = repo_okD [OF r]
  have idx: "indexOfServerId r i = int n" using i by (simp add: indexOfServerId_def n_def index_of_takeWhile)
  have ids: "remove_at n (m_orderedServerIds r) = ids"
    using remove_at_index [OF k(1) i] index_of_takeWhile [OF i] by (simp add: ids_def n_def)
  obtain old where some: "m_serverJsonById r i = Some old" using k(3) i by blast
  have dflt: "m_defaultServerId r \<in> set (m_orderedServerIds r)"
    using k(6) i by (auto simp: default_ok_def split: if_splits)
  have d: "(if ids = [] then []
      else if m_defaultServerId r = i then ids ! nat (min (int n) (int (length ids) - 1))
      else if m_defaultServerId r \<notin> set ids then hd ids else m_defaultServerId r) = d"
  proof (cases "m_defaultServerId r = i")
    case True
    show ?thesis
    proof (cases "n < length ids")
      case False
      then have "ids \<noteq> [] \<Longrightarrow> nat (min (int n) (int (length ids) - 1)) = length ids - 1" by simp
      with True False show ?thesis by (auto simp: d_def last_conv_nth)
    next
      case lt: True
      then have "nat (min (int n) (int (length ids) - 1)) = n" by simp
      with True lt show ?thesis by (auto simp: d_def)
    qed
  next
    case False
    with dflt have "m_defaultServerId r \<in> set ids" by (simp add: ids_def)
    with False show ?thesis by (auto simp: d_def)
  qed
  show "removeServer E i r = emit_signal (ServerRemoved i (int n)) (syncToStorage E
      (if m_defaultServerId r \<noteq> d \<or> defaultServerIndex r \<noteq> defaultServerIndex r1
       then emit_signal (DefaultServerChanged d) r1 else r1))"
    using idx some ids d by (simp add: removeServer_def Let_def r1_def)
  show "default_ok r1"
  proof (cases "m_defaultServerId r = i")
    case True
    then show ?thesis by (auto simp: default_ok_def r1_def d_def)
  next
    case False
    with dflt have "m_defaultServerId r \<in> set ids" by (simp add: ids_def)
    with False show ?thesis by (auto simp: default_ok_def r1_def d_def)
  qed
qed

lemma remove_refines:
  assumes "repo_ok r"
  shows "abs_repo (removeServer E i r) = spec_step E m (Remove i) (abs_repo r)"
proof (cases "i \<in> set (m_orderedServerIds r)")
  case True
  define ids where "ids = filter (\<lambda>k. k \<noteq> i) (m_orderedServerIds r)"
  define rest where "rest = filter (\<lambda>(k, j). k \<noteq> i) (fst (abs_repo r))"
  have rest: "rest = map (\<lambda>k. (k, the (m_serverJsonById r k))) ids"
    by (simp add: rest_def ids_def abs_repo_def filter_map comp_def)
  then have "fst (rest ! n) = ids ! n" if "n < length ids" for n using that by simp
  moreover have "rest \<noteq> [] \<Longrightarrow> fst (last rest) = last ids" using rest by (simp add: last_map)
  moreover have "map (\<lambda>k. (k, the (((m_serverJsonById r)(i := None)) k))) ids = rest"
    by (auto simp: rest ids_def)
  moreover have "abs_repo (emit_signal x (syncToStorage E (if b then emit_signal y q else q))) = abs_repo q"
    if "default_ok q" for x y b and q :: "'a repo"
    using that by (simp add: repo_simps abs_sync)
  ultimately show ?thesis
    using True remove_run(1) [OF assms True, of E] remove_run(2) [OF assms True] rest
    by (simp add: spec_remove_def Let_def abs_repo_def [of "_\<lparr>m_serverJsonById := _\<rparr>"] flip: ids_def rest_def)
      (simp add: abs_repo_def)
next
  case False
  then show ?thesis by (simp add: removeServer_def indexOfServerId_def repo_simps)
qed

lemma set_default_refines:
  assumes "repo_ok r"
  shows "abs_repo (setDefaultServer i r) = spec_step E m (SetDefault i) (abs_repo r)"
proof (cases "i \<in> set (m_orderedServerIds r)")
  case True
  have "abs_repo (persistDefaultServerFields (r\<lparr>m_defaultServerId := i\<rparr>)) = abs_repo (r\<lparr>m_defaultServerId := i\<rparr>)"
    using True by (intro abs_persist) (auto simp: default_ok_def)
  with True repo_okD(3) [OF assms, of i] show ?thesis
    by (auto simp: setDefaultServer_def indexOfServerId_def repo_simps Let_def) (auto simp: abs_repo_def)
next
  case False
  with repo_okD(3) [OF assms, of i] show ?thesis by (simp add: setDefaultServer_def)
qed

text \<open>
  C3: the operations implement a list of named objects with a default: an accepted addition appends,
  an edit replaces in place, a removal keeps the order of the others and moves the default to the
  next server or to the last one, a rejected request changes nothing.
\<close>

theorem repository_refines:
  assumes "uuid_ok E" "repo_ok r" "op \<noteq> Reload"
  shows "abs_repo (repo_step E op r) = spec_step E (id_for E op r) op (abs_repo r)"
proof (cases op)
  case Clear
  have "abs_repo (clearServers E r) = ([], [])"
    unfolding clearServers_def
    by (subst abs_sync) (simp_all add: clearServerStateMaps_def default_ok_def abs_repo_def)
  with Clear show ?thesis by simp
qed (use assms in \<open>simp_all add: add_refines edit_refines remove_refines set_default_refines del: spec_step.simps\<close>)

end
