(* ===== verification/Repository_Storage.thy ===== *)
theory Repository_Storage
  imports Repository_Facts
begin

text \<open>
  The stored list of servers and the settings: every change is written at once, a restart restores
  the list, and where it does not.
\<close>

section \<open>Agreement with the settings\<close>

lemma persist_fields [simp]:
  "m_orderedServerIds (persistDefaultServerFields r) = m_orderedServerIds r"
  "m_serverJsonById (persistDefaultServerFields r) = m_serverJsonById r"
  "st_serversList (persistDefaultServerFields r) = st_serversList r"
  "st_defaultServerIndex (persistDefaultServerFields r) = st_defaultServerIndex r"
  "uuids (persistDefaultServerFields r) = uuids r"
  "st_defaultServerId (persistDefaultServerFields r) = Some (m_defaultServerId (persistDefaultServerFields r))"
  by (simp_all add: persistDefaultServerFields_def Let_def)

definition in_sync :: "'b repo_env \<Rightarrow> 'b repo \<Rightarrow> bool" where
  "in_sync E r \<longleftrightarrow>
     st_serversList r = Some (toJson E (map (JObject \<circ> snd) (fst (abs_repo r))))
     \<and> st_defaultServerId r = Some (m_defaultServerId r)"

lemma map_filter_dom:
  "set xs \<subseteq> dom m \<Longrightarrow> List.map_filter m xs = map (\<lambda>x. the (m x)) xs"
  by (induction xs) (auto simp: List.map_filter_simps split: option.splits)

lemma sync_in_sync:
  assumes "set (m_orderedServerIds r) \<subseteq> dom (m_serverJsonById r)"
  shows "in_sync E (emit_signal x (syncToStorage E r))"
  using assms by (simp add: in_sync_def syncToStorage_def emit_signal_def persistDefaultServerFields_def
      abs_repo_def Let_def map_filter_dom comp_def)

lemma add_in_sync:
  assumes "repo_ok r" "in_sync E r" "uuid_ok E"
  shows "in_sync E (snd (addServer E c j k r))"
proof -
  obtain i r1 where i: "normalizedOrGeneratedServerId E c r = (i, r1)" by fastforce
  obtain n where r1: "r1 = r\<lparr>uuids := n\<rparr>" using normalized_id [OF assms(3) i] by blast
  have same: "in_sync E r1" using assms(2) by (simp add: in_sync_def r1 abs_repo_def)
  have "in_sync E (emit_signal x (syncToStorage E (r1\<lparr>m_serverJsonById := (m_serverJsonById r1)(i \<mapsto> s),
      m_orderedServerIds := m_orderedServerIds r1 @ [i], m_defaultServerId := d\<rparr>)))" for x s d
    by (rule sync_in_sync) (use repo_okD(2) [OF assms(1)] in \<open>auto simp: r1\<close>)
  with same i show ?thesis by (simp add: addServer_def Let_def)
qed

lemma edit_in_sync:
  assumes "repo_ok r" "in_sync E r"
  shows "in_sync E (editServer E i j k r)"
proof (cases "m_serverJsonById r i")
  case (Some old)
  note d = repo_okD [OF assms(1)]
  obtain s where s: "old = embedStorageServerId i s" "idKey \<notin> fst ` set s"
    using assms(1) Some unfolding repo_ok_def maps_ok_def by blast
  have same: "r\<lparr>m_serverJsonById := (m_serverJsonById r)(i \<mapsto> old)\<rparr> = r"
    using Some by (simp add: map_upd_triv)
  have "in_sync E (emit_signal x (syncToStorage E (r\<lparr>m_serverJsonById := (m_serverJsonById r)(i \<mapsto> t)\<rparr>)))" for x t
    by (rule sync_in_sync) (use d(2) in auto)
  with assms(2) Some s same configType_valid(1) show ?thesis
    by (auto simp: editServer_def Let_def repo_simps)
qed (use assms in \<open>simp add: editServer_def\<close>)

lemma remove_in_sync:
  assumes "repo_ok r" "in_sync E r"
  shows "in_sync E (removeServer E i r)"
proof (cases "i \<in> set (m_orderedServerIds r)")
  case True
  show ?thesis
    unfolding remove_run(1) [OF assms(1) True]
    by (rule sync_in_sync) (use repo_okD(2) [OF assms(1)] in \<open>auto simp: emit_signal_def\<close>)
next
  case False
  with assms show ?thesis by (simp add: removeServer_def indexOfServerId_def repo_simps)
qed

lemma set_default_in_sync: "repo_ok r \<Longrightarrow> in_sync E r \<Longrightarrow> in_sync E (setDefaultServer i r)"
  by (auto simp: setDefaultServer_def in_sync_def persistDefaultServerFields_def emit_signal_def
      abs_repo_def Let_def)

lemma clear_in_sync: "in_sync E (clearServers E r)"
proof -
  have "in_sync E (emit_signal x (clearServers E r))" for x
    unfolding clearServers_def by (rule sync_in_sync) (simp add: clearServerStateMaps_def)
  then show ?thesis by (simp add: in_sync_def emit_signal_def abs_repo_def)
qed

text \<open>
  C21: once the settings agree with the list they agree after every sequence of additions, edits,
  removals, default changes and clearings, accepted or rejected: nothing is lost by a crash between
  two operations.
\<close>

theorem stays_in_sync:
  assumes "uuid_ok E" "repo_ok r" "in_sync E r" "Reload \<notin> set ops"
  shows "in_sync E (runs (repo_step E) ops r)"
  using assms(2-4)
proof (induction ops arbitrary: r)
  case (Cons op ops)
  have "repo_ok (repo_step E op r)"
    using repo.step_invar [of E r op] assms(1) Cons.prems(1) by simp
  moreover have "in_sync E (repo_step E op r)"
    using Cons.prems assms(1)
    by (cases op) (simp_all add: add_in_sync edit_in_sync remove_in_sync set_default_in_sync clear_in_sync)
  ultimately show ?case using Cons by simp
qed simp

section \<open>Loading what was stored\<close>

definition host_keys :: "'b repo_env \<Rightarrow> obj list \<Rightarrow> qstring list" where
  "host_keys E js = map (\<lambda>j. hostKey (configTypeFromJson E j) (hostOf j)) (filter (\<lambda>j. hostOf j \<noteq> []) js)"

text \<open>The state after loading the objects \<open>ps\<close>, given by identifier.\<close>

definition stored :: "(qstring \<times> obj) list \<Rightarrow> 'b repo \<Rightarrow> 'b repo" where
  "stored ps r = r\<lparr>
     m_serverJsonById := (\<lambda>i. case map_of ps i of Some s \<Rightarrow> Some (embedStorageServerId i s)
                                               | None \<Rightarrow> m_serverJsonById r i),
     m_orderedServerIds := m_orderedServerIds r @ map fst ps\<rparr>"

lemma stored_Nil: "stored [] r = r"
  by (simp add: stored_def)

lemma stored_Cons:
  assumes "i \<notin> set (map fst ps)"
  shows "stored ps (r\<lparr>m_serverJsonById := (m_serverJsonById r)(i \<mapsto> embedStorageServerId i s),
      m_orderedServerIds := m_orderedServerIds r @ [i]\<rparr>) = stored ((i, s) # ps) r"
proof -
  have "map_of ps i = None" using assms by (simp add: map_of_eq_None_iff)
  then show ?thesis by (auto simp: stored_def fun_eq_iff split: option.splits)
qed

lemma load_entries_stored:
  assumes "\<And>i s. (i, s) \<in> set ps \<Longrightarrow> id_ok i \<and> idKey \<notin> fst ` set s \<and> m_serverJsonById r i = None"
    and "distinct (map fst ps)" and "distinct (host_keys E (map snd ps))"
    and "set (host_keys E (map snd ps)) \<inter> set seen = {}"
  shows "load_entries E (map (\<lambda>(i, s). JObject (embedStorageServerId i s)) ps @ ws) seen r =
    load_entries E ws (rev (host_keys E (map snd ps)) @ seen) (stored ps r)"
  using assms
proof (induction ps arbitrary: seen r)
  case (Cons p ps)
  obtain i s where p: "p = (i, s)" by fastforce
  have i: "id_ok i" "idKey \<notin> fst ` set s" "m_serverJsonById r i = None" using Cons.prems(1) p by auto
  have n: "normalizedOrGeneratedServerId E i r = (i, r)"
    using i by (simp add: normalizedOrGeneratedServerId_def id_ok_def)
  let ?r = "r\<lparr>m_serverJsonById := (m_serverJsonById r)(i \<mapsto> embedStorageServerId i s),
      m_orderedServerIds := m_orderedServerIds r @ [i]\<rparr>"
  define key where "key = hostKey (configTypeFromJson E s) (hostOf s)"
  define seen' where "seen' = (if hostOf s \<noteq> [] then key # seen else seen)"
  have hk: "host_keys E (map snd (p # ps)) = (if hostOf s \<noteq> [] then key # host_keys E (map snd ps) else host_keys E (map snd ps))"
    by (simp add: host_keys_def p key_def)
  have "load_entries E (map (\<lambda>(i, s). JObject (embedStorageServerId i s)) (p # ps) @ ws) seen r =
      load_entries E (map (\<lambda>(i, s). JObject (embedStorageServerId i s)) ps @ ws) seen' ?r"
  proof -
    have "hostOf s \<noteq> [] \<Longrightarrow> key \<notin> set seen" using Cons.prems(4) unfolding hk by auto
    then show ?thesis
      using i n configType_valid(1) by (auto simp: p repo_simps id_ok_def Let_def seen'_def key_def)
  qed
  also have "\<dots> = load_entries E ws (rev (host_keys E (map snd ps)) @ seen') (stored ps ?r)"
  proof (rule Cons.IH)
    show "id_ok k \<and> idKey \<notin> fst ` set t \<and> m_serverJsonById ?r k = None" if "(k, t) \<in> set ps" for k t
    proof -
      have "k \<noteq> i" using that Cons.prems(2) p by force
      then show ?thesis using that Cons.prems(1) [of k t] by simp
    qed
  qed (use Cons.prems(2-4) hk in \<open>auto simp: seen'_def split: if_splits\<close>)
  also have "stored ps ?r = stored (p # ps) r"
    unfolding p by (rule stored_Cons) (use Cons.prems(2) p in simp)
  also have "rev (host_keys E (map snd ps)) @ seen' = rev (host_keys E (map snd (p # ps))) @ seen"
    unfolding hk by (simp add: seen'_def)
  finally show ?case .
qed (simp add: host_keys_def stored_Nil)

text \<open>The objects of a list, without their identifiers.\<close>

definition plain :: "'b repo \<Rightarrow> (qstring \<times> obj) list" where
  "plain r = map (\<lambda>(i, j). (i, withoutStorageServerId j)) (fst (abs_repo r))"

lemma plain_fst [simp]: "map fst (plain r) = m_orderedServerIds r"
  by (simp add: plain_def abs_repo_def comp_def)

lemma plain_mem:
  assumes "repo_ok r" "(i, s) \<in> set (plain r)"
  shows "id_ok i" "idKey \<notin> fst ` set s" "m_serverJsonById r i = Some (embedStorageServerId i s)"
proof -
  from assms(2) have i: "i \<in> set (m_orderedServerIds r)" and s: "s = withoutStorageServerId (the (m_serverJsonById r i))"
    by (auto simp: plain_def abs_repo_def)
  obtain j where j: "m_serverJsonById r i = Some j" using i repo_okD(3) [OF assms(1)] by blast
  then obtain t where "j = embedStorageServerId i t" "idKey \<notin> fst ` set t"
    using assms(1) unfolding repo_ok_def maps_ok_def by blast
  with j s show "idKey \<notin> fst ` set s" "m_serverJsonById r i = Some (embedStorageServerId i s)"
    by (simp_all add: repo_simps)
  show "id_ok i" using assms(1) i by (simp add: repo_ok_def maps_ok_def)
qed

lemma plain_json:
  assumes "repo_ok r"
  shows "map (\<lambda>(i, s). JObject (embedStorageServerId i s)) (plain r) = map (JObject \<circ> snd) (fst (abs_repo r))"
proof -
  have "map (\<lambda>(i, s). (i, embedStorageServerId i s)) (plain r) = fst (abs_repo r)"
  proof (rule nth_equalityI)
    fix n assume "n < length (map (\<lambda>(i, s). (i, embedStorageServerId i s)) (plain r))"
    then have n: "n < length (m_orderedServerIds r)" by (simp add: plain_def abs_repo_def)
    let ?i = "m_orderedServerIds r ! n"
    have "(?i, withoutStorageServerId (the (m_serverJsonById r ?i))) \<in> set (plain r)"
      using n by (force simp: plain_def abs_repo_def)
    from plain_mem(3) [OF assms this]
    have "the (m_serverJsonById r ?i) = embedStorageServerId ?i (withoutStorageServerId (the (m_serverJsonById r ?i)))"
      by (metis option.sel)
    with n show "map (\<lambda>(i, s). (i, embedStorageServerId i s)) (plain r) ! n = fst (abs_repo r) ! n"
      by (simp add: plain_def abs_repo_def del: option.sel)
  qed (simp add: plain_def)
  then have "map (JObject \<circ> snd) (map (\<lambda>(i, s). (i, embedStorageServerId i s)) (plain r)) = map (JObject \<circ> snd) (fst (abs_repo r))"
    by simp
  then show ?thesis by (simp add: comp_def case_prod_unfold)
qed

text \<open>No two servers of the list are of the same kind and have the same host.\<close>

definition hosts_distinct :: "'b repo_env \<Rightarrow> 'b repo \<Rightarrow> bool" where
  "hosts_distinct E r \<longleftrightarrow> distinct (host_keys E (map snd (plain r)))"

text \<open>
  What is used of the framework's JSON text: the array of the listed servers is read back from the
  text written for it.
\<close>

definition listed :: "'b repo \<Rightarrow> json list" where
  "listed r = map (JObject \<circ> snd) (fst (abs_repo r))"

definition reads_back :: "'b repo_env \<Rightarrow> json list \<Rightarrow> bool" where
  "reads_back E xs \<longleftrightarrow> fromJson E (toJson E xs) = xs"

lemma load_plain:
  assumes "repo_ok r" "hosts_distinct E r" "q = clearServerStateMaps q'"
  shows "load_entries E (map (JObject \<circ> snd) (fst (abs_repo r)) @ ws) [] q =
    load_entries E ws (rev (host_keys E (map snd (plain r)))) (stored (plain r) q)"
proof -
  have "load_entries E (map (\<lambda>(i, s). JObject (embedStorageServerId i s)) (plain r) @ ws) [] q =
      load_entries E ws (rev (host_keys E (map snd (plain r))) @ []) (stored (plain r) q)"
  proof (rule load_entries_stored)
    show "id_ok i \<and> idKey \<notin> fst ` set s \<and> m_serverJsonById q i = None" if "(i, s) \<in> set (plain r)" for i s
      using plain_mem [OF assms(1) that] assms(3) by (simp add: clearServerStateMaps_def)
    show "distinct (map fst (plain r))" using repo_okD(1) [OF assms(1)] by simp
    show "distinct (host_keys E (map snd (plain r)))" using assms(2) by (simp add: hosts_distinct_def)
  qed simp
  then show ?thesis using plain_json [OF assms(1)] by simp
qed

lemma stored_plain:
  assumes "repo_ok r"
  shows "m_orderedServerIds (stored (plain r) (clearServerStateMaps q)) = m_orderedServerIds r"
    and "m_serverJsonById (stored (plain r) (clearServerStateMaps q)) = m_serverJsonById r"
proof -
  have "m_serverJsonById (stored (plain r) (clearServerStateMaps q)) i = m_serverJsonById r i" for i
  proof (cases "map_of (plain r) i")
    case None
    then have "i \<notin> set (map fst (plain r))" by (metis map_of_eq_None_iff set_map)
    then have "i \<notin> set (m_orderedServerIds r)" unfolding plain_fst .
    then have "m_serverJsonById r i = None" using repo_okD(3) [OF assms] by simp
    with None show ?thesis by (simp add: stored_def clearServerStateMaps_def)
  next
    case (Some s)
    then show ?thesis
      using plain_mem(3) [OF assms map_of_SomeD [OF Some]] by (simp add: stored_def)
  qed
  then show "m_serverJsonById (stored (plain r) (clearServerStateMaps q)) = m_serverJsonById r" by blast
qed (simp add: stored_def clearServerStateMaps_def)

lemma default_restored:
  assumes "repo_ok r" "st_defaultServerId q = Some (m_defaultServerId r)"
    and "m_orderedServerIds q = m_orderedServerIds r" "m_serverJsonById q = m_serverJsonById r"
  shows "m_defaultServerId (updateDefaultServerFromStorage q) = m_defaultServerId r"
  using assms(2-4) repo_okD(3) [OF assms(1), of "m_defaultServerId r"] repo_okD(5,6) [OF assms(1)]
  by (auto simp: updateDefaultServerFromStorage_def default_ok_def Let_def split: if_splits)

lemma reload_restores:
  assumes "reads_back E (listed r)" "repo_ok r" "in_sync E r" "hosts_distinct E r"
  shows "abs_repo (loadFromStorage E r) = abs_repo r"
proof -
  define q where "q = stored (plain r) (clearServerStateMaps r)"
  have q: "m_orderedServerIds q = m_orderedServerIds r" "m_serverJsonById q = m_serverJsonById r"
    using stored_plain [OF assms(2)] by (simp_all add: q_def)
  have "st_defaultServerId q = Some (m_defaultServerId r)"
    using assms(3) by (simp add: q_def stored_def clearServerStateMaps_def in_sync_def)
  then have d: "m_defaultServerId (updateDefaultServerFromStorage q) = m_defaultServerId r"
    using default_restored [OF assms(2)] q by blast
  have "loadFromStorage E r = updateDefaultServerFromStorage q"
    using load_plain [OF assms(2,4) refl, where ws = "[]" and q' = r] assms(1,3)
    by (simp add: loadFromStorage_def in_sync_def reads_back_def listed_def q_def)
  moreover have "m_orderedServerIds (updateDefaultServerFromStorage q) = m_orderedServerIds r"
    "m_serverJsonById (updateDefaultServerFromStorage q) = m_serverJsonById r"
    using q by (simp_all add: updateDefaultServerFromStorage_def Let_def)
  ultimately show ?thesis using d by (simp add: abs_repo_def)
qed

text \<open>
  C14: a restart of the client with settings that agree with the list restores the servers, their
  order and the default server, if no two servers of a kind have the same host.
\<close>

theorem restart_restores:
  assumes "uuid_ok E" "reads_back E (listed r)" "repo_ok r" "in_sync E r" "hosts_distinct E r"
  shows "abs_repo (repository E r) = abs_repo r"
proof -
  have "default_ok (loadFromStorage E r)" using load_ok [OF assms(1), of r] by (simp add: repo_ok_def)
  then show ?thesis using reload_restores [OF assms(2-5)] by (simp add: repository_def abs_persist)
qed

section \<open>A second server on a host\<close>

text \<open>
  C38: an addition does not look at hosts: a server of the same kind on a host that is already in the
  list is listed and stored, but the next load of the settings drops it again.
\<close>

theorem duplicate_host_dropped:
  fixes r :: "'b repo"
  assumes "uuid_ok E" "reads_back E (listed (snd (addServer E c j k r)))" "repo_ok r" "hosts_distinct E r"
    and "fst (addServer E c j k r) \<notin> set (m_orderedServerIds r)"
    and "configTypeFromJson E (withoutStorageServerId j) = k" and "hostOf (withoutStorageServerId j) \<noteq> []"
    and "hostKey k (hostOf (withoutStorageServerId j)) \<in> set (host_keys E (map snd (plain r)))"
  shows "m_orderedServerIds (snd (addServer E c j k r)) = m_orderedServerIds r @ [fst (addServer E c j k r)]
    \<and> m_orderedServerIds (invalidateCache E (snd (addServer E c j k r))) = m_orderedServerIds r"
proof -
  define i where "i = fst (normalizedOrGeneratedServerId E c r)"
  define s where "s = withoutStorageServerId j"
  define r1 where "r1 = snd (addServer E c j k r)"
  have "fst (addServer E c j k r) = i" by (simp add: addServer_def i_def Let_def case_prod_unfold)
  with assms(5) have new: "i \<notin> set (m_orderedServerIds r)" "fst (addServer E c j k r) = i" by simp_all
  have abs1: "abs_repo r1 = spec_add i s (abs_repo r)"
    using add_refines [OF assms(1,3), of c j k] new(1) assms(6) by (simp add: r1_def i_def s_def)
  have ids: "m_orderedServerIds r1 = m_orderedServerIds r @ [i]"
    using abs1 named_abs [of r1] named_abs [of r] by (simp add: named_def spec_add_def)
  have id_i: "id_ok i" using normalized_id(1) [OF assms(1)] by (metis i_def prod.collapse)
  have written: "st_serversList r1 = Some (toJson E (map (JObject \<circ> snd) (fst (abs_repo r1))))"
  proof -
    obtain n where n: "snd (normalizedOrGeneratedServerId E c r) = r\<lparr>uuids := n\<rparr>"
      using normalized_id(2) [OF assms(1)] by (metis prod.collapse)
    have "m_serverJsonById r i = None" using new(1) repo_okD(3) [OF assms(3)] by simp
    then have "r1 = emit_signal (ServerAdded i) (syncToStorage E
        (r\<lparr>uuids := n, m_serverJsonById := (m_serverJsonById r)(i \<mapsto> embedStorageServerId i s),
           m_orderedServerIds := m_orderedServerIds r @ [i],
           m_defaultServerId := (if m_defaultServerId r = [] then i else m_defaultServerId r)\<rparr>))"
      using n assms(6) configType_valid(1) by (auto simp: r1_def addServer_def Let_def case_prod_unfold i_def s_def)
    moreover have "in_sync E (emit_signal x (syncToStorage E
        (r\<lparr>uuids := n, m_serverJsonById := (m_serverJsonById r)(i \<mapsto> t),
           m_orderedServerIds := m_orderedServerIds r @ [i], m_defaultServerId := d\<rparr>)))" for x t d
      by (rule sync_in_sync) (use repo_okD(2) [OF assms(3)] in auto)
    ultimately show ?thesis by (simp add: in_sync_def)
  qed
  let ?seen = "rev (host_keys E (map snd (plain r)))" and ?q = "stored (plain r) (clearServerStateMaps r1)"
  have q: "m_orderedServerIds ?q = m_orderedServerIds r" "m_serverJsonById ?q i = None"
    unfolding stored_plain [OF assms(3)] using repo_okD(3) [OF assms(3)] new(1) by blast+
  have s: "withoutStorageServerId (embedStorageServerId i s) = s" by (simp add: s_def repo_simps)
  have "load_entries E [JObject (embedStorageServerId i s)] ?seen ?q = ?q"
    using q(2) id_i assms(6-8) s
    by (simp add: repo_simps normalizedOrGeneratedServerId_def id_ok_def Let_def flip: s_def)
  moreover have "fst (abs_repo r1) = fst (abs_repo r) @ [(i, embedStorageServerId i s)]"
    using abs1 by (simp add: spec_add_def)
  ultimately have "loadFromStorage E r1 = updateDefaultServerFromStorage ?q"
    using load_plain [OF assms(3,4) refl, where q' = r1 and ws = "[JObject (embedStorageServerId i s)]"] written
      assms(2) [folded r1_def]
    by (simp add: loadFromStorage_def reads_back_def listed_def del: load_entries.simps)
  then have "m_orderedServerIds (invalidateCache E r1) = m_orderedServerIds r"
    using q(1) by (simp add: invalidateCache_def updateDefaultServerFromStorage_def Let_def)
  with ids new(2) show ?thesis by (simp add: r1_def)
qed

section \<open>Free names\<close>

lemma dec_inject: "dec m = dec n \<longleftrightarrow> m = n"
  by (metis digits_value_dec option.inject)

lemma candidateName_inject: "candidateName m = candidateName n \<longleftrightarrow> m = n"
  by (simp add: candidateName_def dec_inject)

lemma free_name_run:
  assumes "candidateName n \<notin> set used" "\<And>k. i \<le> k \<Longrightarrow> k < n \<Longrightarrow> candidateName k \<in> set used" "i \<le> n"
  shows "free_name used i = Some (candidateName n)"
  using assms
proof (induction "n - i" arbitrary: i)
  case 0
  then show ?case by (subst free_name.simps) simp
next
  case (Suc d)
  then have "candidateName i \<in> set used" "free_name used (Suc i) = Some (candidateName n)" by simp_all
  then show ?case by (subst free_name.simps) simp
qed

text \<open>
  The search for the name of a new server ends; it returns Server n with the least number n from
  1 on that no listed server shows, and n is at most one more than the number of servers.
\<close>

theorem next_name_free:
  "\<exists>n. 1 \<le> n \<and> n \<le> Suc (length (m_orderedServerIds r))
     \<and> nextAvailableServerName E r = Some (candidateName n)
     \<and> candidateName n \<notin> storedServerDisplayName E r ` set (m_orderedServerIds r)
     \<and> candidateName ` {1..<n} \<subseteq> storedServerDisplayName E r ` set (m_orderedServerIds r)"
proof -
  let ?names = "storedServerDisplayName E r ` set (m_orderedServerIds r)"
  define used where "used = filter (\<lambda>n. n \<noteq> []) (map (storedServerDisplayName E r) (m_orderedServerIds r))"
  have ne: "candidateName n \<noteq> []" for n by (simp add: candidateName_def lit_def)
  then have used: "candidateName n \<in> set used \<longleftrightarrow> candidateName n \<in> ?names" for n by (auto simp: used_def)
  let ?L = "length (m_orderedServerIds r)"
  have "\<exists>n. 1 \<le> n \<and> n \<le> Suc ?L \<and> candidateName n \<notin> ?names"
  proof (rule ccontr)
    assume "\<not> ?thesis"
    then have sub: "candidateName ` {1..Suc ?L} \<subseteq> ?names" by auto
    have "card (candidateName ` {1..Suc ?L}) = Suc ?L"
      by (subst card_image) (auto simp: inj_on_def candidateName_inject)
    moreover have "card (candidateName ` {1..Suc ?L}) \<le> card ?names" by (rule card_mono [OF _ sub]) simp
    moreover have "card ?names \<le> ?L" by (metis card_image_le card_length finite_set le_trans)
    ultimately show False by simp
  qed
  then obtain n where n: "1 \<le> n \<and> n \<le> Suc ?L \<and> candidateName n \<notin> ?names"
    and least: "\<forall>k < n. \<not> (1 \<le> k \<and> k \<le> Suc ?L \<and> candidateName k \<notin> ?names)"
    using exists_least_iff [of "\<lambda>n. 1 \<le> n \<and> n \<le> Suc ?L \<and> candidateName n \<notin> ?names"] by blast
  then have below: "candidateName k \<in> ?names" if "1 \<le> k" "k < n" for k using that by auto
  have "nextAvailableServerName E r = Some (candidateName n)"
    unfolding nextAvailableServerName_def used_def [symmetric]
    by (rule free_name_run) (use n below used in auto)
  with n below show ?thesis by (intro exI [of _ n]) auto
qed

text \<open>
  Every object has one of eight kinds: those of the gateway and of the legacy API, native,
  self-hosted with or without credentials.  In particular no stored entry is ever found invalid.
\<close>

theorem config_kinds:
  "configTypeFromJson E j \<noteq> Invalid \<and> configTypeFromJson E j \<noteq> SelfHosted
   \<and> (isServerFromApi j \<or> configTypeFromJson E j \<in> {Native, SelfHostedAdmin, SelfHostedUser})"
  using configType_valid [of E j]
  by (auto simp: configTypeFromJson_def isServerFromApi_def Let_def)

section \<open>Identifiers that are not stored\<close>

definition no_ids :: "json list \<Rightarrow> bool" where
  "no_ids vs \<longleftrightarrow> list_all (\<lambda>v. readStorageServerId (as_object v) = []) vs"

lemma load_no_ids:
  assumes "no_ids vs"
  shows "uuids r \<le> uuids (load_entries E vs seen r)
    \<and> set (m_orderedServerIds (load_entries E vs seen r)) \<subseteq>
        set (m_orderedServerIds r) \<union> createUuid E ` {uuids r ..< uuids (load_entries E vs seen r)}
    \<and> st_defaultServerId (load_entries E vs seen r) = st_defaultServerId r
    \<and> st_defaultServerIndex (load_entries E vs seen r) = st_defaultServerIndex r
    \<and> st_serversList (load_entries E vs seen r) = st_serversList r"
  using assms
proof (induction vs arbitrary: seen r)
  case (Cons v vs)
  define i where "i = createUuid E (uuids r)"
  define r1 where "r1 = r\<lparr>uuids := Suc (uuids r)\<rparr>"
  define s where "s = withoutStorageServerId (as_object v)"
  define r2 where "r2 = r1\<lparr>m_serverJsonById := (m_serverJsonById r1)(i \<mapsto> embedStorageServerId i s),
      m_orderedServerIds := m_orderedServerIds r1 @ [i]\<rparr>"
  have "trimmed [] = []" by (simp add: trimmed_def)
  then have n: "normalizedOrGeneratedServerId E (readStorageServerId (as_object v)) r = (i, r1)"
    using Cons.prems by (simp add: normalizedOrGeneratedServerId_def no_ids_def i_def r1_def)
  have vs: "no_ids vs" using Cons.prems by (simp add: no_ids_def)
  have "\<exists>seen' q. load_entries E (v # vs) seen r = load_entries E vs seen' q \<and> q \<in> {r1, r2}"
    using n by (auto simp: Let_def r2_def simp flip: s_def)
  then obtain seen' q where q: "load_entries E (v # vs) seen r = load_entries E vs seen' q" "q \<in> {r1, r2}"
    by blast
  have "uuids q = Suc (uuids r)" "set (m_orderedServerIds q) \<subseteq> set (m_orderedServerIds r) \<union> {i}"
    "st_defaultServerId q = st_defaultServerId r" "st_defaultServerIndex q = st_defaultServerIndex r"
    "st_serversList q = st_serversList r"
    using q(2) by (auto simp: r1_def r2_def)
  note q' = this
  let ?u = "uuids (load_entries E vs seen' q)"
  note IH = Cons.IH [OF vs, of q seen']
  have u: "Suc (uuids r) \<le> ?u" using IH q'(1) by simp
  have "createUuid E ` {Suc (uuids r) ..< ?u} \<subseteq> createUuid E ` {uuids r ..< ?u}" by (intro image_mono) auto
  moreover have "i \<in> createUuid E ` {uuids r ..< ?u}" using u by (simp add: i_def)
  moreover have "set (m_orderedServerIds (load_entries E vs seen' q)) \<subseteq>
      set (m_orderedServerIds q) \<union> createUuid E ` {Suc (uuids r) ..< ?u}" using IH q'(1) by simp
  ultimately have "set (m_orderedServerIds (load_entries E vs seen' q)) \<subseteq>
      set (m_orderedServerIds r) \<union> createUuid E ` {uuids r ..< ?u}" using q'(2) by blast
  with IH q' u show ?case unfolding q(1) by simp
qed simp

lemma load_storage_no_ids:
  assumes "no_ids (fromJson E (case st_serversList r of None \<Rightarrow> emptyText E | Some b \<Rightarrow> b))"
  shows "uuids r \<le> uuids (loadFromStorage E r)"
    and "set (m_orderedServerIds (loadFromStorage E r)) \<subseteq> createUuid E ` {uuids r ..< uuids (loadFromStorage E r)}"
    and "st_defaultServerIndex (loadFromStorage E r) = st_defaultServerIndex r"
    and "st_serversList (loadFromStorage E r) = st_serversList r"
  using load_no_ids [OF assms, of "clearServerStateMaps r" E "[]"]
  by (simp_all add: loadFromStorage_def clearServerStateMaps_def updateDefaultServerFromStorage_def Let_def)

text \<open>
  C39: identifiers made up for stored entries that have none are not written back.  A default server
  chosen after such a load, before the list is next changed, is forgotten at the next start: all
  identifiers are new and the default is again the one at the stored index.
\<close>

theorem unsaved_ids_lose_default:
  assumes E: "uuid_ok E" "inj (createUuid E)"
    and none: "no_ids (fromJson E (case st_serversList s of None \<Rightarrow> emptyText E | Some b \<Rightarrow> b))"
    and index: "st_defaultServerIndex s = None"
    and i: "i \<in> set (m_orderedServerIds (repository E s))"
  defines "r \<equiv> setDefaultServer i (repository E s)"
  shows "m_defaultServerId r = i \<and> i \<notin> set (m_orderedServerIds (repository E r))
    \<and> defaultServerIndex (repository E r) = 0"
proof -
  define q where "q = repository E s"
  have q: "repo_ok q" "st_serversList q = st_serversList s" "st_defaultServerIndex q = None"
    "set (m_orderedServerIds q) \<subseteq> createUuid E ` {uuids s ..< uuids q}"
    "st_defaultServerId q = Some (m_defaultServerId q)"
    using repository_ok [OF E(1)] load_storage_no_ids [OF none] index
    by (simp_all add: q_def) (simp_all add: repository_def)
  have dflt: "m_defaultServerId r = i" and r: "st_serversList r = st_serversList s" "uuids r = uuids q"
    "st_defaultServerIndex r = None"
    and st: "st_defaultServerId r = Some i"
  proof -
    have iq: "i \<in> set (m_orderedServerIds q)" using i by (simp add: q_def)
    then have "snd (abs_repo r) = i"
      using set_default_refines [OF q(1), of i E "[]"] by (simp add: r_def flip: q_def)
    then show d: "m_defaultServerId r = i" by (simp add: abs_repo_def)
    show "st_serversList r = st_serversList s" "uuids r = uuids q" "st_defaultServerIndex r = None"
      using q by (simp_all add: r_def setDefaultServer_def emit_signal_def Let_def flip: q_def)
    have "st_defaultServerId r = Some (m_defaultServerId r)"
      using q by (simp add: r_def setDefaultServer_def emit_signal_def Let_def flip: q_def)
    with d show "st_defaultServerId r = Some i" by simp
  qed
  define t where "t = loadFromStorage E r"
  have none': "no_ids (fromJson E (case st_serversList r of None \<Rightarrow> emptyText E | Some b \<Rightarrow> b))"
    using none r(1) by simp
  have "set (m_orderedServerIds t) \<subseteq> createUuid E ` {uuids q ..< uuids t}"
    using load_storage_no_ids(2) [OF none'] r(2) by (simp add: t_def)
  moreover have "i \<in> createUuid E ` {uuids s ..< uuids q}" using i q(4) by (auto simp: q_def)
  moreover have "createUuid E ` {uuids s ..< uuids q} \<inter> createUuid E ` {uuids q ..< uuids t} = {}"
    using E(2) by (auto dest: injD)
  ultimately have new: "i \<notin> set (m_orderedServerIds t)" by blast
  have t: "repo_ok t" using load_ok [OF E(1)] by (simp add: t_def)
  have "m_defaultServerId t = (if m_orderedServerIds t = [] then [] else hd (m_orderedServerIds t))"
  proof -
    define l where "l = load_entries E (fromJson E (case st_serversList r of None \<Rightarrow> emptyText E | Some b \<Rightarrow> b)) []
      (clearServerStateMaps r)"
    have l: "t = updateDefaultServerFromStorage l" by (simp add: t_def l_def loadFromStorage_def)
    have "st_defaultServerId l = Some i" "st_defaultServerIndex l = None"
      using load_no_ids [OF none', of "clearServerStateMaps r" E "[]"] st r(3)
      by (simp_all add: l_def clearServerStateMaps_def)
    moreover have "m_serverJsonById l i = None"
      using new repo_okD(3) [OF t] by (simp add: l updateDefaultServerFromStorage_def Let_def)
    moreover have "m_orderedServerIds t = m_orderedServerIds l"
      by (simp add: l updateDefaultServerFromStorage_def Let_def)
    ultimately show ?thesis
      by (simp add: l updateDefaultServerFromStorage_def Let_def hd_conv_nth)
  qed
  then have "defaultServerIndex (persistDefaultServerFields t) = 0"
    by (cases "m_orderedServerIds t") (simp_all add: defaultServerIndex_def persistDefaultServerFields_def Let_def)
  moreover have "m_orderedServerIds (persistDefaultServerFields t) = m_orderedServerIds t"
    by (simp add: persistDefaultServerFields_def Let_def)
  ultimately show ?thesis using dflt new by (simp add: repository_def t_def)
qed

end
