(* ===== verification/Repository_Witness.thy ===== *)
theory Repository_Witness
  imports Repository_Storage "HOL-Library.Code_Target_Nat"
begin

text \<open>
  The theorems on the stored list of servers on concrete settings.  The text of an array is the
  array itself, and identifiers are numbered.
\<close>

definition sample :: "json list repo_env" where
  "sample = \<lparr>FREE_V2_ENDPOINT = lit ''free'', PREM_V1_ENDPOINT = lit ''prem'',
     toJson = (\<lambda>xs. xs), fromJson = (\<lambda>xs. xs), emptyText = [], createUuid = (\<lambda>n. lit ''id'' @ dec n)\<rparr>"

lemma trimmed_keep:
  assumes "\<And>c. c \<in> set s \<Longrightarrow> \<not> qt_space c"
  shows "trimmed s = s"
proof -
  have "dropWhile qt_space s = s" "dropWhile qt_space (rev s) = rev s"
    by (rule dropWhile_keep, simp add: assms)+
  then show ?thesis by (simp add: trimmed_def)
qed

lemma sample_ok: "uuid_ok sample" "reads_back sample xs" "inj (createUuid sample)"
proof -
  have "\<not> qt_space c" if "c \<in> set (lit ''id'' @ dec n)" for c n
    using that dec_digits [of n] by (auto simp: lit_def list_all_iff is_digit_def qt_space_def)
  then have "trimmed (lit ''id'' @ dec n) = lit ''id'' @ dec n" for n by (rule trimmed_keep)
  then show "uuid_ok sample" by (simp add: uuid_ok_def id_ok_def sample_def lit_def)
  show "reads_back sample xs" by (simp add: reads_back_def sample_def)
  show "inj (createUuid sample)" by (simp add: inj_def sample_def dec_inject)
qed

definition host_a :: obj where
  "host_a = [(lit ''hostName'', JString (lit ''a.example''))]"

text \<open>A list with one server, and the settings that agree with it.\<close>

definition one :: "json list repo" where
  "one = \<lparr>m_serverJsonById = [lit ''s1'' \<mapsto> embedStorageServerId (lit ''s1'') host_a],
     m_orderedServerIds = [lit ''s1''], m_defaultServerId = lit ''s1'',
     st_serversList = Some [JObject (embedStorageServerId (lit ''s1'') host_a)],
     st_defaultServerId = Some (lit ''s1''), st_defaultServerIndex = None, uuids = 0, signals = []\<rparr>"

lemma host_a_plain: "idKey \<notin> fst ` set host_a"
  by (simp add: host_a_def lit_def)

lemma trimmed_s1: "trimmed (lit ''s1'') = lit ''s1''"
  by code_simp

lemma one_ok: "repo_ok one" "in_sync sample one" "hosts_distinct sample one"
proof -
  show "repo_ok one"
    using host_a_plain trimmed_s1
    by (auto simp: repo_ok_def maps_ok_def default_ok_def id_ok_def one_def lit_def split: if_splits)
  show "in_sync sample one" by (simp add: in_sync_def abs_repo_def one_def sample_def)
  show "hosts_distinct sample one" by (simp add: hosts_distinct_def plain_def abs_repo_def one_def host_keys_def)
qed

lemma repository_invariant_witness:
  "repo_ok (runs (repo_step sample) [Add (lit ''s2'') host_a SelfHostedUser, Remove (lit ''s1''), Reload]
     (repository sample one))"
  using sample_ok(1) by (rule repository_invariant)

lemma repository_refines_witness:
  "abs_repo (repo_step sample (Remove (lit ''s1'')) one) = ([], [])"
  using repository_refines [OF sample_ok(1) one_ok(1), of "Remove (lit ''s1'')"]
  by (simp add: named_def spec_remove_def abs_repo_def one_def)

lemma stays_in_sync_witness:
  "in_sync sample (runs (repo_step sample) [Add (lit ''s2'') host_a SelfHostedUser, SetDefault (lit ''s2'')] one)"
  by (rule stays_in_sync [OF sample_ok(1) one_ok(1,2)]) simp

lemma restart_restores_witness: "abs_repo (repository sample one) = abs_repo one"
  using sample_ok(1,2) one_ok by (rule restart_restores)

lemma plain_one: "plain one = [(lit ''s1'', host_a)]"
  using host_a_plain by (simp add: plain_def abs_repo_def one_def repo_simps)

lemma host_a_kind: "configTypeFromJson sample host_a = SelfHostedUser" "hostOf host_a = lit ''a.example''"
  by code_simp+

lemma duplicate_host_dropped_witness:
  "m_orderedServerIds (snd (addServer sample (lit ''s2'') host_a SelfHostedUser one)) = [lit ''s1'', lit ''s2'']
   \<and> m_orderedServerIds (invalidateCache sample (snd (addServer sample (lit ''s2'') host_a SelfHostedUser one))) = [lit ''s1'']"
proof -
  have s2: "trimmed (lit ''s2'') = lit ''s2''" by code_simp
  have new: "fst (addServer sample (lit ''s2'') host_a SelfHostedUser one) = lit ''s2''"
    using s2 by (simp add: addServer_def normalizedOrGeneratedServerId_def one_def lit_def Let_def)
  have host: "withoutStorageServerId host_a = host_a" using host_a_plain by (rule strip_keep)
  have "fst (addServer sample (lit ''s2'') host_a SelfHostedUser one) \<notin> set (m_orderedServerIds one)"
    unfolding new by (simp add: one_def lit_def)
  moreover have "hostKey SelfHostedUser (hostOf (withoutStorageServerId host_a)) \<in> set (host_keys sample (map snd (plain one)))"
    by (simp add: host plain_one host_keys_def host_a_kind lit_def)
  ultimately show ?thesis
    using duplicate_host_dropped [OF sample_ok(1,2) one_ok(1,3), of "lit ''s2''" host_a SelfHostedUser]
      host host_a_kind new by (simp add: one_def lit_def)
qed

text \<open>Settings of an earlier version: two servers without identifiers.\<close>

definition legacy :: "json list repo" where
  "legacy = \<lparr>m_serverJsonById = Map.empty, m_orderedServerIds = [], m_defaultServerId = [],
     st_serversList = Some [JObject host_a, JObject []],
     st_defaultServerId = None, st_defaultServerIndex = None, uuids = 0, signals = []\<rparr>"

lemma legacy_ids: "m_orderedServerIds (repository sample legacy) = [lit ''id0'', lit ''id1'']"
  by code_simp

lemma unsaved_ids_lose_default_witness:
  "m_defaultServerId (setDefaultServer (lit ''id1'') (repository sample legacy)) = lit ''id1''
   \<and> defaultServerIndex (repository sample (setDefaultServer (lit ''id1'') (repository sample legacy))) = 0"
proof -
  have "no_ids (fromJson sample (case st_serversList legacy of None \<Rightarrow> emptyText sample | Some b \<Rightarrow> b))"
    by code_simp
  moreover have "st_defaultServerIndex legacy = None" by (simp add: legacy_def)
  moreover have "lit ''id1'' \<in> set (m_orderedServerIds (repository sample legacy))" by (simp add: legacy_ids)
  ultimately show ?thesis
    using unsaved_ids_lose_default [OF sample_ok(1,3), of legacy "lit ''id1''"] by simp
qed

end
