(* ===== verification/Interface_Config.thy ===== *)
theory Interface_Config
  imports IP_Address Qt_Json
begin

text \<open>
  The configuration of a tunnel, client/daemon/interfaceconfig.h and interfaceconfig.cpp: its
  members, the JSON object and the text for the tunnel program written from it.  Strings whose null
  value the code tests are of type \<open>qstr\<close>.
\<close>

section \<open>Members\<close>

datatype hop = SingleHop | MultiHopEntry | MultiHopExit

record iconfig =
  m_hopType :: hop
  m_privateKey :: qstring
  m_deviceIpv4Address :: qstr
  m_deviceIpv6Address :: qstr
  m_serverIpv4Gateway :: qstring
  m_serverIpv6Gateway :: qstring
  m_serverPublicKey :: qstring
  m_serverIpv4AddrIn :: qstr
  m_serverPskKey :: qstr
  m_serverIpv6AddrIn :: qstr
  m_primaryDnsServer :: qstring
  m_secondaryDnsServer :: qstring
  m_serverPort :: int
  m_deviceMTU :: int
  m_allowedIPAddressRanges :: "ipaddr list"
  m_excludedAddresses :: "qstring list"
  m_vpnDisabledApps :: "qstring list"
  m_allowedDnsServers :: "qstring list"
  m_killSwitchEnabled :: bool
  m_junkPacketCount :: qstr
  m_junkPacketMinSize :: qstr
  m_junkPacketMaxSize :: qstr
  m_initPacketJunkSize :: qstr
  m_responsePacketJunkSize :: qstr
  m_cookieReplyPacketJunkSize :: qstr
  m_transportPacketJunkSize :: qstr
  m_initPacketMagicHeader :: qstr
  m_responsePacketMagicHeader :: qstr
  m_underloadPacketMagicHeader :: qstr
  m_transportPacketMagicHeader :: qstr
  m_specialJunk :: "(qstring \<times> qstring) list"

text \<open>The names of the enumeration.\<close>

fun hop_key :: "hop \<Rightarrow> qstring" where
  "hop_key SingleHop = lit ''SingleHop''"
| "hop_key MultiHopEntry = lit ''MultiHopEntry''"
| "hop_key MultiHopExit = lit ''MultiHopExit''"

section \<open>The JSON object\<close>

text \<open>
  The framework's text of an address is the parameter \<open>hostText\<close>.  A null string is written as the
  empty one.
\<close>

definition range_json :: "(host \<Rightarrow> qstring) \<Rightarrow> ipaddr \<Rightarrow> json" where
  "range_json hostText i = JObject
     (insert_key (lit ''isIpv6'') (JBool (protocol (m_address i) = IPv6Protocol))
     (insert_key (lit ''range'') (JDouble (of_int (m_prefixLength i)))
     (insert_key (lit ''address'') (JString (hostText (m_address i))) [])))"

definition toJson_config :: "(host \<Rightarrow> qstring) \<Rightarrow> iconfig \<Rightarrow> obj" where
  "toJson_config hostText c =
     (let ins = (\<lambda>k v j. insert_key (lit k) v j); str = (\<lambda>s. JString s); strs = (\<lambda>xs. JArray (map JString xs));
          j = ins ''hopType'' (str (hop_key (m_hopType c))) [];
          j = ins ''privateKey'' (str (m_privateKey c)) j;
          j = ins ''deviceIpv4Address'' (str (content (m_deviceIpv4Address c))) j;
          j = ins ''deviceIpv6Address'' (str (content (m_deviceIpv6Address c))) j;
          j = ins ''serverPublicKey'' (str (m_serverPublicKey c)) j;
          j = ins ''serverPskKey'' (str (content (m_serverPskKey c))) j;
          j = ins ''serverIpv4AddrIn'' (str (content (m_serverIpv4AddrIn c))) j;
          j = ins ''serverIpv6AddrIn'' (str (content (m_serverIpv6AddrIn c))) j;
          j = ins ''serverPort'' (JDouble (of_int (m_serverPort c))) j;
          j = ins ''deviceMTU'' (JDouble (of_int (m_deviceMTU c))) j;
          j = (if m_hopType c = MultiHopExit \<or> m_hopType c = SingleHop
               then ins ''secondaryDnsServer'' (str (m_secondaryDnsServer c))
                   (ins ''primaryDnsServer'' (str (m_primaryDnsServer c))
                   (ins ''serverIpv6Gateway'' (str (m_serverIpv6Gateway c))
                   (ins ''serverIpv4Gateway'' (str (m_serverIpv4Gateway c)) j)))
               else j);
          j = ins ''allowedIPAddressRanges'' (JArray (map (range_json hostText) (m_allowedIPAddressRanges c))) j;
          j = ins ''excludedAddresses'' (strs (m_excludedAddresses c)) j;
          j = ins ''allowedDnsServers'' (strs (m_allowedDnsServers c)) j;
          j = ins ''vpnDisabledApps'' (strs (m_vpnDisabledApps c)) j
      in j)"

section \<open>The text for the tunnel program\<close>

definition int_dec :: "int \<Rightarrow> qstring" where
  "int_dec i = (if i < 0 then 45 # dec (nat (- i)) else dec (nat i))"

definition join :: "qstring \<Rightarrow> qstring list \<Rightarrow> qstring" where
  "join sep xs = (case xs of [] \<Rightarrow> [] | y # ys \<Rightarrow> y @ concat (map ((@) sep) ys))"

text \<open>The setting of a key, a line of its own.\<close>

definition setting :: "qstring \<Rightarrow> qstring \<Rightarrow> qstring" where
  "setting k v = k @ lit '' = '' @ v @ [10]"

definition ip_text :: "(host \<Rightarrow> qstring) \<Rightarrow> ipaddr \<Rightarrow> qstring" where
  "ip_text hostText i = hostText (m_address i) @ lit ''/'' @ int_dec (m_prefixLength i)"

definition option_list :: "'a option \<Rightarrow> 'a list" where
  "option_list x = (case x of None \<Rightarrow> [] | Some y \<Rightarrow> [y])"

definition validated :: "iconfig \<Rightarrow> qstring list" where
  "validated c = [m_privateKey c, content (m_deviceIpv4Address c), content (m_deviceIpv6Address c),
     m_serverIpv4Gateway c, m_serverIpv6Gateway c, m_serverPublicKey c,
     content (m_serverIpv4AddrIn c), content (m_serverIpv6AddrIn c)]"

text \<open>The name servers, written only if the first one is set.\<close>

definition dns_servers :: "iconfig \<Rightarrow> qstring list" where
  "dns_servers c = [m_primaryDnsServer c]
     @ (if m_secondaryDnsServer c \<noteq> [] then [m_secondaryDnsServer c] else [])
     @ (if m_primaryDnsServer c = m_serverIpv4Gateway c then [m_serverIpv6Gateway c] else [])"

text \<open>The parameters of the obfuscation, each written if it is not null.\<close>

definition junk_settings :: "iconfig \<Rightarrow> (qstring \<times> qstring) list" where
  "junk_settings c = concat (map (\<lambda>(k, v). map (Pair (lit k)) (option_list v))
     [(''Jc'', m_junkPacketCount c), (''JMin'', m_junkPacketMinSize c), (''JMax'', m_junkPacketMaxSize c),
      (''S1'', m_initPacketJunkSize c), (''S2'', m_responsePacketJunkSize c),
      (''S3'', m_cookieReplyPacketJunkSize c), (''S4'', m_transportPacketJunkSize c),
      (''H1'', m_initPacketMagicHeader c), (''H2'', m_responsePacketMagicHeader c),
      (''H3'', m_underloadPacketMagicHeader c), (''H4'', m_transportPacketMagicHeader c)])"

definition toWgConf :: "(host \<Rightarrow> qstring) \<Rightarrow> (qstring \<times> qstring) list \<Rightarrow> iconfig \<Rightarrow> qstring" where
  "toWgConf hostText extra c =
     (let addresses = option_list (m_deviceIpv4Address c) @ option_list (m_deviceIpv6Address c)
      in if list_ex (\<lambda>x. 10 \<in> set x) (validated c) \<or> addresses = [] then []
         else lit ''[Interface]'' @ [10]
            @ setting (lit ''PrivateKey'') (m_privateKey c)
            @ setting (lit ''Address'') (join (lit '', '') addresses)
            @ (if m_deviceMTU c \<noteq> 0 then setting (lit ''MTU'') (int_dec (m_deviceMTU c)) else [])
            @ (if m_primaryDnsServer c \<noteq> [] then setting (lit ''DNS'') (join (lit '', '') (dns_servers c)) else [])
            @ concat (map (\<lambda>(k, v). setting k v) (junk_settings c))
            @ concat (map (\<lambda>(k, v). setting k v) (m_specialJunk c))
            @ concat (map (\<lambda>(k, v). setting k v) extra)
            @ [10] @ lit ''[Peer]'' @ [10]
            @ setting (lit ''PublicKey'') (m_serverPublicKey c)
            @ setting (lit ''Endpoint'') (content (m_serverIpv4AddrIn c) @ lit '':'' @ int_dec (m_serverPort c))
            @ setting (lit ''AllowedIPs'') (join (lit '', '') (map (ip_text hostText) (m_allowedIPAddressRanges c))))"

end
