(* ===== verification/Daemon_Request.thy ===== *)
theory Daemon_Request
  imports Interface_Config "HOL-Library.Monad_Syntax"
begin

text \<open>
  Reading the JSON object of an activation request, \<open>Daemon::parseConfig\<close> and
  \<open>Daemon::parseStringList\<close> of client/daemon/daemon.cpp.  A request that is refused gives \<open>None\<close>; the
  configuration the function fills is a fresh one.
\<close>

section \<open>Parameters\<close>

text \<open>
  The framework's conversions of text to an address, to an integer and to a name of the enumeration,
  the order that \<open>std::sort\<close> leaves the ranges in, whether the service runs on Windows, and the value
  of an integer read from a number that does not fit one.
\<close>

record parse_env =
  pf_parseHost :: "qstring \<Rightarrow> host"
  pf_toInt :: "qstring \<Rightarrow> int"
  pf_hopKey :: "qstring \<Rightarrow> hop option"
  pf_sortRanges :: "ipaddr list \<Rightarrow> ipaddr list"
  pf_windows :: bool
  pf_wide :: "rat \<Rightarrow> int"

section \<open>Parts of a request\<close>

definition double_at :: "obj \<Rightarrow> qstring \<Rightarrow> rat option" where
  "double_at j k = (case map_of j k of Some (JDouble r) \<Rightarrow> Some r | _ \<Rightarrow> None)"

text \<open>A number stored in an integer loses its fraction.\<close>

definition double_to_int :: "'e parse_env_scheme \<Rightarrow> rat \<Rightarrow> int" where
  "double_to_int E r =
     (let i = (if r < 0 then \<lceil>r\<rceil> else \<lfloor>r\<rfloor>)
      in if - (2 ^ 31) \<le> i \<and> i < 2 ^ 31 then i else pf_wide E r)"

fun json_string :: "json \<Rightarrow> qstring option" where
  "json_string (JString s) = Some s"
| "json_string _ = None"

definition parseStringList :: "obj \<Rightarrow> qstring \<Rightarrow> qstring list option" where
  "parseStringList j k =
     (case map_of j k of
        None \<Rightarrow> Some []
      | Some (JArray xs) \<Rightarrow> those (map json_string xs)
      | Some _ \<Rightarrow> None)"

definition parseMTU :: "'e parse_env_scheme \<Rightarrow> obj \<Rightarrow> int" where
  "parseMTU E j =
     (let mtu = pf_toInt E (content (string_at j (lit ''deviceMTU'')))
      in if \<not> has_key j (lit ''deviceMTU'') \<or> mtu = 0 then 1420
         else if pf_windows E \<and> mtu < 1280 then 1280 else mtu)"

definition parseDns :: "obj \<Rightarrow> qstring \<Rightarrow> qstring option" where
  "parseDns j k = (case map_of j k of None \<Rightarrow> Some [] | Some v \<Rightarrow> json_string v)"

definition parseHop :: "'e parse_env_scheme \<Rightarrow> obj \<Rightarrow> hop option" where
  "parseHop E j =
     (case map_of j (lit ''hopType'') of
        None \<Rightarrow> Some SingleHop
      | Some v \<Rightarrow> Option.bind (json_string v) (pf_hopKey E))"

definition parseRange :: "'e parse_env_scheme \<Rightarrow> json \<Rightarrow> ipaddr option" where
  "parseRange E v =
     (case v of
        JObject ob \<Rightarrow>
          (case (map_of ob (lit ''address''), map_of ob (lit ''range''), map_of ob (lit ''isIpv6'')) of
             (Some (JString a), Some (JDouble r), Some (JBool _)) \<Rightarrow> Some (mk_ip (pf_parseHost E a) (as_int (JDouble r)))
           | _ \<Rightarrow> None)
      | _ \<Rightarrow> None)"

definition parseRanges :: "'e parse_env_scheme \<Rightarrow> obj \<Rightarrow> ipaddr list option" where
  "parseRanges E j =
     (case map_of j (lit ''allowedIPAddressRanges'') of
        Some (JArray xs) \<Rightarrow> map_option (pf_sortRanges E) (those (map (parseRange E) xs))
      | _ \<Rightarrow> None)"

text \<open>The truth of a text: not empty, 0 or false.\<close>

definition ascii_lower :: "qstring \<Rightarrow> qstring" where
  "ascii_lower s = map (\<lambda>c. if 65 \<le> c \<and> c \<le> 90 then c + 32 else c) s"

definition variant_bool :: "qstring \<Rightarrow> bool" where
  "variant_bool s \<longleftrightarrow> ascii_lower s \<notin> {[], lit ''0'', lit ''false''}"

text \<open>An obfuscation parameter is set unless the value is null; an absent value is not null.\<close>

definition parseJunk :: "obj \<Rightarrow> string \<Rightarrow> qstr" where
  "parseJunk j k = (if is_null_at j (lit k) then None else string_at j (lit k))"

definition parseSpecialJunk :: "obj \<Rightarrow> (qstring \<times> qstring) list" where
  "parseSpecialJunk j =
     concat (map (\<lambda>k. if is_null_at j (lit k) then [] else [(lit k, content (string_at j (lit k)))])
       [''I1'', ''I2'', ''I3'', ''I4'', ''I5''])"

section \<open>The request\<close>

definition require :: "bool \<Rightarrow> unit option" where
  "require b = (if b then Some () else None)"

text \<open>The members, given the values that may be refused; the others are read from the object.\<close>

definition fill_config :: "'e parse_env_scheme \<Rightarrow> obj \<Rightarrow> qstring \<Rightarrow> qstring \<Rightarrow> rat \<Rightarrow> qstring \<Rightarrow> qstring \<Rightarrow> hop
    \<Rightarrow> ipaddr list \<Rightarrow> qstring list \<Rightarrow> qstring list \<Rightarrow> qstring list \<Rightarrow> iconfig" where
  "fill_config E j privateKey serverPublicKey serverPort primaryDns secondaryDns hopType ranges excluded disabledApps allowedDns =
     \<lparr>m_hopType = hopType, m_privateKey = privateKey,
       m_deviceIpv4Address = string_at j (lit ''deviceIpv4Address''),
       m_deviceIpv6Address = string_at j (lit ''deviceIpv6Address''),
       m_serverIpv4Gateway = content (string_at j (lit ''serverIpv4Gateway'')),
       m_serverIpv6Gateway = content (string_at j (lit ''serverIpv6Gateway'')),
       m_serverPublicKey = serverPublicKey,
       m_serverIpv4AddrIn = string_at j (lit ''serverIpv4AddrIn''),
       m_serverPskKey = string_at j (lit ''serverPskKey''),
       m_serverIpv6AddrIn = string_at j (lit ''serverIpv6AddrIn''),
       m_primaryDnsServer = primaryDns, m_secondaryDnsServer = secondaryDns,
       m_serverPort = double_to_int E serverPort, m_deviceMTU = parseMTU E j,
       m_allowedIPAddressRanges = ranges, m_excludedAddresses = excluded,
       m_vpnDisabledApps = disabledApps, m_allowedDnsServers = allowedDns,
       m_killSwitchEnabled = variant_bool (content (string_at j (lit ''killSwitchOption''))),
       m_junkPacketCount = parseJunk j ''Jc'', m_junkPacketMinSize = parseJunk j ''Jmin'',
       m_junkPacketMaxSize = parseJunk j ''Jmax'', m_initPacketJunkSize = parseJunk j ''S1'',
       m_responsePacketJunkSize = parseJunk j ''S2'', m_cookieReplyPacketJunkSize = parseJunk j ''S3'',
       m_transportPacketJunkSize = parseJunk j ''S4'', m_initPacketMagicHeader = parseJunk j ''H1'',
       m_responsePacketMagicHeader = parseJunk j ''H2'', m_underloadPacketMagicHeader = parseJunk j ''H3'',
       m_transportPacketMagicHeader = parseJunk j ''H4'', m_specialJunk = parseSpecialJunk j\<rparr>"

definition parseConfig :: "'e parse_env_scheme \<Rightarrow> obj \<Rightarrow> iconfig option" where
  "parseConfig E j = do {
     privateKey \<leftarrow> string_at j (lit ''privateKey'');
     serverPublicKey \<leftarrow> string_at j (lit ''serverPublicKey'');
     serverPort \<leftarrow> double_at j (lit ''serverPort'');
     require (string_at j (lit ''deviceIpv4Address'') \<noteq> None \<or> string_at j (lit ''deviceIpv6Address'') \<noteq> None);
     require (string_at j (lit ''serverIpv4AddrIn'') \<noteq> None \<or> string_at j (lit ''serverIpv6AddrIn'') \<noteq> None);
     primaryDns \<leftarrow> parseDns j (lit ''primaryDnsServer'');
     secondaryDns \<leftarrow> parseDns j (lit ''secondaryDnsServer'');
     hopType \<leftarrow> parseHop E j;
     ranges \<leftarrow> parseRanges E j;
     excluded \<leftarrow> parseStringList j (lit ''excludedAddresses'');
     disabledApps \<leftarrow> parseStringList j (lit ''vpnDisabledApps'');
     allowedDns \<leftarrow> parseStringList j (lit ''allowedDnsServers'');
     Some (fill_config E j privateKey serverPublicKey serverPort primaryDns secondaryDns hopType ranges
             excluded disabledApps allowedDns)
   }"

section \<open>Accepted requests\<close>

lemma require_Some: "require b = Some u \<longleftrightarrow> b"
  by (simp add: require_def)

lemma parseConfig_Some:
  "parseConfig E j = Some config \<longleftrightarrow>
     (\<exists>pk spk port dns1 dns2 hp ranges excl apps allowed.
       string_at j (lit ''privateKey'') = Some pk \<and> string_at j (lit ''serverPublicKey'') = Some spk
       \<and> double_at j (lit ''serverPort'') = Some port
       \<and> (string_at j (lit ''deviceIpv4Address'') \<noteq> None \<or> string_at j (lit ''deviceIpv6Address'') \<noteq> None)
       \<and> (string_at j (lit ''serverIpv4AddrIn'') \<noteq> None \<or> string_at j (lit ''serverIpv6AddrIn'') \<noteq> None)
       \<and> parseDns j (lit ''primaryDnsServer'') = Some dns1 \<and> parseDns j (lit ''secondaryDnsServer'') = Some dns2
       \<and> parseHop E j = Some hp \<and> parseRanges E j = Some ranges
       \<and> parseStringList j (lit ''excludedAddresses'') = Some excl
       \<and> parseStringList j (lit ''vpnDisabledApps'') = Some apps
       \<and> parseStringList j (lit ''allowedDnsServers'') = Some allowed
       \<and> config = fill_config E j pk spk port dns1 dns2 hp ranges excl apps allowed)"
  unfolding parseConfig_def by (simp only: bind_eq_Some_conv option.inject require_Some) blast

end
