(* ===== verification/Daemon.thy ===== *)
theory Daemon
  imports Daemon_Request
begin

text \<open>
  The service that brings the tunnel up and down, client/daemon/daemon.cpp: activation, server
  switching, deactivation, the reference-counted exclusion routes and the handshake check.  The
  classes that change the system (interface, peers, routes, resolvers) are virtual in the code and
  differ between platforms; they are the parameter \<open>'w platform\<close>, and every call made on them is
  recorded with its answer.
\<close>

section \<open>Configurations and state\<close>

datatype op = Up | Down | Switch

datatype dsignal = Connected qstring | ActivationFailure | Disconnected

datatype syscall =
    PrepareActivation iconfig | AddInterface iconfig | DeleteInterface
  | AddInterfaceIPs iconfig | SetMTUAndUp iconfig
  | UpdatePeer iconfig | DeletePeer iconfig
  | UpdateRoutePrefix ipaddr | DeleteRoutePrefix ipaddr
  | AddExclusionRoute ipaddr | DeleteExclusionRoute ipaddr
  | UpdateResolvers "host list" | RestoreResolvers
  | Run op iconfig | Emit dsignal

record peer =
  m_pubkey :: qstring
  m_handshake :: int
  m_rxBytes :: int
  m_txBytes :: int

record 'w platform = parse_env +
  pf_call :: "syscall \<Rightarrow> 'w \<Rightarrow> bool \<times> 'w"
  pf_interfaceExists :: "'w \<Rightarrow> bool"
  pf_peers :: "'w \<Rightarrow> peer list"
  pf_supportIPUtils :: bool
  pf_parseSubnet :: "qstring \<Rightarrow> host \<times> int"

text \<open>\<open>m_date\<close> is the time of the handshake, \<open>None\<close> while it is not valid.\<close>

record conn =
  m_date :: "int option"
  m_config :: iconfig

text \<open>
  The members, whether the handshake timer runs, the world behind the platform classes and the calls
  made.  The hash of the excluded prefixes is a list in some order.
\<close>

record 'w daemon =
  m_connections :: "hop \<Rightarrow> conn option"
  m_excludedAddrSet :: "(ipaddr \<times> int) list"
  m_handshakeTimer :: bool
  world :: 'w
  calls :: "(syscall \<times> bool) list"

definition connectionState :: "iconfig \<Rightarrow> conn" where
  "connectionState config = \<lparr>m_date = None, m_config = config\<rparr>"

text \<open>The connections in the order of their keys.\<close>

definition hops :: "hop list" where
  "hops = [SingleHop, MultiHopEntry, MultiHopExit]"

definition connections :: "'w daemon \<Rightarrow> conn list" where
  "connections d = List.map_filter (m_connections d) hops"

definition perform :: "'w platform \<Rightarrow> syscall \<Rightarrow> 'w daemon \<Rightarrow> bool \<times> 'w daemon" where
  "perform E c d = (case pf_call E c (world d) of
     (b, w) \<Rightarrow> (b, d\<lparr>world := w, calls := calls d @ [(c, b)]\<rparr>))"

definition emitd :: "dsignal \<Rightarrow> 'w daemon \<Rightarrow> 'w daemon" where
  "emitd s d = d\<lparr>calls := calls d @ [(Emit s, True)]\<rparr>"

text \<open>Go on only after success, and a loop that ignores the answers.\<close>

definition andThen :: "('d \<Rightarrow> bool \<times> 'd) \<Rightarrow> ('d \<Rightarrow> bool \<times> 'd) \<Rightarrow> 'd \<Rightarrow> bool \<times> 'd" where
  "andThen f g d = (case f d of (b, d1) \<Rightarrow> if b then g d1 else (False, d1))"

fun each :: "('x \<Rightarrow> 'd \<Rightarrow> bool \<times> 'd) \<Rightarrow> 'x list \<Rightarrow> 'd \<Rightarrow> 'd" where
  "each f [] d = d"
| "each f (x # xs) d = each f xs (snd (f x d))"

text \<open>A loop that stops at the first failure.\<close>

fun until_failure :: "('x \<Rightarrow> 'd \<Rightarrow> bool \<times> 'd) \<Rightarrow> 'x list \<Rightarrow> 'd \<Rightarrow> bool \<times> 'd" where
  "until_failure f [] d = (True, d)"
| "until_failure f (x # xs) d = andThen (f x) (until_failure f xs) d"

section \<open>Exclusion routes\<close>

definition addExclusionRoute :: "'w platform \<Rightarrow> ipaddr \<Rightarrow> 'w daemon \<Rightarrow> bool \<times> 'w daemon" where
  "addExclusionRoute E p d =
     (case map_of (m_excludedAddrSet d) p of
        Some n \<Rightarrow> (True, d\<lparr>m_excludedAddrSet := AList.update p (n + 1) (m_excludedAddrSet d)\<rparr>)
      | None \<Rightarrow>
          (case perform E (AddExclusionRoute p) d of
             (b, d1) \<Rightarrow> if b then (True, d1\<lparr>m_excludedAddrSet := AList.update p 1 (m_excludedAddrSet d1)\<rparr>)
                        else (False, d1)))"

text \<open>Reading a prefix that is not in the hash gives 0.\<close>

definition delExclusionRoute :: "'w platform \<Rightarrow> ipaddr \<Rightarrow> 'w daemon \<Rightarrow> bool \<times> 'w daemon" where
  "delExclusionRoute E p d =
     (let n = (case map_of (m_excludedAddrSet d) p of None \<Rightarrow> 0 | Some n \<Rightarrow> n)
      in if n > 1 then (True, d\<lparr>m_excludedAddrSet := AList.update p (n - 1) (m_excludedAddrSet d)\<rparr>)
         else perform E (DeleteExclusionRoute p)
                (d\<lparr>m_excludedAddrSet := AList.delete p (m_excludedAddrSet d)\<rparr>))"

definition prefix_of_text :: "'w platform \<Rightarrow> qstring \<Rightarrow> ipaddr" where
  "prefix_of_text E i = ip_of_string (pf_parseSubnet E) (pf_parseHost E) i"

definition addExclusions :: "'w platform \<Rightarrow> iconfig \<Rightarrow> 'w daemon \<Rightarrow> 'w daemon" where
  "addExclusions E config d =
     each (\<lambda>i. addExclusionRoute E (prefix_of_text E i)) (m_excludedAddresses config) d"

section \<open>Activation\<close>

definition maybeUpdateResolvers :: "'w platform \<Rightarrow> iconfig \<Rightarrow> 'w daemon \<Rightarrow> bool \<times> 'w daemon" where
  "maybeUpdateResolvers E config d =
     (if m_hopType config = MultiHopExit \<or> m_hopType config = SingleHop
      then let resolvers =
             [pf_parseHost E (m_primaryDnsServer config)]
             @ (if m_secondaryDnsServer config \<noteq> [] then [pf_parseHost E (m_secondaryDnsServer config)] else [])
             @ (if m_primaryDnsServer config = m_serverIpv4Gateway config
                then [pf_parseHost E (m_serverIpv6Gateway config)] else [])
           in perform E (UpdateResolvers resolvers) d
      else (True, d))"

definition registerConnection :: "iconfig \<Rightarrow> 'w daemon \<Rightarrow> bool \<times> 'w daemon" where
  "registerConnection config d =
     (True, d\<lparr>m_connections := (m_connections d)(m_hopType config \<mapsto> connectionState config),
              m_handshakeTimer := True\<rparr>)"

text \<open>The activation while the connection does not exist.\<close>

definition bringUp :: "'w platform \<Rightarrow> iconfig \<Rightarrow> 'w daemon \<Rightarrow> bool \<times> 'w daemon" where
  "bringUp E config d =
     (let d1 = snd (perform E (PrepareActivation config) d)
      in andThen (\<lambda>d. if \<not> pf_interfaceExists E (world d) then perform E (AddInterface config) d else (True, d))
         (andThen (\<lambda>d. if pf_supportIPUtils E
                       then andThen (perform E (AddInterfaceIPs config)) (perform E (SetMTUAndUp config)) d
                       else (True, d))
         (andThen (\<lambda>d. perform E (UpdatePeer config) (addExclusions E config d))
         (andThen (maybeUpdateResolvers E config)
         (andThen (until_failure (\<lambda>ip. perform E (UpdateRoutePrefix ip)) (m_allowedIPAddressRanges config))
         (andThen (perform E (Run Up config))
           (registerConnection config)))))) d1)"

definition supportServerSwitching :: "iconfig \<Rightarrow> 'w daemon \<Rightarrow> bool" where
  "supportServerSwitching config d =
     (case m_connections d (m_hopType config) of
        None \<Rightarrow> False
      | Some c \<Rightarrow>
          let current = m_config c
          in m_privateKey current = m_privateKey config
             \<and> content (m_deviceIpv4Address current) = content (m_deviceIpv4Address config)
             \<and> content (m_deviceIpv6Address current) = content (m_deviceIpv6Address config)
             \<and> m_serverIpv4Gateway current = m_serverIpv4Gateway config
             \<and> m_serverIpv6Gateway current = m_serverIpv6Gateway config)"

text \<open>
  Replacing the server of a connection whose configuration was \<open>old\<close>.  The exclusions of the new
  configuration are read as prefixes, those of the old one as plain addresses.
\<close>

definition switch_from :: "'w platform \<Rightarrow> iconfig \<Rightarrow> iconfig \<Rightarrow> 'w daemon \<Rightarrow> bool \<times> 'w daemon" where
  "switch_from E old config d =
     andThen (\<lambda>d. perform E (UpdatePeer config) (addExclusions E config d))
     (\<lambda>d. let d1 = snd (until_failure (\<lambda>ip. perform E (UpdateRoutePrefix ip)) (m_allowedIPAddressRanges config) d);
              d2 = each (\<lambda>i. delExclusionRoute E (ip_of_host (pf_parseHost E i))) (m_excludedAddresses old) d1;
              d3 = each (\<lambda>ip. perform E (DeleteRoutePrefix ip))
                     (filter (\<lambda>ip. ip \<notin> set (m_allowedIPAddressRanges config)) (m_allowedIPAddressRanges old)) d2
          in andThen (\<lambda>d. if m_serverPublicKey config \<noteq> m_serverPublicKey old
                          then perform E (DeletePeer old) d else (True, d))
               (\<lambda>d. (True, d\<lparr>m_connections := (m_connections d)(m_hopType config \<mapsto> connectionState config)\<rparr>)) d3) d"

definition switchServer :: "'w platform \<Rightarrow> iconfig \<Rightarrow> 'w daemon \<Rightarrow> bool \<times> 'w daemon" where
  "switchServer E config d =
     (case m_connections d (m_hopType config) of
        None \<Rightarrow> (False, d)
      | Some c \<Rightarrow> switch_from E (m_config c) config d)"

section \<open>Deactivation\<close>

definition removeConnection :: "'w platform \<Rightarrow> conn \<Rightarrow> 'w daemon \<Rightarrow> bool \<times> 'w daemon" where
  "removeConnection E c d =
     perform E (DeletePeer (m_config c))
       (each (\<lambda>ip. perform E (DeleteRoutePrefix ip)) (m_allowedIPAddressRanges (m_config c)) d)"

definition tearDown :: "'w platform \<Rightarrow> bool \<Rightarrow> 'w daemon \<Rightarrow> bool \<times> 'w daemon" where
  "tearDown E emitSignals d =
     (let d1 = (if emitSignals then emitd Disconnected d else d);
          d2 = snd (perform E RestoreResolvers d1);
          d3 = each (removeConnection E) (connections d2) d2;
          d4 = each (\<lambda>(p, n). perform E (DeleteExclusionRoute p)) (m_excludedAddrSet d3) d3
      in perform E DeleteInterface (d4\<lparr>m_excludedAddrSet := [], m_connections := Map.empty\<rparr>))"

definition deactivate :: "'w platform \<Rightarrow> bool \<Rightarrow> 'w daemon \<Rightarrow> bool \<times> 'w daemon" where
  "deactivate E emitSignals d =
     andThen (\<lambda>d. case connections d of
                    [] \<Rightarrow> (True, d)
                  | c # _ \<Rightarrow> perform E (Run Down (m_config c)) d)
       (tearDown E emitSignals) d"

section \<open>The entry point\<close>

text \<open>A failed activation emits the failure signal when it returns.\<close>

definition guarded :: "('w daemon \<Rightarrow> bool \<times> 'w daemon) \<Rightarrow> 'w daemon \<Rightarrow> bool \<times> 'w daemon" where
  "guarded f d = (case f d of (b, d1) \<Rightarrow> if b then (True, d1) else (False, emitd ActivationFailure d1))"

definition switchOver :: "'w platform \<Rightarrow> iconfig \<Rightarrow> 'w daemon \<Rightarrow> bool \<times> 'w daemon" where
  "switchOver E config =
     andThen (switchServer E config)
     (andThen (perform E RestoreResolvers)
     (andThen (maybeUpdateResolvers E config)
     (andThen (perform E (Run Switch config))
       (registerConnection config))))"

text \<open>
  The recursive call after a deactivation finds no connection, because deactivation clears them all.
\<close>

definition activate :: "'w platform \<Rightarrow> iconfig \<Rightarrow> 'w daemon \<Rightarrow> bool \<times> 'w daemon" where
  "activate E config =
     guarded (\<lambda>d.
       if m_connections d (m_hopType config) \<noteq> None
       then if supportServerSwitching config d then switchOver E config d
            else andThen (deactivate E False) (guarded (bringUp E config)) d
       else bringUp E config d)"

section \<open>Handshakes and status\<close>

text \<open>The inner loop over the peers, for a connection without a date.\<close>

fun match_peers :: "peer list \<Rightarrow> conn \<Rightarrow> 'w daemon \<Rightarrow> conn \<times> 'w daemon" where
  "match_peers [] c d = (c, d)"
| "match_peers (p # ps) c d =
     (if m_serverPublicKey (m_config c) = m_pubkey p \<and> m_handshake p \<noteq> 0
      then match_peers ps (c\<lparr>m_date := Some (m_handshake p)\<rparr>) (emitd (Connected (m_pubkey p)) d)
      else match_peers ps c d)"

fun check_hops :: "peer list \<Rightarrow> hop list \<Rightarrow> nat \<Rightarrow> 'w daemon \<Rightarrow> nat \<times> 'w daemon" where
  "check_hops peers [] pending d = (pending, d)"
| "check_hops peers (h # hs) pending d =
     (case m_connections d h of
        None \<Rightarrow> check_hops peers hs pending d
      | Some c \<Rightarrow>
          if m_date c \<noteq> None then check_hops peers hs pending d
          else case match_peers peers c d of
                 (c1, d1) \<Rightarrow> check_hops peers hs (if m_date c1 = None then Suc pending else pending)
                              (d1\<lparr>m_connections := (m_connections d1)(h \<mapsto> c1)\<rparr>))"

definition checkHandshake :: "'w platform \<Rightarrow> 'w daemon \<Rightarrow> 'w daemon" where
  "checkHandshake E d =
     (case check_hops (pf_peers E (world d)) hops 0 (d\<lparr>m_handshakeTimer := False\<rparr>) of
        (pending, d1) \<Rightarrow> if pending > 0 then d1\<lparr>m_handshakeTimer := True\<rparr> else d1)"

datatype status = NotConnected | ConnectedTo qstring qstring "int option" int int

definition getStatus :: "'w platform \<Rightarrow> 'w daemon \<Rightarrow> status" where
  "getStatus E d =
     (if \<not> pf_interfaceExists E (world d) then NotConnected
      else case connections d of
             [] \<Rightarrow> NotConnected
           | c # _ \<Rightarrow>
               (case find (\<lambda>p. m_pubkey p = m_serverPublicKey (m_config c)) (pf_peers E (world d)) of
                  None \<Rightarrow> NotConnected
                | Some p \<Rightarrow> ConnectedTo (m_serverIpv4Gateway (m_config c)) (content (m_deviceIpv4Address (m_config c)))
                             (m_date c) (m_txBytes p) (m_rxBytes p)))"

end
