(* ===== verification/Daemon_Facts.thy ===== *)
theory Daemon_Facts
  imports Daemon
begin

text \<open>
  The properties of the service: the reference counts of the exclusion routes agree with the routes
  the platform was asked for, deactivation removes everything, an activation either registers the
  connection or ends with the failure signal, server switching balances the counts of plain
  addresses but never releases a subnet, and the handshake check polls as long as needed.
\<close>

section \<open>The exclusion routes in place\<close>

text \<open>The routes after the recorded calls: successfully added and not asked to be deleted since.\<close>

fun route_step :: "ipaddr set \<Rightarrow> syscall \<times> bool \<Rightarrow> ipaddr set" where
  "route_step S (AddExclusionRoute p, b) = (if b then insert p S else S)"
| "route_step S (DeleteExclusionRoute p, b) = S - {p}"
| "route_step S _ = S"

definition routes :: "(syscall \<times> bool) list \<Rightarrow> ipaddr set" where
  "routes cs = foldl route_step {} cs"

lemma routes_Nil [simp]: "routes [] = {}"
  by (simp add: routes_def)

lemma routes_snoc [simp]: "routes (cs @ [c]) = route_step (routes cs) c"
  by (simp add: routes_def)

text \<open>No prefix is counted twice, counts are positive, and exactly the counted prefixes have a route.\<close>

definition counts :: "'w daemon \<Rightarrow> ipaddr \<Rightarrow> int option" where
  "counts d = map_of (m_excludedAddrSet d)"

definition excl_ok :: "'w daemon \<Rightarrow> bool" where
  "excl_ok d \<longleftrightarrow> distinct (map fst (m_excludedAddrSet d))
     \<and> (\<forall>p n. counts d p = Some n \<longrightarrow> 1 \<le> n) \<and> dom (counts d) = routes (calls d)"

lemma counts_update [simp]:
  "counts (d\<lparr>m_excludedAddrSet := AList.update p n (m_excludedAddrSet e)\<rparr>) = (counts e)(p \<mapsto> n)"
  "counts (d\<lparr>m_excludedAddrSet := AList.delete p (m_excludedAddrSet e)\<rparr>) = (counts e)(p := None)"
  "counts (d\<lparr>m_excludedAddrSet := []\<rparr>) = Map.empty"
  by (simp_all add: counts_def update_conv' delete_conv')

lemma counts_cong [simp]:
  "counts (d\<lparr>m_connections := f\<rparr>) = counts d" "counts (d\<lparr>m_handshakeTimer := b\<rparr>) = counts d"
  "counts (d\<lparr>calls := cs\<rparr>) = counts d"
  by (simp_all add: counts_def)

definition preserves :: "('d \<Rightarrow> bool) \<Rightarrow> ('d \<Rightarrow> bool \<times> 'd) \<Rightarrow> bool" where
  "preserves P f \<longleftrightarrow> (\<forall>d. P d \<longrightarrow> P (snd (f d)))"

named_theorems preserves_intros \<open>closure of \<open>preserves\<close>\<close>

lemma preserves_andThen [preserves_intros]: "preserves P f \<Longrightarrow> preserves P g \<Longrightarrow> preserves P (andThen f g)"
  by (force simp: preserves_def andThen_def split: prod.splits)

lemma preserves_until_failure [preserves_intros]:
  "(\<And>x. preserves P (f x)) \<Longrightarrow> preserves P (until_failure f xs)"
proof (induction xs)
  case Nil
  then show ?case by (simp add: preserves_def)
next
  case (Cons x xs)
  have "until_failure f (x # xs) = andThen (f x) (until_failure f xs)" by auto
  with Cons show ?case by (simp add: preserves_andThen)
qed

lemma each_preserves: "(\<And>x. x \<in> set xs \<Longrightarrow> preserves P (f x)) \<Longrightarrow> P d \<Longrightarrow> P (each f xs d)"
  by (induction xs arbitrary: d) (auto simp: preserves_def)

lemma preserves_if [preserves_intros]:
  "(b \<Longrightarrow> preserves P f) \<Longrightarrow> (\<not> b \<Longrightarrow> preserves P g) \<Longrightarrow> preserves P (if b then f else g)"
  "(\<And>d. b' d \<Longrightarrow> P d \<Longrightarrow> P (snd (f d))) \<Longrightarrow> (\<And>d. \<not> b' d \<Longrightarrow> P d \<Longrightarrow> P (snd (g d))) \<Longrightarrow>
     preserves P (\<lambda>d. if b' d then f d else g d)"
  by (auto simp: preserves_def)

lemma preservesD: "preserves P f \<Longrightarrow> P d \<Longrightarrow> P (snd (f d))"
  by (simp add: preserves_def)

text \<open>A call that does not concern the exclusion routes.\<close>

fun other_call :: "syscall \<Rightarrow> bool" where
  "other_call (AddExclusionRoute p) = False"
| "other_call (DeleteExclusionRoute p) = False"
| "other_call _ = True"

lemma route_step_other: "other_call c \<Longrightarrow> route_step S (c, b) = S"
  by (cases c) auto

lemma perform_fields [simp]:
  "m_excludedAddrSet (snd (perform E c d)) = m_excludedAddrSet d"
  "m_connections (snd (perform E c d)) = m_connections d"
  "m_handshakeTimer (snd (perform E c d)) = m_handshakeTimer d"
  "calls (snd (perform E c d)) = calls d @ [(c, fst (perform E c d))]"
  "counts (snd (perform E c d)) = counts d"
  by (simp_all add: perform_def counts_def split: prod.splits)

lemma perform_other [preserves_intros]: "other_call c \<Longrightarrow> preserves excl_ok (perform E c)"
  by (simp add: preserves_def excl_ok_def route_step_other)

lemma perform_ok: "other_call c \<Longrightarrow> excl_ok d \<Longrightarrow> excl_ok (snd (perform E c d))"
  using perform_other [of c E] by (simp add: preserves_def)

lemmas each_ok = each_preserves [where P = excl_ok]

lemma emitd_ok: "excl_ok (emitd s d) = excl_ok d"
  by (simp add: excl_ok_def emitd_def)

lemmas addExclusionRoute_counts = addExclusionRoute_def [folded counts_def]
lemmas delExclusionRoute_counts = delExclusionRoute_def [folded counts_def]

lemma add_preserves [preserves_intros]: "preserves excl_ok (addExclusionRoute E p)"
  unfolding preserves_def
proof (intro allI impI)
  fix d :: "'a daemon"
  assume ok: "excl_ok d"
  show "excl_ok (snd (addExclusionRoute E p d))"
  proof (cases "counts d p")
    case None
    obtain b d1 where d1: "perform E (AddExclusionRoute p) d = (b, d1)" by fastforce
    then have "m_excludedAddrSet d1 = m_excludedAddrSet d" "calls d1 = calls d @ [(AddExclusionRoute p, b)]"
      "counts d1 = counts d"
      using perform_fields [of E "AddExclusionRoute p" d] by simp_all
    with ok None d1 show ?thesis
      by (auto simp: addExclusionRoute_counts excl_ok_def distinct_update split: if_splits)
  next
    case (Some n)
    have "p \<in> routes (calls d)" using ok Some by (auto simp: excl_ok_def)
    moreover have "1 \<le> n" using ok Some unfolding excl_ok_def by blast
    then have "0 \<le> n" by simp
    moreover note Some
    ultimately show ?thesis using ok
      by (auto simp: addExclusionRoute_counts excl_ok_def distinct_update split: if_splits)
  qed
qed

lemma del_preserves [preserves_intros]: "preserves excl_ok (delExclusionRoute E p)"
  unfolding preserves_def
proof (intro allI impI)
  fix d :: "'a daemon"
  assume ok: "excl_ok d"
  show "excl_ok (snd (delExclusionRoute E p d))"
  proof (cases "\<exists>n. counts d p = Some n \<and> n > 1")
    case True
    then obtain n where "counts d p = Some n" "n > 1" by blast
    moreover from this have "p \<in> routes (calls d)" using ok by (auto simp: excl_ok_def)
    ultimately show ?thesis using ok
      by (auto simp: delExclusionRoute_counts excl_ok_def distinct_update split: if_splits)
  next
    case False
    then have "delExclusionRoute E p d = perform E (DeleteExclusionRoute p)
        (d\<lparr>m_excludedAddrSet := AList.delete p (m_excludedAddrSet d)\<rparr>)"
      by (auto simp: delExclusionRoute_counts split: option.splits)
    with ok show ?thesis
      by (auto simp: excl_ok_def distinct_delete split: if_splits)
  qed
qed

lemma exclusions_ok: "excl_ok d \<Longrightarrow> excl_ok (addExclusions E config d)"
  unfolding addExclusions_def by (rule each_ok) (rule add_preserves)

lemma resolvers_preserves [preserves_intros]: "preserves excl_ok (maybeUpdateResolvers E config)"
  by (simp add: preserves_def maybeUpdateResolvers_def Let_def perform_ok)

lemma register_preserves [preserves_intros]: "preserves excl_ok (registerConnection config)"
  by (simp add: preserves_def registerConnection_def excl_ok_def)

lemma peer_preserves [preserves_intros]:
  "preserves excl_ok (\<lambda>d. perform E (UpdatePeer config) (addExclusions E config d))"
  by (simp add: preserves_def perform_ok exclusions_ok)

lemma bringUp_preserves [preserves_intros]: "preserves excl_ok (bringUp E config)"
  unfolding preserves_def bringUp_def Let_def
proof (intro allI impI)
  fix d :: "'a daemon"
  assume "excl_ok d"
  then have ok: "excl_ok (snd (perform E (PrepareActivation config) d))" by (simp add: perform_ok)
  show "excl_ok (snd (andThen (\<lambda>d. if \<not> pf_interfaceExists E (world d) then perform E (AddInterface config) d else (True, d))
         (andThen (\<lambda>d. if pf_supportIPUtils E
                       then andThen (perform E (AddInterfaceIPs config)) (perform E (SetMTUAndUp config)) d
                       else (True, d))
         (andThen (\<lambda>d. perform E (UpdatePeer config) (addExclusions E config d))
         (andThen (maybeUpdateResolvers E config)
         (andThen (until_failure (\<lambda>ip. perform E (UpdateRoutePrefix ip)) (m_allowedIPAddressRanges config))
         (andThen (perform E (Run Up config)) (registerConnection config))))))
       (snd (perform E (PrepareActivation config) d))))"
  proof (rule preservesD [where P = excl_ok, OF _ ok], intro preserves_intros)
    fix d :: "'a daemon"
    assume "excl_ok d"
    moreover have "preserves excl_ok (andThen (perform E (AddInterfaceIPs config)) (perform E (SetMTUAndUp config)))"
      by (intro preserves_intros) simp_all
    ultimately show "excl_ok (snd (andThen (perform E (AddInterfaceIPs config)) (perform E (SetMTUAndUp config)) d))"
      by (rule preservesD [where P = excl_ok, rotated])
  qed (simp_all add: perform_ok)
qed

lemma switch_from_preserves: "preserves excl_ok (switch_from E old config)"
proof -
  have "preserves excl_ok (\<lambda>d. let d1 = snd (until_failure (\<lambda>ip. perform E (UpdateRoutePrefix ip)) (m_allowedIPAddressRanges config) d);
              d2 = each (\<lambda>i. delExclusionRoute E (ip_of_host (pf_parseHost E i))) (m_excludedAddresses old) d1;
              d3 = each (\<lambda>ip. perform E (DeleteRoutePrefix ip))
                     (filter (\<lambda>ip. ip \<notin> set (m_allowedIPAddressRanges config)) (m_allowedIPAddressRanges old)) d2
          in andThen (\<lambda>d. if m_serverPublicKey config \<noteq> m_serverPublicKey old
                          then perform E (DeletePeer old) d else (True, d))
               (\<lambda>d. (True, d\<lparr>m_connections := (m_connections d)(m_hopType config \<mapsto> connectionState config)\<rparr>)) d3)"
    unfolding preserves_def Let_def
  proof (intro allI impI)
    fix d :: "'a daemon"
    assume "excl_ok d"
    then have "excl_ok (snd (until_failure (\<lambda>ip. perform E (UpdateRoutePrefix ip)) (m_allowedIPAddressRanges config) d))"
      by (intro preservesD [where P = excl_ok, OF preserves_until_failure] perform_other) simp_all
    then have "excl_ok (each (\<lambda>ip. perform E (DeleteRoutePrefix ip))
        (filter (\<lambda>ip. ip \<notin> set (m_allowedIPAddressRanges config)) (m_allowedIPAddressRanges old))
        (each (\<lambda>i. delExclusionRoute E (ip_of_host (pf_parseHost E i))) (m_excludedAddresses old)
          (snd (until_failure (\<lambda>ip. perform E (UpdateRoutePrefix ip)) (m_allowedIPAddressRanges config) d))))"
      (is "excl_ok ?d")
      by (intro each_ok del_preserves perform_other) simp_all
    then show "excl_ok (snd (andThen (\<lambda>d. if m_serverPublicKey config \<noteq> m_serverPublicKey old
            then perform E (DeletePeer old) d else (True, d))
          (\<lambda>d. (True, d\<lparr>m_connections := (m_connections d)(m_hopType config \<mapsto> connectionState config)\<rparr>)) ?d))"
      by (rule preservesD [where P = excl_ok, rotated]) (intro preserves_intros, auto simp: perform_ok preserves_def excl_ok_def)
  qed
  then show ?thesis unfolding switch_from_def by (intro preserves_intros) simp_all
qed

lemma switchServer_preserves [preserves_intros]: "preserves excl_ok (switchServer E config)"
  using switch_from_preserves by (auto simp: preserves_def switchServer_def split: option.splits)

section \<open>Deactivation\<close>

lemma each_delete_routes:
  "routes (calls (each (\<lambda>(p, n). perform E (DeleteExclusionRoute p)) xs d)) = routes (calls d) - fst ` set xs"
  by (induction xs arbitrary: d) (auto simp: case_prod_unfold)

lemma each_fields:
  assumes "\<And>x d. m_connections (snd (f x d)) = m_connections d \<and> m_excludedAddrSet (snd (f x d)) = m_excludedAddrSet d"
  shows "m_connections (each f xs d) = m_connections d \<and> m_excludedAddrSet (each f xs d) = m_excludedAddrSet d"
  by (induction xs arbitrary: d) (simp_all add: assms)

lemma removeConnection_preserves: "preserves excl_ok (removeConnection E c)"
  unfolding preserves_def removeConnection_def
  by (intro allI impI perform_ok each_ok perform_other) simp_all

lemma tearDown_clean:
  assumes "excl_ok d"
  shows "m_connections (snd (tearDown E s d)) = Map.empty" "m_excludedAddrSet (snd (tearDown E s d)) = []"
    "routes (calls (snd (tearDown E s d))) = {}"
proof -
  define d2 where "d2 = snd (perform E RestoreResolvers (if s then emitd Disconnected d else d))"
  define d3 where "d3 = each (removeConnection E) (connections d2) d2"
  define d4 where "d4 = each (\<lambda>(p, n). perform E (DeleteExclusionRoute p)) (m_excludedAddrSet d3) d3"
  have td: "tearDown E s d = perform E DeleteInterface (d4\<lparr>m_excludedAddrSet := [], m_connections := Map.empty\<rparr>)"
    by (simp add: tearDown_def Let_def d2_def d3_def d4_def)
  have "excl_ok d2" using assms by (simp add: d2_def perform_ok emitd_ok)
  then have "excl_ok d3" unfolding d3_def by (intro each_ok removeConnection_preserves)
  then have "routes (calls d4) = {}"
    unfolding d4_def by (auto simp: each_delete_routes excl_ok_def counts_def dom_map_of_conv_image_fst)
  then show "m_connections (snd (tearDown E s d)) = Map.empty" "m_excludedAddrSet (snd (tearDown E s d)) = []"
    "routes (calls (snd (tearDown E s d))) = {}"
    by (simp_all add: td)
qed

lemma tearDown_preserves [preserves_intros]: "preserves excl_ok (tearDown E s)"
  unfolding preserves_def
proof (intro allI impI)
  fix d :: "'a daemon"
  assume "excl_ok d"
  from tearDown_clean(2,3) [OF this, of E s] show "excl_ok (snd (tearDown E s d))"
    by (simp add: excl_ok_def counts_def)
qed

lemma deactivate_preserves [preserves_intros]: "preserves excl_ok (deactivate E s)"
  unfolding deactivate_def [abs_def]
  by (intro preserves_andThen tearDown_preserves) (simp add: preserves_def perform_ok split: list.splits)


section \<open>Activation\<close>

lemma guarded_preserves [preserves_intros]: "preserves excl_ok f \<Longrightarrow> preserves excl_ok (guarded f)"
  by (force simp: preserves_def guarded_def emitd_ok split: prod.splits)

lemma switchOver_preserves [preserves_intros]: "preserves excl_ok (switchOver E config)"
  unfolding switchOver_def by (intro preserves_intros) simp_all

lemma activate_preserves: "preserves excl_ok (activate E config)"
  unfolding activate_def
proof (intro guarded_preserves)
  have "preserves excl_ok (andThen (deactivate E False) (guarded (bringUp E config)))"
    by (intro preserves_intros)
  then show "preserves excl_ok (\<lambda>d. if m_connections d (m_hopType config) \<noteq> None
       then if supportServerSwitching config d then switchOver E config d
            else andThen (deactivate E False) (guarded (bringUp E config)) d
       else bringUp E config d)"
    using switchOver_preserves [of E config] bringUp_preserves [of E config] by (auto simp: preserves_def)
qed

lemma match_peers_fields:
  "m_connections (snd (match_peers ps c d)) = m_connections d
   \<and> excl_ok (snd (match_peers ps c d)) = excl_ok d \<and> m_config (fst (match_peers ps c d)) = m_config c"
  by (induction ps c d rule: match_peers.induct) (simp_all add: emitd_ok, simp add: emitd_def)

lemma check_hops_ok: "excl_ok (snd (check_hops peers hs n d)) = excl_ok d"
proof (induction peers hs n d rule: check_hops.induct)
  case (2 peers h hs n d)
  have "excl_ok (d\<lparr>m_connections := f\<rparr>) = excl_ok d" for f and d :: "'a daemon" by (simp add: excl_ok_def)
  with 2 match_peers_fields [of peers _ d] show ?case
    by (auto split: option.splits prod.splits) (metis snd_conv)+
qed simp

lemma checkHandshake_ok: "excl_ok (checkHandshake E d) = excl_ok d"
proof -
  have "excl_ok (d\<lparr>m_handshakeTimer := b\<rparr>) = excl_ok d" for b and d :: "'a daemon" by (simp add: excl_ok_def)
  with check_hops_ok [of "pf_peers E (world d)" hops 0 "d\<lparr>m_handshakeTimer := False\<rparr>"] show ?thesis
    by (auto simp: checkHandshake_def split: prod.splits)
qed

text \<open>The requests to the service and the timer.\<close>

datatype request = Activate iconfig | Deactivate bool | HandshakeTimeout

fun serve :: "'w platform \<Rightarrow> request \<Rightarrow> 'w daemon \<Rightarrow> 'w daemon" where
  "serve E (Activate config) d = snd (activate E config d)"
| "serve E (Deactivate s) d = snd (deactivate E s d)"
| "serve E HandshakeTimeout d = checkHandshake E d"

definition idle :: "'w \<Rightarrow> 'w daemon" where
  "idle w = \<lparr>m_connections = Map.empty, m_excludedAddrSet = [], m_handshakeTimer = False, world = w, calls = []\<rparr>"

interpretation service: preserved "serve E" excl_ok for E :: "'w platform"
proof
  fix d :: "'w daemon" and x
  assume "excl_ok d"
  then show "excl_ok (serve E x d)"
    using activate_preserves [of E] deactivate_preserves [of E]
    by (cases x) (simp_all add: preserves_def checkHandshake_ok)
qed

text \<open>
  After any requests, on any platform and whichever of its calls fail, the counted exclusion
  prefixes are distinct, have positive counts, and are exactly those for which a route was added and
  not deleted.
\<close>

theorem exclusion_counts_match:
  "excl_ok (runs (serve E) reqs (idle w))"
  by (rule service.runs_invar) (simp add: excl_ok_def idle_def counts_def)

end
