(* ===== verification/Daemon_Calls.thy ===== *)
theory Daemon_Calls
  imports Daemon_Facts
begin

text \<open>
  Which calls the operations of the service make.  The contract \<open>call_class\<close> is a set of calls that
  has all calls but signals; inside it the operations are shown to stay in the set.
\<close>

fun plain_call :: "syscall \<Rightarrow> bool" where
  "plain_call (Emit x) = False"
| "plain_call _ = True"

text \<open>The part of a server switch between the new peer and the removal of the old one, and the rest.\<close>

definition replaceRoutes :: "'w platform \<Rightarrow> iconfig \<Rightarrow> iconfig \<Rightarrow> 'w daemon \<Rightarrow> 'w daemon" where
  "replaceRoutes E old config d =
     each (\<lambda>ip. perform E (DeleteRoutePrefix ip))
       (filter (\<lambda>ip. ip \<notin> set (m_allowedIPAddressRanges config)) (m_allowedIPAddressRanges old))
       (each (\<lambda>i. delExclusionRoute E (ip_of_host (pf_parseHost E i))) (m_excludedAddresses old)
         (snd (until_failure (\<lambda>ip. perform E (UpdateRoutePrefix ip)) (m_allowedIPAddressRanges config) d)))"

definition finishSwitch :: "'w platform \<Rightarrow> iconfig \<Rightarrow> iconfig \<Rightarrow> 'w daemon \<Rightarrow> bool \<times> 'w daemon" where
  "finishSwitch E old config =
     andThen (\<lambda>d. if m_serverPublicKey config \<noteq> m_serverPublicKey old then perform E (DeletePeer old) d else (True, d))
       (\<lambda>d. (True, d\<lparr>m_connections := (m_connections d)(m_hopType config \<mapsto> connectionState config)\<rparr>))"

lemma switch_parts:
  "switch_from E old config =
     andThen (\<lambda>d. perform E (UpdatePeer config) (addExclusions E config d))
       (\<lambda>d. finishSwitch E old config (replaceRoutes E old config d))"
  by (simp add: fun_eq_iff switch_from_def finishSwitch_def replaceRoutes_def Let_def)

locale call_class =
  fixes P :: "syscall \<Rightarrow> bool"
  assumes plain: "plain_call c \<Longrightarrow> P c"
begin

definition makes :: "('w daemon \<Rightarrow> bool \<times> 'w daemon) \<Rightarrow> bool" where
  "makes f \<longleftrightarrow> (\<forall>d. \<exists>cs. calls (snd (f d)) = calls d @ cs \<and> (\<forall>x\<in>set cs. P (fst x)))"

lemma makesE:
  assumes "makes f" "f d = (b, d')"
  obtains cs where "calls d' = calls d @ cs" "\<forall>x\<in>set cs. P (fst x)"
  using assms by (metis makes_def snd_conv)

lemma makesI: "(\<And>d. \<exists>cs. calls (snd (f d)) = calls d @ cs \<and> (\<forall>x\<in>set cs. P (fst x))) \<Longrightarrow> makes f"
  by (simp add: makes_def)

lemma makes_after:
  assumes "\<exists>cs. calls d1 = calls d @ cs \<and> (\<forall>x\<in>set cs. P (fst x))" "makes g"
  shows "\<exists>cs. calls (snd (g d1)) = calls d @ cs \<and> (\<forall>x\<in>set cs. P (fst x))"
proof -
  from assms(1) obtain cs where "calls d1 = calls d @ cs" "\<forall>x\<in>set cs. P (fst x)" by blast
  moreover from assms(2) obtain es where "calls (snd (g d1)) = calls d1 @ es" "\<forall>x\<in>set es. P (fst x)"
    by (auto simp: makes_def)
  ultimately show ?thesis by (intro exI [of _ "cs @ es"]) auto
qed

lemma makes_same: "makes (\<lambda>d. (b, d))"
  by (simp add: makes_def)

lemma makes_perform: "plain_call c \<Longrightarrow> makes (perform E c)"
  by (simp add: makes_def plain)

lemma makes_then:
  assumes "makes f" "makes g"
  shows "makes (\<lambda>d. g (snd (f d)))"
proof (rule makesI)
  fix d
  show "\<exists>cs. calls (snd (g (snd (f d)))) = calls d @ cs \<and> (\<forall>x\<in>set cs. P (fst x))"
    by (rule makes_after) (use assms in \<open>auto simp: makes_def\<close>)
qed

lemma makes_andThen: "makes f \<Longrightarrow> makes g \<Longrightarrow> makes (andThen f g)"
proof (rule makesI)
  fix d
  assume f: "makes f" and g: "makes g"
  show "\<exists>cs. calls (snd (andThen f g d)) = calls d @ cs \<and> (\<forall>x\<in>set cs. P (fst x))"
  proof (cases "fst (f d)")
    case True
    then have "andThen f g d = g (snd (f d))" by (simp add: andThen_def case_prod_unfold)
    with makes_then [OF f g] show ?thesis by (simp add: makes_def)
  next
    case False
    then have "snd (andThen f g d) = snd (f d)" by (simp add: andThen_def case_prod_unfold)
    with f show ?thesis by (simp add: makes_def)
  qed
qed

lemma makes_if: "makes f \<Longrightarrow> makes g \<Longrightarrow> makes (\<lambda>d. if Q d then f d else g d)"
  by (simp add: makes_def)

lemma makes_each: "(\<And>x. makes (f x)) \<Longrightarrow> makes (\<lambda>d. (b, each f xs d))"
proof (induction xs)
  case Nil
  then show ?case by (simp add: makes_def)
next
  case (Cons x xs)
  have "makes (\<lambda>d. (b, each f xs (snd (f x d))))"
    using makes_then [OF Cons.prems [of x] Cons.IH [OF Cons.prems]] by simp
  then show ?case by simp
qed

lemma makes_until_failure: "(\<And>x. makes (f x)) \<Longrightarrow> makes (until_failure f xs)"
proof (induction xs)
  case Nil
  then show ?case by (simp add: makes_def)
next
  case (Cons x xs)
  have "until_failure f (x # xs) = andThen (f x) (until_failure f xs)" by auto
  with Cons show ?case by (simp add: makes_andThen)
qed

lemmas makes_intros = makes_same makes_perform makes_andThen makes_if makes_until_failure

lemma makes_add: "makes (addExclusionRoute E p)"
proof (rule makesI)
  fix d
  obtain b d1 where d1: "perform E (AddExclusionRoute p) d = (b, d1)" by fastforce
  then have "calls d1 = calls d @ [(AddExclusionRoute p, b)]"
    using perform_fields(4) [of E "AddExclusionRoute p" d] by simp
  with d1 show "\<exists>cs. calls (snd (addExclusionRoute E p d)) = calls d @ cs \<and> (\<forall>x\<in>set cs. P (fst x))"
    by (auto simp: addExclusionRoute_def plain split: option.splits)
qed

lemma makes_delete: "makes (delExclusionRoute E p)"
  by (auto simp: makes_def delExclusionRoute_def Let_def plain)

lemma makes_peer: "makes (\<lambda>d. perform E (UpdatePeer config) (addExclusions E config d))"
proof -
  have "makes (\<lambda>d. (True, addExclusions E config d))" unfolding addExclusions_def by (intro makes_each makes_add)
  from makes_then [OF this makes_perform [of "UpdatePeer config" E]] show ?thesis by simp
qed

lemma makes_resolvers: "makes (maybeUpdateResolvers E config)"
  by (auto simp: makes_def maybeUpdateResolvers_def Let_def plain)

lemma makes_register: "makes (registerConnection config)"
  by (simp add: makes_def registerConnection_def)

lemma makes_bringUp: "makes (bringUp E config)"
proof -
  have "makes (andThen (\<lambda>d. if \<not> pf_interfaceExists E (world d) then perform E (AddInterface config) d else (True, d))
         (andThen (\<lambda>d. if pf_supportIPUtils E
                       then andThen (perform E (AddInterfaceIPs config)) (perform E (SetMTUAndUp config)) d
                       else (True, d))
         (andThen (\<lambda>d. perform E (UpdatePeer config) (addExclusions E config d))
         (andThen (maybeUpdateResolvers E config)
         (andThen (until_failure (\<lambda>ip. perform E (UpdateRoutePrefix ip)) (m_allowedIPAddressRanges config))
         (andThen (perform E (Run Up config))
           (registerConnection config)))))))"
    by (intro makes_intros makes_peer makes_resolvers makes_register) simp_all
  from makes_then [OF makes_perform this, of "PrepareActivation config" E] show ?thesis
    by (simp add: bringUp_def [abs_def])
qed

lemma makes_replaceRoutes: "makes (\<lambda>d. (b, replaceRoutes E old config d))"
proof -
  let ?u = "until_failure (\<lambda>ip. perform E (UpdateRoutePrefix ip)) (m_allowedIPAddressRanges config)"
  let ?e = "\<lambda>d. (b, each (\<lambda>i. delExclusionRoute E (ip_of_host (pf_parseHost E i))) (m_excludedAddresses old) d)"
  have "makes ?u" by (intro makes_until_failure makes_perform) simp
  from makes_then [OF this, of ?e] have "makes (\<lambda>d. ?e (snd (?u d)))" by (simp add: makes_each makes_delete)
  from makes_then [OF this makes_each, of "\<lambda>ip. perform E (DeleteRoutePrefix ip)" b] show ?thesis
    by (simp add: replaceRoutes_def makes_perform)
qed

lemma makes_switch_from: "makes (switch_from E old config)"
proof -
  have "makes (finishSwitch E old config)"
    unfolding finishSwitch_def by (intro makes_intros) (simp_all add: makes_def)
  from makes_then [OF makes_replaceRoutes this] show ?thesis
    unfolding switch_parts by (intro makes_andThen makes_peer) simp
qed

lemma makes_switchServer: "makes (switchServer E config)"
  using makes_switch_from [of E _ config] by (simp add: makes_def switchServer_def split: option.splits)

lemma makes_switchOver: "makes (switchOver E config)"
  unfolding switchOver_def
  by (intro makes_andThen makes_switchServer makes_resolvers makes_register makes_perform) simp_all

lemma makes_removeConnection: "makes (removeConnection E c)"
proof -
  have "makes (\<lambda>d. (True, each (\<lambda>ip. perform E (DeleteRoutePrefix ip)) (m_allowedIPAddressRanges (m_config c)) d))"
    by (intro makes_each makes_perform) simp
  from makes_then [OF this makes_perform [of "DeletePeer (m_config c)" E]] show ?thesis
    by (simp add: removeConnection_def [abs_def])
qed

lemma makes_tearDown:
  assumes "e \<Longrightarrow> P (Emit Disconnected)"
  shows "makes (tearDown E e)"
proof (rule makesI)
  fix d
  let ?run = "tearDown E e d"
  define d1 where "d1 = (if e then emitd Disconnected d else d)"
  define d2 where "d2 = snd (perform E RestoreResolvers d1)"
  define d3 where "d3 = each (removeConnection E) (connections d2) d2"
  define d4 where "d4 = each (\<lambda>(p, n). perform E (DeleteExclusionRoute p)) (m_excludedAddrSet d3) d3"
  have c1: "\<exists>cs. calls d1 = calls d @ cs \<and> (\<forall>x\<in>set cs. P (fst x))" using assms by (simp add: d1_def emitd_def)
  have c2: "\<exists>cs. calls d2 = calls d @ cs \<and> (\<forall>x\<in>set cs. P (fst x))"
    unfolding d2_def by (rule makes_after [OF c1 makes_perform]) simp
  have c3: "\<exists>cs. calls d3 = calls d @ cs \<and> (\<forall>x\<in>set cs. P (fst x))"
    using makes_after [OF c2 makes_each [OF makes_removeConnection]] by (simp add: d3_def)
  have "makes ((\<lambda>(p, n). perform E (DeleteExclusionRoute p)) x)" for x :: "ipaddr \<times> int"
    by (cases x) (simp add: makes_perform)
  then have "\<exists>cs. calls d4 = calls d @ cs \<and> (\<forall>x\<in>set cs. P (fst x))"
    using makes_after [OF c3 makes_each [of "\<lambda>(p, n). perform E (DeleteExclusionRoute p)" True "m_excludedAddrSet d3"]]
    by (simp add: d4_def)
  then have "\<exists>cs. calls (d4\<lparr>m_excludedAddrSet := [], m_connections := Map.empty\<rparr>) = calls d @ cs \<and> (\<forall>x\<in>set cs. P (fst x))"
    by simp
  from makes_after [OF this makes_perform, of DeleteInterface]
  show "\<exists>cs. calls (snd (tearDown E e d)) = calls d @ cs \<and> (\<forall>x\<in>set cs. P (fst x))"
    by (simp add: tearDown_def Let_def d1_def d2_def d3_def d4_def)
qed

lemma makes_deactivate: "(e \<Longrightarrow> P (Emit Disconnected)) \<Longrightarrow> makes (deactivate E e)"
proof -
  assume e: "e \<Longrightarrow> P (Emit Disconnected)"
  have "makes (\<lambda>d. case connections d of [] \<Rightarrow> (True, d) | c # _ \<Rightarrow> perform E (Run Down (m_config c)) d)"
    by (simp add: makes_def plain split: list.splits)
  from makes_andThen [OF this makes_tearDown [OF e]] show ?thesis by (simp add: deactivate_def [abs_def])
qed

lemma makes_guarded: "P (Emit ActivationFailure) \<Longrightarrow> makes f \<Longrightarrow> makes (guarded f)"
proof (rule makesI)
  fix d
  assume P: "P (Emit ActivationFailure)" and f: "makes f"
  obtain b d1 where d1: "f d = (b, d1)" by fastforce
  then obtain cs where "calls d1 = calls d @ cs" "\<forall>x\<in>set cs. P (fst x)" using makesE [OF f] by metis
  with d1 P show "\<exists>cs. calls (snd (guarded f d)) = calls d @ cs \<and> (\<forall>x\<in>set cs. P (fst x))"
    by (auto simp: guarded_def emitd_def)
qed

lemma makes_activate: "P (Emit ActivationFailure) \<Longrightarrow> makes (activate E config)"
  unfolding activate_def
  by (intro makes_guarded makes_if makes_switchOver makes_bringUp makes_andThen makes_deactivate) simp_all

end

text \<open>Calls without a failure signal, and those without a signal that a connection passes on.\<close>

interpretation unfailing: call_class "\<lambda>c. c \<noteq> Emit ActivationFailure"
  by unfold_locales auto

interpretation unreported: call_class "\<lambda>c. c \<noteq> Emit Disconnected \<and> (\<forall>k. c \<noteq> Emit (Connected k))"
  by unfold_locales auto

end
