(* ===== verification/Daemon_Switch.thy ===== *)
theory Daemon_Switch
  imports Daemon_Calls
begin

text \<open>
  What an activation reports.
\<close>

section \<open>The outcome of an activation\<close>

abbreviation failure :: "syscall \<times> bool" where
  "failure \<equiv> (Emit ActivationFailure, True)"

text \<open>An action that makes calls and emits no failure when it succeeds.\<close>

definition truthful :: "('w daemon \<Rightarrow> bool \<times> 'w daemon) \<Rightarrow> bool" where
  "truthful f \<longleftrightarrow> (\<forall>d. \<exists>cs. calls (snd (f d)) = calls d @ cs \<and> (fst (f d) \<longrightarrow> failure \<notin> set cs))"

lemma truthfulE:
  assumes "truthful f" "f d = (b, d')"
  obtains cs where "calls d' = calls d @ cs" "b \<Longrightarrow> failure \<notin> set cs"
  using assms by (auto simp: truthful_def) (metis fst_conv snd_conv)

lemma truthfulI:
  "(\<And>d b d'. f d = (b, d') \<Longrightarrow> \<exists>cs. calls d' = calls d @ cs \<and> (b \<longrightarrow> failure \<notin> set cs)) \<Longrightarrow> truthful f"
  unfolding truthful_def by (metis prod.collapse)

lemma truthful_andThen:
  assumes "truthful f" "truthful g"
  shows "truthful (andThen f g)"
proof (rule truthfulI)
  fix d b d'
  assume run: "andThen f g d = (b, d')"
  obtain b1 d1 where d1: "f d = (b1, d1)" by fastforce
  obtain cs where cs: "calls d1 = calls d @ cs" "b1 \<Longrightarrow> failure \<notin> set cs"
    using truthfulE [OF assms(1) d1] by metis
  show "\<exists>cs. calls d' = calls d @ cs \<and> (b \<longrightarrow> failure \<notin> set cs)"
  proof (cases b1)
    case True
    then have "g d1 = (b, d')" using run d1 by (simp add: andThen_def)
    then obtain es where "calls d' = calls d1 @ es" "b \<Longrightarrow> failure \<notin> set es"
      using truthfulE [OF assms(2)] by metis
    with cs True show ?thesis by (intro exI [of _ "cs @ es"]) auto
  next
    case False
    with run d1 cs show ?thesis by (auto simp: andThen_def)
  qed
qed

lemma truthful_if: "truthful f \<Longrightarrow> truthful g \<Longrightarrow> truthful (\<lambda>d. if P d then f d else g d)"
  by (simp add: truthful_def)

lemma truthful_unfailing: "unfailing.makes f \<Longrightarrow> truthful f"
  unfolding unfailing.makes_def truthful_def by (metis fst_conv)

lemma truthful_guarded: "truthful f \<Longrightarrow> truthful (guarded f)"
proof (rule truthfulI)
  fix d b d'
  assume f: "truthful f" and run: "guarded f d = (b, d')"
  obtain b1 d1 where d1: "f d = (b1, d1)" by fastforce
  then obtain cs where "calls d1 = calls d @ cs" "b1 \<Longrightarrow> failure \<notin> set cs" using truthfulE [OF f] by metis
  with run d1 show "\<exists>cs. calls d' = calls d @ cs \<and> (b \<longrightarrow> failure \<notin> set cs)"
    by (cases b1) (auto simp: guarded_def emitd_def)
qed

text \<open>A successful activation ends by registering the connection.\<close>

definition registers :: "iconfig \<Rightarrow> ('w daemon \<Rightarrow> bool \<times> 'w daemon) \<Rightarrow> bool" where
  "registers config f \<longleftrightarrow> (\<forall>d d'. f d = (True, d')
     \<longrightarrow> m_connections d' (m_hopType config) = Some (connectionState config) \<and> m_handshakeTimer d')"

lemma registers_last: "registers config (registerConnection config)"
  by (auto simp: registers_def registerConnection_def)

lemma registers_andThen: "registers config g \<Longrightarrow> registers config (andThen f g)"
  by (auto simp: registers_def andThen_def split: prod.splits if_splits)

lemma registers_guarded: "registers config f \<Longrightarrow> registers config (guarded f)"
  by (auto simp: registers_def guarded_def split: prod.splits if_splits)

lemma registers_bringUp: "registers config (bringUp E config)"
proof -
  have "registers config g \<Longrightarrow> registers config (\<lambda>d. g (f d))" for f g by (auto simp: registers_def)
  then show ?thesis
    unfolding bringUp_def [abs_def] Let_def by (blast intro: registers_andThen registers_last)
qed

lemma registers_switchOver: "registers config (switchOver E config)"
  unfolding switchOver_def by (intro registers_andThen registers_last)

definition activation :: "'w platform \<Rightarrow> iconfig \<Rightarrow> 'w daemon \<Rightarrow> bool \<times> 'w daemon" where
  "activation E config d =
     (if m_connections d (m_hopType config) \<noteq> None
      then if supportServerSwitching config d then switchOver E config d
           else andThen (deactivate E False) (guarded (bringUp E config)) d
      else bringUp E config d)"

lemma activate_guarded: "activate E config = guarded (activation E config)"
  by (simp add: activate_def activation_def [abs_def])

lemma truthful_activation: "truthful (activation E config)"
  unfolding activation_def [abs_def]
  by (intro truthful_if truthful_andThen truthful_guarded truthful_unfailing
      unfailing.makes_switchOver unfailing.makes_bringUp unfailing.makes_deactivate) simp

lemma registers_activation: "registers config (activation E config)"
  using registers_switchOver [of config E] registers_bringUp [of config E]
    registers_andThen [OF registers_guarded [OF registers_bringUp], of config "deactivate E False" E]
  unfolding registers_def activation_def [abs_def] by (auto split: if_splits)

text \<open>
  C9: \<open>Daemon::activate\<close> returns true exactly when it emitted no \<open>activationFailure\<close>, on each of the
  three scenarios of its comment and whichever platform call fails.  When it returns true the hop of
  the configuration holds a fresh connection for that configuration and the handshake timer runs; when
  it returns false the failure signal is the last thing it did.
\<close>

theorem activate_outcome:
  assumes "activate E config d = (b, d')"
  shows "\<exists>cs. calls d' = calls d @ cs
           \<and> (b \<longleftrightarrow> (Emit ActivationFailure, True) \<notin> set cs)
           \<and> (if b then m_connections d' (m_hopType config) = Some (connectionState config) \<and> m_handshakeTimer d'
              else cs \<noteq> [] \<and> last cs = (Emit ActivationFailure, True))"
proof -
  obtain b1 d1 where d1: "activation E config d = (b1, d1)" by fastforce
  then obtain cs where cs: "calls d1 = calls d @ cs" "b1 \<Longrightarrow> failure \<notin> set cs"
    using truthfulE [OF truthful_activation] by metis
  show ?thesis
  proof (cases b1)
    case True
    with d1 assms have "b" "d' = d1" by (simp_all add: activate_guarded guarded_def)
    with cs True d1 registers_activation [of config E] show ?thesis
      by (auto simp: registers_def)
  next
    case False
    with d1 assms have "\<not> b" "d' = emitd ActivationFailure d1" by (simp_all add: activate_guarded guarded_def)
    with cs show ?thesis by (intro exI [of _ "cs @ [failure]"]) (simp add: emitd_def)
  qed
qed

end
