(* ===== verification/Daemon_Routes.thy ===== *)
theory Daemon_Routes
  imports Daemon_Switch
begin

text \<open>
  The exclusion routes across a server switch, and the handshake check.
\<close>

section \<open>References to a prefix\<close>

definition refs :: "'w daemon \<Rightarrow> ipaddr \<Rightarrow> int" where
  "refs d p = (case counts d p of None \<Rightarrow> 0 | Some n \<Rightarrow> n)"

lemma refs_cong [simp]:
  "refs (snd (perform E c d)) = refs d" "refs (d\<lparr>m_connections := f\<rparr>) = refs d"
  by (simp_all add: refs_def fun_eq_iff)

lemma refs_nonneg: "excl_ok d \<Longrightarrow> 0 \<le> refs d p"
  unfolding excl_ok_def refs_def by (cases "counts d p") force+

lemma refs_pos: "excl_ok d \<Longrightarrow> 1 \<le> refs d p \<longleftrightarrow> counts d p \<noteq> None"
  unfolding excl_ok_def refs_def by (cases "counts d p") auto

lemma refs_routed: "excl_ok d \<Longrightarrow> 1 \<le> refs d p \<longleftrightarrow> p \<in> routes (calls d)"
  by (metis domIff excl_ok_def refs_pos)

lemma refs_each_perform [simp]: "refs (each (\<lambda>x. perform E (c x)) xs d) = refs d"
  by (induction xs arbitrary: d) auto

lemma refs_until_failure [simp]: "refs (snd (until_failure (\<lambda>x. perform E (c x)) xs d)) = refs d"
proof (induction xs arbitrary: d)
  case (Cons x xs)
  obtain b d1 where d1: "perform E (c x) d = (b, d1)" by fastforce
  then have "refs d1 = refs d" using refs_cong(1) [of E "c x" d] by simp
  with Cons [of d1] d1 show ?case by (simp add: andThen_def)
qed simp

lemma refs_add:
  assumes "excl_ok d"
  shows "refs d q \<le> refs (snd (addExclusionRoute E p d)) q"
    and "fst (pf_call E (AddExclusionRoute p) (world d)) \<Longrightarrow>
           refs (snd (addExclusionRoute E p d)) q = refs d q + (if q = p then 1 else 0)"
proof -
  obtain b d1 where d1: "perform E (AddExclusionRoute p) d = (b, d1)" by fastforce
  then have c: "counts d1 = counts d" "b = fst (pf_call E (AddExclusionRoute p) (world d))"
    using perform_fields(5) [of E "AddExclusionRoute p" d] by (auto simp: perform_def split: prod.splits)
  show "refs d q \<le> refs (snd (addExclusionRoute E p d)) q"
    using d1 c by (auto simp: addExclusionRoute_counts refs_def split: option.splits)
  show "fst (pf_call E (AddExclusionRoute p) (world d)) \<Longrightarrow>
          refs (snd (addExclusionRoute E p d)) q = refs d q + (if q = p then 1 else 0)"
    using d1 c by (auto simp: addExclusionRoute_counts refs_def split: option.splits)
qed

lemma refs_del:
  "q \<noteq> p \<Longrightarrow> refs (snd (delExclusionRoute E p d)) q = refs d q"
  "excl_ok d \<Longrightarrow> 1 \<le> refs d p \<Longrightarrow> refs (snd (delExclusionRoute E p d)) p = refs d p - 1"
  by (auto simp: delExclusionRoute_counts refs_def Let_def split: option.splits)

lemma refs_adds:
  assumes "excl_ok d"
  shows "refs d q \<le> refs (each (\<lambda>i. addExclusionRoute E (f i)) xs d) q"
  using assms
proof (induction xs arbitrary: d)
  case (Cons x xs)
  have "excl_ok (snd (addExclusionRoute E (f x) d))"
    using preservesD [OF add_preserves] Cons.prems by blast
  from Cons.IH [OF this] refs_add(1) [OF Cons.prems, of q E "f x"] show ?case by simp
qed simp

lemma refs_adds_reliable:
  assumes "excl_ok d" "\<And>p w. fst (pf_call E (AddExclusionRoute p) w)"
  shows "refs (each (\<lambda>i. addExclusionRoute E (f i)) xs d) q = refs d q + int (count_list (map f xs) q)"
  using assms(1)
proof (induction xs arbitrary: d)
  case (Cons x xs)
  have "excl_ok (snd (addExclusionRoute E (f x) d))"
    using preservesD [OF add_preserves] Cons.prems by blast
  from Cons.IH [OF this] refs_add(2) [OF Cons.prems assms(2), of "f x" q] show ?case by auto
qed simp

lemma refs_dels_other:
  assumes "q \<notin> f ` set xs"
  shows "refs (each (\<lambda>i. delExclusionRoute E (f i)) xs d) q = refs d q"
  using assms by (induction xs arbitrary: d) (auto simp: refs_del(1))

lemma refs_dels:
  assumes "excl_ok d" "\<And>p. int (count_list (map f xs) p) \<le> refs d p"
  shows "refs (each (\<lambda>i. delExclusionRoute E (f i)) xs d) q = refs d q - int (count_list (map f xs) q)"
  using assms
proof (induction xs arbitrary: d)
  case (Cons x xs)
  let ?d = "snd (delExclusionRoute E (f x) d)"
  have ok: "excl_ok ?d"
    using preservesD [OF del_preserves] Cons.prems(1) by blast
  have "1 \<le> refs d (f x)" using Cons.prems(2) [of "f x"] by simp
  then have step: "refs ?d p = refs d p - (if p = f x then 1 else 0)" for p
    using refs_del(1) [of p "f x" E d] refs_del(2) [OF Cons.prems(1), of "f x" E] by auto
  have "int (count_list (map f xs) p) \<le> refs ?d p" for p
    using Cons.prems(2) [of p] by (auto simp: step split: if_splits)
  from Cons.IH [OF ok this] show ?case by (auto simp: step)
qed simp

section \<open>A server switch\<close>

lemma perform_refs: "perform E c d = (b, d') \<Longrightarrow> refs d' = refs d"
  by (metis refs_cong(1) snd_conv)

lemma refs_finish: "finishSwitch E old config d = (b, d') \<Longrightarrow> refs d' = refs d"
  by (auto simp: finishSwitch_def andThen_def dest: perform_refs split: prod.splits if_splits)

text \<open>
  Between the new exclusions and the released ones no reference changes; a switch that fails early
  releases none.
\<close>

lemma switch_refs:
  assumes run: "switch_from E old config d = (b, d')" and ok: "excl_ok d"
  obtains d3 where "excl_ok d3" "refs d3 = refs (addExclusions E config d)"
    "\<not> b \<and> refs d' = refs d3
     \<or> refs d' = refs (each (\<lambda>i. delExclusionRoute E (ip_of_host (pf_parseHost E i))) (m_excludedAddresses old) d3)"
proof -
  obtain b2 d2 where d2: "perform E (UpdatePeer config) (addExclusions E config d) = (b2, d2)" by fastforce
  have r2: "refs d2 = refs (addExclusions E config d)"
    using refs_cong(1) [of E "UpdatePeer config" "addExclusions E config d"] d2 by simp
  have ok2: "excl_ok d2"
    using preservesD [OF perform_other [of "UpdatePeer config" E] exclusions_ok [OF ok, of E config]] d2 by simp
  show thesis
  proof (cases b2)
    case False
    with run d2 have "\<not> b" "d' = d2" by (simp_all add: switch_parts andThen_def)
    with ok2 r2 that show thesis by blast
  next
    case True
    let ?u = "until_failure (\<lambda>ip. perform E (UpdateRoutePrefix ip)) (m_allowedIPAddressRanges config)"
    have "preserves excl_ok ?u" by (intro preserves_until_failure perform_other) simp
    then have ok3: "excl_ok (snd (?u d2))" using ok2 by (rule preservesD)
    have "finishSwitch E old config (replaceRoutes E old config d2) = (b, d')"
      using run d2 True by (simp add: switch_parts andThen_def)
    then have "refs d' = refs (replaceRoutes E old config d2)" by (rule refs_finish)
    then have "refs d' = refs (each (\<lambda>i. delExclusionRoute E (ip_of_host (pf_parseHost E i)))
        (m_excludedAddresses old) (snd (?u d2)))"
      by (simp add: replaceRoutes_def)
    with ok3 r2 that [of "snd (?u d2)"] show thesis by simp
  qed
qed

lemma host_prefix: "m_prefixLength (ip_of_host a) \<in> {32, 128}"
  by (simp add: ip_of_host_def mk_ip_def)

lemma switchServer_ok: "excl_ok d \<Longrightarrow> switchServer E config d = (b, d') \<Longrightarrow> excl_ok d'"
  using preservesD [OF switchServer_preserves [of E config], of d] by simp

text \<open>
  C32: a server switch never releases a subnet exclusion: a prefix shorter than a host address keeps at
  least the references it had, and so its route, also when the configuration that asked for it is the
  one being replaced.  The old exclusions are read as plain addresses, which give host prefixes only.
\<close>

theorem switch_keeps_subnets:
  assumes "excl_ok d" "m_prefixLength p < 32" "switchServer E config d = (b, d')"
  shows "refs d p \<le> refs d' p \<and> (p \<in> routes (calls d) \<longrightarrow> p \<in> routes (calls d'))"
proof -
  have "refs d p \<le> refs d' p"
  proof (cases "m_connections d (m_hopType config)")
    case None
    with assms(3) show ?thesis by (simp add: switchServer_def)
  next
    case (Some c)
    with assms(3) have "switch_from E (m_config c) config d = (b, d')" by (simp add: switchServer_def)
    from switch_refs [OF this assms(1)] obtain d3 where d3: "refs d3 = refs (addExclusions E config d)"
      "\<not> b \<and> refs d' = refs d3
       \<or> refs d' = refs (each (\<lambda>i. delExclusionRoute E (ip_of_host (pf_parseHost E i))) (m_excludedAddresses (m_config c)) d3)"
      by blast
    have "m_prefixLength (ip_of_host a) \<noteq> m_prefixLength p" for a using host_prefix [of a] assms(2) by auto
    then have "p \<notin> (\<lambda>i. ip_of_host (pf_parseHost E i)) ` X" for X by blast
    from refs_dels_other [OF this, of E "m_excludedAddresses (m_config c)" d3]
    have "refs d' p = refs d3 p" using d3(2) by auto
    with d3(1) refs_adds [OF assms(1), of p E "prefix_of_text E" "m_excludedAddresses config"] show ?thesis
      by (simp add: addExclusions_def)
  qed
  moreover have "excl_ok d'" using assms(1,3) by (rule switchServer_ok)
  ultimately show ?thesis using refs_routed [OF assms(1), of p] refs_routed [of d' p] by linarith
qed

text \<open>A text that is a single address.\<close>

definition single_host :: "'w platform \<Rightarrow> qstring \<Rightarrow> bool" where
  "single_host E i \<longleftrightarrow> 47 \<notin> set i \<and> pf_parseHost E i \<noteq> NoAddress"

lemma single_host_prefix: "single_host E i \<Longrightarrow> ip_of_host (pf_parseHost E i) = prefix_of_text E i"
  by (cases "pf_parseHost E i")
    (simp_all add: single_host_def ip_of_host_def prefix_of_text_def ip_of_string_def)

text \<open>
  C20: when the replaced configuration excludes single addresses and the route for an exclusion can be
  added, a successful switch leaves every prefix with its references before the switch, plus those of
  the new configuration, minus those of the old one: exclusions the two share keep their route.
\<close>

theorem switch_balances:
  assumes "excl_ok d" and conn: "m_connections d (m_hopType config) = Some c"
    and add: "\<forall>p w. fst (pf_call E (AddExclusionRoute p) w)"
    and plain: "\<forall>i\<in>set (m_excludedAddresses (m_config c)). single_host E i"
    and held: "\<forall>p. int (count_list (map (prefix_of_text E) (m_excludedAddresses (m_config c))) p) \<le> refs d p"
    and run: "switchServer E config d = (True, d')"
  shows "refs d' p = refs d p + int (count_list (map (prefix_of_text E) (m_excludedAddresses config)) p)
           - int (count_list (map (prefix_of_text E) (m_excludedAddresses (m_config c))) p)"
proof -
  let ?host = "\<lambda>i. ip_of_host (pf_parseHost E i)" and ?old = "m_excludedAddresses (m_config c)"
  have same: "map ?host ?old = map (prefix_of_text E) ?old" using plain by (simp add: single_host_prefix)
  have "switch_from E (m_config c) config d = (True, d')" using run conn by (simp add: switchServer_def)
  from switch_refs [OF this assms(1)] obtain d3 where d3: "excl_ok d3" "refs d3 = refs (addExclusions E config d)"
    "refs d' = refs (each (\<lambda>i. delExclusionRoute E (?host i)) ?old d3)"
    by blast
  have r3: "refs d3 q = refs d q + int (count_list (map (prefix_of_text E) (m_excludedAddresses config)) q)" for q
    using refs_adds_reliable [OF assms(1), of E "prefix_of_text E" "m_excludedAddresses config" q] add
    by (simp add: d3(2) addExclusions_def)
  have "int (count_list (map ?host ?old) q) \<le> refs d3 q" for q
    using spec [OF held, of q] unfolding same r3 by linarith
  from refs_dels [OF d3(1) this, of E p] show ?thesis unfolding d3(3) r3 same by simp
qed

section \<open>The handshake check\<close>

text \<open>The date of the last peer with the connection's key that completed a handshake.\<close>

definition handshake_date :: "peer list \<Rightarrow> conn \<Rightarrow> int option" where
  "handshake_date peers c =
     (case rev (filter (\<lambda>p. m_pubkey p = m_serverPublicKey (m_config c) \<and> m_handshake p \<noteq> 0) peers) of
        [] \<Rightarrow> None | p # _ \<Rightarrow> Some (m_handshake p))"

definition dated :: "peer list \<Rightarrow> conn \<Rightarrow> conn" where
  "dated peers c = (if m_date c = None then c\<lparr>m_date := handshake_date peers c\<rparr> else c)"

lemma match_fields:
  "match_peers peers c d = (c1, d1) \<Longrightarrow>
     m_connections d1 = m_connections d \<and> m_handshakeTimer d1 = m_handshakeTimer d \<and> m_config c1 = m_config c"
  by (induction peers c d rule: match_peers.induct) (auto simp: emitd_def split: if_splits)

lemma match_date:
  "fst (match_peers peers c d) = (case handshake_date peers c of None \<Rightarrow> c | Some t \<Rightarrow> c\<lparr>m_date := Some t\<rparr>)"
  by (induction peers c d rule: match_peers.induct)
    (auto simp: handshake_date_def split: list.splits option.splits)

lemma match_dated:
  assumes "m_date c = None"
  shows "fst (match_peers peers c d) = dated peers c"
  using assms by (auto simp: match_date dated_def split: option.splits)

lemma check_hops_effect:
  assumes "check_hops peers hs n d = (n', d')" "distinct hs"
  shows "m_connections d' = (\<lambda>h. if h \<in> set hs then map_option (dated peers) (m_connections d h) else m_connections d h)
     \<and> m_handshakeTimer d' = m_handshakeTimer d
     \<and> (n' > 0 \<longleftrightarrow> n > 0 \<or> (\<exists>h\<in>set hs. \<exists>c. m_connections d h = Some c \<and> m_date (dated peers c) = None))"
  using assms
proof (induction hs arbitrary: n d)
  case Nil
  then show ?case by simp
next
  case (Cons h hs)
  show ?case
  proof (cases "m_connections d h")
    case None
    with Cons.prems Cons.IH [of n d] show ?thesis by (auto simp: fun_eq_iff)
  next
    case (Some c)
    show ?thesis
    proof (cases "m_date c = None")
      case False
      then have "dated peers c = c" by (auto simp: dated_def)
      with False Some Cons.prems Cons.IH [of n d] show ?thesis by (auto simp: fun_eq_iff)
    next
      case True
      obtain c1 d1 where m: "match_peers peers c d = (c1, d1)" by fastforce
      with True have c1: "c1 = dated peers c" using match_dated [of c peers d] by simp
      let ?d = "d1\<lparr>m_connections := (m_connections d1)(h \<mapsto> c1)\<rparr>"
      have f: "m_connections ?d = (m_connections d)(h \<mapsto> c1)" "m_handshakeTimer ?d = m_handshakeTimer d"
        using match_fields [OF m] by simp_all
      have "check_hops peers hs (if m_date c1 = None then Suc n else n) ?d = (n', d')"
        using Cons.prems(1) Some True m by simp
      from Cons.IH [OF this] Cons.prems(2) f Some c1 show ?thesis
        by (auto simp: fun_eq_iff split: if_splits)
    qed
  qed
qed

lemma hops_all: "set hops = UNIV" "distinct hops"
proof -
  have "h \<in> set hops" for h by (cases h) (simp_all add: hops_def)
  then show "set hops = UNIV" by blast
qed (simp add: hops_def)

text \<open>
  \<open>Daemon::checkHandshake\<close> gives every connection that had no date the handshake time of the last
  peer with its key that completed one, changes no other connection and no configuration, and leaves
  the poll timer running exactly when some connection still waits for its handshake.
\<close>

theorem handshake_polling:
  "m_connections (checkHandshake E d) h = map_option (dated (pf_peers E (world d))) (m_connections d h)
   \<and> (m_handshakeTimer (checkHandshake E d)
        \<longleftrightarrow> (\<exists>h c. m_connections (checkHandshake E d) h = Some c \<and> m_date c = None))"
proof -
  let ?peers = "pf_peers E (world d)"
  obtain n d1 where run: "check_hops ?peers hops 0 (d\<lparr>m_handshakeTimer := False\<rparr>) = (n, d1)" by fastforce
  then have d': "checkHandshake E d = (if n > 0 then d1\<lparr>m_handshakeTimer := True\<rparr> else d1)"
    by (simp add: checkHandshake_def)
  from check_hops_effect [OF run hops_all(2)]
  have "m_connections d1 = (\<lambda>h. map_option (dated ?peers) (m_connections d h))" "\<not> m_handshakeTimer d1"
    "n > 0 \<longleftrightarrow> (\<exists>h c. m_connections d h = Some c \<and> m_date (dated ?peers c) = None)"
    by (simp_all add: hops_all)
  then show ?thesis unfolding d' by (cases "n > 0") auto
qed

end
