(* ===== verification/Daemon_Witness.thy ===== *)
theory Daemon_Witness
  imports Daemon_Routes
begin

text \<open>
  A system on which every call succeeds, two configurations of one hop, and the service with the first
  of them active: the facts about the service on these inputs.
\<close>

abbreviation willing :: "unit platform" where
  "willing \<equiv> \<lparr>pf_parseHost = (\<lambda>i. IPv4 0x01010101), pf_toInt = (\<lambda>s. 0), pf_hopKey = (\<lambda>s. None),
     pf_sortRanges = (\<lambda>xs. xs), pf_windows = False, pf_wide = (\<lambda>r. 0),
     pf_call = (\<lambda>c w. (True, w)), pf_interfaceExists = (\<lambda>w. False), pf_peers = (\<lambda>w. []),
     pf_supportIPUtils = True, pf_parseSubnet = (\<lambda>i. (IPv4 0x0A000000, 8))\<rparr>"

abbreviation stubborn :: "unit platform" where
  "stubborn \<equiv> willing\<lparr>pf_call := (\<lambda>c w. (False, w))\<rparr>"

definition blank :: iconfig where
  "blank = \<lparr>m_hopType = SingleHop, m_privateKey = [], m_deviceIpv4Address = None, m_deviceIpv6Address = None,
     m_serverIpv4Gateway = [], m_serverIpv6Gateway = [], m_serverPublicKey = [], m_serverIpv4AddrIn = None,
     m_serverPskKey = None, m_serverIpv6AddrIn = None, m_primaryDnsServer = [], m_secondaryDnsServer = [],
     m_serverPort = 0, m_deviceMTU = 1420, m_allowedIPAddressRanges = [], m_excludedAddresses = [],
     m_vpnDisabledApps = [], m_allowedDnsServers = [], m_killSwitchEnabled = False, m_junkPacketCount = None,
     m_junkPacketMinSize = None, m_junkPacketMaxSize = None, m_initPacketJunkSize = None,
     m_responsePacketJunkSize = None, m_cookieReplyPacketJunkSize = None, m_transportPacketJunkSize = None,
     m_initPacketMagicHeader = None, m_responsePacketMagicHeader = None, m_underloadPacketMagicHeader = None,
     m_transportPacketMagicHeader = None, m_specialJunk = []\<rparr>"

definition home :: iconfig where
  "home = blank\<lparr>m_privateKey := lit ''k'', m_deviceIpv4Address := Some (lit ''10.8.1.2''),
     m_serverIpv4Gateway := lit ''10.8.1.1'', m_serverPublicKey := lit ''a'',
     m_primaryDnsServer := lit ''1.1.1.1'', m_excludedAddresses := [lit ''10.0.0.0/8'']\<rparr>"

definition away :: iconfig where
  "away = home\<lparr>m_serverPublicKey := lit ''b'', m_excludedAddresses := []\<rparr>"

definition single :: iconfig where
  "single = home\<lparr>m_excludedAddresses := [lit ''1.1.1.1'']\<rparr>"

definition active :: "iconfig \<Rightarrow> unit daemon" where
  "active config = snd (activate willing config (idle ()))"

lemmas daemon_eval = active_def blank_def lit_def home_def away_def single_def activate_def guarded_def bringUp_def andThen_def
  perform_def emitd_def addExclusions_def addExclusionRoute_def delExclusionRoute_def prefix_of_text_def
  ip_of_string_def ip_of_host_def maybeUpdateResolvers_def registerConnection_def idle_def switchServer_def switch_from_def
  routes_def connectionState_def refs_def counts_def deactivate_def tearDown_def removeConnection_def
  connections_def hops_def single_host_def mk_ip_def

lemma active_ok: "excl_ok (active config)"
proof -
  have "excl_ok (idle ())" by (simp add: excl_ok_def idle_def counts_def)
  then show ?thesis unfolding active_def by (rule preservesD [OF activate_preserves])
qed

theorem activate_outcome_witness:
  "activate stubborn home (idle ()) = (False, snd (activate stubborn home (idle ())))
   \<and> last (calls (snd (activate stubborn home (idle ())))) = (Emit ActivationFailure, True)"
proof -
  have run: "activate stubborn home (idle ()) = (False, snd (activate stubborn home (idle ())))"
    by (simp add: daemon_eval)
  from activate_outcome [OF this] show ?thesis using run by (auto simp: idle_def)
qed

abbreviation lan :: ipaddr where
  "lan \<equiv> mk_ip (IPv4 0x0A000000) 8"

theorem switch_keeps_subnets_witness:
  "excl_ok (active home) \<and> m_prefixLength lan < 32 \<and> lan \<in> routes (calls (active home))
   \<and> m_excludedAddresses away = [] \<and> lan \<in> routes (calls (snd (switchServer willing away (active home))))"
proof -
  have "m_prefixLength lan < 32" "lan \<in> routes (calls (active home))" "m_excludedAddresses away = []"
    by (simp_all add: daemon_eval)
  with switch_keeps_subnets [OF active_ok this(1) prod.collapse [symmetric], where E = willing and config = away] active_ok
  show ?thesis by blast
qed

theorem switch_balances_witness:
  "m_connections (active single) SingleHop = Some (connectionState single)
   \<and> refs (active single) (mk_ip (IPv4 0x01010101) 32) = 1
   \<and> fst (switchServer willing away (active single))
   \<and> refs (snd (switchServer willing away (active single))) (mk_ip (IPv4 0x01010101) 32) = 0"
proof -
  let ?p = "mk_ip (IPv4 0x01010101) 32"
  have c: "m_connections (active single) (m_hopType away) = Some (connectionState single)"
    by (simp add: daemon_eval)
  have excl: "map (prefix_of_text willing) (m_excludedAddresses (m_config (connectionState single))) = [?p]"
    "map (prefix_of_text willing) (m_excludedAddresses away) = []"
    by (simp_all add: daemon_eval)
  have one: "refs (active single) ?p = 1" by (simp add: daemon_eval)
  have held: "\<forall>p. int (count_list (map (prefix_of_text willing) (m_excludedAddresses (m_config (connectionState single)))) p)
      \<le> refs (active single) p"
    using one refs_nonneg [OF active_ok, of single] by (simp add: excl)
  have run: "switchServer willing away (active single) = (True, snd (switchServer willing away (active single)))"
    by (simp add: daemon_eval)
  have "\<forall>i\<in>set (m_excludedAddresses (m_config (connectionState single))). single_host willing i"
    by (simp add: daemon_eval)
  from switch_balances [OF active_ok c _ this held run, of ?p] one
  have "refs (snd (switchServer willing away (active single))) ?p = 0" by (simp add: excl)
  moreover have "m_hopType away = SingleHop" by (simp add: away_def home_def blank_def)
  moreover have "fst (switchServer willing away (active single))" using run by (metis fst_conv)
  ultimately show ?thesis using c one by simp
qed


end
