(* ===== verification/App_Settings.thy ===== *)
theory App_Settings
  imports Qt_Json
begin

text \<open>
  The part of client/core/repositories/secureAppSettingsRepository.cpp on split tunnelling and on the
  kill switch: the stored values and the operations on them.  The settings back end returns what was
  written; the stored numbers of the modes are those of the enumerators.
\<close>

section \<open>Stored values\<close>

datatype RouteMode = VpnAllSites | VpnOnlyForwardSites | VpnAllExceptSites

datatype AppsRouteMode = VpnAllApps | VpnOnlyForwardApps | VpnAllExceptApps

fun mode_number :: "RouteMode \<Rightarrow> int" where
  "mode_number VpnAllSites = 0"
| "mode_number VpnOnlyForwardSites = 1"
| "mode_number VpnAllExceptSites = 2"

fun apps_mode_number :: "AppsRouteMode \<Rightarrow> int" where
  "apps_mode_number VpnAllApps = 0"
| "apps_mode_number VpnOnlyForwardApps = 1"
| "apps_mode_number VpnAllExceptApps = 2"

text \<open>The sites of a mode, host names with addresses, in the order of the names.\<close>

type_synonym sites = "(qstring \<times> qstring) list"

record app_info =
  appName :: qstring
  packageName :: qstring
  appPath :: qstring

definition same_app :: "app_info \<Rightarrow> app_info \<Rightarrow> bool" where
  "same_app a b = (if packageName a \<noteq> [] then packageName a = packageName b else appPath a = appPath b)"

datatype settings_signal = RouteModeChanged RouteMode | SitesChanged RouteMode | SitesEnabledChanged bool
  | AppsRouteModeChanged AppsRouteMode | AppsChanged AppsRouteMode | AppsEnabledChanged bool
  | AllowedDnsServersChanged "qstring list"

record app_settings =
  conf_routeMode :: RouteMode
  conf_sites :: "RouteMode \<Rightarrow> sites"
  conf_sitesEnabled :: bool
  conf_seedDone :: bool
  conf_seedVersion :: int
  conf_appsRouteMode :: AppsRouteMode
  conf_apps :: "AppsRouteMode \<Rightarrow> json list"
  conf_appsEnabled :: bool
  conf_allowedDns :: "qstring list"
  conf_killSwitch :: bool
  emitted :: "settings_signal list"

definition notify :: "settings_signal \<Rightarrow> app_settings \<Rightarrow> app_settings" where
  "notify x s = s\<lparr>emitted := emitted s @ [x]\<rparr>"

section \<open>Sites\<close>

definition setRouteMode :: "RouteMode \<Rightarrow> app_settings \<Rightarrow> app_settings" where
  "setRouteMode mode s = notify (RouteModeChanged mode) (s\<lparr>conf_routeMode := mode\<rparr>)"

definition vpnSites :: "app_settings \<Rightarrow> RouteMode \<Rightarrow> sites" where
  "vpnSites s mode = conf_sites s mode"

definition setVpnSites :: "RouteMode \<Rightarrow> sites \<Rightarrow> app_settings \<Rightarrow> app_settings" where
  "setVpnSites mode xs s = s\<lparr>conf_sites := (conf_sites s)(mode := xs)\<rparr>"

definition addVpnSite :: "RouteMode \<Rightarrow> qstring \<Rightarrow> qstring \<Rightarrow> app_settings \<Rightarrow> app_settings" where
  "addVpnSite mode site ip s =
     (if map_of (vpnSites s mode) site \<noteq> None \<and> ip = [] then s
      else notify (SitesChanged mode) (setVpnSites mode (insert_key site ip (vpnSites s mode)) s))"

definition add_stored :: "qstring \<times> qstring \<Rightarrow> sites \<Rightarrow> sites" where
  "add_stored x all = (case x of (site, ip) \<Rightarrow> if map_of all site = Some ip then all else insert_key site ip all)"

definition addVpnSites :: "RouteMode \<Rightarrow> sites \<Rightarrow> app_settings \<Rightarrow> app_settings" where
  "addVpnSites mode xs s = notify (SitesChanged mode) (setVpnSites mode (fold add_stored xs (vpnSites s mode)) s)"

definition removeVpnSite :: "RouteMode \<Rightarrow> qstring \<Rightarrow> app_settings \<Rightarrow> app_settings" where
  "removeVpnSite mode site s =
     (if map_of (vpnSites s mode) site = None then s
      else notify (SitesChanged mode) (setVpnSites mode (AList.delete site (vpnSites s mode)) s))"

definition removeAllVpnSites :: "RouteMode \<Rightarrow> app_settings \<Rightarrow> app_settings" where
  "removeAllVpnSites mode s = notify (SitesChanged mode) (setVpnSites mode [] s)"

definition setSitesSplitTunnelingEnabled :: "bool \<Rightarrow> app_settings \<Rightarrow> app_settings" where
  "setSitesSplitTunnelingEnabled enabled s = notify (SitesEnabledChanged enabled) (s\<lparr>conf_sitesEnabled := enabled\<rparr>)"

section \<open>Applications and name servers\<close>

definition setAppsRouteMode :: "AppsRouteMode \<Rightarrow> app_settings \<Rightarrow> app_settings" where
  "setAppsRouteMode mode s = notify (AppsRouteModeChanged mode) (s\<lparr>conf_appsRouteMode := mode\<rparr>)"

definition read_app :: "json \<Rightarrow> app_info" where
  "read_app v = (let j = as_object v in
     \<lparr>appName = as_string (json_value j (lit ''appName'')), packageName = as_string (json_value j (lit ''packageName'')),
      appPath = as_string (json_value j (lit ''appPath''))\<rparr>)"

definition app_json :: "app_info \<Rightarrow> json" where
  "app_json a = JObject (insert_key (lit ''appPath'') (JString (appPath a))
     (insert_key (lit ''packageName'') (JString (packageName a)) (insert_key (lit ''appName'') (JString (appName a)) [])))"

definition vpnApps :: "app_settings \<Rightarrow> AppsRouteMode \<Rightarrow> app_info list" where
  "vpnApps s mode = map read_app (conf_apps s mode)"

definition setVpnApps :: "AppsRouteMode \<Rightarrow> app_info list \<Rightarrow> app_settings \<Rightarrow> app_settings" where
  "setVpnApps mode apps s =
     notify (AppsChanged mode) (s\<lparr>conf_apps := (conf_apps s)(mode := map app_json apps)\<rparr>)"

definition setAppsSplitTunnelingEnabled :: "bool \<Rightarrow> app_settings \<Rightarrow> app_settings" where
  "setAppsSplitTunnelingEnabled enabled s = notify (AppsEnabledChanged enabled) (s\<lparr>conf_appsEnabled := enabled\<rparr>)"

definition setAllowedDnsServers :: "qstring list \<Rightarrow> app_settings \<Rightarrow> app_settings" where
  "setAllowedDnsServers servers s = notify (AllowedDnsServersChanged servers) (s\<lparr>conf_allowedDns := servers\<rparr>)"

section \<open>Laws\<close>

named_theorems site_simps \<open>rules of the stored sites and applications\<close>

lemma vpnSites_after [site_simps]:
  "vpnSites (setRouteMode m s) n = vpnSites s n"
  "vpnSites (setVpnSites m xs s) n = (if n = m then xs else vpnSites s n)"
  "vpnSites (notify x s) n = vpnSites s n"
  "vpnSites (removeAllVpnSites m s) n = (if n = m then [] else vpnSites s n)"
  "vpnSites (setSitesSplitTunnelingEnabled b s) n = vpnSites s n"
  by (simp_all add: vpnSites_def setVpnSites_def notify_def setRouteMode_def removeAllVpnSites_def setSitesSplitTunnelingEnabled_def)

lemma map_of_add_stored: "map_of (add_stored x all) = (map_of all)(fst x \<mapsto> snd x)"
  by (auto simp: add_stored_def fun_eq_iff split: prod.split)

fun upd_all :: "sites \<Rightarrow> (qstring \<Rightarrow> qstring option) \<Rightarrow> qstring \<Rightarrow> qstring option" where
  "upd_all [] f = f"
| "upd_all (x # xs) f = upd_all xs (f(fst x \<mapsto> snd x))"

lemma map_of_fold_stored: "map_of (fold add_stored xs all) = upd_all xs (map_of all)"
  by (induction xs arbitrary: all) (simp_all add: map_of_add_stored)

lemma map_of_addVpnSite [site_simps]:
  "map_of (vpnSites (addVpnSite m site ip s) n) =
     (if n = m \<and> (ip \<noteq> [] \<or> map_of (vpnSites s m) site = None) then (map_of (vpnSites s m))(site \<mapsto> ip)
      else map_of (vpnSites s n))"
  by (auto simp: addVpnSite_def site_simps)

lemma map_of_addVpnSites [site_simps]:
  "map_of (vpnSites (addVpnSites m xs s) n) =
     (if n = m then upd_all xs (map_of (vpnSites s m)) else map_of (vpnSites s n))"
  by (simp add: addVpnSites_def site_simps map_of_fold_stored)

lemma map_of_removeVpnSite [site_simps]:
  "map_of (vpnSites (removeVpnSite m site s) n) =
     (if n = m then (map_of (vpnSites s m))(site := None) else map_of (vpnSites s n))"
  by (auto simp: removeVpnSite_def site_simps delete_conv' fun_eq_iff)

lemma read_app_json [simp]: "read_app (app_json a) = a"
  by (simp add: read_app_def app_json_def json_value_def Let_def lit_def del: insert_key.simps)

lemma vpnApps_after [site_simps]:
  "vpnApps (setVpnApps m apps s) n = (if n = m then apps else vpnApps s n)"
  "vpnApps (setAppsRouteMode k s) n = vpnApps s n"
  "vpnApps (setAppsSplitTunnelingEnabled b s) n = vpnApps s n"
  by (simp_all add: vpnApps_def setVpnApps_def setAppsRouteMode_def setAppsSplitTunnelingEnabled_def notify_def comp_def)

end
