(* ===== verification/Line_Frames.thy ===== *)
theory Line_Frames
  imports Fresh_Prelude "HOL-Library.Word"
begin

text \<open>
  The framing of messages on the local socket.  A message is a line; both ends keep the bytes of an
  incomplete line in a buffer.  \<open>client_read\<close> is the loop of \<open>LocalSocketController::readData\<close>,
  client/mozilla/localsocketcontroller.cpp, and \<open>server_read\<close> that of
  \<open>DaemonLocalServerConnection::readData\<close>, client/daemon/daemonlocalserverconnection.cpp.  What is done
  with a message is the parameter \<open>parse\<close>.
\<close>

type_synonym bytes = "8 word list"

section \<open>The two loops\<close>

definition byte_space :: "8 word \<Rightarrow> bool" where
  "byte_space b \<longleftrightarrow> b \<in> {9, 10, 11, 12, 13, 32}"

definition byte_trimmed :: "bytes \<Rightarrow> bytes" where
  "byte_trimmed s = rev (dropWhile byte_space (rev (dropWhile byte_space s)))"

text \<open>The bytes up to the first line feed, and those after it.\<close>

definition first_line :: "bytes \<Rightarrow> bytes" where
  "first_line buf = takeWhile (\<lambda>b. b \<noteq> 10) buf"

definition other_lines :: "bytes \<Rightarrow> bytes" where
  "other_lines buf = tl (dropWhile (\<lambda>b. b \<noteq> 10) buf)"

lemma other_lines_less: "10 \<in> set buf \<Longrightarrow> length (other_lines buf) < length buf"
  by (induction buf) (auto simp: other_lines_def)

definition on_line :: "(bytes \<Rightarrow> 's \<Rightarrow> 's) \<Rightarrow> bytes \<Rightarrow> 's \<Rightarrow> 's" where
  "on_line parse line s = (let command = byte_trimmed line in if command = [] then s else parse command s)"

function client_loop :: "(bytes \<Rightarrow> 's \<Rightarrow> 's) \<Rightarrow> bytes \<Rightarrow> 's \<Rightarrow> bytes \<times> 's" where
  "client_loop parse buf s =
     (if 10 \<notin> set buf then (buf, s)
      else client_loop parse (other_lines buf) (on_line parse (first_line buf) s))"
  by pat_completeness auto
termination
  by (relation "measure (\<lambda>(parse, buf, s). length buf)") (auto simp: other_lines_less)

declare client_loop.simps [simp del]

definition client_read :: "(bytes \<Rightarrow> 's \<Rightarrow> 's) \<Rightarrow> bytes \<Rightarrow> bytes \<times> 's \<Rightarrow> bytes \<times> 's" where
  "client_read parse input q = (case q of (buf, s) \<Rightarrow> client_loop parse (buf @ input) s)"

text \<open>
  The loop of the service asks the socket for more when it has no complete line.  The answers of the
  socket are a list; the loop ends with an empty answer.
\<close>

function server_loop :: "(bytes \<Rightarrow> 's \<Rightarrow> 's) \<Rightarrow> bytes list \<Rightarrow> bytes \<Rightarrow> 's \<Rightarrow> bytes \<times> 's" where
  "server_loop parse input buf s =
     (if 10 \<notin> set buf
      then case input of
             [] \<Rightarrow> (buf, s)
           | c # cs \<Rightarrow> if c = [] then (buf, s) else server_loop parse cs (buf @ c) s
      else server_loop parse input (other_lines buf) (on_line parse (first_line buf) s))"
  by pat_completeness auto
termination
  by (relation "measures [\<lambda>(parse, input, buf, s). length (concat input) + length buf,
                          \<lambda>(parse, input, buf, s). length input]")
    (auto simp: other_lines_less)

declare server_loop.simps [simp del]

definition server_read :: "(bytes \<Rightarrow> 's \<Rightarrow> 's) \<Rightarrow> bytes list \<Rightarrow> bytes \<times> 's \<Rightarrow> bytes \<times> 's" where
  "server_read parse input q = (case q of (buf, s) \<Rightarrow> server_loop parse input buf s)"

section \<open>Reference: one byte at a time\<close>

fun accept :: "(bytes \<Rightarrow> 's \<Rightarrow> 's) \<Rightarrow> bytes \<Rightarrow> bytes \<times> 's \<Rightarrow> bytes \<times> 's" where
  "accept parse [] q = q"
| "accept parse (b # bs) (cur, s) =
     accept parse bs (if b = 10 then ([], on_line parse cur s) else (cur @ [b], s))"

lemma accept_append: "accept parse (xs @ ys) q = accept parse ys (accept parse xs q)"
proof (induction xs arbitrary: q)
  case (Cons x xs)
  then show ?case by (cases q) simp
qed simp

lemma accept_no_line: "10 \<notin> set bs \<Longrightarrow> accept parse bs (cur, s) = (cur @ bs, s)"
  by (induction bs arbitrary: cur) auto

lemma accept_line:
  "10 \<notin> set line \<Longrightarrow> accept parse (line @ 10 # bs) (cur, s) = accept parse bs ([], on_line parse (cur @ line) s)"
  by (simp add: accept_append accept_no_line)

lemma accept_buffer: "10 \<notin> set (fst q) \<Longrightarrow> 10 \<notin> set (fst (accept parse bs q))"
proof (induction bs arbitrary: q)
  case (Cons b bs)
  then show ?case by (cases q) simp
qed simp

lemma lines_split:
  assumes "10 \<in> set buf"
  shows "buf = first_line buf @ 10 # other_lines buf" "10 \<notin> set (first_line buf)"
proof -
  have "dropWhile (\<lambda>b. b \<noteq> 10) buf \<noteq> []" using assms by (simp add: dropWhile_eq_Nil_conv)
  then have "dropWhile (\<lambda>b. b \<noteq> 10) buf = 10 # other_lines buf"
    using hd_dropWhile [of "\<lambda>b. b \<noteq> 10" buf] by (cases "dropWhile (\<lambda>b. b \<noteq> 10) buf") (auto simp: other_lines_def)
  then show "buf = first_line buf @ 10 # other_lines buf"
    by (metis first_line_def takeWhile_dropWhile_id)
  show "10 \<notin> set (first_line buf)" by (auto simp: first_line_def dest: set_takeWhileD)
qed

lemma accept_first:
  assumes "10 \<in> set buf"
  shows "accept parse buf ([], s) = accept parse (other_lines buf) ([], on_line parse (first_line buf) s)"
proof -
  have "accept parse buf ([], s) = accept parse (first_line buf @ 10 # other_lines buf) ([], s)"
    using lines_split(1) [OF assms] by simp
  also have "\<dots> = accept parse (other_lines buf) ([], on_line parse (first_line buf) s)"
    using lines_split(2) [OF assms] by (simp add: accept_line)
  finally show ?thesis .
qed

lemma client_loop_accept: "client_loop parse buf s = accept parse buf ([], s)"
proof (induction parse buf s rule: client_loop.induct)
  case (1 parse buf s)
  show ?case
  proof (cases "10 \<in> set buf")
    case True
    with 1 show ?thesis by (simp add: client_loop.simps [of parse buf] accept_first)
  next
    case False
    then show ?thesis by (simp add: client_loop.simps [of parse buf] accept_no_line)
  qed
qed

lemma server_loop_accept:
  "[] \<notin> set input \<Longrightarrow> server_loop parse input buf s = accept parse (buf @ concat input) ([], s)"
proof (induction parse input buf s rule: server_loop.induct)
  case (1 parse input buf s)
  show ?case
  proof (cases "10 \<in> set buf")
    case True
    with 1 show ?thesis by (simp add: server_loop.simps [of parse input buf] accept_append accept_first)
  next
    case False
    show ?thesis
    proof (cases input)
      case Nil
      with False show ?thesis by (simp add: server_loop.simps [of parse "[]" buf] accept_no_line)
    next
      case (Cons c cs)
      with False 1 show ?thesis by (auto simp: server_loop.simps [of parse "c # cs" buf])
    qed
  qed
qed

text \<open>The loops keep what every message keeps, also when an answer of the socket is empty.\<close>

lemma server_loop_keeps:
  "(\<And>c s. Q s \<Longrightarrow> Q (parse c s)) \<Longrightarrow> Q s \<Longrightarrow> Q (snd (server_loop parse input buf s))"
proof (induction parse input buf s rule: server_loop.induct)
  case (1 parse input buf s)
  have "Q (on_line parse (first_line buf) s)" using 1(3,4) by (simp add: on_line_def Let_def)
  with 1 show ?case
    by (subst server_loop.simps) (auto split: list.split)
qed

lemma client_loop_keeps:
  "(\<And>c s. Q s \<Longrightarrow> Q (parse c s)) \<Longrightarrow> Q s \<Longrightarrow> Q (snd (client_loop parse buf s))"
proof (induction parse buf s rule: client_loop.induct)
  case (1 parse buf s)
  have "Q (on_line parse (first_line buf) s)" using 1(2,3) by (simp add: on_line_def Let_def)
  with 1 show ?case by (subst client_loop.simps) auto
qed

section \<open>Readers of lines\<close>

text \<open>A message as it is written: its bytes and a line feed.\<close>

definition frame :: "bytes \<Rightarrow> bytes" where
  "frame c = c @ [10]"

text \<open>Messages that a reader hands over as they are.\<close>

definition frameable :: "bytes \<Rightarrow> bool" where
  "frameable c \<longleftrightarrow> 10 \<notin> set c \<and> byte_trimmed c = c \<and> c \<noteq> []"

locale line_reader =
  fixes read :: "(bytes \<Rightarrow> 's \<Rightarrow> 's) \<Rightarrow> 'i \<Rightarrow> bytes \<times> 's \<Rightarrow> bytes \<times> 's"
    and received :: "'i \<Rightarrow> bytes" and complete :: "'i \<Rightarrow> bool"
  assumes read_accept:
    "complete i \<Longrightarrow> 10 \<notin> set buf \<Longrightarrow> read parse i (buf, s) = accept parse (received i) (buf, s)"
begin

lemma reads_accept:
  "(\<And>i. i \<in> set xs \<Longrightarrow> complete i) \<Longrightarrow> 10 \<notin> set (fst q) \<Longrightarrow>
     runs (read parse) xs q = accept parse (concat (map received xs)) q"
proof (induction xs arbitrary: q)
  case (Cons i xs)
  obtain buf s where q: "q = (buf, s)" by fastforce
  have "read parse i q = accept parse (received i) q" using Cons.prems read_accept [of i buf parse s] by (simp add: q)
  moreover have "10 \<notin> set (fst (accept parse (received i) q))" using Cons.prems(2) by (rule accept_buffer)
  ultimately show ?case using Cons by (simp add: accept_append)
qed simp

lemma delivered:
  assumes "\<And>i. i \<in> set xs \<Longrightarrow> complete i" "\<And>c. c \<in> set cs \<Longrightarrow> frameable c" "10 \<notin> set r"
    and "concat (map received xs) = concat (map frame cs) @ r"
  shows "runs (read parse) xs ([], s) = (r, runs parse cs s)"
proof -
  have "accept parse (concat (map frame cs) @ r) ([], s) = (r, runs parse cs s)"
    using assms(2)
  proof (induction cs arbitrary: s)
    case Nil
    then show ?case using assms(3) by (simp add: accept_no_line)
  next
    case (Cons c cs)
    have "frameable c" using Cons.prems by simp
    then have "accept parse (c @ 10 # (concat (map frame cs) @ r)) ([], s)
        = accept parse (concat (map frame cs) @ r) ([], parse c s)"
      by (simp add: accept_line frameable_def on_line_def Let_def)
    moreover have "concat (map frame (c # cs)) @ r = c @ 10 # (concat (map frame cs) @ r)"
      by (simp add: frame_def [of c])
    ultimately show ?case using Cons by simp
  qed
  with reads_accept [OF assms(1), of xs "([], s)"] assms(4) show ?thesis by simp
qed

end

interpretation controller: line_reader client_read "\<lambda>i. i" "\<lambda>i. True"
proof
  show "client_read parse i (buf, s) = accept parse i (buf, s)" if "10 \<notin> set buf" for parse i buf and s :: 's
    using that by (simp add: client_read_def client_loop_accept accept_append accept_no_line)
qed

interpretation connection: line_reader server_read concat "\<lambda>i. [] \<notin> set i"
proof
  show "server_read parse i (buf, s) = accept parse (concat i) (buf, s)"
    if "[] \<notin> set i" "10 \<notin> set buf" for parse i buf and s :: 's
    using that by (simp add: server_read_def server_loop_accept accept_append accept_no_line)
qed

text \<open>
  The client takes the same messages out of the stream, in the same order, whatever pieces the
  socket hands it, namely those of a reader that takes the bytes one at a time; between two calls
  its buffer holds the incomplete line.
\<close>

theorem client_chunks:
  "runs (client_read parse) chunks ([], s) = accept parse (concat chunks) ([], s)"
  using controller.reads_accept [of chunks "([], s)" parse] by simp

end
