(* ===== verification/Split_Tunneling.thy ===== *)
theory Split_Tunneling
  imports App_Settings IP_Address Line_Frames
begin

text \<open>
  The list of sites that are sent through the tunnel or around it,
  client/core/controllers/ipSplitTunnelingController.cpp, with the tests of texts in
  client/core/utils/networkUtilities.cpp, and the lists of applications and of name servers,
  client/core/controllers/appSplitTunnelingController.cpp and allowedDnsController.cpp.
\<close>

section \<open>Texts\<close>

text \<open>The parts of a text between the occurrences of a separator, and the text without a pattern.\<close>

function split_by :: "qstring \<Rightarrow> qstring \<Rightarrow> qstring \<Rightarrow> qstring list" where
  "split_by p acc [] = [rev acc]"
| "split_by p acc (c # s) =
     (if p \<noteq> [] \<and> prefix p (c # s) then rev acc # split_by p [] (drop (length p - 1) s)
      else split_by p (c # acc) s)"
  by pat_completeness auto
termination
  by (relation "measure (\<lambda>(p, acc, s). length s)") auto

definition split_text :: "qstring \<Rightarrow> qstring \<Rightarrow> qstring list" where
  "split_text p s = split_by p [] s"

function remove_text :: "qstring \<Rightarrow> qstring \<Rightarrow> qstring" where
  "remove_text p [] = []"
| "remove_text p (c # s) =
     (if p \<noteq> [] \<and> prefix p (c # s) then remove_text p (drop (length p - 1) s) else c # remove_text p s)"
  by pat_completeness auto
termination
  by (relation "measure (\<lambda>(p, s). length s)") auto

text \<open>The regular expression of an address with an optional length, and the tests of the formats.\<close>

definition digit_in :: "nat \<Rightarrow> nat \<Rightarrow> code_unit \<Rightarrow> bool" where
  "digit_in a b c \<longleftrightarrow> 48 + a \<le> c \<and> c \<le> 48 + b"

fun octet :: "qstring \<Rightarrow> bool" where
  "octet [a] = digit_in 0 9 a"
| "octet [a, b] = (digit_in 1 9 a \<and> digit_in 0 9 b)"
| "octet [a, b, c] =
     (a = 50 \<and> b = 53 \<and> digit_in 0 5 c \<or> a = 50 \<and> digit_in 0 4 b \<and> digit_in 0 9 c
      \<or> a = 49 \<and> digit_in 0 9 b \<and> digit_in 0 9 c)"
| "octet _ = False"

definition quad :: "qstring \<Rightarrow> bool" where
  "quad s \<longleftrightarrow> (let parts = split_text [46] s in length parts = 4 \<and> list_all octet parts)"

definition ipAddressWithSubnet :: "qstring \<Rightarrow> bool" where
  "ipAddressWithSubnet s =
     (case split_text [47] s of
        [a] \<Rightarrow> quad a
      | [a, n] \<Rightarrow> quad a \<and> (length n = 1 \<or> length n = 2) \<and> list_all (digit_in 0 9) n
      | _ \<Rightarrow> False)"

text \<open>The framework reads addresses, numbers and JSON documents and prints addresses.\<close>

datatype document = ParseError qstring | NoArray | ArrayDocument "json list"

record net_env =
  ne_parseHost :: "qstring \<Rightarrow> host"
  ne_toInt :: "qstring \<Rightarrow> int option"
  ne_text :: "host \<Rightarrow> qstring"
  ne_document :: "bytes \<Rightarrow> document"

fun is_ipv4 :: "host \<Rightarrow> bool" where
  "is_ipv4 (IPv4 _) = True"
| "is_ipv4 _ = False"

definition checkIPv4Format :: "net_env \<Rightarrow> qstring \<Rightarrow> bool" where
  "checkIPv4Format N ip \<longleftrightarrow> ip \<noteq> [] \<and> count_list ip 46 = 3 \<and> is_ipv4 (ne_parseHost N ip)"

definition checkIpSubnetFormat :: "net_env \<Rightarrow> qstring \<Rightarrow> bool" where
  "checkIpSubnetFormat N ip =
     (if 47 \<notin> set ip then checkIPv4Format N ip
      else case split_text [47] ip of
             [a, n] \<Rightarrow> (case ne_toInt N n of
                         Some subnet \<Rightarrow> 0 \<le> subnet \<and> subnet \<le> 32 \<and> checkIPv4Format N a
                       | None \<Rightarrow> False)
           | _ \<Rightarrow> False)"

section \<open>Sites\<close>

record site_controller =
  m_appSettingsRepository :: app_settings
  m_currentRouteMode :: RouteMode
  m_sites :: sites
  lookups :: "qstring list"

definition on_settings :: "(app_settings \<Rightarrow> app_settings) \<Rightarrow> site_controller \<Rightarrow> site_controller" where
  "on_settings f c = c\<lparr>m_appSettingsRepository := f (m_appSettingsRepository c)\<rparr>"

definition fillSites :: "site_controller \<Rightarrow> site_controller" where
  "fillSites c = c\<lparr>m_sites := vpnSites (m_appSettingsRepository c) (m_currentRouteMode c)\<rparr>"

text \<open>Taking the first part of a text that has none is undefined, here \<open>None\<close>.\<close>

definition normalizeHostname :: "qstring \<Rightarrow> qstring option" where
  "normalizeHostname hostname =
     (let n = remove_text (lit ''ftp://'') (remove_text (lit ''http://'') (remove_text (lit ''https://'') hostname))
      in case filter (\<lambda>x. x \<noteq> []) (split_text [47] n) of [] \<Rightarrow> None | x # _ \<Rightarrow> Some x)"

definition validateHostname :: "qstring \<Rightarrow> bool" where
  "validateHostname hostname \<longleftrightarrow> hostname \<noteq> [] \<and> (46 \<in> set hostname \<or> ipAddressWithSubnet hostname)"

text \<open>The loop over the list: whether something is written, and the list.\<close>

fun put_site :: "qstring \<Rightarrow> qstring \<Rightarrow> sites \<Rightarrow> bool \<times> sites" where
  "put_site hostname ip [] = (True, [(hostname, ip)])"
| "put_site hostname ip ((k, v) # xs) =
     (if k = hostname \<and> v = [] \<and> ip \<noteq> [] then (True, (k, ip) # xs)
      else if k = hostname \<and> v = ip then (False, (k, v) # xs)
      else case put_site hostname ip xs of (b, ys) \<Rightarrow> (b, (k, v) # ys))"

definition addSiteInternal :: "qstring \<Rightarrow> qstring \<Rightarrow> site_controller \<Rightarrow> bool \<times> site_controller" where
  "addSiteInternal hostname ip c =
     (if map_of (vpnSites (m_appSettingsRepository c) (m_currentRouteMode c)) hostname \<noteq> None \<and> ip = [] then (False, c)
      else case put_site hostname ip (m_sites c) of
             (b, xs) \<Rightarrow>
               (b, if b then on_settings (addVpnSite (m_currentRouteMode c) hostname ip) (c\<lparr>m_sites := xs\<rparr>) else c))"

definition addSite :: "qstring \<Rightarrow> site_controller \<Rightarrow> (bool \<times> site_controller) option" where
  "addSite hostname c =
     (case normalizeHostname hostname of
        None \<Rightarrow> None
      | Some n \<Rightarrow>
          if \<not> validateHostname n then Some (False, c)
          else if ipAddressWithSubnet n then Some (True, snd (addSiteInternal n [] c))
          else (case addSiteInternal n [] c of
                  (b, c1) \<Rightarrow> Some (b, if b then c1\<lparr>lookups := lookups c1 @ [n]\<rparr> else c1)))"

fun merge_site :: "qstring \<Rightarrow> qstring \<Rightarrow> sites \<Rightarrow> sites" where
  "merge_site hostname ip [] = [(hostname, ip)]"
| "merge_site hostname ip ((k, v) # xs) =
     (if k = hostname then (k, if ip \<noteq> [] then ip else v) # xs else (k, v) # merge_site hostname ip xs)"

definition addSites :: "sites \<Rightarrow> bool \<Rightarrow> site_controller \<Rightarrow> site_controller" where
  "addSites xs replaceExisting c =
     (let c1 = c\<lparr>m_sites := fold (\<lambda>(k, v). merge_site k v) xs (if replaceExisting then [] else m_sites c)\<rparr>;
          c2 = (if replaceExisting then on_settings (removeAllVpnSites (m_currentRouteMode c)) c1 else c1)
      in on_settings (addVpnSites (m_currentRouteMode c) xs) c2)"

fun remove_first :: "qstring \<Rightarrow> sites \<Rightarrow> sites" where
  "remove_first hostname [] = []"
| "remove_first hostname ((k, v) # xs) = (if k = hostname then xs else (k, v) # remove_first hostname xs)"

definition removeSite :: "qstring \<Rightarrow> site_controller \<Rightarrow> bool \<times> site_controller" where
  "removeSite hostname c =
     (if hostname \<in> fst ` set (m_sites c)
      then (True, on_settings (removeVpnSite (m_currentRouteMode c) hostname)
                    (c\<lparr>m_sites := remove_first hostname (m_sites c)\<rparr>))
      else (False, c))"

definition removeSites :: "site_controller \<Rightarrow> site_controller" where
  "removeSites c = on_settings (removeAllVpnSites (m_currentRouteMode c)) (c\<lparr>m_sites := []\<rparr>)"

definition setRouteMode_c :: "RouteMode \<Rightarrow> site_controller \<Rightarrow> site_controller" where
  "setRouteMode_c mode c = on_settings (setRouteMode mode) (fillSites (c\<lparr>m_currentRouteMode := mode\<rparr>))"

definition toggleSplitTunneling :: "bool \<Rightarrow> site_controller \<Rightarrow> site_controller" where
  "toggleSplitTunneling enabled c = on_settings (setSitesSplitTunnelingEnabled enabled) c"

text \<open>A finished lookup: the first IPv4 address is given to the first entry of the host without one.\<close>

fun set_address :: "qstring \<Rightarrow> qstring \<Rightarrow> sites \<Rightarrow> sites" where
  "set_address hostname ip [] = []"
| "set_address hostname ip ((k, v) # xs) =
     (if k = hostname \<and> v = [] then (k, ip) # xs else (k, v) # set_address hostname ip xs)"

definition processSiteAfterResolve :: "qstring \<Rightarrow> qstring \<Rightarrow> site_controller \<Rightarrow> site_controller" where
  "processSiteAfterResolve hostname ip c =
     (if (hostname, []) \<in> set (m_sites c)
      then on_settings (addVpnSite (m_currentRouteMode c) hostname ip)
             (c\<lparr>m_sites := set_address hostname ip (m_sites c)\<rparr>)
      else c)"

definition onHostResolved :: "net_env \<Rightarrow> qstring \<Rightarrow> host list \<Rightarrow> site_controller \<Rightarrow> site_controller" where
  "onHostResolved N hostname addresses c =
     (case find is_ipv4 addresses of
        None \<Rightarrow> c
      | Some a \<Rightarrow> processSiteAfterResolve hostname (ne_text N a) c)"

section \<open>The built-in list\<close>

definition russianDirectSites :: "qstring list" where
  "russianDirectSites = map lit [
    ''sberbank.ru'', ''online.sberbank.ru'', ''sberbank.com'', ''tbank.ru'', ''tinkoff.ru'', ''alfabank.ru'',
    ''alfabank.com'', ''vtb.ru'', ''gazprombank.ru'', ''raiffeisen.ru'', ''open.ru'', ''psbank.ru'',
    ''sovcombank.ru'', ''rshb.ru'', ''mkb.ru'', ''pochtabank.ru'', ''yoomoney.ru'', ''nspk.ru'',
    ''mironline.ru'', ''cbr.ru'', ''qiwi.com'', ''gosuslugi.ru'', ''nalog.ru'', ''nalog.gov.ru'', ''mos.ru'',
    ''pfr.gov.ru'', ''sfr.gov.ru'', ''fss.ru'', ''government.ru'', ''kremlin.ru'', ''mvd.ru'', ''gibdd.ru'',
    ''rosreestr.ru'', ''rosreestr.gov.ru'', ''fedsfm.ru'', ''ozon.ru'', ''www.ozon.ru'', ''ozone.ru'',
    ''cdn1.ozone.ru'', ''cdn2.ozone.ru'', ''xapi.ozon.ru'', ''api.ozon.ru'', ''ozon.travel'',
    ''wildberries.ru'', ''www.wildberries.ru'', ''wb.ru'', ''wbbasket.ru'', ''basket-01.wbbasket.ru'',
    ''avito.ru'', ''www.avito.ru'', ''avito.st'', ''market.yandex.ru'', ''megamarket.ru'',
    ''sbermegamarket.ru'', ''dns-shop.ru'', ''mvideo.ru'', ''citilink.ru'', ''eldorado.ru'', ''lamoda.ru'',
    ''aliexpress.ru'', ''leroymerlin.ru'', ''vseinstrumenti.ru'', ''petrovich.ru'', ''vk.com'', ''vk.ru'',
    ''vkvideo.ru'', ''ok.ru'', ''dzen.ru'', ''kinopoisk.ru'', ''rutube.ru'', ''smotrim.ru'', ''premier.one'',
    ''ivi.ru'', ''okko.tv'', ''wink.ru'', ''more.tv'', ''start.ru'', ''kion.ru'', ''music.yandex.ru'',
    ''zvuk.com'', ''yandex.ru'', ''ya.ru'', ''disk.yandex.ru'', ''mail.yandex.ru'', ''taxi.yandex.ru'',
    ''mail.ru'', ''list.ru'', ''bk.ru'', ''inbox.ru'', ''rambler.ru'', ''mts.ru'', ''beeline.ru'',
    ''megafon.ru'', ''tele2.ru'', ''rt.ru'', ''rzd.ru'', ''aeroflot.ru'', ''pobeda.aero'', ''s7.ru'',
    ''tutu.ru'', ''aviasales.ru'', ''hh.ru'', ''2gis.ru'', ''gismeteo.ru'', ''drom.ru'', ''pochta.ru'',
    ''cdek.ru'']"

fun addSite_each :: "qstring list \<Rightarrow> site_controller \<Rightarrow> site_controller option" where
  "addSite_each [] c = Some c"
| "addSite_each (h # hs) c = (case addSite h c of None \<Rightarrow> None | Some (b, c1) \<Rightarrow> addSite_each hs c1)"

definition topUpRussianDirectSites :: "site_controller \<Rightarrow> site_controller option" where
  "topUpRussianDirectSites c = addSite_each russianDirectSites c"

definition applyRussianDirectPreset :: "site_controller \<Rightarrow> site_controller option" where
  "applyRussianDirectPreset c =
     map_option (on_settings (setSitesSplitTunnelingEnabled True))
       (addSite_each russianDirectSites (setRouteMode_c VpnAllExceptSites c))"

definition kRuDirectSeedVersion :: int where
  "kRuDirectSeedVersion = 2"

definition set_seed_version :: "app_settings \<Rightarrow> app_settings" where
  "set_seed_version s = s\<lparr>conf_seedVersion := kRuDirectSeedVersion\<rparr>"

definition seed_sites :: "site_controller \<Rightarrow> site_controller option" where
  "seed_sites c =
     (let s = m_appSettingsRepository c
      in if conf_seedVersion s < kRuDirectSeedVersion
         then map_option (\<lambda>c1. c1\<lparr>m_currentRouteMode := conf_routeMode (m_appSettingsRepository c1)\<rparr>)
                (if conf_seedVersion s = 0 \<and> \<not> conf_seedDone s
                 then map_option (on_settings (\<lambda>s. set_seed_version (s\<lparr>conf_seedDone := True\<rparr>))) (applyRussianDirectPreset c)
                 else if m_currentRouteMode c = VpnAllExceptSites
                 then map_option (on_settings set_seed_version) (topUpRussianDirectSites c)
                 else Some c)
         else Some c)"

definition IpSplitTunnelingController :: "app_settings \<Rightarrow> site_controller option" where
  "IpSplitTunnelingController s =
     map_option (\<lambda>c. fillSites
         (if m_currentRouteMode c = VpnAllSites
          then on_settings (setRouteMode VpnOnlyForwardSites) (c\<lparr>m_currentRouteMode := VpnOnlyForwardSites\<rparr>)
          else c))
       (seed_sites \<lparr>m_appSettingsRepository = s, m_currentRouteMode = conf_routeMode s, m_sites = [], lookups = []\<rparr>)"

section \<open>Import and export\<close>

datatype import_error = FailedToParse qstring | NotAnArray

fun read_sites :: "json list \<Rightarrow> sites \<Rightarrow> sites option" where
  "read_sites [] xs = Some xs"
| "read_sites (v # vs) xs =
     (let j = as_object v
      in case normalizeHostname (as_string (json_value j (lit ''hostname''))) of
           None \<Rightarrow> None
         | Some n \<Rightarrow> read_sites vs (if validateHostname n
                                  then insert_key n (as_string (json_value j (lit ''ip''))) xs else xs))"

definition importSitesFromJson ::
  "net_env \<Rightarrow> bytes \<Rightarrow> bool \<Rightarrow> site_controller \<Rightarrow> (import_error option \<times> site_controller) option" where
  "importSitesFromJson N jsonData replaceExisting c =
     (case ne_document N jsonData of
        ParseError e \<Rightarrow> Some (Some (FailedToParse e), c)
      | NoArray \<Rightarrow> Some (Some NotAnArray, c)
      | ArrayDocument vs \<Rightarrow> map_option (\<lambda>xs. (None, addSites xs replaceExisting c)) (read_sites vs []))"

definition site_json :: "qstring \<times> qstring \<Rightarrow> json" where
  "site_json x = (case x of (h, ip) \<Rightarrow>
     JObject (insert_key (lit ''ip'') (JString ip) (insert_key (lit ''hostname'') (JString h) [])))"

definition exportSitesToJson :: "site_controller \<Rightarrow> json list" where
  "exportSitesToJson c = map site_json (m_sites c)"

section \<open>Sequences of calls\<close>

datatype site_event = AddSite qstring | RemoveSite qstring | RemoveSites | SetRouteMode RouteMode
  | ToggleSplitTunneling bool | ApplyRussianDirectPreset | Import bytes bool | HostResolved qstring "host list"

fun site_step :: "net_env \<Rightarrow> site_event \<Rightarrow> site_controller \<Rightarrow> site_controller option" where
  "site_step N (AddSite h) c = map_option snd (addSite h c)"
| "site_step N (RemoveSite h) c = Some (snd (removeSite h c))"
| "site_step N RemoveSites c = Some (removeSites c)"
| "site_step N (SetRouteMode m) c = Some (setRouteMode_c m c)"
| "site_step N (ToggleSplitTunneling b) c = Some (toggleSplitTunneling b c)"
| "site_step N ApplyRussianDirectPreset c = applyRussianDirectPreset c"
| "site_step N (Import d r) c = map_option snd (importSitesFromJson N d r c)"
| "site_step N (HostResolved h as) c = Some (onHostResolved N h as c)"

text \<open>Nothing is known after a call whose behaviour is undefined.\<close>

definition site_steps :: "net_env \<Rightarrow> site_event \<Rightarrow> site_controller option \<Rightarrow> site_controller option" where
  "site_steps N e c = Option.bind c (site_step N e)"

section \<open>Applications and name servers\<close>

record app_controller =
  a_settings :: app_settings
  m_appsRouteMode :: AppsRouteMode
  m_apps :: "app_info list"

definition AppSplitTunnelingController :: "app_settings \<Rightarrow> app_controller" where
  "AppSplitTunnelingController s =
     (if conf_appsRouteMode s = VpnAllApps
      then \<lparr>a_settings = setAppsRouteMode VpnAllExceptApps s, m_appsRouteMode = VpnAllExceptApps,
            m_apps = vpnApps s VpnAllExceptApps\<rparr>
      else \<lparr>a_settings = s, m_appsRouteMode = conf_appsRouteMode s, m_apps = vpnApps s (conf_appsRouteMode s)\<rparr>)"

definition store_apps :: "app_info list \<Rightarrow> app_controller \<Rightarrow> app_controller" where
  "store_apps apps c = c\<lparr>m_apps := apps, a_settings := setVpnApps (m_appsRouteMode c) apps (a_settings c)\<rparr>"

definition addApp :: "app_info \<Rightarrow> app_controller \<Rightarrow> bool \<times> app_controller" where
  "addApp a c = (if list_ex (\<lambda>x. same_app x a) (m_apps c) then (False, c) else (True, store_apps (m_apps c @ [a]) c))"

definition removeApp :: "int \<Rightarrow> app_controller \<Rightarrow> app_controller" where
  "removeApp index c =
     (if index < 0 \<or> index \<ge> int (length (m_apps c)) then c
      else store_apps (take (nat index) (m_apps c) @ drop (Suc (nat index)) (m_apps c)) c)"

definition clearAppsList :: "app_controller \<Rightarrow> app_controller" where
  "clearAppsList c = store_apps [] c"

definition setRouteMode_a :: "AppsRouteMode \<Rightarrow> app_controller \<Rightarrow> app_controller" where
  "setRouteMode_a mode c =
     c\<lparr>m_appsRouteMode := mode, m_apps := vpnApps (a_settings c) mode, a_settings := setAppsRouteMode mode (a_settings c)\<rparr>"

definition toggleSplitTunneling_a :: "bool \<Rightarrow> app_controller \<Rightarrow> app_controller" where
  "toggleSplitTunneling_a enabled c = c\<lparr>a_settings := setAppsSplitTunnelingEnabled enabled (a_settings c)\<rparr>"

record dns_controller =
  d_settings :: app_settings
  m_dnsServers :: "qstring list"

definition AllowedDnsController :: "app_settings \<Rightarrow> dns_controller" where
  "AllowedDnsController s = \<lparr>d_settings = s, m_dnsServers = conf_allowedDns s\<rparr>"

definition store_dns :: "qstring list \<Rightarrow> dns_controller \<Rightarrow> dns_controller" where
  "store_dns xs c = c\<lparr>m_dnsServers := xs, d_settings := setAllowedDnsServers xs (d_settings c)\<rparr>"

definition addDns :: "qstring \<Rightarrow> dns_controller \<Rightarrow> bool \<times> dns_controller" where
  "addDns ip c = (if ip \<in> set (m_dnsServers c) then (False, c) else (True, store_dns (m_dnsServers c @ [ip]) c))"

definition addDnsList :: "qstring list \<Rightarrow> bool \<Rightarrow> dns_controller \<Rightarrow> dns_controller" where
  "addDnsList ips replaceExisting c =
     store_dns (fold (\<lambda>ip xs. if ip \<in> set xs then xs else xs @ [ip]) ips (if replaceExisting then [] else m_dnsServers c)) c"

definition removeDns :: "int \<Rightarrow> dns_controller \<Rightarrow> dns_controller" where
  "removeDns index c =
     (if index < 0 \<or> index \<ge> int (length (m_dnsServers c)) then c
      else store_dns (take (nat index) (m_dnsServers c) @ drop (Suc (nat index)) (m_dnsServers c)) c)"

end
