(* ===== verification/Vpn_Sites.thy ===== *)
theory Vpn_Sites
  imports Split_Tunneling
begin

text \<open>
  The part of client/vpnConnection.cpp that turns the settings into the configuration of a connection,
  and that adds routes for the sites: \<open>appendKillSwitchConfig\<close>, \<open>appendSplitTunnelingConfig\<close> and
  \<open>addSitesRoutes\<close>.
\<close>

section \<open>The configuration of a connection\<close>

definition bool_text :: "bool \<Rightarrow> qstring" where
  "bool_text b = lit (if b then ''true'' else ''false'')"

definition appendKillSwitchConfig :: "app_settings \<Rightarrow> obj \<Rightarrow> obj" where
  "appendKillSwitchConfig s cfg =
     insert_key (lit ''allowedDnsServers'') (JArray (map JString (conf_allowedDns s)))
       (insert_key (lit ''killSwitchOption'') (JString (bool_text (conf_killSwitch s))) cfg)"

text \<open>
  The value of a setting in the text of an old configuration: the first line with its name, after the
  sign.  A line without the sign is read out of range, here \<open>None\<close>; \<open>Some None\<close> is a text without such a line.
\<close>

definition native_setting :: "string \<Rightarrow> qstring \<Rightarrow> qstring option option" where
  "native_setting name text =
     (case find (sublist (lit name)) (split_text [10] text) of
        None \<Rightarrow> Some None
      | Some line \<Rightarrow> (case split_text (lit '' = '') line of
                       _ # value # _ \<Rightarrow> Some (Some value)
                     | _ \<Rightarrow> None))"

definition text_array :: "qstring \<Rightarrow> json" where
  "text_array s = JArray (map JString (split_text (lit '', '') s))"

definition add_allowed_ips :: "obj \<Rightarrow> obj option" where
  "add_allowed_ips wg =
     (case map_of wg (lit ''allowed_ips'') of
        Some (JString s) \<Rightarrow> Some (insert_key (lit ''allowed_ips'') (text_array s) wg)
      | Some _ \<Rightarrow> Some wg
      | None \<Rightarrow> map_option (\<lambda>v. case v of None \<Rightarrow> wg | Some s \<Rightarrow> insert_key (lit ''allowed_ips'') (text_array s) wg)
                  (native_setting ''AllowedIPs'' (as_string (json_value wg (lit ''config'')))))"

definition add_keep_alive :: "obj \<Rightarrow> obj option" where
  "add_keep_alive wg =
     (if has_key wg (lit ''persistent_keep_alive'') then Some wg
      else map_option (\<lambda>v. case v of None \<Rightarrow> wg | Some s \<Rightarrow> insert_key (lit ''persistent_keep_alive'') (JString s) wg)
             (native_setting ''PersistentKeepalive'' (as_string (json_value wg (lit ''config'')))))"

text \<open>
  The configuration of WireGuard is put back only when something was added to it; the flag is whether
  sites are allowed.
\<close>

definition wireguard_config :: "obj \<Rightarrow> (bool \<times> obj) option" where
  "wireguard_config cfg =
     (let protocolName = as_string (json_value cfg (lit ''protocol''))
      in if protocolName = lit ''awg'' \<or> protocolName = lit ''wireguard''
         then let key = protocolName @ lit ''_config_data''; wg = as_object (json_value cfg key)
              in map_option (\<lambda>wg1.
                   let ips = as_array (json_value wg1 (lit ''allowed_ips''))
                   in (JString (lit ''0.0.0.0/0'') \<in> set ips \<and> JString (lit ''::/0'') \<in> set ips,
                       if wg1 = wg then cfg else insert_key key (JObject wg1) cfg))
                   (Option.bind (add_allowed_ips wg) add_keep_alive)
         else Some (True, cfg))"

definition keep_first :: "'a list \<Rightarrow> 'a list" where
  "keep_first xs = rev (remdups (rev xs))"

definition site_addresses :: "net_env \<Rightarrow> sites \<Rightarrow> qstring list" where
  "site_addresses N xs = keep_first (concat (map (\<lambda>(h, ip).
     if checkIpSubnetFormat N h then [h] else if checkIpSubnetFormat N ip then [ip] else []) xs))"

definition site_split :: "net_env \<Rightarrow> app_settings \<Rightarrow> bool \<Rightarrow> obj \<Rightarrow> RouteMode \<times> qstring list" where
  "site_split N s allowed cfg =
     (if \<not> conf_sitesEnabled s then (VpnAllSites, [])
      else if \<not> allowed then (conf_routeMode s, [])
      else let sites = site_addresses N (vpnSites s (conf_routeMode s))
           in if sites = [] then (VpnAllSites, [])
              else if conf_routeMode s = VpnOnlyForwardSites
              then (VpnOnlyForwardSites, sites @ [as_string (json_value cfg (lit ''dns1'')), as_string (json_value cfg (lit ''dns2''))])
              else (conf_routeMode s, sites))"

definition app_split :: "app_settings \<Rightarrow> AppsRouteMode \<times> qstring list" where
  "app_split s =
     (let apps = map (\<lambda>a. if appPath a = [] then packageName a else appPath a) (vpnApps s (conf_appsRouteMode s))
      in if conf_appsEnabled s \<and> apps \<noteq> [] then (conf_appsRouteMode s, apps) else (VpnAllApps, []))"

definition appendSplitTunnelingConfig :: "net_env \<Rightarrow> app_settings \<Rightarrow> obj \<Rightarrow> obj option" where
  "appendSplitTunnelingConfig N s cfg =
     (case wireguard_config cfg of
        None \<Rightarrow> None
      | Some (allowed, cfg1) \<Rightarrow>
          (case (site_split N s allowed cfg1, app_split s) of
             ((mode, sites), (apps_mode, apps)) \<Rightarrow> Some
               (insert_key (lit ''splitTunnelApps'') (JArray (map JString apps))
               (insert_key (lit ''appSplitTunnelType'') (JDouble (of_int (apps_mode_number apps_mode)))
               (insert_key (lit ''splitTunnelSites'') (JArray (map JString sites))
               (insert_key (lit ''splitTunnelType'') (JDouble (of_int (mode_number mode))) cfg1))))))"

definition connection_config :: "net_env \<Rightarrow> app_settings \<Rightarrow> obj \<Rightarrow> obj option" where
  "connection_config N s cfg = appendSplitTunnelingConfig N s (appendKillSwitchConfig s cfg)"

section \<open>Routes for the sites\<close>

text \<open>
  A lookup that is under way remembers its site, the mode and the addresses that have routes already.
  What is asked of the routing service is recorded.
\<close>

record route_lookup =
  rl_site :: qstring
  rl_gw :: qstring
  rl_mode :: RouteMode
  rl_ips :: "qstring list"

record site_routes =
  sr_settings :: app_settings
  sr_added :: "(qstring \<times> qstring list) list"
  sr_lookups :: "route_lookup list"

definition addSitesRoutes :: "net_env \<Rightarrow> qstring \<Rightarrow> RouteMode \<Rightarrow> site_routes \<Rightarrow> site_routes" where
  "addSitesRoutes N gw mode r =
     (let xs = vpnSites (sr_settings r) mode;
          ips = site_addresses N xs;
          names = filter (\<lambda>h. \<not> checkIpSubnetFormat N h) (map fst xs)
      in r\<lparr>sr_added := sr_added r @ [(gw, ips)],
           sr_lookups := sr_lookups r @ map (\<lambda>h. \<lparr>rl_site = h, rl_gw = gw, rl_mode = mode, rl_ips = ips\<rparr>) names\<rparr>)"

definition siteResolved :: "net_env \<Rightarrow> route_lookup \<Rightarrow> host list \<Rightarrow> site_routes \<Rightarrow> site_routes" where
  "siteResolved N l addresses r =
     (case find is_ipv4 addresses of
        None \<Rightarrow> r
      | Some a \<Rightarrow>
          let ip = ne_text N a
          in if ip \<in> set (rl_ips l) then r
             else r\<lparr>sr_added := sr_added r @ [(rl_gw l, [ip])],
                    sr_settings := addVpnSite (rl_mode l) (rl_site l) ip (sr_settings r)\<rparr>)"

end
