(* ===== verification/Split_Facts.thy ===== *)
theory Split_Facts
  imports Split_Tunneling
begin

text \<open>
  Properties of the list of sites: which calls are defined, that the list shown and the stored one
  agree, what the built-in list adds, and the round trip of an export.
\<close>

section \<open>Texts\<close>

lemma split_char_parts: "x \<in> set (split_by [c] acc s) \<Longrightarrow> c \<notin> set acc \<Longrightarrow> c \<notin> set x"
  by (induction "[c]" acc s rule: split_by.induct) (auto split: if_splits)

lemma split_char_absent: "c \<notin> set s \<Longrightarrow> split_by [c] acc s = [rev acc @ s]"
  by (induction "[c]" acc s rule: split_by.induct) auto

lemma split_char_first: "c \<notin> set a \<Longrightarrow> split_by [c] acc (a @ c # b) = (rev acc @ a) # split_by [c] [] b"
  by (induction a arbitrary: acc) auto

lemma split_char_set: "\<Union> (set ` set (split_by [c] acc s)) = set acc \<union> (set s - {c})"
  by (induction "[c]" acc s rule: split_by.induct) auto

lemma remove_text_absent: "x \<in> set p \<Longrightarrow> x \<notin> set s \<Longrightarrow> remove_text p s = s"
proof (induction p s rule: remove_text.induct)
  case (2 p c s)
  then have "\<not> prefix p (c # s)" by (metis set_mono_prefix subsetD)
  with 2 show ?case by simp
qed simp

text \<open>What is left of a name when the schemes are removed.\<close>

definition without_schemes :: "qstring \<Rightarrow> qstring" where
  "without_schemes h = remove_text (lit ''ftp://'') (remove_text (lit ''http://'') (remove_text (lit ''https://'') h))"

definition plain_host :: "qstring \<Rightarrow> bool" where
  "plain_host h \<longleftrightarrow> 46 \<in> set h \<and> 47 \<notin> set h"

lemma normalizeHostname_None: "normalizeHostname h = None \<longleftrightarrow> set (without_schemes h) \<subseteq> {47}"
proof -
  let ?parts = "split_by [47] [] (without_schemes h)"
  have "normalizeHostname h = None \<longleftrightarrow> filter (\<lambda>x. x \<noteq> []) ?parts = []"
    by (auto simp: normalizeHostname_def without_schemes_def split_text_def Let_def split: list.split)
  also have "\<dots> \<longleftrightarrow> (\<Union> (set ` set ?parts) = {})" by (auto simp: filter_empty_conv)
  finally show ?thesis by (auto simp: split_char_set)
qed

lemma normalizeHostname_no_slash: "normalizeHostname h = Some n \<Longrightarrow> n \<noteq> [] \<and> 47 \<notin> set n"
proof -
  assume "normalizeHostname h = Some n"
  then have "n \<in> set (filter (\<lambda>x. x \<noteq> []) (split_by [47] [] (without_schemes h)))"
    by (simp add: normalizeHostname_def without_schemes_def split_text_def Let_def split: list.splits del: set_filter)
  then show ?thesis using split_char_parts [of n 47 "[]"] by auto
qed

lemma no_scheme: "58 \<notin> set h \<Longrightarrow> without_schemes h = h"
  using remove_text_absent [of 58 _ h] by (simp add: without_schemes_def lit_def)

lemma no_slash_scheme: "47 \<notin> set h \<Longrightarrow> without_schemes h = h"
  using remove_text_absent [of 47 _ h] by (simp add: without_schemes_def lit_def)

lemma normalizeHostname_plain: "h \<noteq> [] \<Longrightarrow> 47 \<notin> set h \<Longrightarrow> normalizeHostname h = Some h"
  using no_slash_scheme [of h, unfolded without_schemes_def]
  by (simp add: normalizeHostname_def split_text_def split_char_absent Let_def)

lemma quad_dot: "quad s \<Longrightarrow> 46 \<in> set s"
  by (rule ccontr) (simp add: quad_def split_text_def split_char_absent)

lemma validateHostname_dot: "validateHostname h \<longleftrightarrow> 46 \<in> set h"
proof -
  have "46 \<in> set h" if "ipAddressWithSubnet h"
  proof -
    from that obtain a as where "split_by [47] [] h = a # as" "quad a"
      unfolding ipAddressWithSubnet_def split_text_def by (simp split: list.splits)
    then have "set a \<subseteq> set h" using split_char_set [of 47 "[]" h] by auto
    with quad_dot [OF \<open>quad a\<close>] show ?thesis by blast
  qed
  then show ?thesis by (auto simp: validateHostname_def)
qed

lemma normalize_valid: "normalizeHostname h = Some n \<Longrightarrow> validateHostname n \<longleftrightarrow> plain_host n"
  using normalizeHostname_no_slash by (auto simp: validateHostname_dot plain_host_def)

section \<open>Ordered entries\<close>

definition key_sorted :: "(qstring \<times> 'v) list \<Rightarrow> bool" where
  "key_sorted xs \<longleftrightarrow> sorted_wrt ord_class.lexordp (map fst xs)"

lemma key_sorted_distinct: "key_sorted xs \<Longrightarrow> distinct (map fst xs)"
  unfolding key_sorted_def by (induction xs) (auto simp: lexordp_irreflexive' dest: bspec)

lemma set_keys_insert: "fst ` set (insert_key k v xs) = insert k (fst ` set xs)"
  by (induction k v xs rule: insert_key.induct) auto

lemma key_sorted_insert: "key_sorted xs \<Longrightarrow> key_sorted (insert_key k v xs)"
proof (induction k v xs rule: insert_key.induct)
  case (2 k v k' v' j)
  then have later: "\<forall>x\<in>fst ` set j. ord_class.lexordp k' x" and "key_sorted j" by (auto simp: key_sorted_def)
  consider "k = k'" | "k \<noteq> k'" "ord_class.lexordp k k'" | "k \<noteq> k'" "ord_class.lexordp k' k" "\<not> ord_class.lexordp k k'"
    using lexordp_linear by blast
  then show ?case
  proof cases
    case 1
    with 2 show ?thesis by (simp add: key_sorted_def)
  next
    case 2
    with later have "\<forall>x\<in>fst ` set j. ord_class.lexordp k x" using lexordp_trans by blast
    with 2 \<open>key_sorted j\<close> later show ?thesis by (simp add: key_sorted_def)
  next
    case 3
    with 2(1) \<open>key_sorted j\<close> have "key_sorted (insert_key k v j)" by simp
    moreover have "\<forall>x\<in>fst ` set (insert_key k v j). ord_class.lexordp k' x"
      using later 3(2) by (simp add: set_keys_insert)
    ultimately show ?thesis using 3 by (simp add: key_sorted_def)
  qed
qed (simp add: key_sorted_def)

lemma key_sorted_delete: "key_sorted xs \<Longrightarrow> key_sorted (AList.delete k xs)"
  by (simp add: key_sorted_def AList.delete_eq sorted_wrt_map sorted_wrt_filter)

definition settings_sorted :: "app_settings \<Rightarrow> bool" where
  "settings_sorted s \<longleftrightarrow> (\<forall>m. key_sorted (vpnSites s m))"

lemma settings_sorted_steps [site_simps]:
  assumes "settings_sorted s"
  shows "settings_sorted (setRouteMode m s)" "settings_sorted (addVpnSite m h ip s)" "settings_sorted (addVpnSites m xs s)"
    "settings_sorted (removeVpnSite m h s)" "settings_sorted (removeAllVpnSites m s)"
    "settings_sorted (setSitesSplitTunnelingEnabled b s)"
proof -
  have "key_sorted (fold add_stored xs all)" if "key_sorted all" for all
    using that by (induction xs arbitrary: all) (auto simp: add_stored_def key_sorted_insert split: prod.split)
  then show "settings_sorted (addVpnSites m xs s)"
    using assms by (simp add: settings_sorted_def addVpnSites_def vpnSites_after)
qed (use assms in \<open>auto simp: settings_sorted_def addVpnSite_def removeVpnSite_def vpnSites_after
       key_sorted_insert key_sorted_delete key_sorted_def [of "[]"]\<close>)

section \<open>The list shown and the list stored\<close>

text \<open>The names agree, and a stored address is the one shown or empty.\<close>

definition agree_at :: "qstring option \<Rightarrow> qstring option \<Rightarrow> bool" where
  "agree_at shown stored =
     (case stored of None \<Rightarrow> shown = None | Some ip \<Rightarrow> shown = Some ip \<or> ip = [] \<and> shown \<noteq> None)"

definition agree :: "(qstring \<Rightarrow> qstring option) \<Rightarrow> (qstring \<Rightarrow> qstring option) \<Rightarrow> bool" where
  "agree shown stored \<longleftrightarrow> (\<forall>h. agree_at (shown h) (stored h))"

lemma agree_at_simps [simp]:
  "agree_at u u" "agree_at u None \<longleftrightarrow> u = None" "agree_at None (Some ip) = False" "agree_at (Some v) (Some []) = True"
  by (auto simp: agree_at_def split: option.split)

definition sites_ok :: "site_controller \<Rightarrow> bool" where
  "sites_ok c \<longleftrightarrow> settings_sorted (m_appSettingsRepository c) \<and> distinct (map fst (m_sites c))
     \<and> agree (map_of (m_sites c)) (map_of (vpnSites (m_appSettingsRepository c) (m_currentRouteMode c)))"

lemma agree_refl [simp]: "agree f f"
  by (simp add: agree_def)

lemma agree_upd: "agree f g \<Longrightarrow> agree_at v w \<Longrightarrow> agree (f(h := v)) (g(h := w))"
  by (simp add: agree_def)

lemma agree_None: "agree f g \<Longrightarrow> g h = None \<longleftrightarrow> f h = None"
  by (drule agree_def [THEN iffD1, THEN spec [of _ h]]) (cases "f h"; cases "g h"; simp)

lemma on_settings_simps [simp]:
  "m_appSettingsRepository (on_settings f c) = f (m_appSettingsRepository c)"
  "m_currentRouteMode (on_settings f c) = m_currentRouteMode c" "m_sites (on_settings f c) = m_sites c"
  "lookups (on_settings f c) = lookups c"
  by (simp_all add: on_settings_def)

lemma sites_ok_fill: "settings_sorted (m_appSettingsRepository c) \<Longrightarrow> sites_ok (fillSites c)"
  by (simp add: sites_ok_def fillSites_def settings_sorted_def key_sorted_distinct)

lemma put_site_new: "h \<notin> fst ` set xs \<Longrightarrow> put_site h ip xs = (True, xs @ [(h, ip)])"
  by (induction h ip xs rule: put_site.induct) auto

lemma map_of_None_keys: "map_of xs h = None \<longleftrightarrow> h \<notin> fst ` set xs"
  by (rule map_of_eq_None_iff)

lemma map_of_snoc: "map_of xs h = None \<Longrightarrow> map_of (xs @ [(h, v)]) = (map_of xs)(h \<mapsto> v)"
  by (induction xs) (auto simp: fun_eq_iff split: if_splits)

text \<open>A name that is not stored is appended and stored; a stored one changes nothing.\<close>

lemma addSiteInternal_cases:
  assumes "agree (map_of (m_sites c)) (map_of (vpnSites (m_appSettingsRepository c) (m_currentRouteMode c)))"
  shows "addSiteInternal h [] c =
    (if map_of (m_sites c) h = None
     then (True, on_settings (addVpnSite (m_currentRouteMode c) h []) (c\<lparr>m_sites := m_sites c @ [(h, [])]\<rparr>))
     else (False, c))"
  using agree_None [OF assms, of h]
  by (auto simp: addSiteInternal_def put_site_new map_of_None_keys simp del: map_of_eq_None_iff)

lemma sites_ok_addSiteInternal:
  assumes "sites_ok c"
  shows "sites_ok (snd (addSiteInternal h [] c))"
proof (cases "map_of (m_sites c) h = None")
  case True
  from assms have agree: "agree (map_of (m_sites c)) (map_of (vpnSites (m_appSettingsRepository c) (m_currentRouteMode c)))"
    by (simp add: sites_ok_def)
  have "map_of (vpnSites (m_appSettingsRepository c) (m_currentRouteMode c)) h = None"
    using agree_None [OF agree] True by blast
  then show ?thesis
    using assms True agree_upd [OF agree, of "Some []" "Some []" h]
    by (simp add: addSiteInternal_cases [OF agree] sites_ok_def site_simps map_of_snoc map_of_None_keys
        del: map_of_append map_of_eq_None_iff)
next
  case False
  moreover have "agree (map_of (m_sites c)) (map_of (vpnSites (m_appSettingsRepository c) (m_currentRouteMode c)))"
    using assms by (simp add: sites_ok_def)
  ultimately have "addSiteInternal h [] c = (False, c)" by (simp only: addSiteInternal_cases if_False)
  then show ?thesis using assms by simp
qed

lemma sites_ok_lookups [simp]: "sites_ok (c\<lparr>lookups := x\<rparr>) = sites_ok c"
  by (simp add: sites_ok_def)

lemma sites_ok_addSite:
  assumes "sites_ok c" "addSite h c = Some (b, c')"
  shows "sites_ok c'"
proof -
  from assms(2) have "c' = c \<or> (\<exists>n. c' = snd (addSiteInternal n [] c) \<or> (\<exists>x. c' = snd (addSiteInternal n [] c)\<lparr>lookups := x\<rparr>))"
    unfolding addSite_def by (simp split: option.splits if_splits prod.splits) (metis snd_conv)+
  with sites_ok_addSiteInternal [OF assms(1)] assms(1) show ?thesis by auto
qed

lemma map_of_merge_site:
  "map_of (merge_site h ip xs) = (map_of xs)(h \<mapsto> if ip \<noteq> [] then ip else content (map_of xs h))"
  by (induction h ip xs rule: merge_site.induct) (auto simp: fun_eq_iff)

lemma keys_merge_site: "map fst (merge_site h ip xs) = map fst xs @ (if h \<in> fst ` set xs then [] else [h])"
  by (induction h ip xs rule: merge_site.induct) auto

lemma merge_agree:
  assumes "agree (map_of xs) f" "distinct (map fst xs)"
  shows "agree (map_of (fold (\<lambda>(k, v). merge_site k v) ys xs)) (upd_all ys f)
    \<and> distinct (map fst (fold (\<lambda>(k, v). merge_site k v) ys xs))"
  using assms
proof (induction ys arbitrary: xs f)
  case (Cons y ys)
  have "agree_at (Some (if snd y \<noteq> [] then snd y else content (map_of xs (fst y)))) (Some (snd y))" by simp
  with Cons.prems have agree: "agree (map_of (merge_site (fst y) (snd y) xs)) (f(fst y \<mapsto> snd y))"
    unfolding map_of_merge_site by (intro agree_upd) auto
  have "distinct (map fst (merge_site (fst y) (snd y) xs))" using Cons.prems(2) by (simp add: keys_merge_site)
  from Cons.IH [OF agree this] show ?case by (simp add: case_prod_beta del: fun_upd_apply)
qed simp

lemma sites_ok_addSites: "sites_ok c \<Longrightarrow> sites_ok (addSites xs r c)"
  using merge_agree [of "if r then [] else m_sites c"
      "if r then Map.empty else map_of (vpnSites (m_appSettingsRepository c) (m_currentRouteMode c))" xs]
  by (cases r) (simp_all add: sites_ok_def addSites_def site_simps Let_def)

lemma map_of_remove_first: "distinct (map fst xs) \<Longrightarrow> map_of (remove_first h xs) = (map_of xs)(h := None)"
  by (induction h xs rule: remove_first.induct) (auto simp: fun_eq_iff map_of_None_keys simp del: map_of_eq_None_iff)

lemma keys_remove_first: "distinct (map fst xs) \<Longrightarrow> distinct (map fst (remove_first h xs))"
proof (induction h xs rule: remove_first.induct)
  case (2 h k v xs)
  moreover have "fst ` set (remove_first h xs) \<subseteq> fst ` set xs" by (induction h xs rule: remove_first.induct) auto
  ultimately show ?case by auto
qed simp

lemma sites_ok_removeSite: "sites_ok c \<Longrightarrow> sites_ok (snd (removeSite h c))"
  by (auto simp: sites_ok_def removeSite_def site_simps map_of_remove_first keys_remove_first intro: agree_upd)

lemma map_of_set_address:
  "distinct (map fst xs) \<Longrightarrow> (h, []) \<in> set xs \<Longrightarrow> map_of (set_address h ip xs) = (map_of xs)(h \<mapsto> ip)"
proof (induction h ip xs rule: set_address.induct)
  case (2 h ip k v xs)
  then have "k = h \<and> v = [] \<or> k \<noteq> h \<and> (h, []) \<in> set xs" by (auto simp: image_iff)
  with 2 show ?case by (auto simp: fun_eq_iff)
qed simp

lemma keys_set_address: "map fst (set_address h ip xs) = map fst xs"
  by (induction h ip xs rule: set_address.induct) auto

lemma sites_ok_resolved: "sites_ok c \<Longrightarrow> sites_ok (processSiteAfterResolve h ip c)"
proof -
  assume ok: "sites_ok c"
  let ?g = "map_of (vpnSites (m_appSettingsRepository c) (m_currentRouteMode c))"
  show ?thesis
  proof (cases "(h, []) \<in> set (m_sites c)")
    case True
    from ok have agree: "agree (map_of (m_sites c)) ?g" and dist: "distinct (map fst (m_sites c))" by (simp_all add: sites_ok_def)
    with True have "map_of (m_sites c) h = Some []" by simp
    with agree have "?g h = Some []"
      by (auto simp: agree_def agree_at_def split: option.splits dest: spec [of _ h])
    then have "ip = [] \<Longrightarrow> ?g(h \<mapsto> ip) = ?g" by (auto simp: fun_eq_iff)
    moreover have "agree ((map_of (m_sites c))(h \<mapsto> ip)) (?g(h \<mapsto> ip))" using agree by (rule agree_upd) simp
    ultimately have "agree ((map_of (m_sites c))(h \<mapsto> ip))
        (map_of (vpnSites (addVpnSite (m_currentRouteMode c) h ip (m_appSettingsRepository c)) (m_currentRouteMode c)))"
      by (cases "ip = []") (simp_all add: site_simps)
    with True ok dist show ?thesis
      by (simp add: processSiteAfterResolve_def sites_ok_def map_of_set_address keys_set_address site_simps)
  qed (simp add: processSiteAfterResolve_def ok)
qed

lemma sites_ok_setRouteMode: "sites_ok c \<Longrightarrow> sites_ok (setRouteMode_c m c)"
  by (simp add: sites_ok_def setRouteMode_c_def fillSites_def site_simps) (simp add: settings_sorted_def key_sorted_distinct)

lemma sites_ok_each: "sites_ok c \<Longrightarrow> addSite_each hs c = Some c' \<Longrightarrow> sites_ok c'"
  by (induction hs c rule: addSite_each.induct) (auto split: option.splits prod.splits dest: sites_ok_addSite)

lemma sites_ok_enabled: "sites_ok c \<Longrightarrow> sites_ok (on_settings (setSitesSplitTunnelingEnabled b) c)"
  by (simp add: sites_ok_def site_simps)

lemma sites_ok_removeSites: "sites_ok c \<Longrightarrow> sites_ok (removeSites c)"
  by (simp add: sites_ok_def removeSites_def site_simps)

lemma sites_ok_import: "sites_ok c \<Longrightarrow> importSitesFromJson N d r c = Some (e, c') \<Longrightarrow> sites_ok c'"
  by (auto simp: importSitesFromJson_def sites_ok_addSites split: document.splits)

lemma sites_ok_preset: "sites_ok c \<Longrightarrow> applyRussianDirectPreset c = Some c' \<Longrightarrow> sites_ok c'"
  unfolding applyRussianDirectPreset_def
  by (auto intro: sites_ok_enabled sites_ok_each [OF sites_ok_setRouteMode])

lemma sites_ok_host: "sites_ok c \<Longrightarrow> sites_ok (onHostResolved N h as c)"
  by (simp add: onHostResolved_def sites_ok_resolved split: option.split)

lemma sites_ok_step: "sites_ok c \<Longrightarrow> site_step N e c = Some c' \<Longrightarrow> sites_ok c'"
  by (cases e) (auto simp: toggleSplitTunneling_def sites_ok_host
      intro: sites_ok_removeSite sites_ok_removeSites sites_ok_setRouteMode sites_ok_enabled sites_ok_addSite sites_ok_import sites_ok_preset)

interpretation site_list: preserved "site_steps N" "\<lambda>c. case c of None \<Rightarrow> True | Some c \<Rightarrow> sites_ok c" for N
proof
  fix c x
  assume "case c of None \<Rightarrow> True | Some c \<Rightarrow> sites_ok c"
  then show "case site_steps N x c of None \<Rightarrow> True | Some c \<Rightarrow> sites_ok c"
    by (cases c) (auto simp: site_steps_def intro: sites_ok_step split: option.split)
qed

section \<open>Undefined calls\<close>

definition entry_host :: "json \<Rightarrow> qstring" where
  "entry_host v = as_string (json_value (as_object v) (lit ''hostname''))"

definition nothing_left :: "qstring \<Rightarrow> bool" where
  "nothing_left h \<longleftrightarrow> list_all (\<lambda>c. c = 47) (without_schemes h)"

text \<open>The calls with a name of which nothing but slashes is left.\<close>

fun undefined_call :: "net_env \<Rightarrow> site_event \<Rightarrow> bool" where
  "undefined_call N (AddSite h) = nothing_left h"
| "undefined_call N (Import d r) =
     (case ne_document N d of ArrayDocument vs \<Rightarrow> list_ex (nothing_left \<circ> entry_host) vs | _ \<Rightarrow> False)"
| "undefined_call N _ = False"

lemma normalize_nothing_left: "normalizeHostname h = None \<longleftrightarrow> nothing_left h"
  by (auto simp: normalizeHostname_None nothing_left_def list_all_iff)

lemma addSite_None: "addSite h c = None \<longleftrightarrow> nothing_left h"
  by (auto simp: addSite_def normalize_nothing_left [symmetric] split: option.split prod.split)

lemma read_sites_None: "read_sites vs xs = None \<longleftrightarrow> list_ex (nothing_left \<circ> entry_host) vs"
  by (induction vs xs rule: read_sites.induct)
    (auto simp: Let_def entry_host_def normalize_nothing_left [symmetric] split: option.split)

lemma presets_plain: "list_all plain_host russianDirectSites"
  by code_simp

lemma plain_host_defined: "plain_host h \<Longrightarrow> \<not> nothing_left h"
  unfolding normalize_nothing_left [symmetric] plain_host_def by (subst normalizeHostname_plain) auto

lemma addSite_each_defined: "list_all plain_host hs \<Longrightarrow> addSite_each hs c \<noteq> None"
  by (induction hs c rule: addSite_each.induct)
    (auto simp: addSite_None plain_host_defined split: option.split prod.split)

lemma preset_defined: "applyRussianDirectPreset c \<noteq> None" "topUpRussianDirectSites c \<noteq> None"
  using addSite_each_defined [OF presets_plain]
  by (simp_all add: applyRussianDirectPreset_def topUpRussianDirectSites_def)

lemma site_step_None: "site_step N e c = None \<longleftrightarrow> undefined_call N e"
  by (cases e) (auto simp: addSite_None preset_defined importSitesFromJson_def read_sites_None split: document.split)

lemma site_steps_None: "runs (site_steps N) events (Some c) = None \<longleftrightarrow> list_ex (undefined_call N) events"
proof (induction events arbitrary: c)
  case (Cons e es)
  have "runs (site_steps N) es None = None" by (induction es) (simp_all add: site_steps_def)
  moreover have "site_steps N e (Some c) = site_step N e c" by (simp add: site_steps_def)
  ultimately show ?case using Cons site_step_None [of N e c] by (cases "site_step N e c") simp_all
qed simp

section \<open>The built-in list\<close>

text \<open>What adding sites keeps: everything but the list of the current mode, which only grows.\<close>

definition only_added :: "site_controller \<Rightarrow> site_controller \<Rightarrow> bool" where
  "only_added c c' \<longleftrightarrow>
     (let s = m_appSettingsRepository c; s' = m_appSettingsRepository c'
      in m_currentRouteMode c' = m_currentRouteMode c
       \<and> (\<forall>m. m \<noteq> m_currentRouteMode c \<longrightarrow> vpnSites s' m = vpnSites s m)
       \<and> map_of (vpnSites s (m_currentRouteMode c)) \<subseteq>\<^sub>m map_of (vpnSites s' (m_currentRouteMode c))
       \<and> conf_routeMode s' = conf_routeMode s \<and> conf_sitesEnabled s' = conf_sitesEnabled s
       \<and> conf_seedDone s' = conf_seedDone s \<and> conf_seedVersion s' = conf_seedVersion s
       \<and> (settings_sorted s \<longrightarrow> settings_sorted s'))"

lemma only_added_refl: "only_added c c"
  by (simp add: only_added_def Let_def)

lemma only_added_trans: "only_added a b \<Longrightarrow> only_added b c \<Longrightarrow> only_added a c"
  unfolding only_added_def Let_def by (auto intro: map_le_trans)

lemma addVpnSite_keeps:
  "m \<noteq> n \<Longrightarrow> vpnSites (addVpnSite m h ip s) n = vpnSites s n"
  "conf_routeMode (addVpnSite m h ip s) = conf_routeMode s" "conf_sitesEnabled (addVpnSite m h ip s) = conf_sitesEnabled s"
  "conf_seedDone (addVpnSite m h ip s) = conf_seedDone s" "conf_seedVersion (addVpnSite m h ip s) = conf_seedVersion s"
  by (simp_all add: addVpnSite_def setVpnSites_def notify_def vpnSites_def)

lemma only_added_store:
  assumes "m_appSettingsRepository c' = addVpnSite (m_currentRouteMode c) h [] (m_appSettingsRepository c)"
    "m_currentRouteMode c' = m_currentRouteMode c"
  shows "only_added c c'"
  using assms by (auto simp: only_added_def Let_def site_simps addVpnSite_keeps map_le_def)

text \<open>A plain name is stored afterwards, and nothing is taken away.\<close>

lemma addSiteInternal_added:
  "only_added c (snd (addSiteInternal h [] c))
   \<and> (h \<notin> fst ` set (m_sites c) \<or> map_of (vpnSites (m_appSettingsRepository c) (m_currentRouteMode c)) h \<noteq> None
      \<longrightarrow> map_of (vpnSites (m_appSettingsRepository (snd (addSiteInternal h [] c))) (m_currentRouteMode c)) h \<noteq> None)"
proof -
  obtain b xs where p: "put_site h [] (m_sites c) = (b, xs)" by (cases "put_site h [] (m_sites c)")
  have new: "b" if "h \<notin> fst ` set (m_sites c)" using p put_site_new [OF that] by simp
  show ?thesis
    using new
    by (auto simp: addSiteInternal_def p only_added_refl site_simps intro: only_added_store simp del: map_of_eq_None_iff)
qed

abbreviation stored :: "site_controller \<Rightarrow> qstring \<Rightarrow> qstring option" where
  "stored c \<equiv> map_of (vpnSites (m_appSettingsRepository c) (m_currentRouteMode c))"

definition shown_stored :: "site_controller \<Rightarrow> bool" where
  "shown_stored c \<longleftrightarrow> (\<forall>h\<in>fst ` set (m_sites c). stored c h \<noteq> None)"

lemma only_added_stored: "only_added c c' \<Longrightarrow> stored c h \<noteq> None \<Longrightarrow> stored c' h \<noteq> None"
  by (auto simp: only_added_def Let_def map_le_def dom_def)

lemma addSite_plain:
  assumes "plain_host h"
  shows "\<exists>b ls. addSite h c = Some (b, (snd (addSiteInternal h [] c))\<lparr>lookups := ls\<rparr>)"
proof -
  have "h \<noteq> []" "47 \<notin> set h" "validateHostname h" using assms by (auto simp: plain_host_def validateHostname_dot)
  moreover have "\<exists>ls. c1 = c1\<lparr>lookups := ls\<rparr>" for c1 :: site_controller by (rule exI [of _ "lookups c1"]) simp
  ultimately show ?thesis
    by (auto simp: addSite_def normalizeHostname_plain split: prod.split)
qed

lemma keys_put_site: "fst ` set (snd (put_site h ip xs)) \<subseteq> insert h (fst ` set xs)"
proof (induction h ip xs rule: put_site.induct)
  case (2 h ip k v xs)
  obtain b ys where "put_site h ip xs = (b, ys)" by (cases "put_site h ip xs")
  with 2 show ?case by (simp; blast)
qed simp

lemma shown_stored_addSiteInternal:
  assumes "shown_stored c"
  shows "shown_stored (snd (addSiteInternal h [] c)) \<and> stored (snd (addSiteInternal h [] c)) h \<noteq> None"
proof -
  let ?c = "snd (addSiteInternal h [] c)"
  have added: "only_added c ?c" and h: "stored ?c h \<noteq> None"
    using addSiteInternal_added [of c h] assms by (auto simp: shown_stored_def only_added_def Let_def)
  have "m_sites ?c = m_sites c \<or> m_sites ?c = snd (put_site h [] (m_sites c))"
    by (simp add: addSiteInternal_def split: prod.split)
  then have "fst ` set (m_sites ?c) \<subseteq> insert h (fst ` set (m_sites c))"
    using keys_put_site [of h "[]" "m_sites c"] by (elim disjE) (simp_all only: subset_insertI)
  then have "shown_stored ?c"
    using assms h only_added_stored [OF added] unfolding shown_stored_def by blast
  with h show ?thesis by simp
qed

lemma addSite_each_added:
  assumes "list_all plain_host hs" "shown_stored c"
  shows "\<exists>c'. addSite_each hs c = Some c' \<and> only_added c c' \<and> (\<forall>h\<in>set hs. stored c' h \<noteq> None)"
  using assms
proof (induction hs arbitrary: c)
  case (Cons h hs)
  then obtain b ls where a: "addSite h c = Some (b, (snd (addSiteInternal h [] c))\<lparr>lookups := ls\<rparr>)"
    using addSite_plain [of h c] by auto
  let ?c = "(snd (addSiteInternal h [] c))\<lparr>lookups := ls\<rparr>"
  have "shown_stored ?c" "stored ?c h \<noteq> None" "only_added c ?c"
    using shown_stored_addSiteInternal [OF Cons.prems(2), of h] addSiteInternal_added [of c h]
    by (simp_all add: shown_stored_def only_added_def)
  with Cons.IH [of ?c] Cons.prems(1) obtain c' where
    c': "addSite_each hs ?c = Some c'" "only_added ?c c'" "\<forall>h\<in>set hs. stored c' h \<noteq> None" by auto
  then have "stored c' h \<noteq> None" using \<open>stored ?c h \<noteq> None\<close> only_added_stored by blast
  with c' a \<open>only_added c ?c\<close> show ?case by (auto intro: only_added_trans)
qed (simp add: only_added_refl)

lemma shown_stored_fill: "shown_stored (fillSites c)"
  by (auto simp: shown_stored_def fillSites_def weak_map_of_SomeI)

lemma setRouteMode_c_simps [simp]:
  "m_appSettingsRepository (setRouteMode_c m c) = setRouteMode m (m_appSettingsRepository c)"
  "m_currentRouteMode (setRouteMode_c m c) = m" "shown_stored (setRouteMode_c m c)"
  using shown_stored_fill [of "c\<lparr>m_currentRouteMode := m\<rparr>"]
  by (simp_all add: setRouteMode_c_def fillSites_def shown_stored_def site_simps)

lemma all_stored_subset: "(\<forall>h\<in>A. map_of xs h \<noteq> None) \<longleftrightarrow> A \<subseteq> fst ` set xs"
  by (auto simp: map_of_None_keys simp del: map_of_eq_None_iff)

lemma presets_added:
  "shown_stored c \<Longrightarrow> \<exists>c'. addSite_each russianDirectSites c = Some c' \<and> only_added c c'
     \<and> set russianDirectSites \<subseteq> fst ` set (vpnSites (m_appSettingsRepository c') (m_currentRouteMode c'))"
  using addSite_each_added [OF presets_plain, of c] unfolding all_stored_subset .

lemma preset_added:
  "\<exists>c' s'. applyRussianDirectPreset c = Some c' \<and> only_added (setRouteMode_c VpnAllExceptSites c) (c'\<lparr>m_appSettingsRepository := s'\<rparr>)
     \<and> m_appSettingsRepository c' = setSitesSplitTunnelingEnabled True s'
     \<and> set russianDirectSites \<subseteq> fst ` set (vpnSites (m_appSettingsRepository c') (m_currentRouteMode c'))"
proof -
  obtain c1 where c1: "addSite_each russianDirectSites (setRouteMode_c VpnAllExceptSites c) = Some c1"
    "only_added (setRouteMode_c VpnAllExceptSites c) c1"
    "set russianDirectSites \<subseteq> fst ` set (vpnSites (m_appSettingsRepository c1) (m_currentRouteMode c1))"
    using presets_added [of "setRouteMode_c VpnAllExceptSites c"] by auto
  then show ?thesis
    by (intro exI [of _ "on_settings (setSitesSplitTunnelingEnabled True) c1"] exI [of _ "m_appSettingsRepository c1"])
      (simp add: applyRussianDirectPreset_def site_simps on_settings_def)
qed

lemma settings_simps [simp]:
  "conf_routeMode (setRouteMode m s) = m" "conf_sitesEnabled (setRouteMode m s) = conf_sitesEnabled s"
  "conf_seedVersion (setRouteMode m s) = conf_seedVersion s" "conf_seedDone (setRouteMode m s) = conf_seedDone s"
  "conf_routeMode (setSitesSplitTunnelingEnabled b s) = conf_routeMode s"
  "conf_sitesEnabled (setSitesSplitTunnelingEnabled b s) = b"
  "conf_routeMode (set_seed_version s) = conf_routeMode s" "conf_sitesEnabled (set_seed_version s) = conf_sitesEnabled s"
  "conf_seedVersion (set_seed_version s) = 2" "vpnSites (set_seed_version s) m = vpnSites s m"
  "vpnSites (s\<lparr>conf_seedDone := b\<rparr>) m = vpnSites s m" "settings_sorted (set_seed_version s) = settings_sorted s"
  "settings_sorted (s\<lparr>conf_seedDone := b\<rparr>) = settings_sorted s"
  by (simp_all add: setRouteMode_def setSitesSplitTunnelingEnabled_def notify_def set_seed_version_def vpnSites_def
      kRuDirectSeedVersion_def settings_sorted_def)

text \<open>The seeding step: what it does to the settings.\<close>

definition seeded :: "app_settings \<Rightarrow> app_settings \<Rightarrow> bool" where
  "seeded s s' \<longleftrightarrow>
     vpnSites s' VpnAllSites = vpnSites s VpnAllSites \<and> vpnSites s' VpnOnlyForwardSites = vpnSites s VpnOnlyForwardSites
     \<and> map_of (vpnSites s VpnAllExceptSites) \<subseteq>\<^sub>m map_of (vpnSites s' VpnAllExceptSites)
     \<and> (settings_sorted s \<longrightarrow> settings_sorted s')
     \<and> (if conf_seedVersion s = 0 \<and> \<not> conf_seedDone s
        then conf_routeMode s' = VpnAllExceptSites \<and> conf_sitesEnabled s' \<and> conf_seedVersion s' = 2
          \<and> set russianDirectSites \<subseteq> fst ` set (vpnSites s' VpnAllExceptSites)
        else conf_routeMode s' = conf_routeMode s \<and> conf_sitesEnabled s' = conf_sitesEnabled s
          \<and> (if conf_seedVersion s < 2 \<and> conf_routeMode s = VpnAllExceptSites
             then conf_seedVersion s' = 2 \<and> set russianDirectSites \<subseteq> fst ` set (vpnSites s' VpnAllExceptSites)
             else conf_seedVersion s' = conf_seedVersion s \<and> vpnSites s' VpnAllExceptSites = vpnSites s VpnAllExceptSites))"

lemma seed_sites_seeded:
  assumes "m_currentRouteMode c = conf_routeMode (m_appSettingsRepository c)" "m_sites c = []"
  shows "\<exists>c'. seed_sites c = Some c' \<and> seeded (m_appSettingsRepository c) (m_appSettingsRepository c')
    \<and> m_currentRouteMode c' = conf_routeMode (m_appSettingsRepository c')"
proof -
  let ?s = "m_appSettingsRepository c"
  consider (first) "conf_seedVersion ?s = 0" "\<not> conf_seedDone ?s"
    | (upgrade) "conf_seedVersion ?s < 2" "conf_routeMode ?s = VpnAllExceptSites" "\<not> (conf_seedVersion ?s = 0 \<and> \<not> conf_seedDone ?s)"
    | (rest) "conf_seedVersion ?s < 2 \<longrightarrow> conf_routeMode ?s \<noteq> VpnAllExceptSites" "\<not> (conf_seedVersion ?s = 0 \<and> \<not> conf_seedDone ?s)"
    by blast
  then show ?thesis
  proof cases
    case first
    obtain c' s' where c': "applyRussianDirectPreset c = Some c'"
      "only_added (setRouteMode_c VpnAllExceptSites c) (c'\<lparr>m_appSettingsRepository := s'\<rparr>)"
      "m_appSettingsRepository c' = setSitesSplitTunnelingEnabled True s'"
      "set russianDirectSites \<subseteq> fst ` set (vpnSites (m_appSettingsRepository c') (m_currentRouteMode c'))"
      using preset_added by blast
    from c'(2) have "m_currentRouteMode c' = VpnAllExceptSites" by (simp add: only_added_def Let_def)
    with first c' show ?thesis
      by (simp add: seed_sites_def Let_def kRuDirectSeedVersion_def seeded_def only_added_def site_simps)
  next
    case upgrade
    have "shown_stored c" by (simp add: shown_stored_def assms)
    then obtain c' where "addSite_each russianDirectSites c = Some c'" "only_added c c'"
      "set russianDirectSites \<subseteq> fst ` set (vpnSites (m_appSettingsRepository c') (m_currentRouteMode c'))"
      using presets_added by blast
    moreover from upgrade(3) have "(conf_seedVersion ?s = 0 \<and> \<not> conf_seedDone ?s) = False" by blast
    ultimately show ?thesis
      using upgrade(1,2) assms unfolding seed_sites_def seeded_def Let_def
      by (simp only: if_False) (simp add: topUpRussianDirectSites_def kRuDirectSeedVersion_def only_added_def Let_def)
  next
    case rest
    with assms show ?thesis
      by (auto simp: seed_sites_def Let_def kRuDirectSeedVersion_def seeded_def)
  qed
qed

text \<open>
  C17: constructing the list of sites takes no stored site away, changes no address, and leaves the
  lists of the other modes alone.  On the first start of all the mode is set, the list is enabled, and
  every built-in site is stored.  A later start with an older list adds the built-in sites if the
  mode is the one they are meant for, and otherwise neither adds them nor counts as an upgrade; the
  mode and the switch stay, except that the mode of old configurations is replaced.
\<close>

theorem seeding_only_adds:
  "\<exists>c. IpSplitTunnelingController s = Some c \<and> (let s' = m_appSettingsRepository c in
     vpnSites s' VpnAllSites = vpnSites s VpnAllSites \<and> vpnSites s' VpnOnlyForwardSites = vpnSites s VpnOnlyForwardSites
     \<and> map_of (vpnSites s VpnAllExceptSites) \<subseteq>\<^sub>m map_of (vpnSites s' VpnAllExceptSites)
     \<and> m_currentRouteMode c = conf_routeMode s'
     \<and> (if conf_seedVersion s = 0 \<and> \<not> conf_seedDone s
        then conf_routeMode s' = VpnAllExceptSites \<and> conf_sitesEnabled s' \<and> conf_seedVersion s' = 2
          \<and> set russianDirectSites \<subseteq> fst ` set (vpnSites s' VpnAllExceptSites)
        else conf_routeMode s' = (if conf_routeMode s = VpnAllSites then VpnOnlyForwardSites else conf_routeMode s)
          \<and> conf_sitesEnabled s' = conf_sitesEnabled s
          \<and> (if conf_seedVersion s < 2 \<and> conf_routeMode s = VpnAllExceptSites
             then conf_seedVersion s' = 2 \<and> set russianDirectSites \<subseteq> fst ` set (vpnSites s' VpnAllExceptSites)
             else conf_seedVersion s' = conf_seedVersion s
               \<and> vpnSites s' VpnAllExceptSites = vpnSites s VpnAllExceptSites)))"
proof -
  let ?c0 = "\<lparr>m_appSettingsRepository = s, m_currentRouteMode = conf_routeMode s, m_sites = [], lookups = []\<rparr>"
  obtain c1 where c1: "seed_sites ?c0 = Some c1" "seeded s (m_appSettingsRepository c1)"
    "m_currentRouteMode c1 = conf_routeMode (m_appSettingsRepository c1)"
    using seed_sites_seeded [of ?c0] by auto
  then show ?thesis
    by (auto simp: IpSplitTunnelingController_def fillSites_def seeded_def site_simps Let_def)
qed

section \<open>Agreement\<close>

lemma new_list_ok: "settings_sorted s \<Longrightarrow> \<exists>c. IpSplitTunnelingController s = Some c \<and> sites_ok c"
proof -
  assume sorted: "settings_sorted s"
  let ?c0 = "\<lparr>m_appSettingsRepository = s, m_currentRouteMode = conf_routeMode s, m_sites = [], lookups = []\<rparr>"
  obtain c1 where c1: "seed_sites ?c0 = Some c1" "seeded s (m_appSettingsRepository c1)"
    using seed_sites_seeded [of ?c0] by auto
  with sorted have "settings_sorted (m_appSettingsRepository c1)" by (simp add: seeded_def)
  with c1(1) show ?thesis
    by (auto simp: IpSplitTunnelingController_def site_simps intro!: sites_ok_fill)
qed

text \<open>
  C11: whatever is called on the list of sites, starting from its construction, and whatever the lookups
  of names answer: the behaviour is undefined exactly if a name of which nothing but slashes is left
  is added or imported.  Otherwise no name is listed twice, the names shown are those stored for the
  current mode, and every stored address is empty or the one shown.
\<close>

theorem sites_shown_stored:
  assumes "settings_sorted s"
  shows "case runs (site_steps N) events (IpSplitTunnelingController s) of
      None \<Rightarrow> list_ex (undefined_call N) events
    | Some c \<Rightarrow> \<not> list_ex (undefined_call N) events \<and> distinct (map fst (m_sites c))
        \<and> fst ` set (m_sites c) = fst ` set (vpnSites (m_appSettingsRepository c) (m_currentRouteMode c))
        \<and> list_all (\<lambda>(h, ip). ip = [] \<or> (h, ip) \<in> set (m_sites c)) (vpnSites (m_appSettingsRepository c) (m_currentRouteMode c))"
proof (cases "runs (site_steps N) events (IpSplitTunnelingController s)")
  case None
  with new_list_ok [OF assms] show ?thesis by (auto simp: site_steps_None)
next
  case (Some c)
  obtain c0 where c0: "IpSplitTunnelingController s = Some c0" "sites_ok c0" using new_list_ok [OF assms] by blast
  then have "sites_ok c" using site_list.runs_invar [of "Some c0" N events] Some by simp
  then have dist: "distinct (map fst (m_sites c))" and agree: "agree (map_of (m_sites c)) (stored c)"
    and sorted: "distinct (map fst (vpnSites (m_appSettingsRepository c) (m_currentRouteMode c)))"
    by (auto simp: sites_ok_def settings_sorted_def key_sorted_distinct)
  have "h \<in> fst ` set (m_sites c) \<longleftrightarrow> h \<in> fst ` set (vpnSites (m_appSettingsRepository c) (m_currentRouteMode c))" for h
    using agree_None [OF agree, of h] unfolding map_of_None_keys by blast
  moreover have "ip = [] \<or> (h, ip) \<in> set (m_sites c)"
    if "(h, ip) \<in> set (vpnSites (m_appSettingsRepository c) (m_currentRouteMode c))" for h ip
  proof -
    have "stored c h = Some ip" using that sorted by simp
    with agree have "agree_at (map_of (m_sites c) h) (Some ip)" unfolding agree_def by metis
    then show ?thesis by (auto simp: agree_at_def dest: map_of_SomeD)
  qed
  moreover have "\<not> list_ex (undefined_call N) events" using Some c0 site_steps_None [of N events c0] by simp
  ultimately show ?thesis using Some dist by (auto simp: list_all_iff)
qed

lemma site_json_entry:
  "entry_host (site_json (h, ip)) = h" "as_string (json_value (as_object (site_json (h, ip))) (lit ''ip'')) = ip"
  by (simp_all add: entry_host_def site_json_def json_value_def lit_def del: insert_key.simps)

lemma plain_host_normal: "plain_host h \<Longrightarrow> normalizeHostname h = Some h \<and> validateHostname h"
  by (auto simp: plain_host_def validateHostname_dot intro!: normalizeHostname_plain)

text \<open>
  C36: an import that adds to the list and names a listed site without its address erases the stored
  address of the site, while the list still shows it.
\<close>

theorem import_erases_address:
  assumes "map_of (m_sites c) h = Some ip" "ip \<noteq> []" "plain_host h"
    and "ne_document N d = ArrayDocument [site_json (h, [])]"
  shows "\<exists>c'. importSitesFromJson N d False c = Some (None, c') \<and> map_of (m_sites c') h = Some ip
    \<and> map_of (vpnSites (m_appSettingsRepository c') (m_currentRouteMode c')) h = Some []"
proof -
  have "read_sites [site_json (h, [])] [] = Some [(h, [])]"
    using plain_host_normal [OF assms(3)] by (simp add: Let_def site_json_entry [unfolded entry_host_def])
  then show ?thesis
    using assms by (simp add: importSitesFromJson_def addSites_def map_of_merge_site site_simps Let_def)
qed

text \<open>
  C35: a site with a slash is cut at the slash, also an address with a prefix length, although the
  test that follows accepts one: adding it is adding the text before the slash.
\<close>

theorem subnet_cut:
  assumes "a \<noteq> []" "47 \<notin> set a" "58 \<notin> set a" "58 \<notin> set b"
  shows "addSite (a @ [47] @ b) c = addSite a c"
proof -
  have "without_schemes (a @ 47 # b) = a @ 47 # b" using assms by (intro no_scheme) simp
  then have "normalizeHostname (a @ 47 # b) = Some a"
    using assms by (simp add: normalizeHostname_def without_schemes_def split_text_def split_char_first Let_def)
  then show ?thesis using assms by (simp add: addSite_def normalizeHostname_plain)
qed

section \<open>Export and import\<close>

lemma upd_all_distinct: "distinct (map fst xs) \<Longrightarrow> upd_all xs f = f ++ map_of xs"
proof (induction xs arbitrary: f)
  case (Cons x xs)
  then have "map_of xs (fst x) = None" by (simp add: map_of_None_keys del: map_of_eq_None_iff)
  with Cons show ?case by (auto simp: fun_eq_iff map_add_def split: option.split)
qed simp

lemma merge_site_new: "h \<notin> fst ` set xs \<Longrightarrow> merge_site h ip xs = xs @ [(h, ip)]"
  by (induction h ip xs rule: merge_site.induct) auto

lemma merge_fresh:
  "distinct (map fst ys) \<Longrightarrow> fst ` set ys \<inter> fst ` set xs = {} \<Longrightarrow> fold (\<lambda>(k, v). merge_site k v) ys xs = xs @ ys"
proof (induction ys arbitrary: xs)
  case (Cons y ys)
  then have "merge_site (fst y) (snd y) xs = xs @ [y]" by (subst merge_site_new) auto
  with Cons show ?case by (auto simp: case_prod_beta)
qed simp

lemma read_sites_exported:
  assumes "list_all (plain_host \<circ> fst) xs" "key_sorted ys"
  shows "\<exists>zs. read_sites (map site_json xs) ys = Some zs \<and> key_sorted zs \<and> map_of zs = upd_all xs (map_of ys)"
  using assms
proof (induction xs arbitrary: ys)
  case (Cons x xs)
  obtain h ip where x: "x = (h, ip)" by (cases x)
  with Cons.prems have "normalizeHostname h = Some h \<and> validateHostname h" by (simp add: plain_host_normal)
  then have "read_sites (map site_json (x # xs)) ys = read_sites (map site_json xs) (insert_key h ip ys)"
    by (simp add: x Let_def site_json_entry [unfolded entry_host_def])
  with Cons.IH [of "insert_key h ip ys"] Cons.prems show ?case by (simp add: x key_sorted_insert del: fun_upd_apply)
qed simp


section \<open>Applications and name servers\<close>

datatype app_event = AddApp app_info | RemoveApp int | ClearAppsList | SetAppsRouteMode AppsRouteMode | ToggleApps bool

fun app_step :: "app_event \<Rightarrow> app_controller \<Rightarrow> app_controller" where
  "app_step (AddApp a) c = snd (addApp a c)"
| "app_step (RemoveApp i) c = removeApp i c"
| "app_step ClearAppsList c = clearAppsList c"
| "app_step (SetAppsRouteMode m) c = setRouteMode_a m c"
| "app_step (ToggleApps b) c = toggleSplitTunneling_a b c"

datatype dns_event = AddDns qstring | AddDnsList "qstring list" bool | RemoveDns int

fun dns_step :: "dns_event \<Rightarrow> dns_controller \<Rightarrow> dns_controller" where
  "dns_step (AddDns ip) c = snd (addDns ip c)"
| "dns_step (AddDnsList ips r) c = addDnsList ips r c"
| "dns_step (RemoveDns i) c = removeDns i c"

definition apps_ok :: "app_controller \<Rightarrow> bool" where
  "apps_ok c \<longleftrightarrow> m_apps c = vpnApps (a_settings c) (m_appsRouteMode c) \<and> conf_appsRouteMode (a_settings c) = m_appsRouteMode c"

lemma apps_mode_after [simp]:
  "conf_appsRouteMode (setVpnApps m apps s) = conf_appsRouteMode s" "conf_appsRouteMode (setAppsRouteMode m s) = m"
  "conf_appsRouteMode (setAppsSplitTunnelingEnabled b s) = conf_appsRouteMode s"
  by (simp_all add: setVpnApps_def setAppsRouteMode_def setAppsSplitTunnelingEnabled_def notify_def)

interpretation app_list: preserved app_step apps_ok
proof
  fix c x
  assume ok: "apps_ok c"
  then have "apps_ok (store_apps apps c)" for apps by (simp add: apps_ok_def store_apps_def site_simps)
  with ok show "apps_ok (app_step x c)"
    by (cases x) (simp_all add: addApp_def removeApp_def clearAppsList_def setRouteMode_a_def toggleSplitTunneling_a_def,
        simp_all add: apps_ok_def site_simps)
qed

definition dns_ok :: "dns_controller \<Rightarrow> bool" where
  "dns_ok c \<longleftrightarrow> m_dnsServers c = conf_allowedDns (d_settings c)"

interpretation dns_list: preserved dns_step dns_ok
proof
  fix c x
  assume ok: "dns_ok c"
  have "dns_ok (store_dns ips c)" for ips by (simp add: dns_ok_def store_dns_def setAllowedDnsServers_def notify_def)
  with ok show "dns_ok (dns_step x c)" by (cases x) (simp_all add: addDns_def addDnsList_def removeDns_def)
qed

text \<open>
  After any calls the applications shown are those stored for the current mode, which is the
  stored mode, and the name servers shown are those stored.
\<close>

theorem apps_and_dns_stored:
  "(let c = runs app_step app_events (AppSplitTunnelingController s)
    in m_apps c = vpnApps (a_settings c) (m_appsRouteMode c) \<and> conf_appsRouteMode (a_settings c) = m_appsRouteMode c)
   \<and> (let c = runs dns_step dns_events (AllowedDnsController s) in m_dnsServers c = conf_allowedDns (d_settings c))"
proof -
  have "apps_ok (AppSplitTunnelingController s)" by (simp add: apps_ok_def AppSplitTunnelingController_def site_simps)
  then have "apps_ok (runs app_step app_events (AppSplitTunnelingController s))" by (rule app_list.runs_invar)
  moreover have "dns_ok (runs dns_step dns_events (AllowedDnsController s))"
    by (rule dns_list.runs_invar) (simp add: dns_ok_def AllowedDnsController_def)
  ultimately show ?thesis by (simp add: apps_ok_def dns_ok_def Let_def)
qed

end
