(* ===== verification/Socket_Controller.thy ===== *)
theory Socket_Controller
  imports Qt_Json Line_Frames
begin

text \<open>
  The client's side of the local socket, client/mozilla/localsocketcontroller.cpp: the connection to the
  service with its retries, the commands that are written, the JSON object of an activation, and the
  messages that are read.
\<close>

section \<open>State\<close>

text \<open>
  The framework's reading of JSON documents and of dates, whether the client runs on Windows, and the
  values of integers computed from text or numbers out of their range.
\<close>

record client_env =
  cl_read :: "bytes \<Rightarrow> obj option"
  cl_date :: "qstring \<Rightarrow> int option"
  cl_windows :: bool
  cl_overflow :: "int \<Rightarrow> int"
  cl_wide :: "rat \<Rightarrow> int"

datatype daemon_state = eUnknown | eInitializing | eReady | eDisconnected

text \<open>What the controller does: it connects the socket, writes an object, emits a signal, calls back.\<close>

datatype action = ConnectToServer qstring | Write obj
  | Initialized bool bool "int option" | DisconnectedSignal | ConnectedSignal qstring
  | StatusUpdated qstring qstring int int | BackendFailure string | LogCallback nat qstring

record controller =
  m_daemonState :: daemon_state
  m_deviceIpv4 :: qstring
  m_logCallback :: "nat option"
  m_initializingTimer :: bool
  m_initializingRetry :: "32 word"
  actions :: "action list"

definition new_controller :: controller where
  "new_controller = \<lparr>m_daemonState = eUnknown, m_deviceIpv4 = [], m_logCallback = None,
     m_initializingTimer = False, m_initializingRetry = 0, actions = []\<rparr>"

definition act :: "action \<Rightarrow> controller \<Rightarrow> controller" where
  "act a c = c\<lparr>actions := actions c @ [a]\<rparr>"

definition command :: "string \<Rightarrow> obj" where
  "command t = insert_key (lit ''type'') (JString (lit t)) []"

section \<open>Connecting\<close>

definition disconnectInternal :: "controller \<Rightarrow> controller" where
  "disconnectInternal c =
     act DisconnectedSignal (c\<lparr>m_daemonState := eReady, m_initializingRetry := 0, m_initializingTimer := False\<rparr>)"

definition errorOccurred :: "controller \<Rightarrow> controller" where
  "errorOccurred c =
     (if m_daemonState c = eInitializing
      then let r = m_initializingRetry c; c1 = c\<lparr>m_initializingRetry := r + 1\<rparr>
           in if r < 10 then c1\<lparr>m_initializingTimer := True\<rparr>
              else disconnectInternal (act (Initialized False False None) c1)
      else disconnectInternal c)"

text \<open>Whether the first socket path exists is the argument \<open>found\<close>.\<close>

definition socket_path :: "client_env \<Rightarrow> bool \<Rightarrow> qstring" where
  "socket_path E found =
     (if cl_windows E then [92, 92, 46, 92] @ lit ''pipe'' @ [92] @ lit ''amneziavpn''
      else if found then lit ''/var/run/amneziavpn/daemon.socket''
      else lit ''/tmp/amneziavpn.socket'')"

definition initializeInternal :: "client_env \<Rightarrow> bool \<Rightarrow> controller \<Rightarrow> controller" where
  "initializeInternal E found c =
     act (ConnectToServer (socket_path E found)) (c\<lparr>m_daemonState := eInitializing\<rparr>)"

definition initialize :: "client_env \<Rightarrow> bool \<Rightarrow> controller \<Rightarrow> controller" where
  "initialize E found c = initializeInternal E found (c\<lparr>m_initializingRetry := 0\<rparr>)"

definition checkStatus :: "controller \<Rightarrow> controller" where
  "checkStatus c =
     (if m_daemonState c = eReady \<or> m_daemonState c = eInitializing then act (Write (command ''status'')) c else c)"

definition daemonConnected :: "controller \<Rightarrow> controller" where
  "daemonConnected c = checkStatus c"

section \<open>The object of an activation\<close>

text \<open>The C function that reads an integer at the start of a text.\<close>

definition c_space :: "code_unit \<Rightarrow> bool" where
  "c_space c \<longleftrightarrow> c = 32 \<or> (9 \<le> c \<and> c \<le> 13)"

definition int_digits :: "qstring \<Rightarrow> int" where
  "int_digits ds = foldl (\<lambda>n d. n * 10 + (int d - 48)) 0 ds"

definition atoi :: "client_env \<Rightarrow> qstring \<Rightarrow> int" where
  "atoi E s =
     (let t = dropWhile c_space s;
          (sign, u) = (case t of [] \<Rightarrow> (1, []) | x # v \<Rightarrow> if x = 45 then (- 1, v) else if x = 43 then (1, v) else (1, t));
          n = sign * int_digits (takeWhile is_digit u)
      in if - (2 ^ 31) \<le> n \<and> n < 2 ^ 31 then n else cl_overflow E n)"

definition range_object :: "qstring \<Rightarrow> int \<Rightarrow> bool \<Rightarrow> json" where
  "range_object address n v6 = JObject
     (insert_key (lit ''isIpv6'') (JBool v6)
     (insert_key (lit ''range'') (JDouble (of_int n))
     (insert_key (lit ''address'') (JString address) [])))"

text \<open>The first two parts of a text at its slashes.\<close>

definition part0 :: "qstring \<Rightarrow> qstring" where
  "part0 s = takeWhile (\<lambda>c. c \<noteq> 47) s"

definition part1 :: "qstring \<Rightarrow> qstring" where
  "part1 s = part0 (tl (dropWhile (\<lambda>c. c \<noteq> 47) s))"

definition site_range :: "client_env \<Rightarrow> json \<Rightarrow> json" where
  "site_range E v =
     (let s = as_string v
      in if 47 \<in> set s then range_object (part0 s) (atoi E (part1 s)) False
         else range_object s 32 False)"

definition default_allowed :: "json list" where
  "default_allowed = [JString (lit ''0.0.0.0/0''), JString (lit ''::/0'')]"

definition allowed_ranges :: "client_env \<Rightarrow> obj \<Rightarrow> obj \<Rightarrow> json list" where
  "allowed_ranges E raw wg =
     (let plain = as_array (json_value wg (lit ''allowed_ips''));
          splitTunnelType = as_int (json_value raw (lit ''splitTunnelType''))
      in if plain \<noteq> default_allowed \<and> plain \<noteq> [] then map (site_range E) plain
         else (if splitTunnelType = 0 \<or> splitTunnelType = 2
               then [range_object (lit ''0.0.0.0'') 0 False, range_object (lit ''::'') 0 True] else [])
            @ (if splitTunnelType = 1
               then map (site_range E) (as_array (json_value raw (lit ''splitTunnelSites''))) else []))"

definition excluded_addresses :: "obj \<Rightarrow> obj \<Rightarrow> json list" where
  "excluded_addresses raw wg =
     array_value (map_of wg (lit ''hostName''))
     # (if as_int (json_value raw (lit ''splitTunnelType'')) = 2
        then map (\<lambda>v. JString (as_string v)) (as_array (json_value raw (lit ''splitTunnelSites''))) else [])"

text \<open>The obfuscation parameters; the first eleven decide whether they are passed on outside AmneziaWG.\<close>

definition junk_required :: "string list" where
  "junk_required = [''Jc'', ''Jmin'', ''Jmax'', ''S1'', ''S2'', ''S3'', ''S4'', ''H1'', ''H2'', ''H3'', ''H4'']"

definition junk_keys :: "string list" where
  "junk_keys = junk_required @ [''I1'', ''I2'', ''I3'', ''I4'', ''I5'']"

definition copy_junk :: "obj \<Rightarrow> obj \<Rightarrow> obj" where
  "copy_junk wg j = fold (\<lambda>k. insert_value (lit k) (map_of wg (lit k))) junk_keys j"

definition protocol_name :: "obj \<Rightarrow> qstring" where
  "protocol_name raw = as_string (json_value raw (lit ''protocol''))"

definition config_data :: "obj \<Rightarrow> obj" where
  "config_data raw = as_object (json_value raw (protocol_name raw @ lit ''_config_data''))"

definition activation_object :: "client_env \<Rightarrow> obj \<Rightarrow> obj" where
  "activation_object E raw =
     (let wg = config_data raw;
          put = (\<lambda>k v j. insert_value (lit k) v j); dns1 = map_of raw (lit ''dns1'');
          j = command ''activate'';
          j = put ''privateKey'' (map_of wg (lit ''client_priv_key'')) j;
          j = put ''deviceIpv4Address'' (map_of wg (lit ''client_ip'')) j;
          j = put ''deviceIpv6Address'' (Some (JString (lit ''fd58:baa6:dead::1''))) j;
          j = put ''serverPublicKey'' (map_of wg (lit ''server_pub_key'')) j;
          j = put ''serverPskKey'' (map_of wg (lit ''psk_key'')) j;
          j = put ''serverIpv4AddrIn'' (map_of wg (lit ''hostName'')) j;
          j = put ''deviceMTU'' (map_of wg (lit ''mtu'')) j;
          j = put ''serverPort'' (Some (JDouble (of_int (as_int (json_value wg (lit ''port'')))))) j;
          j = put ''serverIpv4Gateway'' (map_of wg (lit ''hostName'')) j;
          j = put ''primaryDnsServer'' dns1 j;
          j = (if sublist (lit ''172.29.172.254'') (as_string (array_value dns1)) then j
               else put ''secondaryDnsServer'' (map_of raw (lit ''dns2'')) j);
          j = put ''allowedIPAddressRanges'' (Some (JArray (allowed_ranges E raw wg))) j;
          j = put ''excludedAddresses'' (Some (JArray (excluded_addresses raw wg))) j;
          j = put ''vpnDisabledApps'' (Some (JArray (as_array (json_value raw (lit ''splitTunnelApps''))))) j;
          j = put ''allowedDnsServers'' (Some (JArray (as_array (json_value raw (lit ''allowedDnsServers''))))) j;
          j = put ''killSwitchOption'' (map_of raw (lit ''killSwitchOption'')) j
      in if protocol_name raw = lit ''awg'' \<or> list_all (\<lambda>k. map_of wg (lit k) \<noteq> None) junk_required
         then copy_junk wg j else j)"

section \<open>Commands\<close>

definition activate_c :: "client_env \<Rightarrow> obj \<Rightarrow> controller \<Rightarrow> controller" where
  "activate_c E raw c =
     act (Write (activation_object E raw))
       (c\<lparr>m_deviceIpv4 := as_string (json_value (config_data raw) (lit ''client_ip''))\<rparr>)"

definition deactivate_c :: "controller \<Rightarrow> controller" where
  "deactivate_c c =
     (if m_daemonState c \<noteq> eReady then act DisconnectedSignal c
      else act DisconnectedSignal (act (Write (command ''deactivate'')) c))"

text \<open>A pending callback is answered with nothing.\<close>

definition cancelLogs :: "controller \<Rightarrow> controller" where
  "cancelLogs c = (case m_logCallback c of None \<Rightarrow> c | Some n \<Rightarrow> (act (LogCallback n []) c)\<lparr>m_logCallback := None\<rparr>)"

definition getBackendLogs :: "nat \<Rightarrow> controller \<Rightarrow> controller" where
  "getBackendLogs n c =
     (let c1 = cancelLogs c
      in if m_daemonState c1 \<noteq> eReady then act (LogCallback n []) c1
         else act (Write (command ''logs'')) (c1\<lparr>m_logCallback := Some n\<rparr>))"

definition cleanupBackendLogs :: "controller \<Rightarrow> controller" where
  "cleanupBackendLogs c =
     (let c1 = cancelLogs c
      in if m_daemonState c1 \<noteq> eReady then c1 else act (Write (command ''cleanlogs'')) c1)"

section \<open>Messages\<close>

definition to_uint64 :: "client_env \<Rightarrow> rat \<Rightarrow> int" where
  "to_uint64 E r = (if 0 \<le> r \<and> r < 2 ^ 64 then \<lfloor>r\<rfloor> else cl_wide E r)"

text \<open>The first status message.\<close>

definition firstStatus :: "client_env \<Rightarrow> obj \<Rightarrow> controller \<Rightarrow> controller" where
  "firstStatus E j c =
     (let c1 = c\<lparr>m_daemonState := eReady\<rparr>
      in case map_of j (lit ''connected'') of
           Some (JBool up) \<Rightarrow>
             if up
             then (case map_of j (lit ''date'') of
                     Some (JString date) \<Rightarrow>
                       (case cl_date E date of
                          None \<Rightarrow> c1
                        | Some t \<Rightarrow> act (Initialized True True (Some t)) c1)
                   | _ \<Rightarrow> c1)
             else act (Initialized True False None) c1
         | _ \<Rightarrow> c1)"

definition laterStatus :: "client_env \<Rightarrow> obj \<Rightarrow> controller \<Rightarrow> controller" where
  "laterStatus E j c =
     (case (map_of j (lit ''serverIpv4Gateway''), map_of j (lit ''deviceIpv4Address''),
            map_of j (lit ''txBytes''), map_of j (lit ''rxBytes'')) of
        (Some (JString gateway), Some (JString address), Some (JDouble tx), Some (JDouble rx)) \<Rightarrow>
          act (StatusUpdated gateway address (to_uint64 E tx) (to_uint64 E rx)) c
      | _ \<Rightarrow> c)"

definition onConnected :: "obj \<Rightarrow> controller \<Rightarrow> controller" where
  "onConnected j c =
     (case map_of j (lit ''pubkey'') of
        Some (JString pubkey) \<Rightarrow>
          act (ConnectedSignal pubkey) (act (StatusUpdated [] (m_deviceIpv4 c) 0 0) (checkStatus c))
      | _ \<Rightarrow> c)"

text \<open>The error code is cut to a byte.\<close>

definition onBackendFailure :: "obj \<Rightarrow> controller \<Rightarrow> controller" where
  "onBackendFailure j c =
     (if \<not> has_key j (lit ''errorCode'') then act (BackendFailure ''backend failure without error code'') c
      else let errorCode = (of_int (as_int (json_value j (lit ''errorCode''))) :: 8 word)
           in if errorCode \<ge> 5 then act (BackendFailure ''backend failure with invalid error code'') c
              else if errorCode \<le> 1 then act (BackendFailure ''fatal backend failure'') c
              else act (BackendFailure ''split tunnel backend failure'') c)"

definition onLogs :: "obj \<Rightarrow> controller \<Rightarrow> controller" where
  "onLogs j c =
     (case m_logCallback c of
        None \<Rightarrow> c
      | Some n \<Rightarrow>
          (act (LogCallback n (replace_all 124 10 (as_string (json_value j (lit ''logs''))))) c)\<lparr>m_logCallback := None\<rparr>)"

definition onMessage :: "client_env \<Rightarrow> obj \<Rightarrow> controller \<Rightarrow> controller" where
  "onMessage E j c =
     (case map_of j (lit ''type'') of
        Some (JString t) \<Rightarrow>
          if m_daemonState c = eInitializing \<and> t = lit ''status'' then firstStatus E j c
          else if m_daemonState c \<noteq> eReady then c
          else if t = lit ''status'' then laterStatus E j c
          else if t = lit ''disconnected'' then disconnectInternal c
          else if t = lit ''connected'' then onConnected j c
          else if t = lit ''backendFailure'' then onBackendFailure j c
          else if t = lit ''logs'' then onLogs j c
          else c
      | _ \<Rightarrow> c)"

definition parseCommand :: "client_env \<Rightarrow> bytes \<Rightarrow> controller \<Rightarrow> controller" where
  "parseCommand E data c = (case cl_read E data of None \<Rightarrow> c | Some j \<Rightarrow> onMessage E j c)"

section \<open>Events\<close>

text \<open>
  What happens to the controller.  The disconnection of the socket is reported as an error.  The retry
  timer is a single shot and fires only when it was started.
\<close>

datatype client_event = Initialize bool | RetryTimeout bool | SocketConnected | SocketError
  | Data bytes | ActivateCall obj | DeactivateCall | StatusCall | LogsCall nat | CleanLogsCall

fun client_step :: "client_env \<Rightarrow> client_event \<Rightarrow> bytes \<times> controller \<Rightarrow> bytes \<times> controller" where
  "client_step E (Initialize found) (buf, c) = (buf, initialize E found c)"
| "client_step E (RetryTimeout found) (buf, c) =
     (buf, if m_initializingTimer c then initializeInternal E found (c\<lparr>m_initializingTimer := False\<rparr>) else c)"
| "client_step E SocketConnected (buf, c) = (buf, daemonConnected c)"
| "client_step E SocketError (buf, c) = (buf, errorOccurred c)"
| "client_step E (Data bs) q = client_read (parseCommand E) bs q"
| "client_step E (ActivateCall raw) (buf, c) = (buf, activate_c E raw c)"
| "client_step E DeactivateCall (buf, c) = (buf, deactivate_c c)"
| "client_step E StatusCall (buf, c) = (buf, checkStatus c)"
| "client_step E (LogsCall n) (buf, c) = (buf, getBackendLogs n c)"
| "client_step E CleanLogsCall (buf, c) = (buf, cleanupBackendLogs c)"

end
