(* ===== verification/Daemon_Connection.thy ===== *)
theory Daemon_Connection
  imports Daemon_Calls Line_Frames
begin

text \<open>
  A client's connection to the service, client/daemon/daemonlocalserverconnection.cpp: the commands it
  understands, the answers, and the signals of the service it passes on.
\<close>

section \<open>Messages\<close>

definition message :: "string \<Rightarrow> obj" where
  "message t = insert_key (lit ''type'') (JString (lit t)) []"

definition connected_message :: "qstring \<Rightarrow> obj" where
  "connected_message pubkey = insert_key (lit ''pubkey'') (JString pubkey) (message ''connected'')"

definition disconnected_message :: obj where
  "disconnected_message = message ''disconnected''"

datatype DaemonError = ERROR_NONE | ERROR_FATAL | ERROR_SPLIT_TUNNEL_INIT_FAILURE
  | ERROR_SPLIT_TUNNEL_START_FAILURE | ERROR_SPLIT_TUNNEL_EXCLUDE_FAILURE | DAEMON_ERROR_MAX

fun error_number :: "DaemonError \<Rightarrow> int" where
  "error_number ERROR_NONE = 0"
| "error_number ERROR_FATAL = 1"
| "error_number ERROR_SPLIT_TUNNEL_INIT_FAILURE = 2"
| "error_number ERROR_SPLIT_TUNNEL_START_FAILURE = 3"
| "error_number ERROR_SPLIT_TUNNEL_EXCLUDE_FAILURE = 4"
| "error_number DAEMON_ERROR_MAX = 5"

definition backendFailure_message :: "DaemonError \<Rightarrow> obj" where
  "backendFailure_message err =
     insert_key (lit ''errorCode'') (JDouble (of_int (error_number err))) (message ''backendFailure'')"

definition logs_message :: "qstring \<Rightarrow> obj" where
  "logs_message text = insert_key (lit ''logs'') (JString text) (message ''logs'')"

text \<open>The answer of \<open>Daemon::getStatus\<close> with its type; the text of a date is a parameter.\<close>

fun status_json :: "(int option \<Rightarrow> qstring) \<Rightarrow> status \<Rightarrow> obj" where
  "status_json dateText NotConnected = insert_key (lit ''connected'') (JBool False) []"
| "status_json dateText (ConnectedTo gateway address date tx rx) =
     insert_key (lit ''rxBytes'') (JDouble (of_int rx))
     (insert_key (lit ''txBytes'') (JDouble (of_int tx))
     (insert_key (lit ''date'') (JString (dateText date))
     (insert_key (lit ''deviceIpv4Address'') (JString address)
     (insert_key (lit ''serverIpv4Gateway'') (JString gateway)
     (insert_key (lit ''connected'') (JBool True) [])))))"

definition status_message :: "(int option \<Rightarrow> qstring) \<Rightarrow> status \<Rightarrow> obj" where
  "status_message dateText st = insert_key (lit ''type'') (JString (lit ''status'')) (status_json dateText st)"

section \<open>The connection\<close>

text \<open>
  The platform, the framework's reading and writing of JSON documents, and its text of a date.  A
  document that is no object is read as \<open>None\<close>.
\<close>

record 'w service_env =
  sv_platform :: "'w platform"
  sv_read :: "bytes \<Rightarrow> obj option"
  sv_text :: "obj \<Rightarrow> bytes"
  sv_date :: "int option \<Rightarrow> qstring"

text \<open>The service and the objects written to the client.\<close>

record 'w server =
  svc :: "'w daemon"
  sent :: "obj list"

definition write_object :: "obj \<Rightarrow> 'w server \<Rightarrow> 'w server" where
  "write_object x s = s\<lparr>sent := sent s @ [x]\<rparr>"

text \<open>
  The slots \<open>connected\<close> and \<open>disconnected\<close>: what the connection writes for a signal that the service
  emits.  The failure signal of an activation is not connected.
\<close>

fun on_signal :: "syscall \<Rightarrow> obj list" where
  "on_signal (Emit (Connected pubkey)) = [connected_message pubkey]"
| "on_signal (Emit Disconnected) = [disconnected_message]"
| "on_signal _ = []"

definition with_service :: "('w daemon \<Rightarrow> bool \<times> 'w daemon) \<Rightarrow> 'w server \<Rightarrow> bool \<times> 'w server" where
  "with_service f s =
     (case f (svc s) of
        (b, d) \<Rightarrow> (b, s\<lparr>svc := d, sent := sent s @ concat (map (on_signal \<circ> fst) (drop (length (calls (svc s))) (calls d)))\<rparr>))"

definition activateCommand :: "'w service_env \<Rightarrow> obj \<Rightarrow> 'w server \<Rightarrow> 'w server" where
  "activateCommand E j s =
     (case parseConfig (sv_platform E) j of
        None \<Rightarrow> write_object disconnected_message s
      | Some config \<Rightarrow>
          (case with_service (activate (sv_platform E) config) s of
             (b, s1) \<Rightarrow> if b then s1 else write_object disconnected_message s1))"

text \<open>The commands; the second test for logs is never reached.\<close>

definition onCommand :: "'w service_env \<Rightarrow> obj \<Rightarrow> 'w server \<Rightarrow> 'w server" where
  "onCommand E j s =
     (case map_of j (lit ''type'') of
        Some (JString t) \<Rightarrow>
          if t = lit ''logs'' then write_object (logs_message []) s
          else if t = lit ''activate'' then activateCommand E j s
          else if t = lit ''deactivate'' then snd (with_service (deactivate (sv_platform E) True) s)
          else if t = lit ''status''
          then write_object (status_message (sv_date E) (getStatus (sv_platform E) (svc s))) s
          else s
      | _ \<Rightarrow> s)"

definition parseCommand_c :: "'w service_env \<Rightarrow> bytes \<Rightarrow> 'w server \<Rightarrow> 'w server" where
  "parseCommand_c E data s = (case sv_read E data of None \<Rightarrow> s | Some j \<Rightarrow> onCommand E j s)"

text \<open>What happens at a connection: bytes arrive, the handshake timer fires, the platform fails.\<close>

datatype server_event = Incoming "bytes list" | Timeout | Failure DaemonError

fun server_step :: "'w service_env \<Rightarrow> server_event \<Rightarrow> bytes \<times> 'w server \<Rightarrow> bytes \<times> 'w server" where
  "server_step E (Incoming answers) q = server_read (parseCommand_c E) answers q"
| "server_step E Timeout (buf, s) =
     (buf, snd (with_service (\<lambda>d. (True, checkHandshake (sv_platform E) d)) s))"
| "server_step E (Failure err) (buf, s) = (buf, write_object (backendFailure_message err) s)"

section \<open>Properties\<close>

lemma with_service_svc: "svc (snd (with_service f s)) = snd (f (svc s))"
  by (simp add: with_service_def split: prod.splits)

lemma write_object_svc [simp]: "svc (write_object x s) = svc s"
  by (simp add: write_object_def)

lemma onCommand_ok: "excl_ok (svc s) \<Longrightarrow> excl_ok (svc (onCommand E j s))"
proof -
  assume ok: "excl_ok (svc s)"
  have "excl_ok (svc (activateCommand E j s))"
  proof (cases "parseConfig (sv_platform E) j")
    case (Some config)
    obtain b s1 where s1: "with_service (activate (sv_platform E) config) s = (b, s1)" by fastforce
    then have "excl_ok (svc s1)"
      using with_service_svc [of "activate (sv_platform E) config" s] preservesD [OF activate_preserves ok] by simp
    with Some s1 show ?thesis by (simp add: activateCommand_def)
  qed (simp add: activateCommand_def ok)
  with ok show ?thesis
    by (auto simp: onCommand_def with_service_svc preservesD [OF deactivate_preserves ok] split: option.splits json.splits)
qed

lemma server_step_ok: "excl_ok (svc (snd q)) \<Longrightarrow> excl_ok (svc (snd (server_step E x q)))"
proof -
  assume ok: "excl_ok (svc (snd q))"
  obtain buf s where q: "q = (buf, s)" by fastforce
  show ?thesis
  proof (cases x)
    case (Incoming answers)
    have "excl_ok (svc t) \<Longrightarrow> excl_ok (svc (parseCommand_c E c t))" for c t
      by (simp add: parseCommand_c_def onCommand_ok split: option.splits)
    from server_loop_keeps [where Q = "\<lambda>s. excl_ok (svc s)" and parse = "parseCommand_c E", OF this]
    show ?thesis using ok by (simp add: Incoming q server_read_def)
  qed (use ok in \<open>simp_all add: q with_service_svc checkHandshake_ok\<close>)
qed

interpretation server: preserved "server_step E" "\<lambda>q. excl_ok (svc (snd q))" for E :: "'w service_env"
  by unfold_locales (rule server_step_ok)

definition fresh_server :: "'w \<Rightarrow> bytes \<times> 'w server" where
  "fresh_server w = ([], \<lparr>svc = idle w, sent = []\<rparr>)"


lemma unreported_signals:
  "\<forall>x\<in>set cs. fst x \<noteq> Emit Disconnected \<and> (\<forall>k. fst x \<noteq> Emit (Connected k)) \<Longrightarrow> concat (map (on_signal \<circ> fst) cs) = []"
proof (induction cs)
  case (Cons x cs)
  then have "on_signal (fst x) = []" by (cases "fst x" rule: on_signal.cases) auto
  with Cons show ?case by simp
qed simp


end
