(* ===== verification/Config_Facts.thy ===== *)
theory Config_Facts
  imports Daemon_Request "HOL-Library.Multiset"
begin

text \<open>
  Properties of the configurations the service accepts, and of the object and the text written from a
  configuration.
\<close>

lemma lit_eq [simp]: "lit s = lit t \<longleftrightarrow> s = t"
  by (simp add: lit_def inj_map_eq_map inj_of_char)

section \<open>Accepted configurations\<close>

text \<open>What is used of \<open>std::sort\<close>: a permutation in the order of decreasing length.\<close>

definition sort_ok :: "'e parse_env_scheme \<Rightarrow> bool" where
  "sort_ok P \<longleftrightarrow> (\<forall>xs. mset (pf_sortRanges P xs) = mset xs
     \<and> sorted_wrt (\<lambda>a b. m_prefixLength a \<ge> m_prefixLength b) (pf_sortRanges P xs))"

lemma as_int_range: "- (2 ^ 31) \<le> as_int v" "as_int v < 2 ^ 31"
  by (cases v; simp add: Let_def)+

lemma those_set: "those xs = Some ys \<Longrightarrow> Some ` set ys = set xs"
proof (induction xs arbitrary: ys)
  case (Cons x xs)
  then obtain y zs where "x = Some y" "those xs = Some zs" "ys = y # zs" by (auto split: option.splits)
  with Cons.IH [of zs] show ?case by simp
qed simp

lemma parseRange_int: "parseRange P v = Some i \<Longrightarrow> - (2 ^ 31) \<le> m_prefixLength i \<and> m_prefixLength i < 2 ^ 31"
  using as_int_range by (auto simp: parseRange_def mk_ip_def simp del: as_int.simps split: json.splits option.splits)

text \<open>
  C22: a configuration the service accepts has a device and a server address, an MTU that is not zero
  and on Windows at least 1280, and its ranges are those of the request, longest prefixes first, with
  lengths that fit an integer.
\<close>

theorem accepted_config:
  assumes "sort_ok P" "parseConfig P j = Some config"
  shows "(m_deviceIpv4Address config \<noteq> None \<or> m_deviceIpv6Address config \<noteq> None)
    \<and> (m_serverIpv4AddrIn config \<noteq> None \<or> m_serverIpv6AddrIn config \<noteq> None)
    \<and> m_deviceMTU config \<noteq> 0 \<and> (pf_windows P \<longrightarrow> 1280 \<le> m_deviceMTU config)
    \<and> sorted_wrt (\<lambda>a b. m_prefixLength a \<ge> m_prefixLength b) (m_allowedIPAddressRanges config)
    \<and> Some ` set (m_allowedIPAddressRanges config) = parseRange P ` set (as_array (json_value j (lit ''allowedIPAddressRanges'')))
    \<and> (\<forall>i\<in>set (m_allowedIPAddressRanges config). - (2 ^ 31) \<le> m_prefixLength i \<and> m_prefixLength i < 2 ^ 31)"
proof -
  from assms(2) obtain pk spk port dns1 dns2 hp ranges excl apps allowed where
    addr: "string_at j (lit ''deviceIpv4Address'') \<noteq> None \<or> string_at j (lit ''deviceIpv6Address'') \<noteq> None"
      "string_at j (lit ''serverIpv4AddrIn'') \<noteq> None \<or> string_at j (lit ''serverIpv6AddrIn'') \<noteq> None"
    and ranges: "parseRanges P j = Some ranges"
    and config: "config = fill_config P j pk spk port dns1 dns2 hp ranges excl apps allowed"
    unfolding parseConfig_Some by blast
  from ranges obtain xs ys where xs: "map_of j (lit ''allowedIPAddressRanges'') = Some (JArray xs)"
    and ys: "those (map (parseRange P) xs) = Some ys" and sorted: "ranges = pf_sortRanges P ys"
    by (auto simp: parseRanges_def split: option.splits json.splits)
  have "mset ranges = mset ys" using assms(1) by (simp add: sorted sort_ok_def)
  then have "set ranges = set ys" by (rule mset_eq_setD)
  then have set: "Some ` set ranges = parseRange P ` set xs" using those_set [OF ys] by simp
  have "\<exists>v. parseRange P v = Some i" if "i \<in> set ranges" for i
    using set that by (metis imageE image_eqI)
  then have "\<forall>i\<in>set ranges. - (2 ^ 31) \<le> m_prefixLength i \<and> m_prefixLength i < 2 ^ 31"
    using parseRange_int by blast
  moreover have "sorted_wrt (\<lambda>a b. m_prefixLength a \<ge> m_prefixLength b) ranges"
    using assms(1) by (simp add: sorted sort_ok_def)
  moreover have "parseMTU P j \<noteq> 0" "pf_windows P \<longrightarrow> 1280 \<le> parseMTU P j" by (auto simp: parseMTU_def Let_def)
  ultimately show ?thesis
    using addr set xs by (simp add: config fill_config_def json_value_def)
qed

section \<open>The text for the tunnel program\<close>

text \<open>The lines of a text, and of a text that has a given line.\<close>

definition has_line :: "qstring \<Rightarrow> qstring \<Rightarrow> bool" where
  "has_line line s \<longleftrightarrow> (\<exists>us vs. s = us @ [10] @ line @ [10] @ vs)"

lemma has_line_append: "has_line line s \<Longrightarrow> has_line line (xs @ s)" "has_line line s \<Longrightarrow> has_line line (s @ ys)"
  unfolding has_line_def by (metis append.assoc)+

lemma has_line_join: "has_line line x \<Longrightarrow> has_line line (join sep (x # xs))"
  by (simp add: join_def has_line_append)

lemma wgConf_parts:
  assumes "\<not> list_ex (\<lambda>x. 10 \<in> set x) (validated c)" "m_deviceIpv4Address c \<noteq> None \<or> m_deviceIpv6Address c \<noteq> None"
  obtains pre post where "toWgConf h extra c = pre
      @ (if m_primaryDnsServer c \<noteq> [] then setting (lit ''DNS'') (join (lit '', '') (dns_servers c)) else [])
      @ concat (map (\<lambda>(k, v). setting k v) (junk_settings c))
      @ concat (map (\<lambda>(k, v). setting k v) (m_specialJunk c)) @ post"
proof -
  have "option_list (m_deviceIpv4Address c) @ option_list (m_deviceIpv6Address c) \<noteq> []"
    using assms(2) by (auto simp: option_list_def split: option.splits)
  with assms(1) show thesis
    by (intro that [of "lit ''[Interface]'' @ [10] @ setting (lit ''PrivateKey'') (m_privateKey c)
        @ setting (lit ''Address'') (join (lit '', '') (option_list (m_deviceIpv4Address c) @ option_list (m_deviceIpv6Address c)))
        @ (if m_deviceMTU c \<noteq> 0 then setting (lit ''MTU'') (int_dec (m_deviceMTU c)) else [])"
        "concat (map (\<lambda>(k, v). setting k v) extra) @ [10] @ lit ''[Peer]'' @ [10]
        @ setting (lit ''PublicKey'') (m_serverPublicKey c)
        @ setting (lit ''Endpoint'') (content (m_serverIpv4AddrIn c) @ lit '':'' @ int_dec (m_serverPort c))
        @ setting (lit ''AllowedIPs'') (join (lit '', '') (map (ip_text h) (m_allowedIPAddressRanges c)))"])
      (simp only: toWgConf_def Let_def if_False simp_thms append_assoc)
qed

text \<open>
  C34: the check for line feeds before the text is written leaves out the name servers: a first name
  server with line feeds around a line puts that line of its own into the text.
\<close>

theorem dns_injects_line:
  assumes "\<not> list_ex (\<lambda>x. 10 \<in> set x) (validated c)" "m_deviceIpv4Address c \<noteq> None \<or> m_deviceIpv6Address c \<noteq> None"
    and "m_primaryDnsServer c = a @ [10] @ line @ [10] @ b"
  shows "has_line line (toWgConf h extra c)"
proof -
  have "has_line line (m_primaryDnsServer c)" using assms(3) by (auto simp: has_line_def)
  then have "has_line line (join (lit '', '') (dns_servers c))" by (simp add: dns_servers_def has_line_join)
  then have dns: "has_line line (setting (lit ''DNS'') (join (lit '', '') (dns_servers c)))"
    by (simp add: setting_def has_line_append)
  have "m_primaryDnsServer c \<noteq> []" using assms(3) by simp
  moreover obtain pre post where "toWgConf h extra c = pre
      @ (if m_primaryDnsServer c \<noteq> [] then setting (lit ''DNS'') (join (lit '', '') (dns_servers c)) else [])
      @ concat (map (\<lambda>(k, v). setting k v) (junk_settings c))
      @ concat (map (\<lambda>(k, v). setting k v) (m_specialJunk c)) @ post"
    by (rule wgConf_parts [OF assms(1,2)])
  ultimately show ?thesis using dns by (simp add: has_line_append)
qed

text \<open>
  The special parameters of the obfuscation are guarded by a test for null, which an absent value
  passes: a request without them gives a configuration with all five, empty, and the text for the
  tunnel program sets each of them to nothing.
\<close>

theorem absent_junk_written:
  assumes "parseConfig P j = Some config" "\<forall>k\<in>{''I1'', ''I2'', ''I3'', ''I4'', ''I5''}. \<not> has_key j (lit k)"
    and "\<not> list_ex (\<lambda>x. 10 \<in> set x) (validated config)"
  shows "m_specialJunk config = map (\<lambda>k. (lit k, [])) [''I1'', ''I2'', ''I3'', ''I4'', ''I5'']
    \<and> sublist (setting (lit ''I1'') []) (toWgConf h extra config)"
proof -
  from assms(1) obtain pk spk port dns1 dns2 hp ranges excl apps allowed where
    addr: "string_at j (lit ''deviceIpv4Address'') \<noteq> None \<or> string_at j (lit ''deviceIpv6Address'') \<noteq> None"
    and config: "config = fill_config P j pk spk port dns1 dns2 hp ranges excl apps allowed"
    unfolding parseConfig_Some by blast
  have junk: "m_specialJunk config = map (\<lambda>k. (lit k, [])) [''I1'', ''I2'', ''I3'', ''I4'', ''I5'']"
    using assms(2) by (simp add: config fill_config_def parseSpecialJunk_def is_null_at_def string_at_def has_key_def)
  have "m_deviceIpv4Address config \<noteq> None \<or> m_deviceIpv6Address config \<noteq> None"
    using addr by (simp add: config fill_config_def)
  from wgConf_parts [OF assms(3) this, of h extra] obtain pre post where
    "toWgConf h extra config = pre @ concat (map (\<lambda>(k, v). setting k v) (m_specialJunk config)) @ post"
    by (metis append.assoc)
  then have "toWgConf h extra config = pre @ setting (lit ''I1'') []
      @ (concat (map (\<lambda>(k, v). setting k v) (map (\<lambda>k. (lit k, [])) [''I2'', ''I3'', ''I4'', ''I5''])) @ post)"
    unfolding junk by simp
  then have "sublist (setting (lit ''I1'') []) (toWgConf h extra config)" by (metis sublist_appendI)
  with junk show ?thesis by blast
qed

section \<open>The object of a configuration\<close>

text \<open>What is used of the framework: the names of the enumeration are read back, and no number is read from an empty text.\<close>

definition texts_ok :: "'e parse_env_scheme \<Rightarrow> bool" where
  "texts_ok P \<longleftrightarrow> (\<forall>x. pf_hopKey P (hop_key x) = Some x) \<and> pf_toInt P [] = 0"

lemma object_lookup:
  "map_of (toJson_config h c) (lit ''hopType'') = Some (JString (hop_key (m_hopType c)))"
  "map_of (toJson_config h c) (lit ''privateKey'') = Some (JString (m_privateKey c))"
  "map_of (toJson_config h c) (lit ''deviceIpv4Address'') = Some (JString (content (m_deviceIpv4Address c)))"
  "map_of (toJson_config h c) (lit ''deviceIpv6Address'') = Some (JString (content (m_deviceIpv6Address c)))"
  "map_of (toJson_config h c) (lit ''serverPublicKey'') = Some (JString (m_serverPublicKey c))"
  "map_of (toJson_config h c) (lit ''serverPskKey'') = Some (JString (content (m_serverPskKey c)))"
  "map_of (toJson_config h c) (lit ''serverIpv4AddrIn'') = Some (JString (content (m_serverIpv4AddrIn c)))"
  "map_of (toJson_config h c) (lit ''serverIpv6AddrIn'') = Some (JString (content (m_serverIpv6AddrIn c)))"
  "map_of (toJson_config h c) (lit ''serverPort'') = Some (JDouble (of_int (m_serverPort c)))"
  "map_of (toJson_config h c) (lit ''deviceMTU'') = Some (JDouble (of_int (m_deviceMTU c)))"
  "map_of (toJson_config h c) (lit ''allowedIPAddressRanges'') = Some (JArray (map (range_json h) (m_allowedIPAddressRanges c)))"
  "map_of (toJson_config h c) (lit ''excludedAddresses'') = Some (JArray (map JString (m_excludedAddresses c)))"
  "map_of (toJson_config h c) (lit ''vpnDisabledApps'') = Some (JArray (map JString (m_vpnDisabledApps c)))"
  "map_of (toJson_config h c) (lit ''allowedDnsServers'') = Some (JArray (map JString (m_allowedDnsServers c)))"
  "map_of (toJson_config h c) (lit ''killSwitchOption'') = None"
  by (simp_all add: toJson_config_def Let_def del: insert_key.simps)

lemma object_gateway:
  fixes c :: iconfig
  defines "exit \<equiv> m_hopType c = MultiHopExit \<or> m_hopType c = SingleHop"
  shows "map_of (toJson_config h c) (lit ''serverIpv4Gateway'') = (if exit then Some (JString (m_serverIpv4Gateway c)) else None)"
    and "map_of (toJson_config h c) (lit ''serverIpv6Gateway'') = (if exit then Some (JString (m_serverIpv6Gateway c)) else None)"
    and "map_of (toJson_config h c) (lit ''primaryDnsServer'') = (if exit then Some (JString (m_primaryDnsServer c)) else None)"
    and "map_of (toJson_config h c) (lit ''secondaryDnsServer'') = (if exit then Some (JString (m_secondaryDnsServer c)) else None)"
  by (simp_all add: toJson_config_def Let_def exit_def del: insert_key.simps)

lemma object_junk:
  "k \<in> {''Jc'', ''Jmin'', ''Jmax'', ''S1'', ''S2'', ''S3'', ''S4'', ''H1'', ''H2'', ''H3'', ''H4'', ''I1'', ''I2'', ''I3'', ''I4'', ''I5''}
    \<Longrightarrow> map_of (toJson_config h c) (lit k) = None"
  by (elim insertE emptyE; simp add: toJson_config_def Let_def del: insert_key.simps)

lemma those_strings: "those (map json_string (map JString xs)) = Some xs"
  by (induction xs) simp_all

lemma those_ranges:
  assumes "\<And>i. i \<in> set rs \<Longrightarrow> parseRange P (range_json h i) = Some i"
  shows "those (map (parseRange P) (map (range_json h) rs)) = Some rs"
  using assms by (induction rs) auto

lemma parse_range_json:
  assumes "pf_parseHost P (h (m_address i)) = m_address i" "- (2 ^ 31) \<le> m_prefixLength i" "m_prefixLength i < 2 ^ 31"
  shows "parseRange P (range_json h i) = Some i"
  using assms by (simp add: parseRange_def range_json_def mk_ip_def del: insert_key.simps)


end
