(* ===== verification/Controller_Facts.thy ===== *)
theory Controller_Facts
  imports Socket_Controller Daemon_Connection Config_Facts
begin

text \<open>
  Properties of the client's side of the local socket: the retries of the connection, and what it
  makes of the status messages of the service.
\<close>

section \<open>Retries\<close>

lemma act_fields [simp]:
  "m_daemonState (act a c) = m_daemonState c" "m_deviceIpv4 (act a c) = m_deviceIpv4 c"
  "m_logCallback (act a c) = m_logCallback c" "m_initializingTimer (act a c) = m_initializingTimer c"
  "m_initializingRetry (act a c) = m_initializingRetry c" "actions (act a c) = actions c @ [a]"
  by (simp_all add: act_def)

text \<open>The operations that leave the number of retries alone.\<close>

lemma retry_unchanged [simp]:
  "m_initializingRetry (initializeInternal E f c) = m_initializingRetry c"
  "m_initializingRetry (checkStatus c) = m_initializingRetry c"
  "m_initializingRetry (activate_c E raw c) = m_initializingRetry c"
  "m_initializingRetry (deactivate_c c) = m_initializingRetry c"
  "m_initializingRetry (cancelLogs c) = m_initializingRetry c"
  by (simp_all add: initializeInternal_def checkStatus_def activate_c_def deactivate_c_def cancelLogs_def
      split: option.splits)

lemma retry_logs [simp]:
  "m_initializingRetry (getBackendLogs n c) = m_initializingRetry c"
  "m_initializingRetry (cleanupBackendLogs c) = m_initializingRetry c"
  by (simp_all add: getBackendLogs_def cleanupBackendLogs_def Let_def)

lemma retry_reset [simp]: "m_initializingRetry (disconnectInternal c) = 0"
  by (simp add: disconnectInternal_def)

lemma retry_handlers [simp]:
  "m_initializingRetry (firstStatus E j c) = m_initializingRetry c"
  "m_initializingRetry (laterStatus E j c) = m_initializingRetry c"
  "m_initializingRetry (onConnected j c) = m_initializingRetry c"
  "m_initializingRetry (onBackendFailure j c) = m_initializingRetry c"
  "m_initializingRetry (onLogs j c) = m_initializingRetry c"
proof -
  show "m_initializingRetry (firstStatus E j c) = m_initializingRetry c"
    by (simp add: firstStatus_def Let_def split: option.split json.split)
  show "m_initializingRetry (laterStatus E j c) = m_initializingRetry c"
    by (simp add: laterStatus_def split: option.split json.split prod.split)
  show "m_initializingRetry (onConnected j c) = m_initializingRetry c"
    by (simp add: onConnected_def split: option.split json.split)
  show "m_initializingRetry (onBackendFailure j c) = m_initializingRetry c"
    by (simp add: onBackendFailure_def Let_def)
  show "m_initializingRetry (onLogs j c) = m_initializingRetry c"
    by (simp add: onLogs_def split: option.split)
qed

lemma retry_message:
  "m_initializingRetry (onMessage E j c) = m_initializingRetry c \<or> m_initializingRetry (onMessage E j c) = 0"
  by (simp add: onMessage_def split: option.split json.split)

lemma retry_error: "m_initializingRetry c \<le> 10 \<Longrightarrow> m_initializingRetry (errorOccurred c) \<le> 10"
  by (auto simp: errorOccurred_def Let_def word_le_nat_alt word_less_nat_alt unat_word_ariths intro: order_trans)

lemma client_step_retry:
  assumes "m_initializingRetry (snd q) \<le> 10"
  shows "m_initializingRetry (snd (client_step E x q)) \<le> 10"
proof -
  obtain buf c where q: "q = (buf, c)" by fastforce
  have parse: "m_initializingRetry d \<le> 10 \<Longrightarrow> m_initializingRetry (parseCommand E bs d) \<le> 10" for bs d
    using retry_message [of E _ d] by (auto simp: parseCommand_def split: option.splits) (metis word_zero_le)
  show ?thesis
  proof (cases x)
    case (Data bs)
    from client_loop_keeps [where Q = "\<lambda>d. m_initializingRetry d \<le> 10" and parse = "parseCommand E", OF parse]
    show ?thesis using assms by (simp add: Data q client_read_def)
  qed (use assms in \<open>simp_all add: q initialize_def daemonConnected_def retry_error\<close>)
qed

interpretation retries: preserved "client_step E" "\<lambda>q. m_initializingRetry (snd q) \<le> 10" for E :: client_env
  by unfold_locales (rule client_step_retry)

text \<open>
  C27: the retry counter, a 32-bit number, never exceeds the ten allowed retries, whatever happens on
  the socket and whatever is called: it cannot wrap around.
\<close>

theorem retry_bound:
  "m_initializingRetry (snd (runs (client_step E) events ([], new_controller))) \<le> 10"
  by (rule retries.runs_invar) (simp add: new_controller_def)

text \<open>Failed attempts: each error is followed by the timer and a new attempt.\<close>

definition attempts :: "bool list \<Rightarrow> client_event list" where
  "attempts fs = concat (map (\<lambda>f. [SocketError, RetryTimeout f]) fs)"

lemma attempts_run:
  assumes "m_daemonState c = eInitializing" "m_initializingRetry c = of_nat n" "n + length fs \<le> 10"
    and "\<not> m_initializingTimer c"
  shows "runs (client_step E) (attempts fs) (buf, c) =
    (buf, c\<lparr>m_initializingRetry := of_nat (n + length fs), actions := actions c @ map (ConnectToServer \<circ> socket_path E) fs\<rparr>)"
  using assms
proof (induction fs arbitrary: n c)
  case Nil
  then show ?case by (simp add: attempts_def)
next
  case (Cons f fs)
  have "(of_nat n :: 32 word) < 10" using Cons.prems(3) by (simp add: word_less_nat_alt unat_of_nat)
  let ?c = "c\<lparr>m_initializingRetry := of_nat (Suc n), actions := actions c @ [ConnectToServer (socket_path E f)]\<rparr>"
  from \<open>of_nat n < 10\<close> have "runs (client_step E) [SocketError, RetryTimeout f] (buf, c) = (buf, ?c)"
    using Cons.prems by (simp add: errorOccurred_def initializeInternal_def act_def Let_def add.commute)
  then have "runs (client_step E) (attempts (f # fs)) (buf, c) = runs (client_step E) (attempts fs) (buf, ?c)"
    by (simp add: attempts_def)
  also have "\<dots> = (buf, ?c\<lparr>m_initializingRetry := of_nat (Suc n + length fs),
      actions := actions ?c @ map (ConnectToServer \<circ> socket_path E) fs\<rparr>)"
    by (rule Cons.IH) (use Cons.prems in simp_all)
  finally show ?case by simp
qed

text \<open>
  C25: while the service cannot be reached the controller tries to connect eleven times, once for the
  call and ten times for its timer, and then reports once that the service is unavailable; before
  that it reports nothing and keeps its timer running.  It ends in the ready state.
\<close>

theorem gives_up_after_retries:
  fixes E :: client_env and f :: bool
  assumes "length fs \<le> 10"
  defines "c \<equiv> snd (runs (client_step E) (Initialize f # attempts fs @ [SocketError]) ([], new_controller))"
  shows "if length fs = 10
    then actions c = map (ConnectToServer \<circ> socket_path E) (f # fs) @ [Initialized False False None, DisconnectedSignal]
      \<and> m_daemonState c = eReady \<and> \<not> m_initializingTimer c
    else actions c = map (ConnectToServer \<circ> socket_path E) (f # fs)
      \<and> m_daemonState c = eInitializing \<and> m_initializingTimer c"
proof -
  let ?c = "initialize E f new_controller"
  have "runs (client_step E) (attempts fs) ([], ?c) =
      ([], ?c\<lparr>m_initializingRetry := of_nat (0 + length fs), actions := actions ?c @ map (ConnectToServer \<circ> socket_path E) fs\<rparr>)"
    by (rule attempts_run)
      (use assms(1) in \<open>simp_all add: initialize_def initializeInternal_def act_def new_controller_def\<close>)
  then have c: "c = errorOccurred (?c\<lparr>m_initializingRetry := of_nat (length fs),
      actions := map (ConnectToServer \<circ> socket_path E) (f # fs)\<rparr>)"
    by (simp add: c_def runs_append initialize_def initializeInternal_def act_def new_controller_def)
  have "(of_nat (length fs) :: 32 word) < 10 \<longleftrightarrow> length fs < 10"
    using assms(1) by (simp add: word_less_nat_alt unat_of_nat)
  with assms(1) show ?thesis
    by (auto simp: c errorOccurred_def disconnectInternal_def initialize_def initializeInternal_def act_def new_controller_def Let_def)
qed

section \<open>Status messages\<close>

lemma status_lookup:
  "map_of (status_message dateText st) (lit ''type'') = Some (JString (lit ''status''))"
  "map_of (status_message dateText NotConnected) (lit ''connected'') = Some (JBool False)"
  "map_of (status_message dateText (ConnectedTo g a d tx rx)) (lit ''connected'') = Some (JBool True)"
  "map_of (status_message dateText (ConnectedTo g a d tx rx)) (lit ''date'') = Some (JString (dateText d))"
  "map_of (status_message dateText (ConnectedTo g a d tx rx)) (lit ''serverIpv4Gateway'') = Some (JString g)"
  "map_of (status_message dateText (ConnectedTo g a d tx rx)) (lit ''deviceIpv4Address'') = Some (JString a)"
  "map_of (status_message dateText (ConnectedTo g a d tx rx)) (lit ''txBytes'') = Some (JDouble (of_int tx))"
  "map_of (status_message dateText (ConnectedTo g a d tx rx)) (lit ''rxBytes'') = Some (JDouble (of_int rx))"
  by (simp_all add: status_message_def)

text \<open>
  C29: the first status message of the service makes the controller ready.  It reports that it is
  initialised when there is no tunnel, and when there is one whose date can be read; for a tunnel that
  still waits for its handshake, whose date is not valid, it reports nothing at all.
\<close>

theorem first_status_report:
  assumes "m_daemonState c = eInitializing" "cl_date E (dateText None) = None"
  shows "onMessage E (status_message dateText st) c = (let c1 = c\<lparr>m_daemonState := eReady\<rparr> in
    case st of
      NotConnected \<Rightarrow> act (Initialized True False None) c1
    | ConnectedTo _ _ None _ _ \<Rightarrow> c1
    | ConnectedTo _ _ (Some t) _ _ \<Rightarrow>
        (case cl_date E (dateText (Some t)) of None \<Rightarrow> c1 | Some u \<Rightarrow> act (Initialized True True (Some u)) c1))"
  using assms
  by (cases st) (auto simp: onMessage_def firstStatus_def status_lookup Let_def split: option.splits)


end
