(* ===== verification/Request_Facts.thy ===== *)
theory Request_Facts
  imports Controller_Facts Daemon_Routes
begin

text \<open>
  The activation request across the socket: what the service reads from the object that the client
  writes, client/mozilla/localsocketcontroller.cpp and client/daemon/daemon.cpp, and what it makes of
  the configuration, client/daemon/interfaceconfig.cpp.
\<close>

section \<open>The object the client writes\<close>

lemma copy_junk_lookup:
  "map_of (copy_junk wg j) k = (if k \<in> lit ` set junk_keys then map_of wg k else map_of j k)"
proof -
  have "map_of (fold (\<lambda>k. insert_value (lit k) (map_of wg (lit k))) ks j) k =
      (if k \<in> lit ` set ks then map_of wg k else map_of j k)" for ks
    by (induction ks arbitrary: j) auto
  then show ?thesis by (simp add: copy_junk_def)
qed

definition own_dns :: "obj \<Rightarrow> bool" where
  "own_dns raw \<longleftrightarrow> sublist (lit ''172.29.172.254'') (as_string (array_value (map_of raw (lit ''dns1''))))"

lemmas lookup_simps = activation_object_def Let_def copy_junk_lookup junk_keys_def junk_required_def command_def

lemma activation_lookup:
  fixes raw :: obj
  defines "wg \<equiv> config_data raw"
  shows "map_of (activation_object E raw) (lit ''privateKey'') = map_of wg (lit ''client_priv_key'')"
    and "map_of (activation_object E raw) (lit ''serverPublicKey'') = map_of wg (lit ''server_pub_key'')"
    and "map_of (activation_object E raw) (lit ''serverPskKey'') = map_of wg (lit ''psk_key'')"
    and "map_of (activation_object E raw) (lit ''deviceIpv4Address'') = map_of wg (lit ''client_ip'')"
    and "map_of (activation_object E raw) (lit ''deviceIpv6Address'') = Some (JString (lit ''fd58:baa6:dead::1''))"
    and "map_of (activation_object E raw) (lit ''serverIpv4AddrIn'') = map_of wg (lit ''hostName'')"
    and "map_of (activation_object E raw) (lit ''serverIpv4Gateway'') = map_of wg (lit ''hostName'')"
    and "map_of (activation_object E raw) (lit ''deviceMTU'') = map_of wg (lit ''mtu'')"
    and "map_of (activation_object E raw) (lit ''serverPort'') = Some (JDouble (of_int (as_int (json_value wg (lit ''port'')))))"
    and "map_of (activation_object E raw) (lit ''primaryDnsServer'') = map_of raw (lit ''dns1'')"
    and "map_of (activation_object E raw) (lit ''secondaryDnsServer'') = (if own_dns raw then None else map_of raw (lit ''dns2''))"
    and "map_of (activation_object E raw) (lit ''hopType'') = None"
    and "map_of (activation_object E raw) (lit ''allowedIPAddressRanges'') = Some (JArray (allowed_ranges E raw wg))"
    and "map_of (activation_object E raw) (lit ''excludedAddresses'') = Some (JArray (excluded_addresses raw wg))"
    and "map_of (activation_object E raw) (lit ''vpnDisabledApps'')
      = Some (JArray (as_array (json_value raw (lit ''splitTunnelApps''))))"
    and "map_of (activation_object E raw) (lit ''allowedDnsServers'')
      = Some (JArray (as_array (json_value raw (lit ''allowedDnsServers''))))"
    and "map_of (activation_object E raw) (lit ''killSwitchOption'') = map_of raw (lit ''killSwitchOption'')"
    and "map_of (activation_object E raw) (lit ''type'') = Some (JString (lit ''activate''))"
  by (simp_all add: lookup_simps wg_def own_dns_def image_iff)

lemma activation_string:
  "string_at (activation_object E raw) (lit ''privateKey'') = string_at (config_data raw) (lit ''client_priv_key'')"
  "string_at (activation_object E raw) (lit ''serverPublicKey'') = string_at (config_data raw) (lit ''server_pub_key'')"
  "string_at (activation_object E raw) (lit ''deviceIpv4Address'') = string_at (config_data raw) (lit ''client_ip'')"
  "string_at (activation_object E raw) (lit ''deviceIpv6Address'') = Some (lit ''fd58:baa6:dead::1'')"
  "string_at (activation_object E raw) (lit ''serverIpv4AddrIn'') = string_at (config_data raw) (lit ''hostName'')"
  "string_at (activation_object E raw) (lit ''serverIpv4Gateway'') = string_at (config_data raw) (lit ''hostName'')"
  "string_at (activation_object E raw) (lit ''serverPskKey'') = string_at (config_data raw) (lit ''psk_key'')"
  "string_at (activation_object E raw) (lit ''killSwitchOption'') = string_at raw (lit ''killSwitchOption'')"
  by (simp_all add: string_at_def activation_lookup)

section \<open>What the service reads\<close>

definition is_text :: "json \<Rightarrow> bool" where
  "is_text v \<longleftrightarrow> json_string v \<noteq> None"

lemma those_texts: "those (map json_string xs) = (if list_all is_text xs then Some (map as_string xs) else None)"
proof (induction xs)
  case (Cons x xs)
  then show ?case by (cases x) (auto simp: is_text_def)
qed simp

lemma parseRange_object: "parseRange P (range_object a n v6) = Some (mk_ip (pf_parseHost P a) (as_int (JDouble (of_int n))))"
  by (simp add: parseRange_def range_object_def)

text \<open>The prefix the service reads for a site of the client's list.\<close>

definition site_prefix :: "client_env \<Rightarrow> 'e parse_env_scheme \<Rightarrow> qstring \<Rightarrow> ipaddr" where
  "site_prefix E P s =
     (if 47 \<in> set s then mk_ip (pf_parseHost P (part0 s)) (as_int (JDouble (of_int (atoi E (part1 s)))))
      else mk_ip (pf_parseHost P s) 32)"

lemma as_int_small: "- (2 ^ 31) \<le> n \<Longrightarrow> n < 2 ^ 31 \<Longrightarrow> as_int (JDouble (of_int n)) = n"
  by simp

lemma as_int_consts: "as_int (JDouble 0) = 0" "as_int (JDouble 32) = 32"
  by simp_all

lemma parseRange_site: "parseRange P (site_range E v) = Some (site_prefix E P (as_string v))"
  by (simp add: site_range_def site_prefix_def parseRange_object Let_def as_int_consts del: as_int.simps)

definition client_ranges :: "client_env \<Rightarrow> 'e parse_env_scheme \<Rightarrow> obj \<Rightarrow> ipaddr list" where
  "client_ranges E P raw =
     (let plain = as_array (json_value (config_data raw) (lit ''allowed_ips''));
          sites = as_array (json_value raw (lit ''splitTunnelSites''));
          t = as_int (json_value raw (lit ''splitTunnelType''))
      in if plain \<noteq> default_allowed \<and> plain \<noteq> [] then map (site_prefix E P \<circ> as_string) plain
         else if t = 0 \<or> t = 2 then [mk_ip (pf_parseHost P (lit ''0.0.0.0'')) 0, mk_ip (pf_parseHost P (lit ''::'')) 0]
         else if t = 1 then map (site_prefix E P \<circ> as_string) sites else [])"

lemma those_Some: "those (map (\<lambda>x. Some (f x)) xs) = Some (map f xs)"
  by (induction xs) auto

lemma parse_client_ranges:
  "parseRanges P (activation_object E raw) = Some (pf_sortRanges P (client_ranges E P raw))"
proof -
  have sites: "those (map (parseRange P) (map (site_range E) xs)) = Some (map (site_prefix E P \<circ> as_string) xs)" for xs
    using those_Some [of "site_prefix E P \<circ> as_string" xs] by (simp add: parseRange_site comp_def)
  have "those (map (parseRange P) (allowed_ranges E raw (config_data raw))) = Some (client_ranges E P raw)"
    unfolding allowed_ranges_def client_ranges_def Let_def
    by (simp add: sites parseRange_object as_int_consts del: as_int.simps map_map)
  then show ?thesis by (simp add: parseRanges_def activation_lookup)
qed

lemma parse_client_excluded:
  "parseStringList (activation_object E raw) (lit ''excludedAddresses'') =
     (case string_at (config_data raw) (lit ''hostName'') of
        None \<Rightarrow> None
      | Some h \<Rightarrow> Some (h # (if as_int (json_value raw (lit ''splitTunnelType'')) = 2
                          then map as_string (as_array (json_value raw (lit ''splitTunnelSites''))) else [])))"
proof -
  let ?more = "if as_int (json_value raw (lit ''splitTunnelType'')) = 2
    then map (\<lambda>v. JString (as_string v)) (as_array (json_value raw (lit ''splitTunnelSites''))) else []"
  let ?host = "array_value (map_of (config_data raw) (lit ''hostName''))"
  have "list_all is_text (map (\<lambda>v. JString (as_string v)) xs)" for xs by (induction xs) (auto simp: is_text_def)
  then have more: "list_all is_text ?more" by simp
  have "parseStringList (activation_object E raw) (lit ''excludedAddresses'') = those (map json_string (?host # ?more))"
    by (simp only: parseStringList_def activation_lookup excluded_addresses_def option.case json.case)
  also have "\<dots> = (if is_text ?host then Some (as_string ?host # map as_string ?more) else None)"
    unfolding those_texts using more by simp
  finally show ?thesis
    by (auto simp: string_at_def is_text_def array_value_def comp_def split: option.splits json.splits)
qed

definition optional_text :: "obj \<Rightarrow> qstring \<Rightarrow> bool" where
  "optional_text j k \<longleftrightarrow> list_all is_text (option_list (map_of j k))"

lemma parseDns_text: "parseDns j k = (if optional_text j k then Some (content (string_at j k)) else None)"
  by (auto simp: parseDns_def optional_text_def option_list_def string_at_def is_text_def split: option.splits json.splits)

lemma parse_client_dns:
  "parseDns (activation_object E raw) (lit ''primaryDnsServer'') =
     (if optional_text raw (lit ''dns1'') then Some (content (string_at raw (lit ''dns1''))) else None)"
  "parseDns (activation_object E raw) (lit ''secondaryDnsServer'') =
     (if own_dns raw then Some []
      else if optional_text raw (lit ''dns2'') then Some (content (string_at raw (lit ''dns2''))) else None)"
proof -
  have "parseDns (activation_object E raw) (lit ''primaryDnsServer'') = parseDns raw (lit ''dns1'')"
    by (simp add: parseDns_def activation_lookup)
  then show "parseDns (activation_object E raw) (lit ''primaryDnsServer'') =
      (if optional_text raw (lit ''dns1'') then Some (content (string_at raw (lit ''dns1''))) else None)"
    by (simp add: parseDns_text)
  have "parseDns (activation_object E raw) (lit ''secondaryDnsServer'') =
      (if own_dns raw then Some [] else parseDns raw (lit ''dns2''))"
    by (simp add: parseDns_def activation_lookup)
  then show "parseDns (activation_object E raw) (lit ''secondaryDnsServer'') =
      (if own_dns raw then Some []
       else if optional_text raw (lit ''dns2'') then Some (content (string_at raw (lit ''dns2''))) else None)"
    by (simp add: parseDns_text)
qed

lemma parse_client_lists:
  "parseStringList (activation_object E raw) (lit ''vpnDisabledApps'') =
     (let xs = as_array (json_value raw (lit ''splitTunnelApps'')) in if list_all is_text xs then Some (map as_string xs) else None)"
  "parseStringList (activation_object E raw) (lit ''allowedDnsServers'') =
     (let xs = as_array (json_value raw (lit ''allowedDnsServers'')) in if list_all is_text xs then Some (map as_string xs) else None)"
  by (simp_all only: parseStringList_def activation_lookup option.case json.case those_texts Let_def)

lemma parse_client_hop: "parseHop P (activation_object E raw) = Some SingleHop"
  by (simp add: parseHop_def activation_lookup)

lemma parse_client_port:
  "double_at (activation_object E raw) (lit ''serverPort'') = Some (of_int (as_int (json_value (config_data raw) (lit ''port''))))"
  by (simp add: double_at_def activation_lookup)

lemma double_to_int_id: "double_to_int P (of_int (as_int v)) = as_int v"
  using as_int_range [of v] by (simp add: double_to_int_def Let_def)

lemmas parse_client = activation_string parse_client_ranges parse_client_excluded parse_client_dns parse_client_lists
  parse_client_hop parse_client_port double_to_int_id

text \<open>
  C18: the service accepts the activation request of the client exactly if the keys and the host name
  of the tunnel configuration are texts, each name server is absent or a text, and the lists of
  applications and of allowed name servers hold texts only.  Ranges, exclusions, port and addresses
  are never the reason for a refusal.
\<close>

theorem request_accepted:
  "(\<exists>config. parseConfig P (activation_object E raw) = Some config) \<longleftrightarrow>
     list_all is_text (map (array_value \<circ> map_of (config_data raw)) [lit ''client_priv_key'', lit ''server_pub_key'', lit ''hostName''])
     \<and> optional_text raw (lit ''dns1'') \<and> (own_dns raw \<or> optional_text raw (lit ''dns2''))
     \<and> list_all is_text (as_array (json_value raw (lit ''splitTunnelApps'')))
     \<and> list_all is_text (as_array (json_value raw (lit ''allowedDnsServers'')))"
proof -
  have texts: "is_text (array_value (map_of j k)) \<longleftrightarrow> (\<exists>s. string_at j k = Some s)" for j k
    by (auto simp: is_text_def array_value_def string_at_def split: option.splits json.splits)
  show ?thesis
    unfolding parseConfig_Some parse_client Let_def list.map list.pred_inject comp_def texts
    by (auto split: if_splits option.splits)
qed



section \<open>Delivery\<close>

text \<open>The objects the client has written, and their bytes on the socket.\<close>

definition written :: "controller \<Rightarrow> obj list" where
  "written c = List.map_filter (\<lambda>a. case a of Write x \<Rightarrow> Some x | _ \<Rightarrow> None) (actions c)"

definition wire :: "'w service_env \<Rightarrow> obj list \<Rightarrow> bytes" where
  "wire S xs = concat (map (frame \<circ> sv_text S) xs)"

text \<open>What is used of the compact text of an object: it is one line, and is read back.\<close>

definition text_ok :: "'w service_env \<Rightarrow> obj \<Rightarrow> bool" where
  "text_ok S x \<longleftrightarrow> frameable (sv_text S x) \<and> sv_read S (sv_text S x) = Some x"

lemma runs_map: "runs f (map g xs) s = runs (f \<circ> g) xs s"
  by (induction xs arbitrary: s) auto

lemma runs_cong: "(\<And>x s. x \<in> set xs \<Longrightarrow> f x s = g x s) \<Longrightarrow> runs f xs s = runs g xs s"
  by (induction xs arbitrary: s) auto

text \<open>
  C4: the service carries out exactly the commands the client has written, in their order, in whatever
  pieces the bytes reach it; nothing is left in its buffer.
\<close>

theorem commands_delivered:
  fixes S :: "'w service_env" and E :: client_env and events :: "client_event list"
  defines "msgs \<equiv> written (snd (runs (client_step E) events ([], new_controller)))"
  assumes "list_all (text_ok S) msgs" "\<forall>answers\<in>set pieces. [] \<notin> set answers"
    and "concat (map concat pieces) = wire S msgs"
  shows "runs (server_step S) (map Incoming pieces) ([], s) = ([], runs (onCommand S) msgs s)"
proof -
  have "runs (server_step S) (map Incoming pieces) ([], s) = runs (server_read (parseCommand_c S)) pieces ([], s)"
    unfolding runs_map by (rule runs_cong) simp
  also have "\<dots> = ([], runs (parseCommand_c S) (map (sv_text S) msgs) s)"
    by (rule connection.delivered)
      (use assms(2-4) in \<open>auto simp: list_all_iff text_ok_def wire_def comp_def\<close>)
  also have "runs (parseCommand_c S) (map (sv_text S) msgs) s = runs (onCommand S) msgs s"
    unfolding runs_map by (rule runs_cong) (use assms(2) in \<open>simp add: list_all_iff text_ok_def parseCommand_c_def\<close>)
  finally show ?thesis .
qed

end
