(* ===== verification/Vpn_Facts.thy ===== *)
theory Vpn_Facts
  imports Vpn_Sites Split_Facts Request_Facts
begin

text \<open>
  From the settings to the tunnel: the configuration of a connection, client/vpnConnection.cpp, the
  request the client writes, and what the service reads; and the lookups that go on while sites are
  edited.
\<close>

section \<open>The configuration of a connection\<close>

lemma set_keep_first [simp]: "set (keep_first xs) = set xs" "distinct (keep_first xs)"
  by (simp_all add: keep_first_def)

lemma split_entries:
  assumes "appendSplitTunnelingConfig N s cfg = Some raw" "wireguard_config cfg = Some (allowed, cfg1)"
  shows "map_of raw k =
    (if k = lit ''splitTunnelApps'' then Some (JArray (map JString (snd (app_split s))))
     else if k = lit ''appSplitTunnelType'' then Some (JDouble (of_int (apps_mode_number (fst (app_split s)))))
     else if k = lit ''splitTunnelSites'' then Some (JArray (map JString (snd (site_split N s allowed cfg1))))
     else if k = lit ''splitTunnelType'' then Some (JDouble (of_int (mode_number (fst (site_split N s allowed cfg1)))))
     else map_of cfg1 k)"
  using assms by (auto simp: appendSplitTunnelingConfig_def split: prod.splits)

lemma add_keep_alive_keeps:
  "add_keep_alive wg = Some wg1 \<Longrightarrow> k \<noteq> lit ''persistent_keep_alive'' \<Longrightarrow> map_of wg1 k = map_of wg k"
  by (auto simp: add_keep_alive_def split: if_splits option.splits)

text \<open>A configuration of WireGuard with the default list of allowed addresses.\<close>

definition full_tunnel :: "obj \<Rightarrow> bool" where
  "full_tunnel cfg \<longleftrightarrow> protocol_name cfg \<in> {lit ''awg'', lit ''wireguard''}
     \<and> map_of (config_data cfg) (lit ''allowed_ips'') = Some (JArray default_allowed)"

lemma wireguard_config_full:
  assumes "full_tunnel cfg"
  shows "wireguard_config cfg = map_option (\<lambda>wg1.
      (set default_allowed \<subseteq> set (as_array (json_value wg1 (lit ''allowed_ips''))),
       if wg1 = config_data cfg then cfg else insert_key (protocol_name cfg @ lit ''_config_data'') (JObject wg1) cfg))
    (add_keep_alive (config_data cfg))"
proof -
  have "add_allowed_ips (config_data cfg) = Some (config_data cfg)"
    using assms by (simp add: full_tunnel_def add_allowed_ips_def)
  then show ?thesis
    using assms
    unfolding wireguard_config_def Let_def full_tunnel_def protocol_name_def [symmetric] config_data_def [symmetric]
    by (simp add: default_allowed_def)
qed

lemma full_tunnel_config:
  assumes "full_tunnel cfg" "wireguard_config cfg = Some (allowed, cfg1)"
  shows "allowed \<and> protocol_name cfg1 = protocol_name cfg
    \<and> map_of (config_data cfg1) (lit ''allowed_ips'') = Some (JArray default_allowed)
    \<and> (\<forall>k. k \<noteq> protocol_name cfg @ lit ''_config_data'' \<longrightarrow> map_of cfg1 k = map_of cfg k)"
proof -
  let ?key = "protocol_name cfg @ lit ''_config_data''"
  have key: "?key \<noteq> lit ''protocol''"
    using assms(1) by (auto simp: full_tunnel_def lit_def)
  from assms obtain wg1 where wg1: "add_keep_alive (config_data cfg) = Some wg1"
    and r: "allowed \<longleftrightarrow> set default_allowed \<subseteq> set (as_array (json_value wg1 (lit ''allowed_ips'')))"
      "cfg1 = (if wg1 = config_data cfg then cfg else insert_key ?key (JObject wg1) cfg)"
    by (auto simp: wireguard_config_full)
  have ips: "map_of wg1 (lit ''allowed_ips'') = Some (JArray default_allowed)"
    using assms(1) add_keep_alive_keeps [OF wg1] by (simp add: full_tunnel_def)
  have "protocol_name cfg1 = protocol_name cfg" using key by (simp add: r protocol_name_def json_value_def)
  moreover from this have "config_data cfg1 = wg1"
    by (auto simp: r config_data_def json_value_def)
  ultimately show ?thesis using ips r by (auto simp: json_value_def)
qed

section \<open>From the settings to the service\<close>

text \<open>What the service reads from a request, as far as the settings decide it.\<close>

lemma request_split:
  assumes "parseConfig P (activation_object E raw) = Some config"
  shows "m_excludedAddresses config = m_serverIpv4Gateway config
        # (if as_int (json_value raw (lit ''splitTunnelType'')) = 2
           then map as_string (as_array (json_value raw (lit ''splitTunnelSites''))) else [])"
    "m_allowedIPAddressRanges config = pf_sortRanges P (client_ranges E P raw)"
    "m_vpnDisabledApps config = map as_string (as_array (json_value raw (lit ''splitTunnelApps'')))"
    "m_allowedDnsServers config = map as_string (as_array (json_value raw (lit ''allowedDnsServers'')))"
    "m_killSwitchEnabled config = variant_bool (content (string_at raw (lit ''killSwitchOption'')))"
proof -
  from assms obtain pk spk port dns1 dns2 hp ranges excl apps allowed where
    p: "parseRanges P (activation_object E raw) = Some ranges"
      "parseStringList (activation_object E raw) (lit ''excludedAddresses'') = Some excl"
      "parseStringList (activation_object E raw) (lit ''vpnDisabledApps'') = Some apps"
      "parseStringList (activation_object E raw) (lit ''allowedDnsServers'') = Some allowed"
    and config: "config = fill_config P (activation_object E raw) pk spk port dns1 dns2 hp ranges excl apps allowed"
    unfolding parseConfig_Some by blast
  show "m_excludedAddresses config = m_serverIpv4Gateway config
        # (if as_int (json_value raw (lit ''splitTunnelType'')) = 2
           then map as_string (as_array (json_value raw (lit ''splitTunnelSites''))) else [])"
    using p(2) by (auto simp: config fill_config_def parse_client split: if_splits option.splits)
  show "m_allowedIPAddressRanges config = pf_sortRanges P (client_ranges E P raw)"
    "m_vpnDisabledApps config = map as_string (as_array (json_value raw (lit ''splitTunnelApps'')))"
    "m_allowedDnsServers config = map as_string (as_array (json_value raw (lit ''allowedDnsServers'')))"
    "m_killSwitchEnabled config = variant_bool (content (string_at raw (lit ''killSwitchOption'')))"
    using p by (simp_all add: config fill_config_def parse_client Let_def split: if_splits)
qed

lemma killSwitch_entries:
  "map_of (appendKillSwitchConfig s cfg) k =
     (if k = lit ''allowedDnsServers'' then Some (JArray (map JString (conf_allowedDns s)))
      else if k = lit ''killSwitchOption'' then Some (JString (bool_text (conf_killSwitch s))) else map_of cfg k)"
  by (simp add: appendKillSwitchConfig_def del: insert_key.simps)

lemma variant_bool_text: "variant_bool (bool_text b) = b"
proof -
  have "variant_bool (bool_text True)" "\<not> variant_bool (bool_text False)" by code_simp+
  then show ?thesis by (cases b) simp_all
qed

lemma full_tunnel_keys:
  "full_tunnel cfg \<Longrightarrow> protocol_name cfg @ lit ''_config_data'' \<in> {lit ''awg_config_data'', lit ''wireguard_config_data''}"
  by (auto simp: full_tunnel_def lit_def)

lemma full_tunnel_killSwitch: "full_tunnel cfg \<Longrightarrow> full_tunnel (appendKillSwitchConfig s cfg)"
proof -
  assume full: "full_tunnel cfg"
  have "protocol_name (appendKillSwitchConfig s cfg) = protocol_name cfg"
    by (simp add: protocol_name_def json_value_def killSwitch_entries)
  moreover from this full_tunnel_keys [OF full] have "config_data (appendKillSwitchConfig s cfg) = config_data cfg"
    by (auto simp: config_data_def json_value_def killSwitch_entries)
  ultimately show ?thesis using full by (simp add: full_tunnel_def)
qed

lemma as_string_JString: "map as_string (map JString xs) = xs"
  by (induction xs) auto

text \<open>The addresses of the sites of the current mode, none when the list is switched off.\<close>

definition split_addresses :: "net_env \<Rightarrow> app_settings \<Rightarrow> qstring list" where
  "split_addresses N s = (if conf_sitesEnabled s then site_addresses N (vpnSites s (conf_routeMode s)) else [])"


section \<open>Lookups while sites are edited\<close>

text \<open>
  C37: a lookup for the routes of a connection writes its answer under the name it was started for.
  If the site was removed from the list in the meantime the answer stores it again, so it is back
  when the settings are read the next time.
\<close>

theorem removed_site_returns:
  fixes gw :: qstring
  assumes "removeSite h c = (True, c1)" "map_of (vpnSites (m_appSettingsRepository c) (m_currentRouteMode c)) h = Some ip"
    and "\<not> checkIpSubnetFormat N h"
    and "find is_ipv4 addresses = Some a" "ne_text N a \<notin> set (site_addresses N (vpnSites (m_appSettingsRepository c) (m_currentRouteMode c)))"
  defines "r \<equiv> addSitesRoutes N gw (m_currentRouteMode c) \<lparr>sr_settings = m_appSettingsRepository c, sr_added = [], sr_lookups = []\<rparr>"
  shows "map_of (vpnSites (m_appSettingsRepository c1) (m_currentRouteMode c1)) h = None
    \<and> (\<exists>l\<in>set (sr_lookups r). rl_site l = h
        \<and> map_of (vpnSites (sr_settings (siteResolved N l addresses (r\<lparr>sr_settings := m_appSettingsRepository c1\<rparr>)))
            (m_currentRouteMode c1)) h = Some (ne_text N a))"
proof -
  let ?xs = "vpnSites (m_appSettingsRepository c) (m_currentRouteMode c)"
  let ?l = "\<lparr>rl_site = h, rl_gw = gw, rl_mode = m_currentRouteMode c, rl_ips = site_addresses N ?xs\<rparr>"
  have removed: "m_appSettingsRepository c1 = removeVpnSite (m_currentRouteMode c) h (m_appSettingsRepository c)"
    "m_currentRouteMode c1 = m_currentRouteMode c"
    using assms(1) by (auto simp: removeSite_def split: if_splits)
  have "h \<in> fst ` set ?xs" using assms(2) by (metis image_eqI map_of_SomeD fst_conv)
  then have "?l \<in> set (sr_lookups r)" using assms(3) by (auto simp: r_def addSitesRoutes_def Let_def)
  moreover have "map_of (vpnSites (sr_settings (siteResolved N ?l addresses (r\<lparr>sr_settings := m_appSettingsRepository c1\<rparr>)))
      (m_currentRouteMode c1)) h = Some (ne_text N a)"
    using assms(4,5) by (simp add: siteResolved_def removed site_simps Let_def)
  moreover have "map_of (vpnSites (m_appSettingsRepository c1) (m_currentRouteMode c1)) h = None"
    by (simp add: removed site_simps del: map_of_eq_None_iff)
  ultimately show ?thesis by (intro conjI bexI [of _ ?l]) simp_all
qed

end
