(* ===== verification/Request_Witness.thy ===== *)
theory Request_Witness
  imports Request_Facts Daemon_Witness "HOL-Library.Code_Target_Nat"
begin

text \<open>
  The theorems on requests and configurations at concrete inputs: a client that sends one IPv6 site
  through the tunnel, and a service that reads every text with a colon as the same IPv6 address.
\<close>

definition reader :: parse_env where
  "reader = \<lparr>pf_parseHost = (\<lambda>s. if 58 \<in> set s then IPv6 (replicate 16 1) else IPv4 1), pf_toInt = (\<lambda>s. 0),
     pf_hopKey = (\<lambda>s. find (\<lambda>x. hop_key x = s) [SingleHop, MultiHopEntry, MultiHopExit]),
     pf_sortRanges = sort_key (\<lambda>i. - m_prefixLength i), pf_windows = True, pf_wide = (\<lambda>r. 0)\<rparr>"

definition desktop :: client_env where
  "desktop = \<lparr>cl_read = (\<lambda>b. None), cl_date = (\<lambda>s. if s = [] then None else Some 5), cl_windows = False,
     cl_overflow = (\<lambda>n. 0), cl_wide = (\<lambda>r. 0)\<rparr>"

definition settings :: obj where
  "settings = [(lit ''protocol'', JString (lit ''wireguard'')),
     (lit ''splitTunnelSites'', JArray [JString (lit ''2001:db8::1'')]),
     (lit ''splitTunnelType'', JDouble 1),
     (lit ''wireguard_config_data'', JObject [(lit ''client_priv_key'', JString (lit ''k'')),
        (lit ''hostName'', JString (lit ''1.2.3.4'')), (lit ''server_pub_key'', JString (lit ''p''))])]"

lemma reader_ok: "sort_ok reader" "texts_ok reader"
proof -
  have "sorted_wrt (\<lambda>a b. m_prefixLength a \<ge> m_prefixLength b) (sort_key (\<lambda>i. - m_prefixLength i) xs)" for xs :: "ipaddr list"
    using sorted_sort_key [of "\<lambda>i. - m_prefixLength i" xs] by (simp add: sorted_map)
  then show "sort_ok reader" by (simp add: sort_ok_def reader_def)
  have "find (\<lambda>x. hop_key x = hop_key y) [SingleHop, MultiHopEntry, MultiHopExit] = Some y" for y
    by (cases y) simp_all
  then show "texts_ok reader" by (simp add: texts_ok_def reader_def)
qed

lemma settings_accepted: "parseConfig reader (activation_object desktop settings) \<noteq> None"
  by code_simp

definition accepted :: iconfig where
  "accepted = the (parseConfig reader (activation_object desktop settings))"

lemma settings_parsed: "parseConfig reader (activation_object desktop settings) = Some accepted"
  using settings_accepted by (simp add: accepted_def)



lemma accepted_config_witness: "m_deviceMTU accepted \<noteq> 0 \<and> 1280 \<le> m_deviceMTU accepted"
  using accepted_config [OF reader_ok(1) settings_parsed] by (simp add: reader_def)

lemma validated_accepted: "\<not> list_ex (\<lambda>x. 10 \<in> set x) (validated accepted)"
  by code_simp

lemma absent_junk_written_witness:
  "map fst (m_specialJunk accepted) = map lit [''I1'', ''I2'', ''I3'', ''I4'', ''I5'']
   \<and> sublist (setting (lit ''I1'') []) (toWgConf (\<lambda>a. []) [] accepted)"
proof -
  have "\<forall>k\<in>{''I1'', ''I2'', ''I3'', ''I4'', ''I5''}. \<not> has_key (activation_object desktop settings) (lit k)"
    by code_simp
  from absent_junk_written [OF settings_parsed this validated_accepted, of "\<lambda>a. []" "[]"] show ?thesis by simp
qed

definition crafted :: iconfig where
  "crafted = home\<lparr>m_primaryDnsServer := lit ''1.1.1.1'' @ [10] @ lit ''PostUp = x'' @ [10] @ []\<rparr>"

lemma dns_injects_line_witness: "has_line (lit ''PostUp = x'') (toWgConf (\<lambda>a. []) [] crafted)"
proof -
  have "\<not> list_ex (\<lambda>x. 10 \<in> set x) (validated crafted)" by code_simp
  moreover have "m_deviceIpv4Address crafted \<noteq> None \<or> m_deviceIpv6Address crafted \<noteq> None" by code_simp
  moreover have "m_primaryDnsServer crafted = lit ''1.1.1.1'' @ [10] @ lit ''PostUp = x'' @ [10] @ []"
    by (simp add: crafted_def)
  ultimately show ?thesis by (rule dns_injects_line)
qed

definition ranged :: iconfig where
  "ranged = home\<lparr>m_deviceMTU := 1380, m_allowedIPAddressRanges := [mk_ip (IPv4 1) 8]\<rparr>"


lemma gives_up_after_retries_witness:
  "m_daemonState (snd (runs (client_step desktop) (Initialize True # attempts (replicate 10 False) @ [SocketError]) ([], new_controller))) = eReady"
  using gives_up_after_retries [of "replicate 10 False" desktop True] by simp

abbreviation dates :: "int option \<Rightarrow> qstring" where
  "dates d \<equiv> (case d of None \<Rightarrow> [] | Some t \<Rightarrow> lit ''today'')"

lemma first_status_report_witness:
  "onMessage desktop (status_message dates (ConnectedTo [] [] None 0 0)) (new_controller\<lparr>m_daemonState := eInitializing\<rparr>)
     = new_controller\<lparr>m_daemonState := eReady\<rparr>"
  using first_status_report [of "new_controller\<lparr>m_daemonState := eInitializing\<rparr>" desktop dates "ConnectedTo [] [] None 0 0"]
  by (simp add: desktop_def)


definition host_service :: "unit service_env" where
  "host_service = \<lparr>sv_platform = willing, sv_read = (\<lambda>b. Some (command ''status'')), sv_text = (\<lambda>x. [123]), sv_date = dates\<rparr>"

lemma commands_delivered_witness:
  "runs (server_step host_service) [Incoming [[123], [10]]] (fresh_server ())
     = ([], onCommand host_service (command ''status'') (snd (fresh_server ())))"
proof -
  have msgs: "written (daemonConnected (initialize desktop True new_controller)) = [command ''status'']"
    by (simp add: written_def initialize_def initializeInternal_def daemonConnected_def checkStatus_def new_controller_def
        List.map_filter_simps)
  have "frameable [123]" by (simp add: frameable_def byte_trimmed_def byte_space_def)
  then have "text_ok host_service (command ''status'')" by (simp add: text_ok_def host_service_def)
  with commands_delivered [of host_service desktop "[Initialize True, SocketConnected]" "[[[123], [10]]]" "snd (fresh_server ())"]
  show ?thesis by (simp add: msgs wire_def frame_def host_service_def fresh_server_def)
qed

end
