(* ===== verification/Split_Witness.thy ===== *)
theory Split_Witness
  imports Vpn_Facts Request_Witness
begin

text \<open>
  The theorems on sites at concrete inputs: settings with one site that goes around the tunnel, and a
  framework that reads texts of digits and dots as IPv4 addresses.
\<close>

definition stocked :: app_settings where
  "stocked = \<lparr>conf_routeMode = VpnAllExceptSites,
     conf_sites = (\<lambda>m. if m = VpnAllExceptSites then [(lit ''a.ru'', lit ''5.5.5.5'')] else []),
     conf_sitesEnabled = True, conf_seedDone = True, conf_seedVersion = 2, conf_appsRouteMode = VpnAllExceptApps,
     conf_apps = (\<lambda>m. []), conf_appsEnabled = False, conf_allowedDns = [lit ''8.8.8.8''], conf_killSwitch = True,
     emitted = []\<rparr>"

definition net :: net_env where
  "net = \<lparr>ne_parseHost = (\<lambda>s. if list_all (\<lambda>c. c = 46 \<or> digit_in 0 9 c) s then IPv4 1 else NoAddress),
     ne_toInt = (\<lambda>s. None), ne_text = (\<lambda>a. lit ''6.6.6.6''),
     ne_document = (\<lambda>b. ArrayDocument [site_json (lit ''a.ru'', [])])\<rparr>"

definition stocked_list :: site_controller where
  "stocked_list = \<lparr>m_appSettingsRepository = stocked, m_currentRouteMode = VpnAllExceptSites,
     m_sites = [(lit ''a.ru'', lit ''5.5.5.5'')], lookups = []\<rparr>"

definition outgoing :: obj where
  "outgoing = [(lit ''protocol'', JString (lit ''wireguard'')),
     (lit ''wireguard_config_data'', JObject [(lit ''allowed_ips'', JArray default_allowed),
        (lit ''client_priv_key'', JString (lit ''k'')), (lit ''hostName'', JString (lit ''1.2.3.4'')),
        (lit ''server_pub_key'', JString (lit ''p''))])]"

lemma stocked_sorted: "settings_sorted stocked"
  by (simp add: settings_sorted_def vpnSites_def stocked_def key_sorted_def)

lemma sites_shown_stored_witness:
  "\<exists>c. runs (site_steps net) [AddSite (lit ''https://b.ru/x''), RemoveSite (lit ''a.ru'')] (IpSplitTunnelingController stocked) = Some c
     \<and> fst ` set (m_sites c) = fst ` set (vpnSites (m_appSettingsRepository c) (m_currentRouteMode c))"
proof -
  let ?events = "[AddSite (lit ''https://b.ru/x''), RemoveSite (lit ''a.ru'')]"
  have "\<not> list_ex (undefined_call net) ?events" by code_simp
  with sites_shown_stored [OF stocked_sorted, of net ?events] show ?thesis by (auto split: option.splits)
qed

lemma import_erases_address_witness:
  "\<exists>c'. importSitesFromJson net [] False stocked_list = Some (None, c')
     \<and> map_of (vpnSites (m_appSettingsRepository c') (m_currentRouteMode c')) (lit ''a.ru'') = Some []"
proof -
  have "map_of (m_sites stocked_list) (lit ''a.ru'') = Some (lit ''5.5.5.5'')" "lit ''5.5.5.5'' \<noteq> []"
    "plain_host (lit ''a.ru'')" by code_simp+
  with import_erases_address [of stocked_list "lit ''a.ru''" "lit ''5.5.5.5''" net "[]"] show ?thesis
    by (auto simp: net_def)
qed

lemma subnet_cut_witness: "addSite (lit ''10.0.0.0'' @ [47] @ lit ''8'') stocked_list = addSite (lit ''10.0.0.0'') stocked_list"
  by (rule subnet_cut) code_simp+


lemma outgoing_defined:
  "full_tunnel outgoing" "connection_config net stocked outgoing \<noteq> None"
  "parseConfig reader (activation_object desktop (the (connection_config net stocked outgoing))) \<noteq> None"
  by code_simp+


lemma removed_site_returns_witness:
  "\<exists>l. map_of (vpnSites (sr_settings (siteResolved net l [IPv4 7]
      ((addSitesRoutes net [] VpnAllExceptSites \<lparr>sr_settings = stocked, sr_added = [], sr_lookups = []\<rparr>)
         \<lparr>sr_settings := m_appSettingsRepository (snd (removeSite (lit ''a.ru'') stocked_list))\<rparr>))) VpnAllExceptSites)
      (lit ''a.ru'') = Some (lit ''6.6.6.6'')"
proof -
  let ?c = "snd (removeSite (lit ''a.ru'') stocked_list)"
  have s: "m_appSettingsRepository stocked_list = stocked" "m_currentRouteMode stocked_list = VpnAllExceptSites"
    "m_currentRouteMode ?c = VpnAllExceptSites"
    by (simp_all add: stocked_list_def removeSite_def)
  have "removeSite (lit ''a.ru'') stocked_list = (True, ?c)" by (simp add: removeSite_def stocked_list_def)
  moreover have "map_of (vpnSites stocked VpnAllExceptSites) (lit ''a.ru'') = Some (lit ''5.5.5.5'')"
    "\<not> checkIpSubnetFormat net (lit ''a.ru'')" "find is_ipv4 [IPv4 7] = Some (IPv4 7)"
    "ne_text net (IPv4 7) = lit ''6.6.6.6''"
    "lit ''6.6.6.6'' \<notin> set (site_addresses net (vpnSites stocked VpnAllExceptSites))"
    by code_simp+
  ultimately show ?thesis
    using removed_site_returns [of "lit ''a.ru''" stocked_list ?c "lit ''5.5.5.5''" net "[IPv4 7]" "IPv4 7" "[]", unfolded s]
    by auto
qed

end
