(* ===== verification/Fresh_Faq.thy ===== *)
theory Fresh_Faq
  imports Js_Core Fresh_Prelude
begin

text \<open>
  The questions and answers of client/ui/qml/Components/FreshFaq.js, text by text as UTF-16 code
  units, the lookup of a category, and the part of the pages PageSettingsApiSupport.qml and
  PageSettingsApiInstructions.qml that shows them.
\<close>

section \<open>The texts\<close>

record faq_item =
  faq_q :: jsstring
  faq_a :: jsstring

record faq_category =
  faq_id :: jsstring
  faq_title :: jsstring
  faq_items :: "faq_item list"

definition connect_category :: faq_category where
  "connect_category = \<lparr>faq_id = lit ''connect'',
    faq_title = [1055, 1086, 1076, 1082, 1083, 1102, 1095, 1077, 1085, 1080, 1077, 32, 1080, 32, 1091, 1089, 1090, 1072, 1085, 1086,
      1074, 1082, 1072],
    faq_items = [
      \<lparr>faq_q = [1057, 32, 1095, 1077, 1075, 1086, 32, 1085, 1072, 1095, 1072, 1090, 1100, 63],
       faq_a = [1058, 1088, 1080, 32, 1096, 1072, 1075, 1072, 46, 32, 1042, 1086, 1079, 1100, 1084, 1080, 1090, 1077, 32, 1082, 1083,
        1102, 1095, 32, 1074, 32, 1088, 1072, 1079, 1076, 1077, 1083, 1077, 32, 171, 1055, 1086, 1076, 1082, 1083, 1102, 1095,
        1077, 1085, 1080, 1077, 187, 44, 32, 1087, 1086, 1089, 1090, 1072, 1074, 1100, 1090, 1077, 32, 1087, 1088, 1080, 1083,
        1086, 1078, 1077, 1085, 1080, 1077, 32, 1076, 1083, 1103, 32, 1089, 1074, 1086, 1077, 1075, 1086, 32, 1091, 1089,
        1090, 1088, 1086, 1081, 1089, 1090, 1074, 1072, 44, 32, 1074, 1089, 1090, 1072, 1074, 1100, 1090, 1077, 32, 1082,
        1083, 1102, 1095, 46, 32, 1044, 1072, 1083, 1100, 1096, 1077, 32, 8212, 32, 1086, 1076, 1085, 1072, 32, 1082, 1085,
        1086, 1087, 1082, 1072, 32, 1074, 1082, 1083, 1102, 1095, 1077, 1085, 1080, 1103, 46, 10, 10, 1055, 1086, 1096, 1072,
        1075, 1086, 1074, 1086, 32, 1087, 1086, 1076, 32, 1082, 1072, 1078, 1076, 1086, 1077, 32, 1091, 1089, 1090, 1088,
        1086, 1081, 1089, 1090, 1074, 1086, 32, 1088, 1072, 1079, 1083, 1086, 1078, 1077, 1085, 1086, 32, 1074, 32, 1088,
        1072, 1079, 1076, 1077, 1083, 1077, 32, 171, 1048, 1085, 1089, 1090, 1088, 1091, 1082, 1094, 1080, 1103, 187, 46]\<rparr>,
      \<lparr>faq_q = [1063, 1090, 1086, 32, 1079, 1072, 32, 1076, 1083, 1080, 1085, 1085, 1072, 1103, 32, 1089, 1089, 1099, 1083, 1082,
        1072, 45, 1087, 1086, 1076, 1087, 1080, 1089, 1082, 1072, 32, 1080, 32, 1082, 1091, 1076, 1072, 32, 1077, 1105, 32,
        1074, 1089, 1090, 1072, 1074, 1083, 1103, 1090, 1100, 63],
       faq_a = [1069, 1090, 1086, 32, 1074, 1072, 1096, 32, 1076, 1086, 1089, 1090, 1091, 1087, 44, 32, 1086, 1085, 32, 1079, 1072,
        1084, 1077, 1085, 1103, 1077, 1090, 32, 1083, 1086, 1075, 1080, 1085, 32, 1080, 32, 1087, 1072, 1088, 1086, 1083,
        1100, 46, 32, 1055, 1088, 1080, 1083, 1086, 1078, 1077, 1085, 1080, 1077, 32, 1087, 1086, 32, 1101, 1090, 1086, 1081,
        32, 1089, 1089, 1099, 1083, 1082, 1077, 32, 1089, 1072, 1084, 1086, 32, 1091, 1079, 1085, 1072, 1105, 1090, 44, 32,
        1082, 1072, 1082, 1080, 1077, 32, 1091, 32, 1085, 1072, 1089, 32, 1089, 1077, 1081, 1095, 1072, 1089, 32, 1089, 1077,
        1088, 1074, 1077, 1088, 1099, 44, 32, 1080, 32, 1087, 1086, 1076, 1090, 1103, 1075, 1080, 1074, 1072, 1077, 1090, 32,
        1085, 1086, 1074, 1099, 1077, 44, 32, 1082, 1086, 1075, 1076, 1072, 32, 1084, 1099, 32, 1080, 1093, 32, 1076, 1086,
        1073, 1072, 1074, 1083, 1103, 1077, 1084, 46, 10, 10, 1042, 1089, 1090, 1072, 1074, 1083, 1103, 1077, 1090, 1089,
        1103, 32, 1086, 1085, 1072, 32, 1086, 1076, 1080, 1085, 32, 1088, 1072, 1079, 32, 1087, 1088, 1080, 32, 1085, 1072,
        1089, 1090, 1088, 1086, 1081, 1082, 1077, 58, 32, 1074, 32, 1085, 1072, 1096, 1077, 1084, 32, 1087, 1088, 1080, 1083,
        1086, 1078, 1077, 1085, 1080, 1080, 32, 8212, 32, 1082, 1085, 1086, 1087, 1082, 1086, 1081, 44, 32, 1074] @
        lit '' Happ '' @ [8212, 32, 1095, 1077, 1088, 1077, 1079, 32, 1076, 1086, 1073, 1072, 1074, 1083, 1077, 1085, 1080,
        1077, 32, 1087, 1086, 1076, 1087, 1080, 1089, 1082, 1080, 46]\<rparr>,
      \<lparr>faq_q = [1050, 1072, 1082, 32, 1087, 1086, 1076, 1082, 1083, 1102, 1095, 1080, 1090, 1100, 1089, 1103, 32, 1085, 1072] @
        lit '' Android'' @ [63],
       faq_a = [1059, 32, 1085, 1072, 1089, 32, 1089, 1074, 1086, 1105, 32, 1087, 1088, 1080, 1083, 1086, 1078, 1077, 1085, 1080,
        1077, 32, 1076, 1083, 1103] @ lit '' Android. '' @ [1057, 1082, 1072, 1095, 1072, 1081, 1090, 1077, 32, 1077, 1075,
        1086, 32, 1074, 32, 1088, 1072, 1079, 1076, 1077, 1083, 1077, 32, 171, 1048, 1085, 1089, 1090, 1088, 1091, 1082, 1094,
        1080, 1103, 187, 44, 32, 1091, 1089, 1090, 1072, 1085, 1086, 1074, 1080, 1090, 1077, 44, 32, 1086, 1090, 1082, 1088,
        1086, 1081, 1090, 1077, 32, 8212, 32, 1082, 1083, 1102, 1095, 32, 1087, 1086, 1076, 1089, 1090, 1072, 1074, 1080,
        1090, 1089, 1103, 32, 1089, 1072, 1084, 44, 32, 1077, 1089, 1083, 1080, 32, 1074, 1099, 32, 1079, 1072, 1093, 1086,
        1076, 1080, 1083, 1080, 32, 1080, 1079] @ lit '' Telegram.'' @ [10, 10] @ lit ''Android '' @ [1087, 1088, 1077, 1076,
        1091, 1087, 1088, 1077, 1076, 1080, 1090, 44, 32, 1095, 1090, 1086, 32, 1080, 1089, 1090, 1086, 1095, 1085, 1080,
        1082, 32, 1085, 1077, 1080, 1079, 1074, 1077, 1089, 1090, 1085, 1099, 1081, 58, 32, 1101, 1090, 1086, 32, 1085, 1086,
        1088, 1084, 1072, 1083, 1100, 1085, 1086, 32, 1076, 1083, 1103, 32, 1087, 1088, 1080, 1083, 1086, 1078, 1077, 1085,
        1080, 1081, 32, 1074, 1085, 1077, 32, 1084, 1072, 1075, 1072, 1079, 1080, 1085, 1072, 46, 32, 1056, 1072, 1079, 1088,
        1077, 1096, 1080, 1090, 1077, 32, 1091, 1089, 1090, 1072, 1085, 1086, 1074, 1082, 1091, 32, 1080, 32, 1087, 1088,
        1086, 1076, 1086, 1083, 1078, 1072, 1081, 1090, 1077, 46]\<rparr>,
      \<lparr>faq_q = [1050, 1072, 1082, 32, 1087, 1086, 1076, 1082, 1083, 1102, 1095, 1080, 1090, 1100, 1089, 1103, 32, 1085, 1072] @
        lit '' iPhone'' @ [63],
       faq_a = [1063, 1077, 1088, 1077, 1079, 32, 1087, 1088, 1080, 1083, 1086, 1078, 1077, 1085, 1080, 1077] @ lit '' Happ '' @
        [1080, 1079] @ lit '' App Store. '' @ [1057, 1082, 1086, 1087, 1080, 1088, 1091, 1081, 1090, 1077, 32, 1085, 1072,
        1096, 1091, 32, 1089, 1089, 1099, 1083, 1082, 1091, 45, 1087, 1086, 1076, 1087, 1080, 1089, 1082, 1091, 32, 1074, 32,
        1088, 1072, 1079, 1076, 1077, 1083, 1077, 32, 171, 1055, 1086, 1076, 1082, 1083, 1102, 1095, 1077, 1085, 1080, 1077,
        187, 32, 1080, 32, 1076, 1086, 1073, 1072, 1074, 1100, 1090, 1077, 32, 1077, 1105, 32, 1074] @ lit '' Happ '' @ [8212,
        32, 1076, 1072, 1083, 1100, 1096, 1077, 32, 1086, 1073, 1099, 1095, 1085, 1072, 1103, 32, 1082, 1085, 1086, 1087,
        1082, 1072, 32, 1074, 1082, 1083, 1102, 1095, 1077, 1085, 1080, 1103, 46, 10, 10, 1042, 1072, 1078, 1085, 1086, 32,
        1087, 1088, 1080, 32, 1076, 1086, 1073, 1072, 1074, 1083, 1077, 1085, 1080, 1080] @ lit '': Happ '' @ [1089, 1087,
        1088, 1086, 1089, 1080, 1090, 44, 32, 1087, 1088, 1080, 1084, 1077, 1085, 1080, 1090, 1100, 32, 1083, 1080, 32, 1085,
        1072, 1089, 1090, 1088, 1086, 1081, 1082, 1080, 32, 1084, 1072, 1088, 1096, 1088, 1091, 1090, 1080, 1079, 1072, 1094,
        1080, 1080, 32, 1086, 1090] @ lit '' Fresh VPN '' @ [8212, 32, 1089, 1086, 1075, 1083, 1072, 1089, 1080, 1090, 1077,
        1089, 1100, 46, 32, 1041, 1083, 1072, 1075, 1086, 1076, 1072, 1088, 1103, 32, 1080, 1084, 32, 1088, 1086, 1089, 1089,
        1080, 1081, 1089, 1082, 1080, 1077, 32, 1089, 1072, 1081, 1090, 1099, 32, 1080, 1076, 1091, 1090, 32, 1085, 1072,
        1087, 1088, 1103, 1084, 1091, 1102, 44, 32, 1084, 1080, 1084, 1086] @ lit '' VPN, '' @ [1080, 32, 1073, 1072, 1085,
        1082, 1080, 32, 1089, 32, 1084, 1072, 1088, 1082, 1077, 1090, 1087, 1083, 1077, 1081, 1089, 1072, 1084, 1080, 32,
        1087, 1088, 1086, 1076, 1086, 1083, 1078, 1072, 1102, 1090, 32, 1088, 1072, 1073, 1086, 1090, 1072, 1090, 1100, 46,
        10, 10, 1045, 1089, 1083, 1080, 32, 1088, 1072, 1085, 1100, 1096, 1077, 32, 1087, 1086, 1083, 1100, 1079, 1086, 1074,
        1072, 1083, 1080, 1089, 1100, 32, 1076, 1088, 1091, 1075, 1080, 1084] @ lit '' VPN, '' @ [1087, 1088, 1086, 1074,
        1077, 1088, 1100, 1090, 1077, 32, 1086, 1090, 1076, 1077, 1083, 1100, 1085, 1086, 58, 32, 1053, 1072, 1089, 1090,
        1088, 1086, 1081, 1082, 1080, 32, 8594, 32, 1052, 1072, 1088, 1096, 1088, 1091, 1090, 1080, 1079, 1072, 1094, 1080,
        1103, 32, 8594, 32, 1087, 1077, 1088, 1077, 1082, 1083, 1102, 1095, 1072, 1090, 1077, 1083, 1100, 32, 171, 1048, 1089,
        1087, 1086, 1083, 1100, 1079, 1086, 1074, 1072, 1090, 1100, 32, 1088, 1086, 1091, 1090, 1080, 1085, 1075, 187, 32,
        1076, 1086, 1083, 1078, 1077, 1085, 32, 1073, 1099, 1090, 1100, 32, 1074, 1082, 1083, 1102, 1095, 1105, 1085, 44, 32,
        1072, 32, 1074, 32, 1089, 1087, 1080, 1089, 1082, 1077, 32, 1085, 1080, 1078, 1077, 32, 1074, 1099, 1073, 1088, 1072,
        1085, 32, 1087, 1088, 1086, 1092, 1080, 1083, 1100] @ lit '' Fresh VPN.''\<rparr>,
      \<lparr>faq_q = [1055, 1086, 1095, 1077, 1084, 1091, 32, 1085, 1072] @ lit '' iPhone '' @ [1095, 1091, 1078, 1086, 1077, 32, 1087,
        1088, 1080, 1083, 1086, 1078, 1077, 1085, 1080, 1077, 44, 32, 1072, 32, 1085, 1077, 32, 1074, 1072, 1096, 1077, 63,
        32, 1069, 1090, 1086, 32, 1073, 1077, 1079, 1086, 1087, 1072, 1089, 1085, 1086, 63],
       faq_a = [1057, 1074, 1086, 1077, 1075, 1086, 32, 1087, 1088, 1080, 1083, 1086, 1078, 1077, 1085, 1080, 1103, 32, 1076, 1083,
        1103] @ lit '' iPhone '' @ [1091, 32, 1085, 1072, 1089, 32, 1087, 1086, 1082, 1072, 32, 1085, 1077, 1090] @
        lit '': Apple '' @ [1087, 1091, 1089, 1082, 1072, 1077, 1090] @ lit '' VPN '' @ [1074, 32, 1084, 1072, 1075, 1072,
        1079, 1080, 1085, 32, 1090, 1086, 1083, 1100, 1082, 1086, 32, 1086, 1090, 32, 1082, 1086, 1084, 1087, 1072, 1085,
        1080, 1081, 44, 32, 1072, 32, 1085, 1077, 32, 1086, 1090, 32, 1080, 1085, 1076, 1080, 1074, 1080, 1076, 1091, 1072,
        1083, 1100, 1085, 1099, 1093, 32, 1087, 1088, 1077, 1076, 1087, 1088, 1080, 1085, 1080, 1084, 1072, 1090, 1077, 1083,
        1077, 1081, 46, 10, 10] @ lit ''Happ '' @ [8212, 32, 1086, 1073, 1099, 1095, 1085, 1086, 1077, 32, 1087, 1088, 1080,
        1083, 1086, 1078, 1077, 1085, 1080, 1077, 32, 1080, 1079] @ lit '' App Store, '' @ [1086, 1085, 1086, 32, 1087, 1088,
        1086, 1096, 1083, 1086, 32, 1087, 1088, 1086, 1074, 1077, 1088, 1082, 1091] @ lit '' Apple. '' @ [1054, 1085, 1086,
        32, 1087, 1088, 1086, 1089, 1090, 1086, 32, 1086, 1090, 1082, 1088, 1099, 1074, 1072, 1077, 1090, 32, 1089, 1086,
        1077, 1076, 1080, 1085, 1077, 1085, 1080, 1077, 32, 1087, 1086, 32, 1085, 1072, 1096, 1077, 1081, 32, 1089, 1089,
        1099, 1083, 1082, 1077, 58, 32, 1089, 1077, 1088, 1074, 1077, 1088, 1099, 44, 32, 1082, 1083, 1102, 1095, 1080, 32,
        1080, 32, 1074, 1072, 1096, 32, 1090, 1088, 1072, 1092, 1080, 1082, 32, 1086, 1089, 1090, 1072, 1102, 1090, 1089,
        1103, 32, 1085, 1072, 1096, 1080, 1084, 1080] @ lit '', Happ '' @ [1079, 1076, 1077, 1089, 1100, 32, 1090, 1086, 1083,
        1100, 1082, 1086, 32, 171, 1087, 1091, 1083, 1100, 1090, 187, 46]\<rparr>,
      \<lparr>faq_q = [1050, 1072, 1082, 32, 1087, 1086, 1076, 1082, 1083, 1102, 1095, 1080, 1090, 1100, 1089, 1103, 32, 1085, 1072] @
        lit '' Windows'' @ [63],
       faq_a = [1057, 1082, 1072, 1095, 1072, 1081, 1090, 1077, 32, 1085, 1072, 1096, 1091, 32, 1087, 1088, 1086, 1075, 1088, 1072,
        1084, 1084, 1091, 32, 1074, 32, 1088, 1072, 1079, 1076, 1077, 1083, 1077, 32, 171, 1048, 1085, 1089, 1090, 1088, 1091,
        1082, 1094, 1080, 1103, 187, 32, 1080, 32, 1091, 1089, 1090, 1072, 1085, 1086, 1074, 1080, 1090, 1077, 46, 32, 1050,
        1083, 1102, 1095, 32, 1087, 1086, 1076, 1089, 1090, 1072, 1074, 1080, 1090, 1089, 1103, 32, 1072, 1074, 1090, 1086,
        1084, 1072, 1090, 1080, 1095, 1077, 1089, 1082, 1080, 32, 1083, 1080, 1073, 1086, 32, 1074, 1089, 1090, 1072, 1074,
        1100, 1090, 1077, 32, 1077, 1075, 1086, 32, 1074, 1088, 1091, 1095, 1085, 1091, 1102, 46, 10, 10] @ lit ''Windows '' @
        [1084, 1086, 1078, 1077, 1090, 32, 1087, 1086, 1082, 1072, 1079, 1072, 1090, 1100, 32, 1087, 1088, 1077, 1076, 1091,
        1087, 1088, 1077, 1078, 1076, 1077, 1085, 1080, 1077, 32, 1086, 32, 1085, 1077, 1080, 1079, 1074, 1077, 1089, 1090,
        1085, 1086, 1084, 32, 1080, 1079, 1076, 1072, 1090, 1077, 1083, 1077, 32, 8212, 32, 1085, 1072, 1078, 1084, 1080,
        1090, 1077, 32, 171, 1055, 1086, 1076, 1088, 1086, 1073, 1085, 1077, 1077, 187, 44, 32, 1079, 1072, 1090, 1077, 1084,
        32, 171, 1042, 1099, 1087, 1086, 1083, 1085, 1080, 1090, 1100, 32, 1074, 32, 1083, 1102, 1073, 1086, 1084, 32, 1089,
        1083, 1091, 1095, 1072, 1077, 187, 46, 32, 1058, 1072, 1082, 32, 1073, 1099, 1074, 1072, 1077, 1090, 32, 1091, 32,
        1083, 1102, 1073, 1099, 1093, 32, 1087, 1088, 1086, 1075, 1088, 1072, 1084, 1084, 32, 1073, 1077, 1079, 32, 1076,
        1086, 1088, 1086, 1075, 1086, 1081, 32, 1087, 1086, 1076, 1087, 1080, 1089, 1080, 32, 1080, 1079, 1076, 1072, 1090,
        1077, 1083, 1103, 46]\<rparr>,
      \<lparr>faq_q = [1050, 1072, 1082, 32, 1087, 1086, 1076, 1082, 1083, 1102, 1095, 1080, 1090, 1100, 1089, 1103, 32, 1085, 1072, 32, 77,
        97, 99, 63],
       faq_a = [1053, 1072] @ lit '' Mac '' @ [1089, 1090, 1072, 1074, 1080, 1090, 1089, 1103] @ lit '' Happ '' @ [1080, 1079] @
        lit '' App Store, '' @ [1090, 1091, 1076, 1072, 32, 1076, 1086, 1073, 1072, 1074, 1083, 1103, 1077, 1090, 1089, 1103,
        32, 1090, 1072, 32, 1078, 1077, 32, 1089, 1089, 1099, 1083, 1082, 1072, 45, 1087, 1086, 1076, 1087, 1080, 1089, 1082,
        1072, 44, 32, 1095, 1090, 1086, 32, 1080, 32, 1085, 1072, 32, 1090, 1077, 1083, 1077, 1092, 1086, 1085, 1077, 46]\<rparr>,
      \<lparr>faq_q = [1050, 1072, 1082, 32, 1085, 1072, 1089, 1090, 1088, 1086, 1080, 1090, 1100, 32, 1085, 1072, 32, 1088, 1086, 1091,
        1090, 1077, 1088, 1077, 63],
       faq_a = [1053, 1091, 1078, 1085, 1072, 32, 1087, 1088, 1086, 1096, 1080, 1074, 1082, 1072, 44, 32, 1082, 1086, 1090, 1086,
        1088, 1072, 1103, 32, 1091, 1084, 1077, 1077, 1090, 32, 1088, 1072, 1073, 1086, 1090, 1072, 1090, 1100, 32, 1089, 32,
        1085, 1072, 1096, 1080, 1084, 1080, 32, 1087, 1088, 1086, 1090, 1086, 1082, 1086, 1083, 1072, 1084, 1080] @
        lit '': OpenWRT '' @ [1080, 1083, 1080] @ lit '' Keenetic '' @ [1089, 32, 1076, 1086, 1087, 1086, 1083, 1085, 1077,
        1085, 1080, 1103, 1084, 1080, 46, 32, 1042, 32, 1088, 1086, 1091, 1090, 1077, 1088, 32, 1076, 1086, 1073, 1072, 1074,
        1083, 1103, 1077, 1090, 1089, 1103, 32, 1090, 1072, 32, 1078, 1077, 32, 1089, 1089, 1099, 1083, 1082, 1072, 45, 1087,
        1086, 1076, 1087, 1080, 1089, 1082, 1072, 46, 10, 10, 1055, 1083, 1102, 1089, 58, 32, 1079, 1072, 1097, 1080, 1097,
        1077, 1085, 1099, 32, 1089, 1088, 1072, 1079, 1091, 32, 1074, 1089, 1077, 32, 1091, 1089, 1090, 1088, 1086, 1081,
        1089, 1090, 1074, 1072, 32, 1076, 1086, 1084, 1072, 44, 32, 1074, 1082, 1083, 1102, 1095, 1072, 1103, 32, 1090, 1077,
        44, 32, 1082, 1091, 1076, 1072, 32, 1087, 1088, 1080, 1083, 1086, 1078, 1077, 1085, 1080, 1077, 32, 1085, 1077, 32,
        1087, 1086, 1089, 1090, 1072, 1074, 1080, 1096, 1100, 46, 32, 1052, 1080, 1085, 1091, 1089, 58, 32, 1085, 1072, 1089,
        1090, 1088, 1086, 1081, 1082, 1072, 32, 1089, 1083, 1086, 1078, 1085, 1077, 1077, 32, 1080, 32, 1085, 1072, 32, 1082,
        1072, 1078, 1076, 1086, 1081, 32, 1084, 1086, 1076, 1077, 1083, 1080, 32, 1089, 1074, 1086, 1103, 46, 32, 1053, 1077,
        32, 1091, 1074, 1077, 1088, 1077, 1085, 1099, 32, 8212, 32, 1085, 1072, 1087, 1080, 1096, 1080, 1090, 1077, 32, 1085,
        1072, 1084, 32, 1084, 1086, 1076, 1077, 1083, 1100, 44, 32, 1087, 1086, 1076, 1089, 1082, 1072, 1078, 1077, 1084, 46]\<rparr>,
      \<lparr>faq_q = [1050, 1072, 1082, 32, 1085, 1072, 1089, 1090, 1088, 1086, 1080, 1090, 1100, 32, 1085, 1072, 32, 1090, 1077, 1083,
        1077, 1074, 1080, 1079, 1086, 1088, 1077, 63],
       faq_a = [1045, 1089, 1083, 1080, 32, 1090, 1077, 1083, 1077, 1074, 1080, 1079, 1086, 1088, 32, 1085, 1072] @
        lit '' Android TV '' @ [8212, 32, 1089, 1090, 1072, 1074, 1080, 1090, 1089, 1103, 32, 1085, 1072, 1096, 1077, 32,
        1087, 1088, 1080, 1083, 1086, 1078, 1077, 1085, 1080, 1077, 32, 1076, 1083, 1103] @ lit '' Android, '' @ [1092, 1072,
        1081, 1083, 1086, 1084, 46, 10, 10, 1045, 1089, 1083, 1080, 32, 1089, 1080, 1089, 1090, 1077, 1084, 1072, 32, 1076,
        1088, 1091, 1075, 1072, 1103] @ lit '' (Samsung, LG), '' @ [1087, 1088, 1080, 1083, 1086, 1078, 1077, 1085, 1080,
        1077, 32, 1087, 1086, 1089, 1090, 1072, 1074, 1080, 1090, 1100, 32, 1085, 1077, 1083, 1100, 1079, 1103, 46, 32, 1058,
        1086, 1075, 1076, 1072, 32, 1077, 1076, 1080, 1085, 1089, 1090, 1074, 1077, 1085, 1085, 1099, 1081, 32, 1088, 1072,
        1073, 1086, 1095, 1080, 1081, 32, 1087, 1091, 1090, 1100, 32, 8212, 32, 1085, 1072, 1089, 1090, 1088, 1086, 1080,
        1090, 1100, 32, 1088, 1086, 1091, 1090, 1077, 1088, 44, 32, 1080, 32, 1090, 1077, 1083, 1077, 1074, 1080, 1079, 1086,
        1088, 32, 1087, 1086, 1081, 1076, 1105, 1090, 32, 1095, 1077, 1088, 1077, 1079, 32, 1085, 1077, 1075, 1086, 46]\<rparr>,
      \<lparr>faq_q = [1055, 1088, 1080, 1083, 1086, 1078, 1077, 1085, 1080, 1077, 32, 1085, 1077, 32, 1091, 1089, 1090, 1072, 1085, 1072,
        1074, 1083, 1080, 1074, 1072, 1077, 1090, 1089, 1103],
       faq_a = [1053, 1072] @ lit '' Android '' @ [1088, 1072, 1079, 1088, 1077, 1096, 1080, 1090, 1077, 32, 1091, 1089, 1090, 1072,
        1085, 1086, 1074, 1082, 1091, 32, 1080, 1079, 32, 1080, 1089, 1090, 1086, 1095, 1085, 1080, 1082, 1072, 44, 32, 1086,
        1090, 1082, 1091, 1076, 1072, 32, 1082, 1072, 1095, 1072, 1077, 1090, 1077, 32, 8212, 32, 1073, 1088, 1072, 1091,
        1079, 1077, 1088, 1072, 32, 1080, 1083, 1080] @ lit '' Telegram, '' @ [1074, 32, 1085, 1072, 1089, 1090, 1088, 1086,
        1081, 1082, 1072, 1093, 32, 1073, 1077, 1079, 1086, 1087, 1072, 1089, 1085, 1086, 1089, 1090, 1080, 46, 32, 1053,
        1072] @ lit '' Windows '' @ [1074, 32, 1086, 1082, 1085, 1077, 32, 1079, 1072, 1097, 1080, 1090, 1099, 32, 1085, 1072,
        1078, 1084, 1080, 1090, 1077, 32, 171, 1055, 1086, 1076, 1088, 1086, 1073, 1085, 1077, 1077, 187, 44, 32, 1079, 1072,
        1090, 1077, 1084, 32, 171, 1042, 1099, 1087, 1086, 1083, 1085, 1080, 1090, 1100, 32, 1074, 32, 1083, 1102, 1073, 1086,
        1084, 32, 1089, 1083, 1091, 1095, 1072, 1077, 187, 46, 10, 10, 1045, 1089, 1083, 1080, 32, 1085, 1077, 32, 1087, 1086,
        1084, 1086, 1075, 1083, 1086, 44, 32, 1085, 1072, 1087, 1080, 1096, 1080, 1090, 1077, 32, 1085, 1072, 1084, 32, 1091,
        1089, 1090, 1088, 1086, 1081, 1089, 1090, 1074, 1086, 32, 1080, 32, 1090, 1077, 1082, 1089, 1090, 32, 1086, 1096,
        1080, 1073, 1082, 1080, 44, 32, 1083, 1091, 1095, 1096, 1077, 32, 1089, 1086, 32, 1089, 1085, 1080, 1084, 1082, 1086,
        1084, 32, 1101, 1082, 1088, 1072, 1085, 1072, 46]\<rparr>,
      \<lparr>faq_q = [1040, 1085, 1090, 1080, 1074, 1080, 1088, 1091, 1089, 32, 1088, 1091, 1075, 1072, 1077, 1090, 1089, 1103, 32, 1085,
        1072, 32, 1091, 1089, 1090, 1072, 1085, 1086, 1074, 1097, 1080, 1082],
       faq_a = [1069, 1090, 1086, 32, 1083, 1086, 1078, 1085, 1086, 1077, 32, 1089, 1088, 1072, 1073, 1072, 1090, 1099, 1074, 1072,
        1085, 1080, 1077, 46, 32, 1051, 1102, 1073, 1072, 1103, 32, 1087, 1088, 1086, 1075, 1088, 1072, 1084, 1084, 1072] @
        lit '' VPN '' @ [1089, 1090, 1072, 1074, 1080, 1090, 32, 1089, 1080, 1089, 1090, 1077, 1084, 1085, 1099, 1081, 32,
        1089, 1077, 1090, 1077, 1074, 1086, 1081, 32, 1076, 1088, 1072, 1081, 1074, 1077, 1088, 44, 32, 1080, 32, 1072, 1085,
        1090, 1080, 1074, 1080, 1088, 1091, 1089, 1099, 32, 1086, 1090, 1085, 1086, 1089, 1103, 1090, 1089, 1103, 32, 1082,
        32, 1090, 1072, 1082, 1080, 1084, 32, 1091, 1089, 1090, 1072, 1085, 1086, 1074, 1097, 1080, 1082, 1072, 1084, 32,
        1085, 1072, 1089, 1090, 1086, 1088, 1086, 1078, 1077, 1085, 1085, 1086, 44, 32, 1086, 1089, 1086, 1073, 1077, 1085,
        1085, 1086, 32, 1077, 1089, 1083, 1080, 32, 1091, 32, 1087, 1088, 1086, 1075, 1088, 1072, 1084, 1084, 1099, 32, 1085,
        1077, 1090, 32, 1076, 1086, 1088, 1086, 1075, 1086, 1081, 32, 1087, 1086, 1076, 1087, 1080, 1089, 1080, 32, 1080,
        1079, 1076, 1072, 1090, 1077, 1083, 1103, 46, 10, 10, 1057, 1082, 1072, 1095, 1080, 1074, 1072, 1081, 1090, 1077, 32,
        1090, 1086, 1083, 1100, 1082, 1086, 32, 1087, 1086, 32, 1089, 1089, 1099, 1083, 1082, 1077, 32, 1080, 1079, 32, 1087,
        1088, 1080, 1083, 1086, 1078, 1077, 1085, 1080, 1103, 32, 1080, 1083, 1080, 32, 1073, 1086, 1090, 1072, 46, 32, 1045,
        1089, 1083, 1080, 32, 1089, 1086, 1084, 1085, 1077, 1074, 1072, 1077, 1090, 1077, 1089, 1100, 32, 8212, 32, 1085,
        1072, 1087, 1080, 1096, 1080, 1090, 1077, 32, 1085, 1072, 1084, 44, 32, 1087, 1086, 1076, 1090, 1074, 1077, 1088,
        1076, 1080, 1084, 32, 1088, 1072, 1079, 1084, 1077, 1088, 32, 1080, 32, 1082, 1086, 1085, 1090, 1088, 1086, 1083,
        1100, 1085, 1091, 1102, 32, 1089, 1091, 1084, 1084, 1091, 32, 1092, 1072, 1081, 1083, 1072, 46]\<rparr>,
      \<lparr>faq_q = [1050, 1072, 1082, 32, 1087, 1086, 1085, 1103, 1090, 1100, 44, 32, 1095, 1090, 1086] @ lit '' VPN '' @ [1076, 1077,
        1081, 1089, 1090, 1074, 1080, 1090, 1077, 1083, 1100, 1085, 1086, 32, 1088, 1072, 1073, 1086, 1090, 1072, 1077, 1090,
        63],
       faq_a = [1054, 1090, 1082, 1088, 1086, 1081, 1090, 1077, 32, 1083, 1102, 1073, 1086, 1081, 32, 1089, 1077, 1088, 1074, 1080,
        1089, 32, 1087, 1088, 1086, 1074, 1077, 1088, 1082, 1080, 32, 1072, 1076, 1088, 1077, 1089, 1072, 44, 32, 1085, 1072,
        1087, 1088, 1080, 1084, 1077, 1088] @ lit '' 2ip.ru, '' @ [1080, 32, 1087, 1086, 1089, 1084, 1086, 1090, 1088, 1080,
        1090, 1077, 32, 1089, 1090, 1088, 1072, 1085, 1091, 46, 32, 1044, 1086, 32, 1074, 1082, 1083, 1102, 1095, 1077, 1085,
        1080, 1103, 32, 1073, 1091, 1076, 1077, 1090, 32, 1074, 1072, 1096, 1072, 44, 32, 1087, 1086, 1089, 1083, 1077, 32,
        8212, 32, 1089, 1090, 1088, 1072, 1085, 1072, 32, 1074, 1099, 1073, 1088, 1072, 1085, 1085, 1086, 1075, 1086, 32,
        1089, 1077, 1088, 1074, 1077, 1088, 1072, 46, 10, 10, 1042, 32, 1089, 1072, 1084, 1086, 1084, 32, 1087, 1088, 1080,
        1083, 1086, 1078, 1077, 1085, 1080, 1080, 32, 1088, 1103, 1076, 1086, 1084, 32, 1089, 32, 1089, 1077, 1088, 1074,
        1077, 1088, 1086, 1084, 32, 1074, 1080, 1076, 1077, 1085, 32, 1086, 1090, 1082, 1083, 1080, 1082, 58, 32, 1077, 1089,
        1083, 1080, 32, 1086, 1085, 32, 1087, 1086, 1082, 1072, 1079, 1099, 1074, 1072, 1077, 1090, 1089, 1103, 32, 1095,
        1080, 1089, 1083, 1086, 1084, 44, 32, 1089, 1086, 1077, 1076, 1080, 1085, 1077, 1085, 1080, 1077, 32, 1078, 1080,
        1074, 1086, 1077, 46]\<rparr>,
      \<lparr>faq_q = [1050, 1083, 1102, 1095, 32, 1085, 1077, 32, 1087, 1086, 1076, 1093, 1086, 1076, 1080, 1090, 44, 32, 1087, 1080, 1096,
        1077, 1090, 32, 1086, 1096, 1080, 1073, 1082, 1091],
       faq_a = [1063, 1072, 1097, 1077, 32, 1074, 1089, 1077, 1075, 1086, 32, 1082, 1086, 1087, 1080, 1088, 1091, 1077, 1090, 1089,
        1103, 32, 1085, 1077, 32, 1074, 1089, 1103, 32, 1089, 1090, 1088, 1086, 1082, 1072, 46, 32, 1057, 1082, 1086, 1087,
        1080, 1088, 1091, 1081, 1090, 1077, 32, 1079, 1072, 1085, 1086, 1074, 1086, 32, 1082, 1085, 1086, 1087, 1082, 1086,
        1081, 32, 171, 1057, 1082, 1086, 1087, 1080, 1088, 1086, 1074, 1072, 1090, 1100, 32, 1082, 1083, 1102, 1095, 187, 44,
        32, 1072, 32, 1085, 1077, 32, 1074, 1099, 1076, 1077, 1083, 1077, 1085, 1080, 1077, 1084, 32, 1087, 1072, 1083, 1100,
        1094, 1077, 1084, 46, 10, 10, 1045, 1089, 1083, 1080, 32, 1086, 1096, 1080, 1073, 1082, 1072, 32, 1086, 1089, 1090,
        1072, 1083, 1072, 1089, 1100, 32, 8212, 32, 1087, 1088, 1086, 1074, 1077, 1088, 1100, 1090, 1077, 32, 1089, 1088,
        1086, 1082, 32, 1087, 1086, 1076, 1087, 1080, 1089, 1082, 1080, 32, 1080, 32, 1085, 1072, 1087, 1080, 1096, 1080,
        1090, 1077, 32, 1085, 1072, 1084, 32, 1090, 1077, 1082, 1089, 1090, 32, 1086, 1096, 1080, 1073, 1082, 1080, 46]\<rparr>,
      \<lparr>faq_q = [1053, 1091, 1078, 1085, 1086, 32, 1083, 1080, 32, 1095, 1090, 1086, 45, 1090, 1086, 32, 1085, 1072, 1089, 1090, 1088,
        1072, 1080, 1074, 1072, 1090, 1100, 32, 1087, 1086, 1089, 1083, 1077, 32, 1091, 1089, 1090, 1072, 1085, 1086, 1074,
        1082, 1080, 63],
       faq_a = [1053, 1077, 1090, 46, 32, 1055, 1088, 1080, 1083, 1086, 1078, 1077, 1085, 1080, 1077, 32, 1089, 1072, 1084, 1086, 32,
        1074, 1099, 1073, 1077, 1088, 1077, 1090, 32, 1088, 1072, 1073, 1086, 1095, 1080, 1081, 32, 1089, 1077, 1088, 1074,
        1077, 1088, 32, 1080, 32, 1087, 1086, 1076, 1093, 1086, 1076, 1103, 1097, 1080, 1081, 32, 1089, 1087, 1086, 1089,
        1086, 1073, 32, 1089, 1086, 1077, 1076, 1080, 1085, 1077, 1085, 1080, 1103, 46, 10, 10, 1054, 1089, 1090, 1072, 1083,
        1100, 1085, 1086, 1077, 32, 8212, 32, 1087, 1086, 32, 1078, 1077, 1083, 1072, 1085, 1080, 1102, 58, 32, 1074, 1088,
        1091, 1095, 1085, 1091, 1102, 32, 1074, 1099, 1073, 1088, 1072, 1090, 1100, 32, 1089, 1090, 1088, 1072, 1085, 1091,
        32, 1080, 1083, 1080, 32, 1074, 1082, 1083, 1102, 1095, 1080, 1090, 1100, 44, 32, 1095, 1090, 1086, 1073, 1099, 32,
        1088, 1086, 1089, 1089, 1080, 1081, 1089, 1082, 1080, 1077, 32, 1089, 1072, 1081, 1090, 1099, 32, 1096, 1083, 1080,
        32, 1085, 1072, 1087, 1088, 1103, 1084, 1091, 1102, 44, 32, 1084, 1080, 1084, 1086] @ lit '' VPN.''\<rparr>,
      \<lparr>faq_q = [1042, 1099, 32, 1076, 1086, 1073, 1072, 1074, 1080, 1083, 1080, 32, 1085, 1086, 1074, 1099, 1077, 32, 1089, 1077,
        1088, 1074, 1077, 1088, 1099, 32, 8212, 32, 1084, 1085, 1077, 32, 1095, 1090, 1086, 45, 1090, 1086, 32, 1076, 1077,
        1083, 1072, 1090, 1100, 63],
       faq_a = [1053, 1080, 1095, 1077, 1075, 1086, 46, 32, 1057, 1087, 1080, 1089, 1086, 1082, 32, 1089, 1077, 1088, 1074, 1077,
        1088, 1086, 1074, 32, 1087, 1088, 1080, 1083, 1086, 1078, 1077, 1085, 1080, 1077, 32, 1073, 1077, 1088, 1105, 1090,
        32, 1087, 1086, 32, 1074, 1072, 1096, 1077, 1081, 32, 1089, 1089, 1099, 1083, 1082, 1077, 45, 1087, 1086, 1076, 1087,
        1080, 1089, 1082, 1077, 32, 1080, 32, 1086, 1073, 1085, 1086, 1074, 1083, 1103, 1077, 1090, 32, 1089, 1072, 1084, 46,
        32, 1053, 1086, 1074, 1099, 1077, 32, 1089, 1090, 1088, 1072, 1085, 1099, 32, 1087, 1086, 1103, 1074, 1103, 1090,
        1089, 1103, 32, 1074, 32, 1089, 1087, 1080, 1089, 1082, 1077, 44, 32, 1089, 1090, 1072, 1088, 1099, 1081, 32, 1082,
        1083, 1102, 1095, 32, 1084, 1077, 1085, 1103, 1090, 1100, 32, 1085, 1077, 32, 1085, 1091, 1078, 1085, 1086, 46]\<rparr>,
      \<lparr>faq_q = [1050, 1072, 1082, 32, 1087, 1086, 1084, 1077, 1085, 1103, 1090, 1100, 32, 1089, 1090, 1088, 1072, 1085, 1091, 32,
        1080, 32, 1095, 1090, 1086, 32, 1086, 1079, 1085, 1072, 1095, 1072, 1102, 1090, 32, 1094, 1080, 1092, 1088, 1099, 32,
        1088, 1103, 1076, 1086, 1084, 63],
       faq_a = [1042, 32, 1089, 1087, 1080, 1089, 1082, 1077, 32, 1089, 1077, 1088, 1074, 1077, 1088, 1086, 1074, 32, 1085, 1072,
        1078, 1084, 1080, 1090, 1077, 32, 1085, 1072, 32, 1085, 1091, 1078, 1085, 1091, 1102, 32, 1089, 1090, 1088, 1072,
        1085, 1091, 32, 8212, 32, 1087, 1077, 1088, 1077, 1082, 1083, 1102, 1095, 1077, 1085, 1080, 1077, 32, 1079, 1072,
        1085, 1080, 1084, 1072, 1077, 1090, 32, 1087, 1072, 1088, 1091, 32, 1089, 1077, 1082, 1091, 1085, 1076, 46, 32, 1063,
        1080, 1089, 1083, 1086, 32, 1088, 1103, 1076, 1086, 1084, 32, 8212, 32, 1086, 1090, 1082, 1083, 1080, 1082, 32, 1074,
        32, 1084, 1080, 1083, 1083, 1080, 1089, 1077, 1082, 1091, 1085, 1076, 1072, 1093, 44, 32, 1090, 1086, 32, 1077, 1089,
        1090, 1100, 32, 1085, 1072, 1089, 1082, 1086, 1083, 1100, 1082, 1086, 32, 1073, 1099, 1089, 1090, 1088, 1086, 32,
        1089, 1077, 1088, 1074, 1077, 1088, 32, 1086, 1090, 1074, 1077, 1095, 1072, 1077, 1090, 46, 10, 10, 1055, 1088, 1072,
        1074, 1080, 1083, 1086, 32, 1087, 1088, 1086, 1089, 1090, 1086, 1077, 58, 32, 1084, 1077, 1085, 1100, 1096, 1077, 32,
        1095, 1080, 1089, 1083, 1086, 32, 8212, 32, 1078, 1080, 1074, 1077, 1077, 32, 1089, 1074, 1103, 1079, 1100, 46, 32,
        1044, 1083, 1103, 32, 1080, 1075, 1088, 32, 1080, 32, 1074, 1080, 1076, 1077, 1086, 1079, 1074, 1086, 1085, 1082,
        1086, 1074, 32, 1073, 1077, 1088, 1080, 1090, 1077, 32, 1089, 1072, 1084, 1086, 1077, 32, 1084, 1072, 1083, 1077,
        1085, 1100, 1082, 1086, 1077, 46]\<rparr>]\<rparr>"

definition billing_category :: faq_category where
  "billing_category = \<lparr>faq_id = lit ''billing'',
    faq_title = [1054, 1087, 1083, 1072, 1090, 1072, 32, 1080, 32, 1087, 1086, 1076, 1087, 1080, 1089, 1082, 1072],
    faq_items = [
      \<lparr>faq_q = [1057, 1082, 1086, 1083, 1100, 1082, 1086, 32, 1089, 1090, 1086, 1080, 1090, 63],
       faq_a = [1062, 1077, 1085, 1099, 32, 1080, 32, 1089, 1088, 1086, 1082, 1080, 32, 8212, 32, 1074, 32, 1088, 1072, 1079, 1076,
        1077, 1083, 1077, 32, 171, 1058, 1072, 1088, 1080, 1092, 1099, 187, 46, 32, 1063, 1077, 1084, 32, 1076, 1083, 1080,
        1085, 1085, 1077, 1077, 32, 1089, 1088, 1086, 1082, 44, 32, 1090, 1077, 1084, 32, 1076, 1077, 1096, 1077, 1074, 1083,
        1077, 32, 1074, 1099, 1093, 1086, 1076, 1080, 1090, 32, 1084, 1077, 1089, 1103, 1094, 46]\<rparr>,
      \<lparr>faq_q = [1050, 1072, 1082, 32, 1086, 1087, 1083, 1072, 1090, 1080, 1090, 1100, 63],
       faq_a = [1042, 32, 1088, 1072, 1079, 1076, 1077, 1083, 1077, 32, 171, 1058, 1072, 1088, 1080, 1092, 1099, 187, 58, 32, 1074,
        1099, 1073, 1080, 1088, 1072, 1077, 1090, 1077, 32, 1089, 1088, 1086, 1082, 32, 1080, 32, 1089, 1087, 1086, 1089,
        1086, 1073, 46, 32, 1055, 1088, 1080, 1085, 1080, 1084, 1072, 1077, 1084, 32, 1086, 1087, 1083, 1072, 1090, 1091, 32,
        1087, 1086, 32, 1057, 1041, 1055, 44, 32, 1073, 1072, 1085, 1082, 1086, 1074, 1089, 1082, 1086, 1081, 32, 1082, 1072,
        1088, 1090, 1086, 1081, 44, 32, 1082, 1088, 1080, 1087, 1090, 1086, 1074, 1072, 1083, 1102, 1090, 1086, 1081, 32,
        1080, 32, 1079, 1074, 1105, 1079, 1076, 1072, 1084, 1080] @ lit '' Telegram.'' @ [10, 10, 1055, 1086, 1089, 1083,
        1077, 32, 1086, 1087, 1083, 1072, 1090, 1099, 32, 1076, 1086, 1089, 1090, 1091, 1087, 32, 1074, 1082, 1083, 1102,
        1095, 1072, 1077, 1090, 1089, 1103, 32, 1072, 1074, 1090, 1086, 1084, 1072, 1090, 1080, 1095, 1077, 1089, 1082, 1080,
        44, 32, 1086, 1073, 1099, 1095, 1085, 1086, 32, 1079, 1072, 32, 1084, 1080, 1085, 1091, 1090, 1091, 46]\<rparr>,
      \<lparr>faq_q = [1054, 1087, 1083, 1072, 1090, 1080, 1083, 44, 32, 1072, 32, 1076, 1086, 1089, 1090, 1091, 1087, 1072, 32, 1085, 1077,
        1090],
       faq_a = [1057, 1085, 1072, 1095, 1072, 1083, 1072, 32, 1079, 1072, 1082, 1088, 1086, 1081, 1090, 1077, 32, 1080, 32, 1086,
        1090, 1082, 1088, 1086, 1081, 1090, 1077, 32, 1087, 1088, 1080, 1083, 1086, 1078, 1077, 1085, 1080, 1077, 44, 32,
        1072, 32, 1074, 32, 1084, 1080, 1085, 1080, 45, 1087, 1088, 1080, 1083, 1086, 1078, 1077, 1085, 1080, 1080, 32, 1086,
        1073, 1085, 1086, 1074, 1080, 1090, 1077, 32, 1089, 1090, 1088, 1072, 1085, 1080, 1094, 1091, 58, 32, 1076, 1086,
        1089, 1090, 1091, 1087, 32, 1080, 1085, 1086, 1075, 1076, 1072, 32, 1076, 1086, 1077, 1079, 1078, 1072, 1077, 1090,
        32, 1089, 32, 1079, 1072, 1076, 1077, 1088, 1078, 1082, 1086, 1081, 32, 1074, 32, 1084, 1080, 1085, 1091, 1090, 1091,
        46, 10, 10, 1045, 1089, 1083, 1080, 32, 1079, 1072, 32, 1085, 1077, 1089, 1082, 1086, 1083, 1100, 1082, 1086, 32,
        1084, 1080, 1085, 1091, 1090, 32, 1085, 1080, 1095, 1077, 1075, 1086, 32, 1085, 1077, 32, 1080, 1079, 1084, 1077,
        1085, 1080, 1083, 1086, 1089, 1100, 32, 8212, 32, 1085, 1072, 1087, 1080, 1096, 1080, 1090, 1077, 32, 1085, 1072,
        1084, 32, 1095, 1077, 1088, 1077, 1079, 32, 171, 1053, 1086, 1074, 1086, 1077, 32, 1086, 1073, 1088, 1072, 1097, 1077,
        1085, 1080, 1077, 187, 44, 32, 1091, 1082, 1072, 1078, 1080, 1090, 1077, 32, 1074, 1088, 1077, 1084, 1103, 32, 1080,
        32, 1089, 1087, 1086, 1089, 1086, 1073, 32, 1086, 1087, 1083, 1072, 1090, 1099, 46, 32, 1055, 1088, 1086, 1074, 1077,
        1088, 1080, 1084, 32, 1080, 32, 1074, 1082, 1083, 1102, 1095, 1080, 1084, 32, 1074, 1088, 1091, 1095, 1085, 1091,
        1102, 46]\<rparr>,
      \<lparr>faq_q = [1050, 1072, 1082, 32, 1087, 1088, 1086, 1076, 1083, 1080, 1090, 1100, 32, 1087, 1086, 1076, 1087, 1080, 1089, 1082,
        1091, 63],
       faq_a = [1058, 1077, 1084, 32, 1078, 1077, 32, 1087, 1091, 1090, 1105, 1084, 58, 32, 1088, 1072, 1079, 1076, 1077, 1083, 32,
        171, 1058, 1072, 1088, 1080, 1092, 1099, 187, 44, 32, 1074, 1099, 1073, 1080, 1088, 1072, 1077, 1090, 1077, 32, 1089,
        1088, 1086, 1082, 46, 32, 1044, 1085, 1080, 32, 1087, 1088, 1080, 1073, 1072, 1074, 1083, 1103, 1102, 1090, 1089,
        1103, 32, 1082, 32, 1090, 1077, 1082, 1091, 1097, 1080, 1084, 44, 32, 1085, 1080, 1095, 1077, 1075, 1086, 32, 1085,
        1077, 32, 1089, 1075, 1086, 1088, 1072, 1077, 1090, 32, 8212, 32, 1087, 1088, 1086, 1076, 1083, 1077, 1074, 1072,
        1090, 1100, 32, 1084, 1086, 1078, 1085, 1086, 32, 1079, 1072, 1088, 1072, 1085, 1077, 1077, 46]\<rparr>,
      \<lparr>faq_q = [1044, 1077, 1085, 1100, 1075, 1080, 32, 1089, 1087, 1080, 1089, 1099, 1074, 1072, 1102, 1090, 1089, 1103, 32, 1072,
        1074, 1090, 1086, 1084, 1072, 1090, 1080, 1095, 1077, 1089, 1082, 1080, 63],
       faq_a = [1053, 1077, 1090, 46, 32, 1055, 1086, 32, 1091, 1084, 1086, 1083, 1095, 1072, 1085, 1080, 1102, 32, 1072, 1074, 1090,
        1086, 1087, 1088, 1086, 1076, 1083, 1077, 1085, 1080, 1077, 32, 1074, 1099, 1082, 1083, 1102, 1095, 1077, 1085, 1086,
        58, 32, 1082, 1072, 1078, 1076, 1086, 1077, 32, 1087, 1088, 1086, 1076, 1083, 1077, 1085, 1080, 1077, 32, 1074, 1099,
        32, 1076, 1077, 1083, 1072, 1077, 1090, 1077, 32, 1089, 1072, 1084, 1080, 44, 32, 1072, 32, 1084, 1099, 32, 1085,
        1072, 1087, 1086, 1084, 1085, 1080, 1084, 44, 32, 1082, 1086, 1075, 1076, 1072, 32, 1089, 1088, 1086, 1082, 32, 1073,
        1091, 1076, 1077, 1090, 32, 1087, 1086, 1076, 1093, 1086, 1076, 1080, 1090, 1100, 32, 1082, 32, 1082, 1086, 1085,
        1094, 1091, 46, 10, 10, 1045, 1089, 1083, 1080, 32, 1074, 1072, 1084, 32, 1091, 1076, 1086, 1073, 1085, 1077, 1077,
        32, 1085, 1077, 32, 1089, 1083, 1077, 1076, 1080, 1090, 1100, 32, 1079, 1072, 32, 1076, 1072, 1090, 1086, 1081, 44,
        32, 1072, 1074, 1090, 1086, 1087, 1088, 1086, 1076, 1083, 1077, 1085, 1080, 1077, 32, 1084, 1086, 1078, 1085, 1086,
        32, 1074, 1082, 1083, 1102, 1095, 1080, 1090, 1100, 32, 1086, 1090, 1076, 1077, 1083, 1100, 1085, 1086, 1081, 32,
        1085, 1072, 1089, 1090, 1088, 1086, 1081, 1082, 1086, 1081, 32, 8212, 32, 1080, 32, 1074, 1099, 1082, 1083, 1102,
        1095, 1080, 1090, 1100, 32, 1074, 32, 1083, 1102, 1073, 1086, 1081, 32, 1084, 1086, 1084, 1077, 1085, 1090, 32, 1090,
        1072, 1084, 32, 1078, 1077, 46]\<rparr>,
      \<lparr>faq_q = [1043, 1076, 1077, 32, 1087, 1086, 1089, 1084, 1086, 1090, 1088, 1077, 1090, 1100, 44, 32, 1089, 1082, 1086, 1083,
        1100, 1082, 1086, 32, 1076, 1085, 1077, 1081, 32, 1086, 1089, 1090, 1072, 1083, 1086, 1089, 1100, 63],
       faq_a = [1053, 1072, 32, 1075, 1083, 1072, 1074, 1085, 1086, 1084, 32, 1101, 1082, 1088, 1072, 1085, 1077, 32, 1080, 32, 1074,
        32, 1088, 1072, 1079, 1076, 1077, 1083, 1077, 32, 171, 1055, 1086, 1076, 1082, 1083, 1102, 1095, 1077, 1085, 1080,
        1077, 187, 32, 8212, 32, 1090, 1072, 1084, 32, 1087, 1086, 1082, 1072, 1079, 1072, 1085, 32, 1089, 1090, 1072, 1090,
        1091, 1089, 32, 1087, 1086, 1076, 1087, 1080, 1089, 1082, 1080, 32, 1080, 32, 1076, 1072, 1090, 1072, 32, 1086, 1082,
        1086, 1085, 1095, 1072, 1085, 1080, 1103, 46]\<rparr>,
      \<lparr>faq_q = [1050, 1072, 1082, 32, 1074, 1077, 1088, 1085, 1091, 1090, 1100, 32, 1076, 1077, 1085, 1100, 1075, 1080, 63],
       faq_a = [1045, 1089, 1083, 1080, 32, 1089, 1077, 1088, 1074, 1080, 1089, 32, 1085, 1077, 32, 1087, 1086, 1076, 1086, 1096,
        1105, 1083, 44, 32, 1085, 1072, 1087, 1080, 1096, 1080, 1090, 1077, 32, 1085, 1072, 1084, 32, 1074, 32, 1087, 1077,
        1088, 1074, 1099, 1077, 32, 49, 52, 32, 1076, 1085, 1077, 1081, 32, 1087, 1086, 1089, 1083, 1077, 32, 1086, 1087,
        1083, 1072, 1090, 1099, 32, 1095, 1077, 1088, 1077, 1079, 32, 171, 1053, 1086, 1074, 1086, 1077, 32, 1086, 1073, 1088,
        1072, 1097, 1077, 1085, 1080, 1077, 187, 32, 8212, 32, 1074, 1077, 1088, 1085, 1105, 1084, 32, 1076, 1077, 1085, 1100,
        1075, 1080, 44, 32, 1086, 1073, 1098, 1103, 1089, 1085, 1103, 1090, 1100, 32, 1087, 1088, 1080, 1095, 1080, 1085,
        1091, 32, 1085, 1077, 32, 1085, 1091, 1078, 1085, 1086, 46, 10, 10, 1055, 1077, 1088, 1077, 1076, 32, 1087, 1086,
        1082, 1091, 1087, 1082, 1086, 1081, 32, 1084, 1086, 1078, 1085, 1086, 32, 1085, 1080, 1095, 1077, 1084, 32, 1085,
        1077, 32, 1088, 1080, 1089, 1082, 1086, 1074, 1072, 1090, 1100, 58, 32, 1087, 1086, 1076, 1087, 1080, 1096, 1080,
        1090, 1077, 1089, 1100, 32, 1085, 1072, 32, 1082, 1072, 1085, 1072, 1083, 32, 1080, 32, 1087, 1086, 1087, 1088, 1086,
        1073, 1091, 1081, 1090, 1077, 32, 1073, 1077, 1089, 1087, 1083, 1072, 1090, 1085, 1086, 46]\<rparr>,
      \<lparr>faq_q = [1063, 1090, 1086, 32, 1073, 1091, 1076, 1077, 1090, 44, 32, 1082, 1086, 1075, 1076, 1072, 32, 1087, 1086, 1076, 1087,
        1080, 1089, 1082, 1072, 32, 1079, 1072, 1082, 1086, 1085, 1095, 1080, 1090, 1089, 1103, 63],
       faq_a = [1057, 1086, 1077, 1076, 1080, 1085, 1077, 1085, 1080, 1077, 32, 1087, 1077, 1088, 1077, 1089, 1090, 1072, 1085, 1077,
        1090, 32, 1091, 1089, 1090, 1072, 1085, 1072, 1074, 1083, 1080, 1074, 1072, 1090, 1100, 1089, 1103, 44, 32, 1085,
        1086, 32, 1082, 1083, 1102, 1095, 32, 1080, 32, 1085, 1072, 1089, 1090, 1088, 1086, 1081, 1082, 1080, 32, 1086, 1089,
        1090, 1072, 1085, 1091, 1090, 1089, 1103, 32, 1085, 1072, 32, 1084, 1077, 1089, 1090, 1077, 46, 32, 1055, 1088, 1086,
        1076, 1083, 1080, 1090, 1077, 32, 8212, 32, 1079, 1072, 1088, 1072, 1073, 1086, 1090, 1072, 1077, 1090, 32, 1089,
        1085, 1086, 1074, 1072, 44, 32, 1079, 1072, 1085, 1086, 1074, 1086, 32, 1085, 1072, 1089, 1090, 1088, 1072, 1080,
        1074, 1072, 1090, 1100, 32, 1085, 1077, 32, 1085, 1091, 1078, 1085, 1086, 46]\<rparr>,
      \<lparr>faq_q = [1050, 1072, 1082, 32, 1087, 1086, 1083, 1091, 1095, 1080, 1090, 1100, 32, 1087, 1088, 1086, 1073, 1085, 1099, 1081,
        32, 1076, 1086, 1089, 1090, 1091, 1087, 63],
       faq_a = [1055, 1086, 1076, 1087, 1080, 1096, 1080, 1090, 1077, 1089, 1100, 32, 1085, 1072, 32, 1085, 1072, 1096, 32, 1082,
        1072, 1085, 1072, 1083, 32, 8212, 32, 1082, 1085, 1086, 1087, 1082, 1072, 32, 1087, 1086, 1103, 1074, 1080, 1090,
        1089, 1103, 32, 1085, 1072, 32, 1075, 1083, 1072, 1074, 1085, 1086, 1084, 32, 1101, 1082, 1088, 1072, 1085, 1077, 44,
        32, 1076, 1085, 1080, 32, 1085, 1072, 1095, 1080, 1089, 1083, 1103, 1090, 1089, 1103, 32, 1072, 1074, 1090, 1086,
        1084, 1072, 1090, 1080, 1095, 1077, 1089, 1082, 1080, 46]\<rparr>,
      \<lparr>faq_q = [1052, 1086, 1078, 1085, 1086, 32, 1074, 1079, 1103, 1090, 1100, 32, 1087, 1088, 1086, 1073, 1085, 1099, 1081, 32,
        1076, 1086, 1089, 1090, 1091, 1087, 32, 1074, 1090, 1086, 1088, 1086, 1081, 32, 1088, 1072, 1079, 63, 32, 1040, 32,
        1077, 1089, 1083, 1080, 32, 1086, 1090, 1087, 1080, 1089, 1072, 1090, 1100, 1089, 1103, 32, 1086, 1090, 32, 1082,
        1072, 1085, 1072, 1083, 1072, 63],
       faq_a = [1055, 1088, 1086, 1073, 1085, 1099, 1081, 32, 1076, 1086, 1089, 1090, 1091, 1087, 32, 1076, 1072, 1105, 1090, 1089,
        1103, 32, 1086, 1076, 1080, 1085, 32, 1088, 1072, 1079, 32, 1085, 1072, 32, 1072, 1082, 1082, 1072, 1091, 1085, 1090,
        46, 32, 1045, 1089, 1083, 1080, 32, 1086, 1090, 1087, 1080, 1089, 1072, 1090, 1100, 1089, 1103, 32, 1086, 1090, 32,
        1082, 1072, 1085, 1072, 1083, 1072, 32, 1088, 1072, 1085, 1100, 1096, 1077, 32, 1089, 1088, 1086, 1082, 1072, 44, 32,
        1086, 1089, 1090, 1072, 1074, 1096, 1080, 1077, 1089, 1103, 32, 1087, 1088, 1086, 1073, 1085, 1099, 1077, 32, 1076,
        1085, 1080, 32, 1089, 1075, 1086, 1088, 1072, 1102, 1090, 32, 8212, 32, 1082, 1091, 1087, 1083, 1077, 1085, 1085,
        1099, 1077, 32, 1076, 1085, 1080, 32, 1101, 1090, 1086, 32, 1085, 1077, 32, 1079, 1072, 1090, 1088, 1072, 1075, 1080,
        1074, 1072, 1077, 1090, 46]\<rparr>]\<rparr>"

definition speed_category :: faq_category where
  "speed_category = \<lparr>faq_id = lit ''speed'',
    faq_title = [1057, 1082, 1086, 1088, 1086, 1089, 1090, 1100, 32, 1080, 32, 1085, 1077, 1087, 1086, 1083, 1072, 1076, 1082, 1080],
    faq_items = [
      \<lparr>faq_q = [1055, 1086, 1095, 1077, 1084, 1091, 32, 1089, 1082, 1086, 1088, 1086, 1089, 1090, 1100, 32, 1085, 1080, 1078, 1077,
        44, 32, 1095, 1077, 1084, 32, 1073, 1077, 1079, 32, 86, 80, 78, 63],
       faq_a = [1058, 1088, 1072, 1092, 1080, 1082, 32, 1080, 1076, 1105, 1090, 32, 1085, 1077, 32, 1085, 1072, 1087, 1088, 1103,
        1084, 1091, 1102, 44, 32, 1072, 32, 1095, 1077, 1088, 1077, 1079, 32, 1089, 1077, 1088, 1074, 1077, 1088, 44, 32,
        1080, 32, 1096, 1080, 1092, 1088, 1091, 1077, 1090, 1089, 1103, 32, 8212, 32, 1085, 1077, 1073, 1086, 1083, 1100,
        1096, 1072, 1103, 32, 1087, 1086, 1090, 1077, 1088, 1103, 32, 1077, 1089, 1090, 1100, 32, 1074, 1089, 1077, 1075,
        1076, 1072, 46, 32, 1054, 1073, 1099, 1095, 1085, 1086, 32, 1086, 1085, 1072, 32, 1085, 1077, 1079, 1072, 1084, 1077,
        1090, 1085, 1072, 58, 32, 1086, 1075, 1088, 1072, 1085, 1080, 1095, 1077, 1085, 1080, 1081, 32, 1087, 1086, 32, 1089,
        1082, 1086, 1088, 1086, 1089, 1090, 1080, 32, 1080, 32, 1090, 1088, 1072, 1092, 1080, 1082, 1091, 32, 1084, 1099, 32,
        1085, 1077, 32, 1089, 1090, 1072, 1074, 1080, 1084, 46, 10, 10, 1045, 1089, 1083, 1080, 32, 1087, 1088, 1086, 1089,
        1077, 1083, 1086, 32, 1089, 1080, 1083, 1100, 1085, 1086, 44, 32, 1076, 1077, 1083, 1086, 32, 1087, 1086, 1095, 1090,
        1080, 32, 1074, 1089, 1077, 1075, 1076, 1072, 32, 1074, 32, 1076, 1072, 1083, 1105, 1082, 1086, 1084, 32, 1089, 1077,
        1088, 1074, 1077, 1088, 1077, 46, 32, 1057, 1084, 1077, 1085, 1080, 1090, 1077, 32, 1089, 1090, 1088, 1072, 1085,
        1091, 32, 1085, 1072, 32, 1090, 1091, 44, 32, 1075, 1076, 1077, 32, 1086, 1090, 1082, 1083, 1080, 1082, 32, 1084,
        1077, 1085, 1100, 1096, 1077, 46]\<rparr>,
      \<lparr>faq_q = [1055, 1086, 1076, 1082, 1083, 1102, 1095, 1080, 1083, 1089, 1103, 44, 32, 1072, 32, 1089, 1072, 1081, 1090, 1099, 32,
        1085, 1077, 32, 1075, 1088, 1091, 1079, 1103, 1090, 1089, 1103],
       faq_a = [1055, 1086, 32, 1096, 1072, 1075, 1072, 1084] @ lit '': 1) '' @ [1087, 1077, 1088, 1077, 1087, 1086, 1076, 1082,
        1083, 1102, 1095, 1080, 1090, 1077, 1089, 1100] @ lit ''; 2) '' @ [1089, 1084, 1077, 1085, 1080, 1090, 1077, 32, 1089,
        1090, 1088, 1072, 1085, 1091] @ lit ''; 3) '' @ [1087, 1088, 1086, 1074, 1077, 1088, 1100, 1090, 1077, 44, 32, 1086,
        1090, 1082, 1088, 1099, 1074, 1072, 1077, 1090, 1089, 1103, 32, 1083, 1080, 32, 1095, 1090, 1086, 45, 1085, 1080,
        1073, 1091, 1076, 1100, 32, 1074, 1086, 1086, 1073, 1097, 1077, 44, 32, 1080, 1083, 1080, 32, 1090, 1086, 1083, 1100,
        1082, 1086, 32, 1086, 1076, 1080, 1085, 32, 1089, 1072, 1081, 1090] @ lit ''; 4) '' @ [1074, 1099, 1082, 1083, 1102,
        1095, 1080, 1090, 1077] @ lit '' VPN '' @ [1080, 32, 1091, 1073, 1077, 1076, 1080, 1090, 1077, 1089, 1100, 44, 32,
        1095, 1090, 1086, 32, 1080, 1085, 1090, 1077, 1088, 1085, 1077, 1090, 32, 1077, 1089, 1090, 1100, 32, 1089, 1072,
        1084, 32, 1087, 1086, 32, 1089, 1077, 1073, 1077, 46, 10, 10, 1045, 1089, 1083, 1080, 32, 1085, 1077, 32, 1088, 1072,
        1073, 1086, 1090, 1072, 1077, 1090, 32, 1090, 1086, 1083, 1100, 1082, 1086, 32, 1086, 1076, 1080, 1085, 32, 1089,
        1077, 1088, 1074, 1080, 1089, 44, 32, 1072, 32, 1086, 1089, 1090, 1072, 1083, 1100, 1085, 1086, 1077, 32, 1086, 1090,
        1082, 1088, 1099, 1074, 1072, 1077, 1090, 1089, 1103, 32, 8212, 32, 1085, 1072, 1087, 1080, 1096, 1080, 1090, 1077,
        32, 1085, 1072, 1084, 32, 1077, 1075, 1086, 32, 1085, 1072, 1079, 1074, 1072, 1085, 1080, 1077, 44, 32, 1083, 1077,
        1095, 1080, 1090, 1089, 1103, 32, 1089, 1084, 1077, 1085, 1086, 1081, 32, 1089, 1077, 1088, 1074, 1077, 1088, 1072,
        46, 32, 1045, 1089, 1083, 1080, 32, 1085, 1077, 32, 1088, 1072, 1073, 1086, 1090, 1072, 1077, 1090, 32, 1085, 1080,
        1095, 1077, 1075, 1086, 32, 1080, 32, 1073, 1077, 1079] @ lit '' VPN '' @ [1090, 1086, 1078, 1077, 32, 8212, 32, 1087,
        1088, 1086, 1073, 1083, 1077, 1084, 1072, 32, 1085, 1072, 32, 1089, 1090, 1086, 1088, 1086, 1085, 1077, 32, 1089,
        1074, 1103, 1079, 1080, 44, 32, 1085, 1077, 32, 1091, 32, 1085, 1072, 1089, 46]\<rparr>,
      \<lparr>faq_q = [1057, 1086, 1077, 1076, 1080, 1085, 1077, 1085, 1080, 1077, 32, 1088, 1074, 1105, 1090, 1089, 1103, 32, 1082, 1072,
        1078, 1076, 1099, 1077, 32, 1085, 1077, 1089, 1082, 1086, 1083, 1100, 1082, 1086, 32, 1084, 1080, 1085, 1091, 1090],
       faq_a = [1054, 1073, 1099, 1095, 1085, 1086, 32, 1101, 1090, 1086, 32, 1087, 1077, 1088, 1077, 1082, 1083, 1102, 1095, 1077,
        1085, 1080, 1077, 32, 1084, 1077, 1078, 1076, 1091] @ lit '' Wi-Fi '' @ [1080, 32, 1084, 1086, 1073, 1080, 1083, 1100,
        1085, 1099, 1084, 32, 1080, 1085, 1090, 1077, 1088, 1085, 1077, 1090, 1086, 1084, 44, 32, 1089, 1083, 1072, 1073,
        1099, 1081, 32, 1089, 1080, 1075, 1085, 1072, 1083, 32, 1080, 1083, 1080, 32, 1101, 1085, 1077, 1088, 1075, 1086,
        1089, 1073, 1077, 1088, 1077, 1078, 1077, 1085, 1080, 1077, 32, 1090, 1077, 1083, 1077, 1092, 1086, 1085, 1072, 44,
        32, 1082, 1086, 1090, 1086, 1088, 1086, 1077, 32, 1091, 1089, 1099, 1087, 1083, 1103, 1077, 1090, 32, 1087, 1088,
        1080, 1083, 1086, 1078, 1077, 1085, 1080, 1077, 46, 32, 1056, 1072, 1079, 1088, 1077, 1096, 1080, 1090, 1077, 32,
        1087, 1088, 1080, 1083, 1086, 1078, 1077, 1085, 1080, 1102, 32, 1088, 1072, 1073, 1086, 1090, 1072, 1090, 1100, 32,
        1074, 32, 1092, 1086, 1085, 1077, 32, 1073, 1077, 1079, 32, 1086, 1075, 1088, 1072, 1085, 1080, 1095, 1077, 1085,
        1080, 1081, 46, 10, 10, 1045, 1089, 1083, 1080, 32, 1088, 1074, 1105, 1090, 1089, 1103, 32, 1085, 1072, 32, 1074,
        1089, 1077, 1093, 32, 1089, 1077, 1088, 1074, 1077, 1088, 1072, 1093, 32, 1080, 32, 1088, 1072, 1079, 1085, 1099,
        1093, 32, 1089, 1077, 1090, 1103, 1093, 32, 8212, 32, 1085, 1072, 1087, 1080, 1096, 1080, 1090, 1077, 32, 1085, 1072,
        1084, 32, 1075, 1086, 1088, 1086, 1076, 44, 32, 1086, 1087, 1077, 1088, 1072, 1090, 1086, 1088, 1072, 32, 1080, 32,
        1074, 1088, 1077, 1084, 1103, 32, 1086, 1073, 1088, 1099, 1074, 1086, 1074, 46]\<rparr>,
      \<lparr>faq_q = [1053, 1072, 32, 1076, 1086, 1084, 1072, 1096, 1085, 1077, 1084] @ lit '' Wi-Fi '' @ [1088, 1072, 1073, 1086, 1090,
        1072, 1077, 1090, 44, 32, 1072, 32, 1085, 1072, 32, 1084, 1086, 1073, 1080, 1083, 1100, 1085, 1086, 1084, 32, 1080,
        1085, 1090, 1077, 1088, 1085, 1077, 1090, 1077, 32, 1085, 1077, 1090],
       faq_a = [1069, 1090, 1086, 32, 1085, 1077, 32, 1087, 1086, 1083, 1086, 1084, 1082, 1072, 32, 1087, 1088, 1080, 1083, 1086,
        1078, 1077, 1085, 1080, 1103, 46, 32, 1052, 1086, 1073, 1080, 1083, 1100, 1085, 1099, 1077, 32, 1086, 1087, 1077,
        1088, 1072, 1090, 1086, 1088, 1099, 32, 1092, 1080, 1083, 1100, 1090, 1088, 1091, 1102, 1090, 32, 1089, 1086, 1077,
        1076, 1080, 1085, 1077, 1085, 1080, 1103, 32, 1078, 1105, 1089, 1090, 1095, 1077, 32, 1076, 1086, 1084, 1072, 1096,
        1085, 1080, 1093, 32, 1087, 1088, 1086, 1074, 1072, 1081, 1076, 1077, 1088, 1086, 1074, 44, 32, 1072, 32, 1074, 32,
        1076, 1085, 1080, 32, 1086, 1075, 1088, 1072, 1085, 1080, 1095, 1077, 1085, 1080, 1081, 32, 1084, 1086, 1075, 1091,
        1090, 32, 1087, 1088, 1086, 1087, 1091, 1089, 1082, 1072, 1090, 1100, 32, 1090, 1086, 1083, 1100, 1082, 1086, 32,
        1089, 1074, 1086, 1080, 32, 1088, 1072, 1079, 1088, 1077, 1096, 1105, 1085, 1085, 1099, 1077, 32, 1089, 1077, 1088,
        1074, 1080, 1089, 1099, 46, 10, 10, 1063, 1090, 1086, 32, 1087, 1086, 1084, 1086, 1075, 1072, 1077, 1090, 58, 32,
        1089, 1084, 1077, 1085, 1080, 1090, 1100, 32, 1089, 1090, 1088, 1072, 1085, 1091, 44, 32, 1087, 1077, 1088, 1077,
        1087, 1086, 1076, 1082, 1083, 1102, 1095, 1080, 1090, 1100, 1089, 1103, 32, 1095, 1077, 1088, 1077, 1079, 32, 1084,
        1080, 1085, 1091, 1090, 1091, 44, 32, 1087, 1086, 1087, 1088, 1086, 1073, 1086, 1074, 1072, 1090, 1100, 32, 1087,
        1086, 1079, 1078, 1077, 46, 32, 1053, 1072, 1087, 1080, 1096, 1080, 1090, 1077, 32, 1085, 1072, 1084, 32, 1086, 1087,
        1077, 1088, 1072, 1090, 1086, 1088, 1072, 32, 1080, 32, 1075, 1086, 1088, 1086, 1076, 32, 8212, 32, 1091, 32, 1085,
        1072, 1089, 32, 1077, 1089, 1090, 1100, 32, 1086, 1073, 1093, 1086, 1076, 1085, 1099, 1077, 32, 1085, 1072, 1089,
        1090, 1088, 1086, 1081, 1082, 1080, 44, 32, 1085, 1086, 32, 1080, 1093, 32, 1087, 1086, 1076, 1073, 1080, 1088, 1072,
        1102, 1090, 32, 1087, 1086, 1076, 32, 1082, 1086, 1085, 1082, 1088, 1077, 1090, 1085, 1086, 1075, 1086, 32, 1086,
        1087, 1077, 1088, 1072, 1090, 1086, 1088, 1072, 46]\<rparr>,
      \<lparr>faq_q = [1050, 1072, 1082, 1091, 1102, 32, 1089, 1090, 1088, 1072, 1085, 1091, 32, 1074, 1099, 1073, 1088, 1072, 1090, 1100,
        63],
       faq_a = [1058, 1091, 44, 32, 1075, 1076, 1077, 32, 1086, 1090, 1082, 1083, 1080, 1082, 32, 1084, 1077, 1085, 1100, 1096, 1077,
        32, 8212, 32, 1086, 1073, 1099, 1095, 1085, 1086, 32, 1101, 1090, 1086, 32, 1073, 1083, 1080, 1078, 1072, 1081, 1096,
        1072, 1103, 46, 32, 1044, 1083, 1103, 32, 1080, 1075, 1088, 44, 32, 1079, 1074, 1086, 1085, 1082, 1086, 1074, 32,
        1080, 32, 1074, 1080, 1076, 1077, 1086, 32, 1101, 1090, 1086, 32, 1074, 1072, 1078, 1085, 1077, 1077, 32, 1074, 1089,
        1077, 1075, 1086, 46, 10, 10, 1045, 1089, 1083, 1080, 32, 1085, 1091, 1078, 1077, 1085, 32, 1089, 1077, 1088, 1074,
        1080, 1089, 44, 32, 1076, 1086, 1089, 1090, 1091, 1087, 1085, 1099, 1081, 32, 1090, 1086, 1083, 1100, 1082, 1086, 32,
        1074, 32, 1086, 1087, 1088, 1077, 1076, 1077, 1083, 1105, 1085, 1085, 1086, 1081, 32, 1089, 1090, 1088, 1072, 1085,
        1077, 44, 32, 1074, 1099, 1073, 1080, 1088, 1072, 1081, 1090, 1077, 32, 1077, 1105, 44, 32, 1076, 1072, 1078, 1077,
        32, 1077, 1089, 1083, 1080, 32, 1086, 1090, 1082, 1083, 1080, 1082, 32, 1074, 1099, 1096, 1077, 46]\<rparr>,
      \<lparr>faq_q = [1055, 1086, 1076, 1093, 1086, 1076, 1080, 1090, 32, 1083, 1080, 32, 1076, 1083, 1103, 32, 1080, 1075, 1088, 63],
       faq_a = [1044, 1072, 46, 32, 1041, 1077, 1088, 1080, 1090, 1077, 32, 1089, 1090, 1088, 1072, 1085, 1091, 32, 1089, 32, 1089,
        1072, 1084, 1099, 1084, 32, 1085, 1080, 1079, 1082, 1080, 1084, 32, 1086, 1090, 1082, 1083, 1080, 1082, 1086, 1084,
        58, 32, 1074, 32, 1080, 1075, 1088, 1072, 1093, 32, 1079, 1072, 1076, 1077, 1088, 1078, 1082, 1072, 32, 1079, 1072,
        1084, 1077, 1090, 1085, 1077, 1077, 44, 32, 1095, 1077, 1084, 32, 1089, 1082, 1086, 1088, 1086, 1089, 1090, 1100, 32,
        1079, 1072, 1082, 1072, 1095, 1082, 1080, 46]\<rparr>,
      \<lparr>faq_q = [1055, 1086, 1090, 1103, 1085, 1077, 1090, 32, 1083, 1080, 32, 1074, 1080, 1076, 1077, 1086, 32, 1074, 32, 1074, 1099,
        1089, 1086, 1082, 1086, 1084, 32, 1082, 1072, 1095, 1077, 1089, 1090, 1074, 1077, 63],
       faq_a = [1044, 1072, 44, 32, 1086, 1075, 1088, 1072, 1085, 1080, 1095, 1077, 1085, 1080, 1081, 32, 1087, 1086, 32, 1089, 1082,
        1086, 1088, 1086, 1089, 1090, 1080, 32, 1091, 32, 1085, 1072, 1089, 32, 1085, 1077, 1090, 46, 32, 1055, 1086, 1076,
        1090, 1086, 1088, 1084, 1072, 1078, 1080, 1074, 1072, 1077, 1090, 32, 8212, 32, 1089, 1084, 1077, 1085, 1080, 1090,
        1077, 32, 1089, 1090, 1088, 1072, 1085, 1091, 32, 1085, 1072, 32, 1073, 1083, 1080, 1078, 1085, 1102, 1102, 46]\<rparr>,
      \<lparr>faq_q = [1063, 1090, 1086, 32, 1090, 1072, 1082, 1086, 1077, 32, 171, 1088, 1086, 1089, 1089, 1080, 1081, 1089, 1082, 1080,
        1077, 32, 1089, 1072, 1081, 1090, 1099, 32, 1085, 1072, 1087, 1088, 1103, 1084, 1091, 1102, 187, 32, 1080, 32, 1082,
        1086, 1075, 1076, 1072, 32, 1101, 1090, 1086, 32, 1074, 1082, 1083, 1102, 1095, 1072, 1090, 1100, 63],
       faq_a = [1069, 1090, 1086, 32, 1088, 1077, 1078, 1080, 1084, 44, 32, 1087, 1088, 1080, 32, 1082, 1086, 1090, 1086, 1088, 1086,
        1084, 32, 1088, 1086, 1089, 1089, 1080, 1081, 1089, 1082, 1080, 1077, 32, 1089, 1077, 1088, 1074, 1080, 1089, 1099,
        32, 1080, 1076, 1091, 1090, 32, 1074, 32, 1086, 1073, 1093, 1086, 1076] @ lit '' VPN, '' @ [1072, 32, 1074, 1089,
        1105, 32, 1086, 1089, 1090, 1072, 1083, 1100, 1085, 1086, 1077, 32, 8212, 32, 1095, 1077, 1088, 1077, 1079, 32, 1085,
        1077, 1075, 1086, 46, 32, 1053, 1091, 1078, 1077, 1085, 32, 1087, 1086, 1090, 1086, 1084, 1091, 44, 32, 1095, 1090,
        1086, 32, 1073, 1072, 1085, 1082, 1080, 44, 32, 1075, 1086, 1089, 1091, 1089, 1083, 1091, 1075, 1080, 32, 1080, 32,
        1084, 1072, 1088, 1082, 1077, 1090, 1087, 1083, 1077, 1081, 1089, 1099, 32, 1085, 1077, 32, 1083, 1102, 1073, 1103,
        1090, 32, 1079, 1072, 1075, 1088, 1072, 1085, 1080, 1095, 1085, 1099, 1077, 32, 1072, 1076, 1088, 1077, 1089, 1072,
        32, 1080, 32, 1084, 1086, 1075, 1091, 1090, 32, 1073, 1083, 1086, 1082, 1080, 1088, 1086, 1074, 1072, 1090, 1100, 32,
        1074, 1093, 1086, 1076, 46, 10, 10, 1042, 32, 1085, 1072, 1096, 1077, 1084, 32, 1087, 1088, 1080, 1083, 1086, 1078,
        1077, 1085, 1080, 1080, 32, 1080, 32, 1087, 1088, 1086, 1075, 1088, 1072, 1084, 1084, 1077, 32, 1086, 1085, 32, 1074,
        1082, 1083, 1102, 1095, 1105, 1085, 32, 1087, 1086, 32, 1091, 1084, 1086, 1083, 1095, 1072, 1085, 1080, 1102, 44, 32,
        1090, 1088, 1086, 1075, 1072, 1090, 1100, 32, 1085, 1080, 1095, 1077, 1075, 1086, 32, 1085, 1077, 32, 1085, 1072,
        1076, 1086, 46, 10, 10, 1042] @ lit '' Happ '' @ [1087, 1088, 1072, 1074, 1080, 1083, 1072, 32, 1087, 1088, 1080,
        1093, 1086, 1076, 1103, 1090, 32, 1074, 1084, 1077, 1089, 1090, 1077, 32, 1089, 32, 1087, 1086, 1076, 1087, 1080,
        1089, 1082, 1086, 1081, 44, 32, 1085, 1086, 32, 1088, 1072, 1073, 1086, 1090, 1072, 1102, 1090, 32, 1090, 1086, 1083,
        1100, 1082, 1086, 32, 1087, 1088, 1080, 32, 1074, 1082, 1083, 1102, 1095, 1105, 1085, 1085, 1086, 1084, 32, 1087,
        1077, 1088, 1077, 1082, 1083, 1102, 1095, 1072, 1090, 1077, 1083, 1077, 58, 32, 1053, 1072, 1089, 1090, 1088, 1086,
        1081, 1082, 1080, 32, 8594, 32, 1052, 1072, 1088, 1096, 1088, 1091, 1090, 1080, 1079, 1072, 1094, 1080, 1103, 32,
        8594, 32, 171, 1048, 1089, 1087, 1086, 1083, 1100, 1079, 1086, 1074, 1072, 1090, 1100, 32, 1088, 1086, 1091, 1090,
        1080, 1085, 1075, 187, 44, 32, 1087, 1088, 1086, 1092, 1080, 1083, 1100] @ lit '' Fresh VPN. '' @ [1045, 1089, 1083,
        1080, 32, 1088, 1072, 1085, 1100, 1096, 1077, 32, 1089, 1090, 1086, 1103, 1083, 32, 1076, 1088, 1091, 1075, 1086,
        1081] @ lit '' VPN, '' @ [1087, 1077, 1088, 1077, 1082, 1083, 1102, 1095, 1072, 1090, 1077, 1083, 1100, 32, 1084,
        1086, 1075, 32, 1086, 1089, 1090, 1072, 1090, 1100, 1089, 1103, 32, 1074, 1099, 1082, 1083, 1102, 1095, 1077, 1085,
        1085, 1099, 1084, 46, 10, 10, 1045, 1089, 1083, 1080, 32, 1082, 1072, 1082, 1086, 1081, 45, 1090, 1086, 32, 1088,
        1086, 1089, 1089, 1080, 1081, 1089, 1082, 1080, 1081, 32, 1089, 1072, 1081, 1090, 32, 1074, 1089, 1105, 32, 1088,
        1072, 1074, 1085, 1086, 32, 1085, 1077, 32, 1086, 1090, 1082, 1088, 1099, 1074, 1072, 1077, 1090, 1089, 1103, 32,
        8212, 32, 1087, 1088, 1080, 1096, 1083, 1080, 1090, 1077, 32, 1085, 1072, 1084, 32, 1072, 1076, 1088, 1077, 1089, 44,
        32, 1076, 1086, 1073, 1072, 1074, 1080, 1084, 32, 1074, 32, 1089, 1087, 1080, 1089, 1086, 1082, 46]\<rparr>,
      \<lparr>faq_q = [1041, 1072, 1085, 1082, 32, 1080, 1083, 1080, 32, 1075, 1086, 1089, 1091, 1089, 1083, 1091, 1075, 1080, 32, 1085,
        1077, 32, 1087, 1091, 1089, 1082, 1072, 1102, 1090, 32, 1087, 1088, 1080, 32, 1074, 1082, 1083, 1102, 1095, 1105,
        1085, 1085, 1086, 1084, 32, 86, 80, 78],
       faq_a = [1057, 1085, 1072, 1095, 1072, 1083, 1072, 32, 1087, 1088, 1086, 1074, 1077, 1088, 1100, 1090, 1077, 44, 32, 1074,
        1082, 1083, 1102, 1095, 1105, 1085, 32, 1083, 1080, 32, 1088, 1077, 1078, 1080, 1084, 32, 171, 1088, 1086, 1089, 1089,
        1080, 1081, 1089, 1082, 1080, 1077, 32, 1089, 1072, 1081, 1090, 1099, 32, 1085, 1072, 1087, 1088, 1103, 1084, 1091,
        1102, 187, 46, 10, 10, 1042] @ lit '' Happ: '' @ [1053, 1072, 1089, 1090, 1088, 1086, 1081, 1082, 1080, 32, 8594, 32,
        1052, 1072, 1088, 1096, 1088, 1091, 1090, 1080, 1079, 1072, 1094, 1080, 1103, 32, 8594, 32, 1087, 1077, 1088, 1077,
        1082, 1083, 1102, 1095, 1072, 1090, 1077, 1083, 1100, 32, 171, 1048, 1089, 1087, 1086, 1083, 1100, 1079, 1086, 1074,
        1072, 1090, 1100, 32, 1088, 1086, 1091, 1090, 1080, 1085, 1075, 187, 32, 1074, 1082, 1083, 1102, 1095, 1105, 1085, 44,
        32, 1087, 1088, 1086, 1092, 1080, 1083, 1100] @ lit '' Fresh VPN '' @ [1074, 1099, 1073, 1088, 1072, 1085, 46, 32,
        1069, 1090, 1086, 32, 1089, 1072, 1084, 1072, 1103, 32, 1095, 1072, 1089, 1090, 1072, 1103, 32, 1087, 1088, 1080,
        1095, 1080, 1085, 1072, 32, 1091, 32, 1090, 1077, 1093, 44, 32, 1082, 1090, 1086, 32, 1088, 1072, 1085, 1100, 1096,
        1077, 32, 1087, 1086, 1083, 1100, 1079, 1086, 1074, 1072, 1083, 1089, 1103, 32, 1076, 1088, 1091, 1075, 1080, 1084] @
        lit '' VPN: '' @ [1087, 1088, 1086, 1092, 1080, 1083, 1100, 32, 1087, 1088, 1080, 1093, 1086, 1076, 1080, 1090, 44,
        32, 1072, 32, 1087, 1077, 1088, 1077, 1082, 1083, 1102, 1095, 1072, 1090, 1077, 1083, 1100, 32, 1086, 1089, 1090,
        1072, 1105, 1090, 1089, 1103, 32, 1074, 1099, 1082, 1083, 1102, 1095, 1077, 1085, 1085, 1099, 1084, 44, 32, 1080, 32,
        1090, 1086, 1075, 1076, 1072, 32, 1074, 1077, 1089, 1100, 32, 1090, 1088, 1072, 1092, 1080, 1082, 32, 1080, 1076,
        1105, 1090, 32, 1095, 1077, 1088, 1077, 1079, 32, 1079, 1072, 1075, 1088, 1072, 1085, 1080, 1095, 1085, 1099, 1081,
        32, 1089, 1077, 1088, 1074, 1077, 1088, 46, 10, 10, 1045, 1089, 1083, 1080, 32, 1088, 1077, 1078, 1080, 1084, 32,
        1074, 1082, 1083, 1102, 1095, 1105, 1085, 44, 32, 1072, 32, 1089, 1072, 1081, 1090, 32, 1074, 1089, 1105, 32, 1088,
        1072, 1074, 1085, 1086, 32, 1085, 1077, 32, 1087, 1091, 1089, 1082, 1072, 1077, 1090, 32, 8212, 32, 1079, 1085, 1072,
        1095, 1080, 1090, 32, 1086, 1085, 32, 1077, 1097, 1105, 32, 1085, 1077, 32, 1087, 1086, 1087, 1072, 1083, 32, 1074,
        32, 1089, 1087, 1080, 1089, 1086, 1082, 46, 32, 1041, 1099, 1089, 1090, 1088, 1086, 1077, 32, 1088, 1077, 1096, 1077,
        1085, 1080, 1077, 58, 32, 1074, 1099, 1082, 1083, 1102, 1095, 1080, 1090, 1100] @ lit '' VPN '' @ [1085, 1072, 32,
        1084, 1080, 1085, 1091, 1090, 1091, 32, 1080, 32, 1074, 1086, 1081, 1090, 1080, 46, 32, 1055, 1088, 1080, 1096, 1083,
        1080, 1090, 1077, 32, 1085, 1072, 1084, 32, 1072, 1076, 1088, 1077, 1089, 32, 1089, 1072, 1081, 1090, 1072, 44, 32,
        1076, 1086, 1073, 1072, 1074, 1080, 1084, 32, 8212, 32, 1074, 32, 1089, 1083, 1077, 1076, 1091, 1102, 1097, 1080,
        1081, 32, 1088, 1072, 1079, 32, 1086, 1090, 1082, 1088, 1086, 1077, 1090, 1089, 1103, 32, 1089, 1088, 1072, 1079,
        1091, 44, 32, 1085, 1077, 32, 1074, 1099, 1082, 1083, 1102, 1095, 1072, 1103, 32, 1079, 1072, 1097, 1080, 1090, 1091,
        46]\<rparr>,
      \<lparr>faq_q = [1055, 1086, 1082, 1072, 1079, 1099, 1074, 1072, 1077, 1090, 32, 1085, 1077, 32, 1090, 1091, 32, 1089, 1090, 1088,
        1072, 1085, 1091, 44, 32, 1082, 1086, 1090, 1086, 1088, 1091, 1102, 32, 1103, 32, 1074, 1099, 1073, 1088, 1072, 1083],
       faq_a = [1057, 1085, 1072, 1095, 1072, 1083, 1072, 32, 1091, 1073, 1077, 1076, 1080, 1090, 1077, 1089, 1100, 44, 32, 1095,
        1090, 1086, 32, 1087, 1086, 1076, 1082, 1083, 1102, 1095, 1077, 1085, 1080, 1077, 32, 1091, 1089, 1090, 1072, 1085,
        1086, 1074, 1080, 1083, 1086, 1089, 1100, 44, 32, 1080, 32, 1087, 1077, 1088, 1077, 1087, 1086, 1076, 1082, 1083,
        1102, 1095, 1080, 1090, 1077, 1089, 1100, 46, 10, 10, 1053, 1077, 1082, 1086, 1090, 1086, 1088, 1099, 1077, 32, 1089,
        1072, 1081, 1090, 1099, 32, 1086, 1087, 1088, 1077, 1076, 1077, 1083, 1103, 1102, 1090, 32, 1084, 1077, 1089, 1090,
        1086, 1087, 1086, 1083, 1086, 1078, 1077, 1085, 1080, 1077, 32, 1085, 1077, 32, 1087, 1086, 32, 1072, 1076, 1088,
        1077, 1089, 1091, 44, 32, 1072, 32, 1087, 1086, 32, 1085, 1072, 1089, 1090, 1088, 1086, 1081, 1082, 1072, 1084, 32,
        1074, 1072, 1096, 1077, 1081, 32, 1091, 1095, 1105, 1090, 1085, 1086, 1081, 32, 1079, 1072, 1087, 1080, 1089, 1080,
        32, 1080, 1083, 1080, 32, 1089, 1087, 1091, 1090, 1085, 1080, 1082, 1086, 1074, 1086, 1081, 32, 1075, 1077, 1086,
        1083, 1086, 1082, 1072, 1094, 1080, 1080, 32, 1090, 1077, 1083, 1077, 1092, 1086, 1085, 1072, 32, 8212, 32, 1090,
        1086, 1075, 1076, 1072, 32, 1086, 1085, 1080, 32, 1073, 1091, 1076, 1091, 1090, 32, 1087, 1086, 1082, 1072, 1079,
        1099, 1074, 1072, 1090, 1100, 32, 1074, 1072, 1096, 1091, 32, 1085, 1072, 1089, 1090, 1086, 1103, 1097, 1091, 1102,
        32, 1089, 1090, 1088, 1072, 1085, 1091, 44, 32, 1076, 1072, 1078, 1077, 32, 1077, 1089, 1083, 1080] @ lit '' VPN '' @
        [1088, 1072, 1073, 1086, 1090, 1072, 1077, 1090, 32, 1080, 1089, 1087, 1088, 1072, 1074, 1085, 1086, 46]\<rparr>,
      \<lparr>faq_q = [1055, 1077, 1088, 1077, 1089, 1090, 1072, 1083, 1080, 32, 1088, 1072, 1073, 1086, 1090, 1072, 1090, 1100, 32, 1087,
        1088, 1080, 1085, 1090, 1077, 1088, 44, 32, 1082, 1072, 1084, 1077, 1088, 1099, 32, 1080, 32, 1076, 1088, 1091, 1075,
        1080, 1077, 32, 1091, 1089, 1090, 1088, 1086, 1081, 1089, 1090, 1074, 1072, 32, 1074, 32, 1076, 1086, 1084, 1072,
        1096, 1085, 1077, 1081, 32, 1089, 1077, 1090, 1080],
       faq_a = [1055, 1088, 1080, 32, 1074, 1082, 1083, 1102, 1095, 1105, 1085, 1085, 1086, 1084] @ lit '' VPN '' @ [1074, 1077,
        1089, 1100, 32, 1090, 1088, 1072, 1092, 1080, 1082, 32, 1091, 1093, 1086, 1076, 1080, 1090, 32, 1074, 32, 1090, 1091,
        1085, 1085, 1077, 1083, 1100, 44, 32, 1074, 1082, 1083, 1102, 1095, 1072, 1103, 32, 1086, 1073, 1088, 1072, 1097,
        1077, 1085, 1080, 1103, 32, 1082, 32, 1091, 1089, 1090, 1088, 1086, 1081, 1089, 1090, 1074, 1072, 1084, 32, 1074,
        1085, 1091, 1090, 1088, 1080, 32, 1082, 1074, 1072, 1088, 1090, 1080, 1088, 1099, 46, 32, 1042, 32, 1085, 1072, 1096,
        1077, 1081, 32, 1087, 1088, 1086, 1075, 1088, 1072, 1084, 1084, 1077, 32, 1077, 1089, 1090, 1100, 32, 1085, 1072,
        1089, 1090, 1088, 1086, 1081, 1082, 1072, 44, 32, 1088, 1072, 1079, 1088, 1077, 1096, 1072, 1102, 1097, 1072, 1103,
        32, 1083, 1086, 1082, 1072, 1083, 1100, 1085, 1091, 1102, 32, 1089, 1077, 1090, 1100, 32, 8212, 32, 1074, 1082, 1083,
        1102, 1095, 1080, 1090, 1077, 32, 1077, 1105, 46, 10, 10, 1042] @ lit '' Happ '' @ [1087, 1088, 1086, 1097, 1077, 32,
        1074, 1088, 1077, 1084, 1077, 1085, 1085, 1086, 32, 1074, 1099, 1082, 1083, 1102, 1095, 1080, 1090, 1100] @
        lit '' VPN '' @ [1085, 1072, 32, 1074, 1088, 1077, 1084, 1103, 32, 1088, 1072, 1073, 1086, 1090, 1099, 32, 1089, 32,
        1087, 1088, 1080, 1085, 1090, 1077, 1088, 1086, 1084, 46]\<rparr>,
      \<lparr>faq_q = [1063, 1090, 1086, 32, 1090, 1072, 1082, 1086, 1077, 32, 1072, 1074, 1072, 1088, 1080, 1081, 1085, 1099, 1081, 32,
        1089, 1090, 1086, 1087] @ lit '' (kill switch)'' @ [63],
       faq_a = [1069, 1090, 1086, 32, 1079, 1072, 1097, 1080, 1090, 1072, 32, 1086, 1090, 32, 1089, 1083, 1091, 1095, 1072, 1081,
        1085, 1086, 1081, 32, 1091, 1090, 1077, 1095, 1082, 1080, 58, 32, 1077, 1089, 1083, 1080, 32, 1090, 1091, 1085, 1085,
        1077, 1083, 1100, 32, 1074, 1085, 1077, 1079, 1072, 1087, 1085, 1086, 32, 1086, 1073, 1086, 1088, 1074, 1105, 1090,
        1089, 1103, 44, 32, 1080, 1085, 1090, 1077, 1088, 1085, 1077, 1090, 32, 1086, 1090, 1082, 1083, 1102, 1095, 1080,
        1090, 1089, 1103, 32, 1089, 1086, 1074, 1089, 1077, 1084, 44, 32, 1074, 1084, 1077, 1089, 1090, 1086, 32, 1090, 1086,
        1075, 1086, 32, 1095, 1090, 1086, 1073, 1099, 32, 1084, 1086, 1083, 1095, 1072, 32, 1087, 1086, 1081, 1090, 1080, 32,
        1085, 1072, 1087, 1088, 1103, 1084, 1091, 1102, 46, 10, 10, 1042, 1082, 1083, 1102, 1095, 1072, 1077, 1090, 1089,
        1103, 32, 1074, 32, 1085, 1072, 1089, 1090, 1088, 1086, 1081, 1082, 1072, 1093, 32, 1085, 1072, 1096, 1077, 1081, 32,
        1087, 1088, 1086, 1075, 1088, 1072, 1084, 1084, 1099, 46, 32, 1045, 1089, 1083, 1080, 32, 1080, 1085, 1090, 1077,
        1088, 1085, 1077, 1090, 32, 1087, 1088, 1086, 1087, 1072, 1076, 1072, 1077, 1090, 32, 1087, 1088, 1080, 32, 1086,
        1073, 1088, 1099, 1074, 1077, 32, 1089, 1074, 1103, 1079, 1080, 32, 8212, 32, 1089, 1082, 1086, 1088, 1077, 1077, 32,
        1074, 1089, 1077, 1075, 1086, 44, 32, 1091, 32, 1074, 1072, 1089, 32, 1074, 1082, 1083, 1102, 1095, 1105, 1085, 32,
        1080, 1084, 1077, 1085, 1085, 1086, 32, 1086, 1085, 46]\<rparr>,
      \<lparr>faq_q = [1053, 1080, 1095, 1077, 1075, 1086, 32, 1085, 1077, 32, 1087, 1086, 1084, 1086, 1075, 1083, 1086],
       faq_a = [1053, 1072, 1087, 1080, 1096, 1080, 1090, 1077, 32, 1085, 1072, 1084, 32, 1095, 1077, 1088, 1077, 1079, 32, 171,
        1053, 1086, 1074, 1086, 1077, 32, 1086, 1073, 1088, 1072, 1097, 1077, 1085, 1080, 1077, 187, 46, 32, 1063, 1090, 1086,
        1073, 1099, 32, 1088, 1077, 1096, 1080, 1090, 1100, 32, 1089, 32, 1087, 1077, 1088, 1074, 1086, 1075, 1086, 32, 1088,
        1072, 1079, 1072, 44, 32, 1091, 1082, 1072, 1078, 1080, 1090, 1077, 58, 32, 1091, 1089, 1090, 1088, 1086, 1081, 1089,
        1090, 1074, 1086, 32, 1080, 32, 1089, 1080, 1089, 1090, 1077, 1084, 1091, 44, 32, 1075, 1086, 1088, 1086, 1076, 32,
        1080, 32, 1086, 1087, 1077, 1088, 1072, 1090, 1086, 1088, 1072, 44, 32, 1074, 1099, 1073, 1088, 1072, 1085, 1085,
        1091, 1102, 32, 1089, 1090, 1088, 1072, 1085, 1091, 32, 1080, 32, 1095, 1090, 1086, 32, 1080, 1084, 1077, 1085, 1085,
        1086, 32, 1087, 1088, 1086, 1080, 1089, 1093, 1086, 1076, 1080, 1090, 46, 32, 1057, 1085, 1080, 1084, 1086, 1082, 32,
        1101, 1082, 1088, 1072, 1085, 1072, 32, 1101, 1082, 1086, 1085, 1086, 1084, 1080, 1090, 32, 1094, 1077, 1083, 1099,
        1081, 32, 1082, 1088, 1091, 1075, 32, 1087, 1077, 1088, 1077, 1087, 1080, 1089, 1082, 1080, 46]\<rparr>]\<rparr>"

definition devices_category :: faq_category where
  "devices_category = \<lparr>faq_id = lit ''devices'',
    faq_title = [1059, 1089, 1090, 1088, 1086, 1081, 1089, 1090, 1074, 1072, 32, 1080, 32, 1082, 1083, 1102, 1095],
    faq_items = [
      \<lparr>faq_q = [1057, 1082, 1086, 1083, 1100, 1082, 1086, 32, 1091, 1089, 1090, 1088, 1086, 1081, 1089, 1090, 1074, 32, 1084, 1086,
        1078, 1085, 1086, 32, 1087, 1086, 1076, 1082, 1083, 1102, 1095, 1080, 1090, 1100, 63],
       faq_a = [1057, 1090, 1072, 1074, 1080, 1090, 1100, 32, 1082, 1083, 1102, 1095, 32, 1084, 1086, 1078, 1085, 1086, 32, 1085,
        1072, 32, 1083, 1102, 1073, 1086, 1077, 32, 1095, 1080, 1089, 1083, 1086, 32, 1089, 1074, 1086, 1080, 1093, 32, 1091,
        1089, 1090, 1088, 1086, 1081, 1089, 1090, 1074, 46, 32, 1058, 1072, 1088, 1080, 1092, 32, 1086, 1075, 1088, 1072,
        1085, 1080, 1095, 1080, 1074, 1072, 1077, 1090, 32, 1085, 1077, 32, 1091, 1089, 1090, 1072, 1085, 1086, 1074, 1082,
        1091, 44, 32, 1072, 32, 1089, 1082, 1086, 1083, 1100, 1082, 1086, 32, 1091, 1089, 1090, 1088, 1086, 1081, 1089, 1090,
        1074, 32, 1088, 1072, 1073, 1086, 1090, 1072, 1102, 1090, 32, 1074, 32, 1089, 1077, 1090, 1080, 32, 1086, 1076, 1085,
        1086, 1074, 1088, 1077, 1084, 1077, 1085, 1085, 1086, 58, 32, 1086, 1090, 32, 50, 32, 1085, 1072, 32, 171, 1054, 1073,
        1099, 1095, 1085, 1086, 1084, 187, 32, 1076, 1086, 32, 49, 48, 32, 1085, 1072, 32, 171, 1057, 1077, 1084, 1077, 1081,
        1085, 1086, 1084, 187, 46, 10, 10, 1058, 1086, 1095, 1085, 1086, 1077, 32, 1095, 1080, 1089, 1083, 1086, 32, 1091,
        1082, 1072, 1079, 1072, 1085, 1086, 32, 1088, 1103, 1076, 1086, 1084, 32, 1089, 32, 1082, 1072, 1078, 1076, 1099,
        1084, 32, 1090, 1072, 1088, 1080, 1092, 1086, 1084, 32, 1074, 32, 1088, 1072, 1079, 1076, 1077, 1083, 1077, 32, 171,
        1058, 1072, 1088, 1080, 1092, 1099, 187, 46]\<rparr>,
      \<lparr>faq_q = [1052, 1086, 1078, 1085, 1086, 32, 1087, 1086, 1083, 1100, 1079, 1086, 1074, 1072, 1090, 1100, 1089, 1103, 32, 1085,
        1072, 32, 1090, 1077, 1083, 1077, 1092, 1086, 1085, 1077, 32, 1080, 32, 1082, 1086, 1084, 1087, 1100, 1102, 1090,
        1077, 1088, 1077, 32, 1086, 1076, 1085, 1086, 1074, 1088, 1077, 1084, 1077, 1085, 1085, 1086, 63],
       faq_a = [1044, 1072, 44, 32, 1101, 1090, 1086, 32, 1089, 1072, 1084, 1099, 1081, 32, 1095, 1072, 1089, 1090, 1099, 1081, 32,
        1089, 1083, 1091, 1095, 1072, 1081, 46, 32, 1054, 1073, 1072, 32, 1087, 1086, 1076, 1082, 1083, 1102, 1095, 1077,
        1085, 1080, 1103, 32, 1079, 1072, 1085, 1080, 1084, 1072, 1102, 1090, 32, 1084, 1077, 1089, 1090, 1072, 32, 1080,
        1079, 32, 1074, 1072, 1096, 1077, 1075, 1086, 32, 1083, 1080, 1084, 1080, 1090, 1072, 59, 32, 1077, 1089, 1083, 1080,
        32, 1083, 1080, 1084, 1080, 1090, 32, 1080, 1089, 1095, 1077, 1088, 1087, 1072, 1085, 44, 32, 1085, 1086, 1074, 1086,
        1077, 32, 1089, 1086, 1077, 1076, 1080, 1085, 1077, 1085, 1080, 1077, 32, 1085, 1077, 32, 1091, 1089, 1090, 1072,
        1085, 1086, 1074, 1080, 1090, 1089, 1103, 44, 32, 1087, 1086, 1082, 1072, 32, 1085, 1077, 32, 1086, 1090, 1082, 1083,
        1102, 1095, 1080, 1090, 1089, 1103, 32, 1086, 1076, 1085, 1086, 32, 1080, 1079, 32, 1088, 1072, 1073, 1086, 1090,
        1072, 1102, 1097, 1080, 1093, 46]\<rparr>,
      \<lparr>faq_q = [1053, 1072, 32, 1082, 1072, 1082, 1080, 1093, 32, 1091, 1089, 1090, 1088, 1086, 1081, 1089, 1090, 1074, 1072, 1093,
        32, 1088, 1072, 1073, 1086, 1090, 1072, 1077, 1090, 44, 32, 1072, 32, 1085, 1072, 32, 1082, 1072, 1082, 1080, 1093,
        32, 1085, 1077, 1090, 63],
       faq_a = [1056, 1072, 1073, 1086, 1090, 1072, 1077, 1090] @ lit '': Android, Windows, iPhone '' @ [1080] @
        lit '' iPad, Mac, Android TV, '' @ [1088, 1086, 1091, 1090, 1077, 1088, 1099, 32, 1089, 32, 1087, 1086, 1076, 1093,
        1086, 1076, 1103, 1097, 1077, 1081, 32, 1087, 1088, 1086, 1096, 1080, 1074, 1082, 1086, 1081, 46, 10, 10, 1053, 1077,
        32, 1087, 1086, 1083, 1091, 1095, 1080, 1090, 1089, 1103, 58, 32, 1090, 1077, 1083, 1077, 1074, 1080, 1079, 1086,
        1088, 1099] @ lit '' Samsung '' @ [1080, 32, 76, 71, 32, 1073, 1077, 1079] @ lit '' Android, '' @ [1080, 1075, 1088,
        1086, 1074, 1099, 1077, 32, 1087, 1088, 1080, 1089, 1090, 1072, 1074, 1082, 1080, 32, 8212, 32, 1080, 1093, 32, 1079,
        1072, 1097, 1080, 1097, 1072, 1102, 1090, 32, 1095, 1077, 1088, 1077, 1079, 32, 1088, 1086, 1091, 1090, 1077, 1088,
        46]\<rparr>,
      \<lparr>faq_q = [1050, 1072, 1082, 32, 1087, 1077, 1088, 1077, 1085, 1077, 1089, 1090, 1080, 32, 1085, 1072, 32, 1085, 1086, 1074,
        1086, 1077, 32, 1091, 1089, 1090, 1088, 1086, 1081, 1089, 1090, 1074, 1086, 63],
       faq_a = [1053, 1080, 1095, 1077, 1075, 1086, 32, 1087, 1077, 1088, 1077, 1085, 1086, 1089, 1080, 1090, 1100, 32, 1085, 1077,
        32, 1085, 1091, 1078, 1085, 1086, 46, 32, 1055, 1086, 1089, 1090, 1072, 1074, 1100, 1090, 1077, 32, 1087, 1088, 1080,
        1083, 1086, 1078, 1077, 1085, 1080, 1077, 32, 1080, 32, 1074, 1089, 1090, 1072, 1074, 1100, 1090, 1077, 32, 1090,
        1086, 1090, 32, 1078, 1077, 32, 1082, 1083, 1102, 1095, 32, 8212, 32, 1086, 1085, 32, 1085, 1077, 32, 1087, 1088,
        1080, 1074, 1103, 1079, 1072, 1085, 32, 1082, 32, 1082, 1086, 1085, 1082, 1088, 1077, 1090, 1085, 1086, 1084, 1091,
        32, 1090, 1077, 1083, 1077, 1092, 1086, 1085, 1091, 46]\<rparr>,
      \<lparr>faq_q = [1057, 1084, 1077, 1085, 1080, 1083, 32, 1090, 1077, 1083, 1077, 1092, 1086, 1085, 44, 32, 1087, 1086, 1090, 1077,
        1088, 1103, 1083, 32, 1082, 1083, 1102, 1095, 32, 8212, 32, 1082, 1072, 1082, 32, 1074, 1086, 1089, 1089, 1090, 1072,
        1085, 1086, 1074, 1080, 1090, 1100, 32, 1076, 1086, 1089, 1090, 1091, 1087, 63],
       faq_a = [1044, 1086, 1089, 1090, 1091, 1087, 32, 1087, 1088, 1080, 1074, 1103, 1079, 1072, 1085, 32, 1082, 32, 1074, 1072,
        1096, 1077, 1084, 1091, 32, 1072, 1082, 1082, 1072, 1091, 1085, 1090, 1091] @ lit '' Telegram, '' @ [1072, 32, 1085,
        1077, 32, 1082, 32, 1091, 1089, 1090, 1088, 1086, 1081, 1089, 1090, 1074, 1091, 46, 32, 1047, 1072, 1081, 1076, 1080,
        1090, 1077, 32, 1074, 32, 1085, 1072, 1096, 1077, 1075, 1086, 32, 1073, 1086, 1090, 1072, 32, 1089, 32, 1085, 1086,
        1074, 1086, 1075, 1086, 32, 1090, 1077, 1083, 1077, 1092, 1086, 1085, 1072, 44, 32, 1086, 1090, 1082, 1088, 1086,
        1081, 1090, 1077, 32, 171, 1055, 1086, 1076, 1082, 1083, 1102, 1095, 1077, 1085, 1080, 1077, 187, 32, 8212, 32, 1082,
        1083, 1102, 1095, 32, 1073, 1091, 1076, 1077, 1090, 32, 1085, 1072, 32, 1084, 1077, 1089, 1090, 1077, 46, 10, 10,
        1055, 1072, 1088, 1086, 1083, 1080, 32, 1080, 32, 1087, 1086, 1095, 1090, 1072, 32, 1090, 1091, 1090, 32, 1085, 1080,
        32, 1087, 1088, 1080, 32, 1095, 1105, 1084, 58, 32, 1087, 1086, 1082, 1072, 32, 1091, 32, 1074, 1072, 1089, 32, 1077,
        1089, 1090, 1100, 32, 1076, 1086, 1089, 1090, 1091, 1087, 32, 1082, 32, 1089, 1074, 1086, 1077, 1084, 1091] @
        lit '' Telegram, '' @ [1087, 1086, 1076, 1087, 1080, 1089, 1082, 1072, 32, 1085, 1080, 1082, 1091, 1076, 1072, 32,
        1085, 1077, 32, 1076, 1077, 1085, 1077, 1090, 1089, 1103, 46]\<rparr>,
      \<lparr>faq_q = [1052, 1086, 1078, 1085, 1086, 32, 1083, 1080, 32, 1087, 1086, 1082, 1072, 1079, 1099, 1074, 1072, 1090, 1100, 32,
        1082, 1083, 1102, 1095, 32, 1076, 1088, 1091, 1075, 1080, 1084, 32, 1083, 1102, 1076, 1103, 1084, 63],
       faq_a = [1053, 1077, 1090, 46, 32, 1050, 1083, 1102, 1095, 32, 8212, 32, 1101, 1090, 1086, 32, 1080, 32, 1077, 1089, 1090,
        1100, 32, 1076, 1086, 1089, 1090, 1091, 1087, 58, 32, 1091, 32, 1082, 1086, 1075, 1086, 32, 1086, 1085, 32, 1077,
        1089, 1090, 1100, 44, 32, 1090, 1086, 1090, 32, 1087, 1086, 1083, 1100, 1079, 1091, 1077, 1090, 1089, 1103, 32, 1074,
        1072, 1096, 1077, 1081, 32, 1087, 1086, 1076, 1087, 1080, 1089, 1082, 1086, 1081, 32, 1080, 32, 1079, 1072, 1085,
        1080, 1084, 1072, 1077, 1090, 32, 1074, 1072, 1096, 1080, 32, 1087, 1086, 1076, 1082, 1083, 1102, 1095, 1077, 1085,
        1080, 1103, 46, 10, 10, 1045, 1089, 1083, 1080, 32, 1082, 1083, 1102, 1095, 32, 1091, 1090, 1105, 1082, 32, 8212, 32,
        1085, 1072, 1087, 1080, 1096, 1080, 1090, 1077, 32, 1085, 1072, 1084, 44, 32, 1087, 1077, 1088, 1077, 1074, 1099,
        1087, 1091, 1089, 1090, 1080, 1084, 46, 32, 1057, 1090, 1072, 1088, 1099, 1081, 32, 1089, 1088, 1072, 1079, 1091, 32,
        1087, 1077, 1088, 1077, 1089, 1090, 1072, 1085, 1077, 1090, 32, 1088, 1072, 1073, 1086, 1090, 1072, 1090, 1100, 46]\<rparr>,
      \<lparr>faq_q = [1050, 1072, 1082, 32, 1086, 1090, 1082, 1083, 1102, 1095, 1080, 1090, 1100, 32, 1089, 1090, 1072, 1088, 1086, 1077,
        32, 1091, 1089, 1090, 1088, 1086, 1081, 1089, 1090, 1074, 1086, 63],
       faq_a = [1059, 1076, 1072, 1083, 1080, 1090, 1077, 32, 1087, 1088, 1080, 1083, 1086, 1078, 1077, 1085, 1080, 1077, 32, 1080,
        1083, 1080, 32, 1087, 1088, 1086, 1092, 1080, 1083, 1100, 32, 1085, 1072, 32, 1085, 1105, 1084, 46, 32, 1045, 1089,
        1083, 1080, 32, 1091, 1089, 1090, 1088, 1086, 1081, 1089, 1090, 1074, 1086, 32, 1087, 1086, 1090, 1077, 1088, 1103,
        1085, 1086, 32, 1080, 32, 1093, 1086, 1095, 1077, 1090, 1089, 1103, 32, 1073, 1099, 1090, 1100, 32, 1091, 1074, 1077,
        1088, 1077, 1085, 1085, 1099, 1084, 32, 8212, 32, 1085, 1072, 1087, 1080, 1096, 1080, 1090, 1077, 32, 1085, 1072,
        1084, 44, 32, 1087, 1077, 1088, 1077, 1074, 1099, 1087, 1091, 1089, 1090, 1080, 1084, 32, 1082, 1083, 1102, 1095, 46]\<rparr>,
      \<lparr>faq_q = [1052, 1086, 1078, 1085, 1086, 32, 1087, 1086, 1076, 1077, 1083, 1080, 1090, 1100, 1089, 1103, 32, 1089, 32, 1089,
        1077, 1084, 1100, 1105, 1081, 63],
       faq_a = [1044, 1072, 44, 32, 1074, 32, 1088, 1072, 1084, 1082, 1072, 1093, 32, 1074, 1072, 1096, 1077, 1075, 1086, 32, 1090,
        1072, 1088, 1080, 1092, 1072, 58, 32, 1088, 1072, 1079, 1076, 1072, 1081, 1090, 1077, 32, 1080, 1084, 32, 1090, 1086,
        1090, 32, 1078, 1077, 32, 1082, 1083, 1102, 1095, 46, 32, 1045, 1089, 1083, 1080, 32, 1091, 1089, 1090, 1088, 1086,
        1081, 1089, 1090, 1074, 32, 1074, 32, 1089, 1077, 1084, 1100, 1077, 32, 1084, 1085, 1086, 1075, 1086, 44, 32, 1087,
        1086, 1089, 1084, 1086, 1090, 1088, 1080, 1090, 1077, 32, 171, 1057, 1077, 1084, 1077, 1081, 1085, 1099, 1081, 187,
        32, 8212, 32, 1090, 1072, 1084, 32, 1083, 1080, 1084, 1080, 1090, 32, 1086, 1076, 1085, 1086, 1074, 1088, 1077, 1084,
        1077, 1085, 1085, 1099, 1093, 32, 1087, 1086, 1076, 1082, 1083, 1102, 1095, 1077, 1085, 1080, 1081, 32, 1089, 1072,
        1084, 1099, 1081, 32, 1073, 1086, 1083, 1100, 1096, 1086, 1081, 46]\<rparr>,
      \<lparr>faq_q = [1041, 1086, 1090, 32, 1085, 1077, 32, 1086, 1090, 1074, 1077, 1095, 1072, 1077, 1090, 44, 32, 1095, 1090, 1086, 32,
        1076, 1077, 1083, 1072, 1090, 1100, 63],
       faq_a = [1053, 1072, 1087, 1080, 1096, 1080, 1090, 1077, 32, 1077, 1084, 1091, 32, 1083, 1102, 1073, 1086, 1077, 32, 1089,
        1086, 1086, 1073, 1097, 1077, 1085, 1080, 1077, 32, 1077, 1097, 1105, 32, 1088, 1072, 1079, 32, 1080, 1083, 1080, 32,
        1085, 1072, 1078, 1084, 1080, 1090, 1077, 32, 171, 1055, 1077, 1088, 1077, 1079, 1072, 1087, 1091, 1089, 1090, 1080,
        1090, 1100, 187, 46, 32, 1045, 1089, 1083, 1080, 32, 1084, 1086, 1083, 1095, 1080, 1090, 32, 1076, 1086, 1083, 1100,
        1096, 1077, 32, 1085, 1077, 1089, 1082, 1086, 1083, 1100, 1082, 1080, 1093, 32, 1084, 1080, 1085, 1091, 1090, 44, 32,
        1087, 1086, 1087, 1088, 1086, 1073, 1091, 1081, 1090, 1077, 32, 1086, 1090, 1082, 1088, 1099, 1090, 1100, 32, 1084,
        1080, 1085, 1080, 45, 1087, 1088, 1080, 1083, 1086, 1078, 1077, 1085, 1080, 1077, 32, 8212, 32, 1086, 1085, 1086, 32,
        1088, 1072, 1073, 1086, 1090, 1072, 1077, 1090, 32, 1086, 1090, 1076, 1077, 1083, 1100, 1085, 1086, 32, 1086, 1090,
        32, 1087, 1077, 1088, 1077, 1087, 1080, 1089, 1082, 1080, 32, 1089, 32, 1073, 1086, 1090, 1086, 1084, 46, 10, 10,
        1055, 1086, 1076, 1087, 1080, 1089, 1082, 1072, 32, 1087, 1088, 1080, 32, 1101, 1090, 1086, 1084, 32, 1085, 1077, 32,
        1089, 1090, 1088, 1072, 1076, 1072, 1077, 1090, 58, 32, 1086, 1085, 1072, 32, 1078, 1080, 1074, 1105, 1090, 32, 1085,
        1072, 32, 1089, 1077, 1088, 1074, 1077, 1088, 1077, 44, 32, 1072, 32, 1085, 1077, 32, 1074, 32, 1095, 1072, 1090,
        1077, 46]\<rparr>]\<rparr>"

definition privacy_category :: faq_category where
  "privacy_category = \<lparr>faq_id = lit ''privacy'',
    faq_title = [1055, 1088, 1080, 1074, 1072, 1090, 1085, 1086, 1089, 1090, 1100, 32, 1080, 32, 1073, 1077, 1079, 1086, 1087, 1072,
      1089, 1085, 1086, 1089, 1090, 1100],
    faq_items = [
      \<lparr>faq_q = [1042, 1099, 32, 1093, 1088, 1072, 1085, 1080, 1090, 1077, 44, 32, 1082, 1072, 1082, 1080, 1077, 32, 1089, 1072, 1081,
        1090, 1099, 32, 1103, 32, 1086, 1090, 1082, 1088, 1099, 1074, 1072, 1102, 63],
       faq_a = [1053, 1077, 1090, 46, 32, 1052, 1099, 32, 1085, 1077, 32, 1079, 1072, 1087, 1080, 1089, 1099, 1074, 1072, 1077, 1084,
        32, 1072, 1076, 1088, 1077, 1089, 1072, 44, 32, 1082, 1086, 1090, 1086, 1088, 1099, 1077, 32, 1074, 1099, 32, 1086,
        1090, 1082, 1088, 1099, 1074, 1072, 1077, 1090, 1077, 44, 32, 1080, 32, 1089, 1086, 1076, 1077, 1088, 1078, 1080,
        1084, 1086, 1077, 32, 1090, 1088, 1072, 1092, 1080, 1082, 1072, 46, 32, 1069, 1090, 1086, 32, 1086, 1073, 1077, 1097,
        1072, 1085, 1080, 1077, 44, 32, 1085, 1072, 32, 1082, 1086, 1090, 1086, 1088, 1086, 1084, 32, 1076, 1077, 1088, 1078,
        1080, 1090, 1089, 1103, 32, 1074, 1077, 1089, 1100, 32, 1089, 1077, 1088, 1074, 1080, 1089, 46, 10, 10, 1052, 1099,
        32, 1074, 1080, 1076, 1080, 1084, 32, 1090, 1086, 1083, 1100, 1082, 1086, 32, 1086, 1073, 1098, 1105, 1084, 32, 1080,
        1079, 1088, 1072, 1089, 1093, 1086, 1076, 1086, 1074, 1072, 1085, 1085, 1086, 1075, 1086, 32, 1090, 1088, 1072, 1092,
        1080, 1082, 1072, 32, 1080, 32, 1092, 1072, 1082, 1090, 32, 1089, 1086, 1077, 1076, 1080, 1085, 1077, 1085, 1080,
        1103, 32, 8212, 32, 1101, 1090, 1086, 1075, 1086, 32, 1076, 1086, 1089, 1090, 1072, 1090, 1086, 1095, 1085, 1086, 44,
        32, 1095, 1090, 1086, 1073, 1099, 32, 1088, 1072, 1073, 1086, 1090, 1072, 1083, 1080, 32, 1090, 1072, 1088, 1080,
        1092, 1099, 46]\<rparr>,
      \<lparr>faq_q = [1050, 1072, 1082, 1080, 1077, 32, 1084, 1086, 1080, 32, 1076, 1072, 1085, 1085, 1099, 1077, 32, 1074, 1099, 32, 1093,
        1088, 1072, 1085, 1080, 1090, 1077, 63],
       faq_a = [1048, 1076, 1077, 1085, 1090, 1080, 1092, 1080, 1082, 1072, 1090, 1086, 1088] @ lit '' Telegram '' @ [1080, 32, 1080,
        1084, 1103, 32, 1087, 1086, 1083, 1100, 1079, 1086, 1074, 1072, 1090, 1077, 1083, 1103, 44, 32, 1089, 1088, 1086,
        1082, 32, 1087, 1086, 1076, 1087, 1080, 1089, 1082, 1080, 44, 32, 1086, 1073, 1098, 1105, 1084, 32, 1090, 1088, 1072,
        1092, 1080, 1082, 1072, 44, 32, 1087, 1083, 1072, 1090, 1077, 1078, 1080, 46, 32, 1069, 1090, 1086, 32, 1085, 1091,
        1078, 1085, 1086, 44, 32, 1095, 1090, 1086, 1073, 1099, 32, 1074, 1099, 32, 1085, 1077, 32, 1087, 1086, 1090, 1077,
        1088, 1103, 1083, 1080, 32, 1076, 1086, 1089, 1090, 1091, 1087, 46, 10, 10, 1055, 1086, 1083, 1085, 1099, 1081, 32,
        1089, 1087, 1080, 1089, 1086, 1082, 32, 1086, 1090, 1082, 1088, 1099, 1090, 32, 1074, 32, 1084, 1080, 1085, 1080, 45,
        1087, 1088, 1080, 1083, 1086, 1078, 1077, 1085, 1080, 1080] @ lit '' Fresh, '' @ [1088, 1072, 1079, 1076, 1077, 1083,
        32, 171, 1052, 1086, 1080, 32, 1076, 1072, 1085, 1085, 1099, 1077, 187, 32, 8212, 32, 1090, 1072, 1084, 32, 1088,
        1086, 1074, 1085, 1086, 32, 1090, 1086, 44, 32, 1095, 1090, 1086, 32, 1091, 32, 1085, 1072, 1089, 32, 1083, 1077,
        1078, 1080, 1090, 46]\<rparr>,
      \<lparr>faq_q = [1042, 1080, 1076, 1080, 1090, 32, 1083, 1080, 32, 1084, 1086, 1081, 32, 1086, 1087, 1077, 1088, 1072, 1090, 1086,
        1088, 32, 1080, 1083, 1080, 32, 1087, 1088, 1086, 1074, 1072, 1081, 1076, 1077, 1088, 44, 32, 1095, 1090, 1086, 32,
        1103, 32, 1074, 1082, 1083, 1102, 1095, 1080, 1083, 32, 86, 80, 78, 63],
       faq_a = [1054, 1085, 32, 1074, 1080, 1076, 1080, 1090, 32, 1092, 1072, 1082, 1090, 32, 1079, 1072, 1096, 1080, 1092, 1088,
        1086, 1074, 1072, 1085, 1085, 1086, 1075, 1086, 32, 1089, 1086, 1077, 1076, 1080, 1085, 1077, 1085, 1080, 1103, 44,
        32, 1085, 1086, 32, 1085, 1077, 32, 1074, 1080, 1076, 1080, 1090, 44, 32, 1095, 1090, 1086, 32, 1074, 1085, 1091,
        1090, 1088, 1080, 58, 32, 1082, 1072, 1082, 1080, 1077, 32, 1089, 1072, 1081, 1090, 1099, 32, 1074, 1099, 32, 1086,
        1090, 1082, 1088, 1099, 1074, 1072, 1077, 1090, 1077, 32, 1080, 32, 1095, 1090, 1086, 32, 1090, 1072, 1084, 32, 1076,
        1077, 1083, 1072, 1077, 1090, 1077, 44, 32, 1077, 1084, 1091, 32, 1085, 1077, 1076, 1086, 1089, 1090, 1091, 1087,
        1085, 1086, 46, 10, 10, 1055, 1086, 1083, 1085, 1086, 1089, 1090, 1100, 1102, 32, 1089, 1087, 1088, 1103, 1090, 1072,
        1090, 1100, 32, 1089, 1072, 1084, 32, 1092, 1072, 1082, 1090, 32, 1080, 1089, 1087, 1086, 1083, 1100, 1079, 1086,
        1074, 1072, 1085, 1080, 1103] @ lit '' VPN '' @ [1085, 1077, 32, 1084, 1086, 1078, 1077, 1090, 32, 1085, 1080, 32,
        1086, 1076, 1080, 1085, 32, 1089, 1077, 1088, 1074, 1080, 1089, 44, 32, 1082, 1086, 1090, 1086, 1088, 1099, 1081, 32,
        1086, 1073, 1077, 1097, 1072, 1077, 1090, 32, 1086, 1073, 1088, 1072, 1090, 1085, 1086, 1077, 46]\<rparr>,
      \<lparr>faq_q = [1050, 1090, 1086, 32, 1084, 1086, 1078, 1077, 1090, 32, 1074, 1080, 1076, 1077, 1090, 1100, 32, 1084, 1086, 1081, 32,
        1090, 1088, 1072, 1092, 1080, 1082, 63],
       faq_a = [1052, 1077, 1078, 1076, 1091, 32, 1074, 1072, 1096, 1080, 1084, 32, 1091, 1089, 1090, 1088, 1086, 1081, 1089, 1090,
        1074, 1086, 1084, 32, 1080, 32, 1085, 1072, 1096, 1080, 1084, 32, 1089, 1077, 1088, 1074, 1077, 1088, 1086, 1084, 32,
        1090, 1088, 1072, 1092, 1080, 1082, 32, 1079, 1072, 1096, 1080, 1092, 1088, 1086, 1074, 1072, 1085, 32, 8212, 32,
        1074, 1083, 1072, 1076, 1077, 1083, 1077, 1094] @ lit '' Wi-Fi '' @ [1074, 32, 1082, 1072, 1092, 1077, 32, 1080, 32,
        1087, 1088, 1086, 1074, 1072, 1081, 1076, 1077, 1088, 32, 1074, 1080, 1076, 1103, 1090, 32, 1090, 1086, 1083, 1100,
        1082, 1086, 32, 1089, 1086, 1077, 1076, 1080, 1085, 1077, 1085, 1080, 1077, 46, 10, 10, 1063, 1077, 1089, 1090, 1085,
        1086, 32, 1086, 32, 1075, 1088, 1072, 1085, 1080, 1094, 1072, 1093] @ lit '': VPN '' @ [1079, 1072, 1097, 1080, 1097,
        1072, 1077, 1090, 32, 1082, 1072, 1085, 1072, 1083, 44, 32, 1085, 1086, 32, 1085, 1077, 32, 1076, 1077, 1083, 1072,
        1077, 1090, 32, 1074, 1072, 1089, 32, 1085, 1077, 1074, 1080, 1076, 1080, 1084, 1099, 1084, 32, 1076, 1083, 1103, 32,
        1089, 1072, 1081, 1090, 1086, 1074, 44, 32, 1082, 1091, 1076, 1072, 32, 1074, 1099, 32, 1079, 1072, 1093, 1086, 1076,
        1080, 1090, 1077, 32, 1087, 1086, 1076, 32, 1089, 1074, 1086, 1077, 1081, 32, 1091, 1095, 1105, 1090, 1085, 1086,
        1081, 32, 1079, 1072, 1087, 1080, 1089, 1100, 1102, 46]\<rparr>,
      \<lparr>faq_q = [1047, 1072, 1082, 1086, 1085, 1085, 1086, 32, 1083, 1080, 32, 1101, 1090, 1080, 1084, 32, 1087, 1086, 1083, 1100,
        1079, 1086, 1074, 1072, 1090, 1100, 1089, 1103, 63],
       faq_a = [86, 80, 78, 32, 8212, 32, 1086, 1073, 1099, 1095, 1085, 1072, 1103, 32, 1090, 1077, 1093, 1085, 1086, 1083, 1086,
        1075, 1080, 1103, 32, 1079, 1072, 1097, 1080, 1097, 1105, 1085, 1085, 1086, 1075, 1086, 32, 1089, 1086, 1077, 1076,
        1080, 1085, 1077, 1085, 1080, 1103, 44, 32, 1077, 1105, 32, 1087, 1088, 1080, 1084, 1077, 1085, 1103, 1102, 1090, 32,
        1080, 32, 1082, 1086, 1084, 1087, 1072, 1085, 1080, 1080, 44, 32, 1080, 32, 1095, 1072, 1089, 1090, 1085, 1099, 1077,
        32, 1087, 1086, 1083, 1100, 1079, 1086, 1074, 1072, 1090, 1077, 1083, 1080, 46, 32, 1053, 1072, 1096, 1080, 32, 1091,
        1089, 1083, 1086, 1074, 1080, 1103, 32, 1080, 32, 1087, 1086, 1083, 1080, 1090, 1080, 1082, 1072, 32, 1086, 1090,
        1082, 1088, 1099, 1090, 1099, 44, 32, 1089, 1089, 1099, 1083, 1082, 1080, 32, 1077, 1089, 1090, 1100, 32, 1074, 32,
        1085, 1072, 1089, 1090, 1088, 1086, 1081, 1082, 1072, 1093, 32, 1087, 1088, 1080, 1083, 1086, 1078, 1077, 1085, 1080,
        1103, 46]\<rparr>,
      \<lparr>faq_q = [1063, 1090, 1086, 32, 1073, 1091, 1076, 1077, 1090, 44, 32, 1077, 1089, 1083, 1080, 32, 1091, 32, 1074, 1072, 1089,
        32, 1079, 1072, 1087, 1088, 1086, 1089, 1103, 1090, 32, 1084, 1086, 1080, 32, 1076, 1072, 1085, 1085, 1099, 1077, 63],
       faq_a = [1052, 1099, 32, 1084, 1086, 1078, 1077, 1084, 32, 1086, 1090, 1076, 1072, 1090, 1100, 32, 1090, 1086, 1083, 1100,
        1082, 1086, 32, 1090, 1086, 44, 32, 1095, 1090, 1086, 32, 1091, 32, 1085, 1072, 1089, 32, 1077, 1089, 1090, 1100, 58,
        32, 1080, 1076, 1077, 1085, 1090, 1080, 1092, 1080, 1082, 1072, 1090, 1086, 1088] @ lit '' Telegram, '' @ [1089, 1088,
        1086, 1082, 32, 1087, 1086, 1076, 1087, 1080, 1089, 1082, 1080, 32, 1080, 32, 1086, 1073, 1098, 1105, 1084, 32, 1090,
        1088, 1072, 1092, 1080, 1082, 1072, 46, 32, 1048, 1089, 1090, 1086, 1088, 1080, 1080, 32, 1087, 1086, 1089, 1077,
        1097, 1077, 1085, 1080, 1081, 32, 1091, 32, 1085, 1072, 1089, 32, 1085, 1077, 32, 1089, 1091, 1097, 1077, 1089, 1090,
        1074, 1091, 1077, 1090, 32, 1092, 1080, 1079, 1080, 1095, 1077, 1089, 1082, 1080, 32, 8212, 32, 1077, 1105, 32, 1085,
        1077, 1074, 1086, 1079, 1084, 1086, 1078, 1085, 1086, 32, 1087, 1077, 1088, 1077, 1076, 1072, 1090, 1100, 44, 32,
        1087, 1086, 1090, 1086, 1084, 1091, 32, 1095, 1090, 1086, 32, 1084, 1099, 32, 1077, 1105, 32, 1085, 1077, 32, 1087,
        1080, 1096, 1077, 1084, 46]\<rparr>,
      \<lparr>faq_q = [1052, 1086, 1078, 1085, 1086, 32, 1091, 1076, 1072, 1083, 1080, 1090, 1100, 32, 1084, 1086, 1080, 32, 1076, 1072,
        1085, 1085, 1099, 1077, 63],
       faq_a = [1044, 1072, 46, 32, 1053, 1072, 1087, 1080, 1096, 1080, 1090, 1077, 32, 1095, 1077, 1088, 1077, 1079, 32, 171, 1053,
        1086, 1074, 1086, 1077, 32, 1086, 1073, 1088, 1072, 1097, 1077, 1085, 1080, 1077, 187, 32, 8212, 32, 1091, 1076, 1072,
        1083, 1080, 1084, 32, 1080, 32, 1087, 1086, 1076, 1090, 1074, 1077, 1088, 1076, 1080, 1084, 46, 32, 1042, 1084, 1077,
        1089, 1090, 1077, 32, 1089, 32, 1076, 1072, 1085, 1085, 1099, 1084, 1080, 32, 1087, 1088, 1086, 1087, 1072, 1076,
        1105, 1090, 32, 1080, 32, 1076, 1086, 1089, 1090, 1091, 1087, 32, 1087, 1086, 32, 1090, 1077, 1082, 1091, 1097, 1077,
        1081, 32, 1087, 1086, 1076, 1087, 1080, 1089, 1082, 1077, 46]\<rparr>,
      \<lparr>faq_q = [1047, 1072, 1095, 1077, 1084, 32, 1073, 1086, 1090, 1091, 32, 1076, 1086, 1089, 1090, 1091, 1087, 32, 1082, 32, 1084,
        1086, 1077, 1084, 1091] @ lit '' Telegram'' @ [63],
       faq_a = [1058, 1086, 1083, 1100, 1082, 1086, 32, 1095, 1090, 1086, 1073, 1099, 32, 1091, 1079, 1085, 1072, 1090, 1100, 32,
        1074, 1072, 1089, 58, 32, 1080, 1076, 1077, 1085, 1090, 1080, 1092, 1080, 1082, 1072, 1090, 1086, 1088, 32, 1080, 32,
        1080, 1084, 1103, 32, 1087, 1086, 1083, 1100, 1079, 1086, 1074, 1072, 1090, 1077, 1083, 1103, 46, 32, 1063, 1080,
        1090, 1072, 1090, 1100, 32, 1087, 1077, 1088, 1077, 1087, 1080, 1089, 1082, 1091, 32, 1073, 1086, 1090, 1099, 32,
        1085, 1077, 32, 1084, 1086, 1075, 1091, 1090] @ lit '', Telegram '' @ [1090, 1072, 1082, 1086, 1075, 1086, 32, 1085,
        1077, 32, 1087, 1086, 1079, 1074, 1086, 1083, 1103, 1077, 1090, 46, 10, 10, 1042, 32, 1088, 1086, 1079, 1099, 1075,
        1088, 1099, 1096, 1072, 1093, 32, 1073, 1086, 1090, 32, 1076, 1086, 1087, 1086, 1083, 1085, 1080, 1090, 1077, 1083,
        1100, 1085, 1086, 32, 1089, 1087, 1088, 1072, 1096, 1080, 1074, 1072, 1077, 1090, 32, 1091] @ lit '' Telegram, '' @
        [1087, 1086, 1076, 1087, 1080, 1089, 1072, 1085, 1099, 32, 1083, 1080, 32, 1074, 1099, 32, 1085, 1072, 32, 1082, 1072,
        1085, 1072, 1083, 32, 1080, 32, 1073, 1091, 1089, 1090, 1080, 1083, 1080, 32, 1083, 1080, 32, 1077, 1075, 1086, 46,
        32, 1053, 1080, 1095, 1077, 1075, 1086, 32, 1089, 1074, 1077, 1088, 1093, 32, 1101, 1090, 1086, 1075, 1086, 46]\<rparr>,
      \<lparr>faq_q = [1059, 32, 1074, 1072, 1089, 32, 1077, 1089, 1090, 1100, 32, 1076, 1074, 1086, 1081, 1085, 1086, 1081, 32, 86, 80, 78,
        63],
       faq_a = [1053, 1077, 1090, 44, 32, 1080, 32, 1084, 1099, 32, 1086, 1073, 1098, 1103, 1089, 1085, 1103, 1077, 1084, 32, 1087,
        1086, 1095, 1077, 1084, 1091, 46, 32, 1044, 1074, 1086, 1081, 1085, 1086, 1081] @ lit '' VPN '' @ [8212, 32, 1101,
        1090, 1086, 32, 1094, 1077, 1087, 1086, 1095, 1082, 1072, 32, 1080, 1079, 32, 1076, 1074, 1091, 1093, 32, 1089, 1077,
        1088, 1074, 1077, 1088, 1086, 1074, 58, 32, 1089, 1082, 1086, 1088, 1086, 1089, 1090, 1100, 32, 1087, 1072, 1076,
        1072, 1077, 1090, 44, 32, 1086, 1090, 1082, 1083, 1080, 1082, 32, 1088, 1072, 1089, 1090, 1105, 1090, 32, 1074, 1076,
        1074, 1086, 1077, 44, 32, 1072, 32, 1088, 1077, 1072, 1083, 1100, 1085, 1091, 1102, 32, 1087, 1086, 1083, 1100, 1079,
        1091, 32, 1101, 1090, 1086, 32, 1076, 1072, 1105, 1090, 32, 1090, 1086, 1083, 1100, 1082, 1086, 32, 1087, 1088, 1086,
        1090, 1080, 1074, 32, 1090, 1086, 1075, 1086, 44, 32, 1082, 1090, 1086, 32, 1089, 1083, 1077, 1076, 1080, 1090, 32,
        1079, 1072, 32, 1086, 1076, 1085, 1080, 1084, 32, 1080, 1079, 32, 1089, 1077, 1088, 1074, 1077, 1088, 1086, 1074, 46,
        10, 10, 1055, 1088, 1086, 1090, 1080, 1074, 32, 1073, 1083, 1086, 1082, 1080, 1088, 1086, 1074, 1086, 1082, 32, 1086,
        1085, 32, 1085, 1077, 32, 1087, 1086, 1084, 1086, 1075, 1072, 1077, 1090, 58, 32, 1090, 1072, 1084, 32, 1089, 1084,
        1086, 1090, 1088, 1103, 1090, 32, 1085, 1077, 32, 1085, 1072, 32, 1082, 1086, 1083, 1080, 1095, 1077, 1089, 1090,
        1074, 1086, 32, 1087, 1088, 1099, 1078, 1082, 1086, 1074, 44, 32, 1072, 32, 1085, 1072, 32, 1087, 1086, 1095, 1077,
        1088, 1082, 32, 1089, 1086, 1077, 1076, 1080, 1085, 1077, 1085, 1080, 1103, 46, 32, 1052, 1099, 32, 1074, 1082, 1083,
        1072, 1076, 1099, 1074, 1072, 1077, 1084, 1089, 1103, 32, 1080, 1084, 1077, 1085, 1085, 1086, 32, 1074, 32, 1091,
        1089, 1090, 1086, 1081, 1095, 1080, 1074, 1086, 1089, 1090, 1100, 32, 1089, 1074, 1103, 1079, 1080, 44, 32, 1072, 32,
        1085, 1077, 32, 1074, 32, 1075, 1088, 1086, 1084, 1082, 1080, 1077, 32, 1089, 1083, 1086, 1074, 1072, 32, 1085, 1072,
        32, 1074, 1080, 1090, 1088, 1080, 1085, 1077, 46]\<rparr>,
      \<lparr>faq_q = [1059, 32, 1074, 1072, 1089, 32, 1077, 1089, 1090, 1100, 32, 1074, 1099, 1076, 1077, 1083, 1077, 1085, 1085, 1099,
        1081, 32, 73, 80, 63],
       faq_a = [1053, 1077, 1090, 46, 32, 1042, 1099, 1076, 1077, 1083, 1077, 1085, 1085, 1099, 1081, 32, 1072, 1076, 1088, 1077,
        1089, 32, 1079, 1072, 1082, 1088, 1077, 1087, 1083, 1105, 1085, 32, 1079, 1072, 32, 1086, 1076, 1085, 1080, 1084, 32,
        1095, 1077, 1083, 1086, 1074, 1077, 1082, 1086, 1084, 44, 32, 1072, 32, 1079, 1085, 1072, 1095, 1080, 1090, 44, 32,
        1085, 1072, 1084, 32, 1087, 1088, 1080, 1096, 1083, 1086, 1089, 1100, 32, 1073, 1099, 32, 1093, 1088, 1072, 1085,
        1080, 1090, 1100, 32, 1089, 1074, 1103, 1079, 1082, 1091, 32, 171, 1087, 1086, 1083, 1100, 1079, 1086, 1074, 1072,
        1090, 1077, 1083, 1100, 32, 8212, 32, 1072, 1076, 1088, 1077, 1089, 187, 32, 8212, 32, 1088, 1086, 1074, 1085, 1086,
        32, 1090, 1086, 44, 32, 1095, 1077, 1075, 1086, 32, 1084, 1099, 32, 1085, 1077, 32, 1076, 1077, 1083, 1072, 1077,
        1084, 32, 1087, 1088, 1080, 1085, 1094, 1080, 1087, 1080, 1072, 1083, 1100, 1085, 1086, 46, 10, 10, 1050, 32, 1090,
        1086, 1084, 1091, 32, 1078, 1077, 32, 1087, 1088, 1080, 32, 1073, 1083, 1086, 1082, 1080, 1088, 1086, 1074, 1082,
        1077, 32, 1087, 1077, 1088, 1089, 1086, 1085, 1072, 1083, 1100, 1085, 1086, 1075, 1086, 32, 1072, 1076, 1088, 1077,
        1089, 1072, 32, 1091, 32, 1095, 1077, 1083, 1086, 1074, 1077, 1082, 1072, 32, 1085, 1077, 32, 1086, 1089, 1090, 1072,
        1105, 1090, 1089, 1103, 32, 1079, 1072, 1087, 1072, 1089, 1085, 1086, 1075, 1086, 44, 32, 1072, 32, 1074, 32, 1086,
        1073, 1097, 1077, 1084, 32, 1087, 1091, 1083, 1077, 32, 1084, 1099, 32, 1087, 1088, 1086, 1089, 1090, 1086, 32, 1087,
        1077, 1088, 1077, 1082, 1083, 1102, 1095, 1072, 1077, 1084, 32, 1085, 1072, 32, 1078, 1080, 1074, 1086, 1081, 32,
        1089, 1077, 1088, 1074, 1077, 1088, 46]\<rparr>]\<rparr>"

definition categories :: "faq_category list" where
  "categories = [connect_category, billing_category, speed_category, devices_category, privacy_category]"

section \<open>The lookup and the page\<close>

text \<open>The loop over the array; \<open>None\<close> is the value null.\<close>

fun find_category :: "jsstring \<Rightarrow> faq_category list \<Rightarrow> faq_category option" where
  "find_category i [] = None"
| "find_category i (c # cs) = (if faq_id c = i then Some c else find_category i cs)"

definition categoryById :: "jsstring \<Rightarrow> faq_category option" where
  "categoryById i = find_category i categories"

text \<open>
  The property \<open>faqCat\<close> of a page is its state.  An empty one shows the rows of all categories below a
  label, another one the title and the questions of its category, and the way back.
\<close>

definition faq_heading :: "jsstring \<Rightarrow> jsstring \<Rightarrow> jsstring" where
  "faq_heading label faqCat =
     (if faqCat = [] then label else case categoryById faqCat of Some c \<Rightarrow> faq_title c | None \<Rightarrow> [])"

definition faq_sections :: "jsstring \<Rightarrow> faq_category list" where
  "faq_sections faqCat = (if faqCat = [] then categories else [])"

definition faq_questions :: "jsstring \<Rightarrow> faq_item list" where
  "faq_questions faqCat =
     (if faqCat = [] then [] else case categoryById faqCat of Some c \<Rightarrow> faq_items c | None \<Rightarrow> [])"

definition back_visible :: "jsstring \<Rightarrow> bool" where
  "back_visible faqCat \<longleftrightarrow> faqCat \<noteq> []"

text \<open>Clicks on the row of a category and on the way back; what is not shown cannot be clicked.\<close>

datatype faq_click = ClickSection nat | ClickBack

fun faq_step :: "faq_click \<Rightarrow> jsstring \<Rightarrow> jsstring" where
  "faq_step (ClickSection i) faqCat =
     (if i < length (faq_sections faqCat) then faq_id (faq_sections faqCat ! i) else faqCat)"
| "faq_step ClickBack faqCat = (if back_visible faqCat then [] else faqCat)"

section \<open>Properties\<close>

lemma find_category_None: "find_category i cs = None \<longleftrightarrow> i \<notin> faq_id ` set cs"
  by (induction cs) auto

lemma find_category_Some:
  assumes "distinct (map faq_id cs)"
  shows "find_category i cs = Some c \<longleftrightarrow> c \<in> set cs \<and> faq_id c = i"
  using assms by (induction cs) (auto simp: image_iff)

lemma faq_ids: "map faq_id categories = map lit [''connect'', ''billing'', ''speed'', ''devices'', ''privacy'']"
  by (simp only: categories_def list.map connect_category_def billing_category_def speed_category_def devices_category_def privacy_category_def faq_category.select_convs)

lemma faq_ids_distinct: "distinct (map faq_id categories)"
  unfolding faq_ids by code_simp

lemma faq_ids_nonempty: "c \<in> set categories \<Longrightarrow> faq_id c \<noteq> []"
proof -
  assume "c \<in> set categories"
  then have "faq_id c \<in> set (map faq_id categories)" by simp
  then show "faq_id c \<noteq> []" unfolding faq_ids by (auto simp: lit_def)
qed

lemmas categoryById_Some = find_category_Some [OF faq_ids_distinct, folded categoryById_def]

definition faq_shown :: "jsstring \<Rightarrow> bool" where
  "faq_shown faqCat \<longleftrightarrow> faqCat = [] \<or> faqCat \<in> faq_id ` set categories"

interpretation faq_page: preserved faq_step faq_shown
proof
  fix s x assume "faq_shown s"
  then show "faq_shown (faq_step x s)" by (cases x) (auto simp: faq_shown_def faq_sections_def)
qed

lemma faq_category_shown:
  assumes "c \<in> set categories"
  shows "faq_questions (faq_id c) = faq_items c" "faq_heading label (faq_id c) = faq_title c"
proof -
  have "categoryById (faq_id c) = Some c" using assms by (simp add: categoryById_Some)
  with faq_ids_nonempty [OF assms] show "faq_questions (faq_id c) = faq_items c" "faq_heading label (faq_id c) = faq_title c"
    by (simp_all add: faq_questions_def faq_heading_def)
qed

text \<open>
  C40: after any clicks a page shows either its label with the rows of all categories and no question,
  or the title and all questions of one category, no rows, and the way back; and each row leads to
  the title and the questions of its own category.
\<close>

theorem faq_navigation:
  fixes clicks :: "faq_click list"
  defines "s \<equiv> runs faq_step clicks []"
  shows "(if back_visible s
      then faq_sections s = []
         \<and> (\<exists>c\<in>set categories. faq_id c = s \<and> faq_heading label s = faq_title c \<and> faq_questions s = faq_items c)
      else faq_sections s = categories \<and> faq_heading label s = label \<and> faq_questions s = [])
   \<and> map (\<lambda>i. let s = faq_step (ClickSection i) [] in (faq_heading label s, faq_questions s)) [0..<length categories]
      = map (\<lambda>c. (faq_title c, faq_items c)) categories"
proof (rule conjI)
  have "faq_shown s" unfolding s_def by (rule faq_page.runs_invar) (simp add: faq_shown_def)
  then consider "s = []" | c where "c \<in> set categories" "s = faq_id c" by (auto simp: faq_shown_def)
  then show "if back_visible s
      then faq_sections s = []
         \<and> (\<exists>c\<in>set categories. faq_id c = s \<and> faq_heading label s = faq_title c \<and> faq_questions s = faq_items c)
      else faq_sections s = categories \<and> faq_heading label s = label \<and> faq_questions s = []"
  proof cases
    case 1
    then show ?thesis by (simp add: back_visible_def faq_sections_def faq_heading_def faq_questions_def)
  next
    case 2
    then have "s \<noteq> []" using faq_ids_nonempty by simp
    with 2 show ?thesis using faq_category_shown by (simp add: back_visible_def faq_sections_def) blast
  qed
  show "map (\<lambda>i. let s = faq_step (ClickSection i) [] in (faq_heading label s, faq_questions s)) [0..<length categories]
      = map (\<lambda>c. (faq_title c, faq_items c)) categories"
    by (rule nth_equalityI) (simp_all add: Let_def faq_sections_def faq_category_shown)
qed

end
