(* ===== verification/Spec2Isabelle.thy ===== *)
theory Spec2Isabelle
  imports Component_Facts Country_Facts IP_Witness Repository_Witness Daemon_Witness Split_Witness Fresh_Faq
begin

text \<open>
  Verification of the Fresh VPN client.

  The client is a Qt application.  An installer built with the Qt installer framework puts it on a
  machine: a control script drives the wizard and a component script registers what is installed.
  The running application keeps a list of servers in its settings, shows the country of each server,
  and asks a privileged service to bring the tunnel up.  Both sides talk over a local socket, one JSON
  object per line.  The service computes with address prefixes and calls the classes of the platform.

  \<^bold>\<open>What is modelled.\<close>  All paths are below src/.

  \<^item> \<open>Fresh_Prelude\<close> holds lemmas on lists and the contract \<open>preserved\<close>: an invariant kept by every
    step holds after every sequence of steps.  It is interpreted for the restart of the updater, the
    country cache, the servers repository, the service, its connection, the retries of the
    controller and the page of questions.
  \<^item> \<open>Js_Core\<close> models the strings, conversions, truth and stable sort of JavaScript that the scripts use.
  \<^item> \<open>Installer_Host\<close> models the installer framework as an environment: the values, the file system, the
    processes, the clock and the answers of the user are functions of a world that every call may
    change, and every call is recorded in a trace.  Scripts run in a monad that may throw.
  \<^item> \<open>Control_Script\<close> is deploy/installer/qif/controlscript.js, one definition for each function and
    callback.  \<open>Control_Facts\<close> and \<open>Control_Witness\<close> hold its properties.
  \<^item> \<open>Component_Script\<close> is deploy/installer/qif/componentscript.js, with \<open>Component_Facts\<close>.
  \<^item> \<open>Country_Names\<close> is client/ui/qml/Components/countrynames.js: both tables in full, the name index
    with its cache, and the recognition of a country in a server name; with \<open>Country_Facts\<close>.
  \<^item> \<open>Fresh_Faq\<close> is client/ui/qml/Components/FreshFaq.js: the texts of all questions and answers and the
    lookup of a category, with the part of client/ui/qml/Pages2/PageSettingsApiSupport.qml that shows them.
  \<^item> \<open>IP_Address\<close> is the class IPAddress of client/mozilla/shared/ipaddress.cpp: a 32-bit word or a list
    of bytes with a prefix length.  \<open>IP_Bits\<close> reads both families as lists of bits, under the contract
    \<open>address_family\<close>; \<open>IP_Facts\<close>, \<open>IP_Masks\<close> and \<open>IP_Witness\<close> hold the properties.
  \<^item> \<open>Qt_Json\<close> models the JSON values and strings of the framework: an object is a list in the order of its
    keys, an absent value differs from null, and so does a null string from an empty one.
  \<^item> \<open>Server_Config\<close> is configTypeFromJson and its helpers in client/core/utils/serverConfigUtils.cpp,
    with the display names of the configuration classes.
  \<^item> \<open>Servers_Repository\<close> is client/core/repositories/secureServersRepository.cpp: the members and the
    three settings are one record.  \<open>Repository_Facts\<close>, \<open>Repository_Storage\<close> and \<open>Repository_Witness\<close>
    hold the properties.
  \<^item> \<open>Interface_Config\<close> is client/daemon/interfaceconfig.cpp: the tunnel configuration, its object and its
    text for the tunnel program.  \<open>Daemon_Request\<close> is parseConfig and parseStringList of
    client/daemon/daemon.cpp; every early return is the value \<open>None\<close>.  \<open>Config_Facts\<close> holds the properties.
  \<^item> \<open>Daemon\<close> is the rest of client/daemon/daemon.cpp: the members, and a record of the calls on the
    platform classes with their answers, which a platform parameter decides.  \<open>Daemon_Facts\<close>,
    \<open>Daemon_Switch\<close>, \<open>Daemon_Routes\<close> and \<open>Daemon_Witness\<close> hold the properties; \<open>Daemon_Calls\<close> shows under the
    contract \<open>call_class\<close> which calls an activation can make.
  \<^item> \<open>Line_Frames\<close> is readData of both sides of the socket, under the contract \<open>line_reader\<close>: the loops agree
    with a reader that takes one byte at a time.
  \<^item> \<open>Daemon_Connection\<close> is client/daemon/daemonlocalserverconnection.cpp: the commands and the messages, on
    the state of the service and the list of objects sent.
  \<^item> \<open>Socket_Controller\<close> is client/mozilla/localsocketcontroller.cpp: the members, the actions on the
    socket and the signals in order, and one definition for each slot and each kind of message.
    \<open>Controller_Facts\<close> holds its properties, \<open>Request_Facts\<close> those of both sides together, and
    \<open>Request_Witness\<close> the examples.

  \<^bold>\<open>What the theorems show.\<close>

  \<^item> Installer: an old installation is removed only with consent; a declined removal cancels; the
    constructor returns if the clock advances and the user does not retry for ever; the application is
    launched without administrator rights; the operations registered on each platform, in order.
  \<^item> Countries: a server name is given the country of the longest known name in it, whatever was looked
    up before; every known name is recognised in any case and context.
  \<^item> Prefixes: containment, overlap and inclusion decide the relations of the address sets; exclusion
    computes set difference, and ends exactly for prefixes without bits after their length.
  \<^item> Repository: an invariant of the list and the default, a refinement of an abstract list of named
    objects, agreement with the settings, and the round trip of a restart.  Two theorems state where
    a double server and a chosen default get lost.
  \<^item> Service: the counted exclusions are those that have a route, after every sequence of requests
    and failures; deactivation leaves nothing behind; activation reports its outcome; a switch is
    balanced for single addresses and keeps the routes of subnets; the handshake check.
  \<^item> Socket: the commands the client writes are those the service carries out, however the bytes are
    cut; which requests the service accepts and what they contain; an activation is answered by a message
    exactly if it fails; the status reaches the client; the retries are bounded and end with a report.
  \<^item> Configuration: what an accepted request guarantees, what the round trip through an object loses, and
    where an IPv6 site, a name server and an absent parameter are treated in a way the code does not mean.
  \<^item> Questions: each row of the page leads to its own category, and no click leads elsewhere.

  \<^bold>\<open>Bounds and termination.\<close>  Loops that may run for ever are partial functions whose value is \<open>None\<close>
  when they do not return: the question loop and the busy wait of the control script, the exclusion
  loop of the prefixes and the search for a free server name.  Each has a theorem on when it returns.
  The limits 300 of the wait for the uninstaller and 400 of the poll are those of the script.

  \<^bold>\<open>Parameters.\<close>  The installer framework, the framework's address parsers, the JSON text format, the
  generator of identifiers and the platform classes are arguments.  Their assumed behaviour is named:
  \<open>sort_ok\<close> (the sort of the ranges permutes and orders), \<open>texts_ok\<close> (the hop names are read back, and an
  empty text is read as the number 0), \<open>text_ok\<close> (the text of an object is one line and is read back),
  \<open>uuid_ok\<close> (identifiers are not empty and have no white space at their ends), \<open>reads_back\<close> (the text
  written for the listed servers is read back), and for the installer \<open>steady\<close> and the conditions on
  the clock and the answers.

  \<^bold>\<open>Not modelled.\<close>  Logging and console output.  The other QML pages, the controllers around network
  replies and processes, the configurators and installers of remote machines, the encryption of the
  settings, the code of the single platforms, the server scripts and the build.
\<close>

end
